(* ===== verification/Lsbx_Prelude.thy ===== *)
theory Lsbx_Prelude
  imports Main "HOL-Library.AList" "HOL-Library.Word"
begin

text \<open>
  Shared vocabulary of the development: the hint collections, the string functions of Rust's
  standard library that the components use (strings are lists of bytes, white space is the
  ASCII white space), decimal parsing and printing, and the state-and-error composition
  that models Rust functions with the question mark operator: a computation takes a state and
  returns \<open>Inl\<close> of an error or \<open>Inr\<close> of a value, with the new state.
\<close>

named_theorems fs_simps \<open>unfolding of the file system operations\<close>
named_theorems frame_simps \<open>fields an operation leaves alone\<close>
named_theorems str_simps \<open>facts on the string functions\<close>

subsection \<open>Results with state\<close>

type_synonym ('s, 'e, 'a) comp = "'s \<Rightarrow> ('e + 'a) \<times> 's"

definition retE :: "'a \<Rightarrow> ('s, 'e, 'a) comp" where
  "retE x s = (Inr x, s)"

definition failE :: "'e \<Rightarrow> ('s, 'e, 'a) comp" where
  "failE e s = (Inl e, s)"

definition bindE :: "('s, 'e, 'a) comp \<Rightarrow> ('a \<Rightarrow> ('s, 'e, 'b) comp) \<Rightarrow> ('s, 'e, 'b) comp" where
  "bindE m k s = (case m s of (Inl e, s') \<Rightarrow> (Inl e, s') | (Inr x, s') \<Rightarrow> k x s')"

text \<open>Rust's \<open>map_err\<close>.\<close>

definition mapErr :: "('e \<Rightarrow> 'f) \<Rightarrow> ('s, 'e, 'a) comp \<Rightarrow> ('s, 'f, 'a) comp" where
  "mapErr h m s = (case m s of (Inl e, s') \<Rightarrow> (Inl (h e), s') | (Inr x, s') \<Rightarrow> (Inr x, s'))"

text \<open>Run a computation and hand its result over as a value (a \<open>match\<close> on a \<open>Result\<close>).\<close>

definition catchE :: "('s, 'e, 'a) comp \<Rightarrow> ('s, 'f, 'e + 'a) comp" where
  "catchE m s = (case m s of (r, s') \<Rightarrow> (Inr r, s'))"

definition liftE :: "('e + 'a) \<Rightarrow> ('s, 'e, 'a) comp" where
  "liftE r s = (r, s)"

lemma retE_run [simp]: "retE x s = (Inr x, s)"
  by (simp add: retE_def)

lemma failE_run [simp]: "failE e s = (Inl e, s)"
  by (simp add: failE_def)

lemma liftE_run [simp]: "liftE r s = (r, s)"
  by (simp add: liftE_def)

lemma catchE_run [simp]: "catchE m s = (Inr (fst (m s)), snd (m s))"
  by (simp add: catchE_def split_beta)

lemma bindE_Inr [simp]: "m s = (Inr x, s') \<Longrightarrow> bindE m k s = k x s'"
  by (simp add: bindE_def)

lemma bindE_Inl [simp]: "m s = (Inl e, s') \<Longrightarrow> bindE m k s = (Inl e, s')"
  by (simp add: bindE_def)

lemma mapErr_Inr [simp]: "m s = (Inr x, s') \<Longrightarrow> mapErr h m s = (Inr x, s')"
  by (simp add: mapErr_def)

lemma mapErr_Inl [simp]: "m s = (Inl e, s') \<Longrightarrow> mapErr h m s = (Inl (h e), s')"
  by (simp add: mapErr_def)

lemma bindE_run:
  "bindE m k s = (case fst (m s) of Inl e \<Rightarrow> (Inl e, snd (m s)) | Inr x \<Rightarrow> k x (snd (m s)))"
  by (cases "m s") (auto simp: bindE_def split: sum.splits)

lemma bindE_InrE:
  assumes "bindE m k s = (Inr y, s'')"
  obtains x s' where "m s = (Inr x, s')" and "k x s' = (Inr y, s'')"
  using assms by (auto simp: bindE_def split: prod.splits sum.splits)

lemma mapErr_InrD: "mapErr h m s = (Inr x, s') \<Longrightarrow> m s = (Inr x, s')"
  by (auto simp: mapErr_def split: prod.splits sum.splits)

lemma snd_mapErr [simp]: "snd (mapErr h m s) = snd (m s)"
  by (auto simp: mapErr_def split: prod.splits sum.splits)

lemma mapErr_Inr_iff [simp]: "mapErr h m s = (Inr x, s') \<longleftrightarrow> m s = (Inr x, s')"
  by (auto simp: mapErr_def split: prod.splits sum.splits)

lemma mapErr_Inl_iff: "mapErr h m s = (Inl e, s') \<longleftrightarrow> (\<exists>e'. m s = (Inl e', s') \<and> e = h e')"
  by (auto simp: mapErr_def split: prod.splits sum.splits)

lemma bindE_Inr_iff: "bindE m k s = (Inr y, s'') \<longleftrightarrow> (\<exists>x s'. m s = (Inr x, s') \<and> k x s' = (Inr y, s''))"
  by (auto simp: bindE_def split: prod.splits sum.splits)

lemma bindE_Inl_iff:
  "bindE m k s = (Inl e, s'') \<longleftrightarrow>
     m s = (Inl e, s'') \<or> (\<exists>x s'. m s = (Inr x, s') \<and> k x s' = (Inl e, s''))"
  by (auto simp: bindE_def split: prod.splits sum.splits)

text \<open>A property of the state that every computation of a chain keeps is kept by the chain.\<close>

lemma bindE_inv:
  assumes "P (snd (m s))" and "\<And>x s'. m s = (Inr x, s') \<Longrightarrow> P s' \<Longrightarrow> P (snd (k x s'))"
  shows "P (snd (bindE m k s))"
  using assms by (auto simp: bindE_def split: prod.splits sum.splits)

lemma bindE_keep:
  assumes "P s" and "\<And>s. P s \<Longrightarrow> P (snd (m s))" and "\<And>x s. P s \<Longrightarrow> P (snd (k x s))"
  shows "P (snd (bindE m k s))"
  by (rule bindE_inv [where P = P]) (use assms in blast)+

text \<open>The question mark operator on results without state.\<close>

definition bindS :: "('e + 'a) \<Rightarrow> ('a \<Rightarrow> 'e + 'b) \<Rightarrow> 'e + 'b" where
  "bindS r k = (case r of Inl e \<Rightarrow> Inl e | Inr x \<Rightarrow> k x)"

lemma bindS_simps [simp]: "bindS (Inr x) k = k x" "bindS (Inl e) k = Inl e"
  by (simp_all add: bindS_def)

lemma bindS_InrE:
  assumes "bindS r k = Inr y"
  obtains x where "r = Inr x" and "k x = Inr y"
  using assms by (cases r) auto

subsection \<open>From the shape of a result to a result\<close>

lemma runs_ok: "\<not> isl (fst x) \<Longrightarrow> \<exists>a b. x = (Inr a, b)"
  by (cases x; cases "fst x") auto

lemma fails: "isl (fst x) \<Longrightarrow> \<exists>e b. x = (Inl e, b)"
  by (cases x; cases "fst x") auto

lemma returns_with: "map_option fst m = Some a \<Longrightarrow> \<exists>b. m = Some (a, b)"
  by auto

lemma answers_with: "fst x = a \<Longrightarrow> \<exists>b. x = (a, b)"
  by (cases x) auto

definition unwrap_or :: "'a \<Rightarrow> 'a option \<Rightarrow> 'a" where
  "unwrap_or d x = (case x of None \<Rightarrow> d | Some v \<Rightarrow> v)"

subsection \<open>Strings\<close>

definition starts_with :: "string \<Rightarrow> string \<Rightarrow> bool" where
  "starts_with p s \<longleftrightarrow> take (length p) s = p"

definition ends_with :: "string \<Rightarrow> string \<Rightarrow> bool" where
  "ends_with p s \<longleftrightarrow> starts_with (rev p) (rev s)"

definition strip_prefix :: "string \<Rightarrow> string \<Rightarrow> string option" where
  "strip_prefix p s = (if starts_with p s then Some (drop (length p) s) else None)"

definition strip_suffix :: "string \<Rightarrow> string \<Rightarrow> string option" where
  "strip_suffix p s = (if ends_with p s then Some (take (length s - length p) s) else None)"

fun contains_str :: "string \<Rightarrow> string \<Rightarrow> bool" where
  "contains_str p [] = (p = [])"
| "contains_str p (c # s) = (starts_with p (c # s) \<or> contains_str p s)"

definition is_space :: "char \<Rightarrow> bool" where
  "is_space c \<longleftrightarrow> of_char c \<in> {9, 10, 11, 12, 13, 32 :: nat}"

definition trim_start_if :: "(char \<Rightarrow> bool) \<Rightarrow> string \<Rightarrow> string" where
  "trim_start_if f s = dropWhile f s"

definition trim_end_if :: "(char \<Rightarrow> bool) \<Rightarrow> string \<Rightarrow> string" where
  "trim_end_if f s = rev (dropWhile f (rev s))"

definition trim_if :: "(char \<Rightarrow> bool) \<Rightarrow> string \<Rightarrow> string" where
  "trim_if f s = trim_end_if f (trim_start_if f s)"

definition trim :: "string \<Rightarrow> string" where
  "trim s = trim_if is_space s"

text \<open>\<open>str::split\<close> on a character: always at least one piece.\<close>

fun split_on :: "char \<Rightarrow> string \<Rightarrow> string list" where
  "split_on d [] = [[]]"
| "split_on d (c # s) =
     (if c = d then [] # split_on d s
      else (case split_on d s of [] \<Rightarrow> [[c]] | w # ws \<Rightarrow> (c # w) # ws))"

text \<open>\<open>str::split_once\<close>: the pieces before and after the first occurrence.\<close>

fun split_once :: "char \<Rightarrow> string \<Rightarrow> (string \<times> string) option" where
  "split_once d [] = None"
| "split_once d (c # s) =
     (if c = d then Some ([], s)
      else map_option (\<lambda>(a, b). (c # a, b)) (split_once d s))"

text \<open>
  \<open>str::lines\<close>: the pieces between line feeds, a final empty piece dropped, a carriage return
  at the end of a piece that a line feed ended dropped.
\<close>

definition strip_cr :: "string \<Rightarrow> string" where
  "strip_cr w = (if w \<noteq> [] \<and> of_char (last w) = (13::nat) then butlast w else w)"

fun str_lines :: "string \<Rightarrow> string list" where
  "str_lines s = (let ws = split_on (char_of (10::nat)) s
                  in map strip_cr (butlast ws) @ (if last ws = [] then [] else [last ws]))"

text \<open>\<open>split_whitespace\<close>: the words between white space.\<close>

fun split_if :: "(char \<Rightarrow> bool) \<Rightarrow> string \<Rightarrow> string list" where
  "split_if f [] = [[]]"
| "split_if f (c # s) =
     (if f c then [] # split_if f s
      else (case split_if f s of [] \<Rightarrow> [[c]] | w # ws \<Rightarrow> (c # w) # ws))"

definition split_whitespace :: "string \<Rightarrow> string list" where
  "split_whitespace s = filter (\<lambda>w. w \<noteq> []) (split_if is_space s)"

text \<open>\<open>rsplit_once\<close> and \<open>rfind\<close> with a text: the pieces before and after its last occurrence.\<close>

fun rsplit_str :: "string \<Rightarrow> string \<Rightarrow> (string \<times> string) option" where
  "rsplit_str p [] = (if p = [] then Some ([], []) else None)"
| "rsplit_str p (c # s) =
     (case rsplit_str p s of
        Some (a, b) \<Rightarrow> Some (c # a, b)
      | None \<Rightarrow> if starts_with p (c # s) then Some ([], drop (length p) (c # s)) else None)"

definition is_lower :: "char \<Rightarrow> bool" where
  "is_lower c \<longleftrightarrow> 97 \<le> (of_char c :: nat) \<and> of_char c \<le> (122 :: nat)"

definition is_digit :: "char \<Rightarrow> bool" where
  "is_digit c \<longleftrightarrow> 48 \<le> (of_char c :: nat) \<and> of_char c \<le> (57 :: nat)"

definition is_upper :: "char \<Rightarrow> bool" where
  "is_upper c \<longleftrightarrow> 65 \<le> (of_char c :: nat) \<and> of_char c \<le> (90 :: nat)"

definition is_alnum :: "char \<Rightarrow> bool" where
  "is_alnum c \<longleftrightarrow> is_lower c \<or> is_upper c \<or> is_digit c"

definition ascii_lower :: "char \<Rightarrow> char" where
  "ascii_lower c = (if 65 \<le> (of_char c :: nat) \<and> of_char c \<le> (90::nat)
                    then char_of (of_char c + 32 :: nat) else c)"

definition eq_ignore_case :: "string \<Rightarrow> string \<Rightarrow> bool" where
  "eq_ignore_case a b \<longleftrightarrow> map ascii_lower a = map ascii_lower b"

subsection \<open>Decimal numbers\<close>

definition digit_char :: "nat \<Rightarrow> char" where
  "digit_char d = char_of (48 + d)"

definition char_digit :: "char \<Rightarrow> nat option" where
  "char_digit c = (if 48 \<le> (of_char c :: nat) \<and> of_char c \<le> (57::nat)
                   then Some (of_char c - 48) else None)"

fun show_nat :: "nat \<Rightarrow> string" where
  "show_nat n = (if n < 10 then [digit_char n] else show_nat (n div 10) @ [digit_char (n mod 10)])"

declare show_nat.simps [simp del]

fun digits_val :: "nat \<Rightarrow> string \<Rightarrow> nat option" where
  "digits_val acc [] = Some acc"
| "digits_val acc (c # s) = (case char_digit c of None \<Rightarrow> None | Some d \<Rightarrow> digits_val (acc * 10 + d) s)"

text \<open>\<open>str::parse::<u64>\<close>: an optional plus sign, at least one digit, no overflow.\<close>

definition parse_u64 :: "string \<Rightarrow> nat option" where
  "parse_u64 s =
     (let t = (case s of c # r \<Rightarrow> if c = CHR ''+'' then r else s | [] \<Rightarrow> s)
      in if t = [] then None
         else (case digits_val 0 t of None \<Rightarrow> None | Some n \<Rightarrow> if n < 2 ^ 64 then Some n else None))"

definition show_int :: "int \<Rightarrow> string" where
  "show_int i = (if i < 0 then CHR ''-'' # show_nat (nat (- i)) else show_nat (nat i))"

text \<open>The three bytes of a dash and the apostrophe, which messages contain.\<close>

definition em_dash :: string where
  "em_dash = [CHR 0xE2, CHR 0x80, CHR 0x94]"

definition apostrophe :: string where
  "apostrophe = [CHR 0x27]"

text \<open>\<open>str::parse::<i32>\<close>: an optional sign, at least one digit, no overflow.\<close>

definition parse_i32 :: "string \<Rightarrow> int option" where
  "parse_i32 s =
     (let neg = (s \<noteq> [] \<and> hd s = CHR ''-'');
          t = (if s \<noteq> [] \<and> (hd s = CHR ''-'' \<or> hd s = CHR ''+'') then tl s else s)
      in if t = [] then None
         else (case digits_val 0 t of
                 None \<Rightarrow> None
               | Some n \<Rightarrow> let i = (if neg then - int n else int n)
                           in if - (2 ^ 31) \<le> i \<and> i < 2 ^ 31 then Some i else None))"

definition secs :: "nat \<Rightarrow> nat" where
  "secs n = n * 1000000000"

lemma char_digit_digit_char [simp]: "d < 10 \<Longrightarrow> char_digit (digit_char d) = Some d"
  by (simp add: char_digit_def digit_char_def take_bit_eq_mod)

lemma digits_val_append:
  "digits_val acc (s @ t) = (case digits_val acc s of None \<Rightarrow> None | Some n \<Rightarrow> digits_val n t)"
  by (induction s arbitrary: acc) (auto split: option.splits)

lemma digits_val_show_nat: "digits_val 0 (show_nat n) = Some n"
proof (induction n rule: show_nat.induct)
  case (1 n)
  then show ?case
    by (subst show_nat.simps) (auto simp: digits_val_append)
qed

lemma show_nat_nonempty [simp]: "show_nat n \<noteq> []"
  by (subst show_nat.simps) simp

lemma show_nat_no_plus: "show_nat n = c # r \<Longrightarrow> c \<noteq> CHR ''+''"
proof -
  assume h: "show_nat n = c # r"
  have "char_digit c \<noteq> None"
    using digits_val_show_nat [of n] by (auto simp: h split: option.splits)
  then show ?thesis by (auto simp: char_digit_def)
qed

lemma parse_show_nat: "n < 2 ^ 64 \<Longrightarrow> parse_u64 (show_nat n) = Some n"
  using digits_val_show_nat [of n] show_nat_no_plus [of n]
  by (cases "show_nat n") (auto simp: parse_u64_def)

lemma show_nat_inj: "show_nat a = show_nat b \<Longrightarrow> a = b"
  by (metis digits_val_show_nat option.sel)

subsection \<open>Facts on strings\<close>

lemma starts_with_append [simp, str_simps]: "starts_with p (p @ s)"
  by (simp add: starts_with_def)

lemma starts_withE: "starts_with p s \<Longrightarrow> \<exists>t. s = p @ t"
  by (metis append_take_drop_id starts_with_def)

lemma starts_with_iff: "starts_with p s \<longleftrightarrow> (\<exists>t. s = p @ t)"
  by (metis starts_withE starts_with_append)

lemma strip_prefix_append [simp, str_simps]: "strip_prefix p (p @ s) = Some s"
  by (simp add: strip_prefix_def)

lemma strip_prefix_Some: "strip_prefix p s = Some t \<longleftrightarrow> s = p @ t"
  by (auto simp: strip_prefix_def starts_with_iff)

lemma ends_with_append [simp, str_simps]: "ends_with p (s @ p)"
  by (simp add: ends_with_def)

lemma ends_with_iff: "ends_with p s \<longleftrightarrow> (\<exists>t. s = t @ p)"
proof
  assume "ends_with p s"
  then obtain t where "rev s = rev p @ t" by (auto simp: ends_with_def starts_with_iff)
  then have "s = rev t @ p" by (metis rev_append rev_rev_ident)
  then show "\<exists>t. s = t @ p" ..
qed auto

lemma strip_suffix_append [simp, str_simps]: "strip_suffix p (s @ p) = Some s"
  by (simp add: strip_suffix_def)

lemma strip_suffix_Some: "strip_suffix p s = Some t \<longleftrightarrow> s = t @ p"
  by (auto simp: strip_suffix_def ends_with_iff)

lemma contains_str_iff: "contains_str p s \<longleftrightarrow> (\<exists>a b. s = a @ p @ b)"
proof (induction s)
  case (Cons c s)
  show ?case
  proof
    assume "contains_str p (c # s)"
    then consider "starts_with p (c # s)" | "contains_str p s" by auto
    then show "\<exists>a b. c # s = a @ p @ b"
    proof cases
      case 1
      then obtain t where "c # s = [] @ p @ t" by (auto simp: starts_with_iff)
      then show ?thesis by blast
    next
      case 2
      then obtain a b where "c # s = (c # a) @ p @ b" using Cons.IH by auto
      then show ?thesis by blast
    qed
  next
    assume "\<exists>a b. c # s = a @ p @ b"
    then obtain a b where ab: "c # s = a @ p @ b" by blast
    show "contains_str p (c # s)"
    proof (cases a)
      case Nil
      with ab have "starts_with p (c # s)" by simp
      then show ?thesis by simp
    next
      case (Cons x a')
      with ab show ?thesis using Cons.IH by auto
    qed
  qed
qed auto

lemma split_on_nonempty [simp]: "split_on d s \<noteq> []"
  by (induction s) (auto split: list.splits)

subsection \<open>Trimming a repeated text\<close>

text \<open>\<open>trim_start_matches\<close> with a text: as often as it is a prefix.\<close>

function trim_prefixes :: "string \<Rightarrow> string \<Rightarrow> string" where
  "trim_prefixes p s =
     (if p = [] then s
      else case strip_prefix p s of None \<Rightarrow> s | Some t \<Rightarrow> trim_prefixes p t)"
  by pat_completeness auto
termination
  by (relation "measure (length \<circ> snd)") (auto simp: strip_prefix_Some)

declare trim_prefixes.simps [simp del]

text \<open>\<open>trim_end_matches\<close> with a text.\<close>

definition trim_suffixes :: "string \<Rightarrow> string \<Rightarrow> string" where
  "trim_suffixes p s = rev (trim_prefixes (rev p) (rev s))"

end
