(* ===== verification/Lsbx_Json.thy ===== *)
theory Lsbx_Json
  imports Lsbx_Prelude
begin

text \<open>
  The JSON values the program stores and the decoding that serde's derived implementations
  give to a struct: a missing field of an optional type is absent, a missing field marked
  \<open>serde(default)\<close> takes its default, any other missing field and any value of the wrong
  kind is an error, unknown fields are ignored. Objects have distinct keys. Decoding returns an
  option; the text of serde's message is a parameter where a message is built from it.
\<close>

datatype json =
    JNull
  | JBool bool
  | JNum int
  | JFloat string
  | JStr string
  | JArr "json list"
  | JObj "(string \<times> json) list"

definition jstr_opt :: "string option \<Rightarrow> json" where
  "jstr_opt x = (case x of None \<Rightarrow> JNull | Some s \<Rightarrow> JStr s)"

definition json_get :: "json \<Rightarrow> string \<Rightarrow> json option" where
  "json_get v k = (case v of JObj fs \<Rightarrow> map_of fs k | _ \<Rightarrow> None)"

definition as_array :: "json \<Rightarrow> json list option" where
  "as_array v = (case v of JArr vs \<Rightarrow> Some vs | _ \<Rightarrow> None)"

definition dec_str :: "json \<Rightarrow> string option" where
  "dec_str v = (case v of JStr s \<Rightarrow> Some s | _ \<Rightarrow> None)"

definition dec_bool :: "json \<Rightarrow> bool option" where
  "dec_bool v = (case v of JBool b \<Rightarrow> Some b | _ \<Rightarrow> None)"

definition dec_u32 :: "json \<Rightarrow> nat option" where
  "dec_u32 v = (case v of JNum n \<Rightarrow> if 0 \<le> n \<and> n < 2 ^ 32 then Some (nat n) else None | _ \<Rightarrow> None)"

definition dec_obj :: "json \<Rightarrow> (string \<times> json) list option" where
  "dec_obj v = (case v of JObj fs \<Rightarrow> Some fs | _ \<Rightarrow> None)"

definition dec_opt :: "(json \<Rightarrow> 'a option) \<Rightarrow> json \<Rightarrow> 'a option option" where
  "dec_opt d v = (case v of JNull \<Rightarrow> Some None | _ \<Rightarrow> map_option Some (d v))"

fun dec_list :: "(json \<Rightarrow> 'a option) \<Rightarrow> json list \<Rightarrow> 'a list option" where
  "dec_list d [] = Some []"
| "dec_list d (v # vs) =
     (case d v of None \<Rightarrow> None
      | Some x \<Rightarrow> map_option (\<lambda>xs. x # xs) (dec_list d vs))"

definition dec_arr :: "(json \<Rightarrow> 'a option) \<Rightarrow> json \<Rightarrow> 'a list option" where
  "dec_arr d v = (case v of JArr vs \<Rightarrow> dec_list d vs | _ \<Rightarrow> None)"

text \<open>Required, optional and defaulted fields of a derived struct.\<close>

definition fld_req :: "(string \<times> json) list \<Rightarrow> string \<Rightarrow> (json \<Rightarrow> 'a option) \<Rightarrow> 'a option" where
  "fld_req fs k d = (case map_of fs k of None \<Rightarrow> None | Some v \<Rightarrow> d v)"

definition fld_opt :: "(string \<times> json) list \<Rightarrow> string \<Rightarrow> (json \<Rightarrow> 'a option) \<Rightarrow> 'a option option" where
  "fld_opt fs k d = (case map_of fs k of None \<Rightarrow> Some None | Some v \<Rightarrow> dec_opt d v)"

definition fld_default :: "(string \<times> json) list \<Rightarrow> string \<Rightarrow> 'a \<Rightarrow> (json \<Rightarrow> 'a option) \<Rightarrow> 'a option" where
  "fld_default fs k x d = (case map_of fs k of None \<Rightarrow> Some x | Some v \<Rightarrow> d v)"

text \<open>
  The fields of a struct: an object gives them by name, an array by position (every field has
  to be there, the last \<open>n\<close> ones may be left out when they carry \<open>serde(default)\<close>).
\<close>

definition struct_fields :: "string list \<Rightarrow> nat \<Rightarrow> json \<Rightarrow> (string \<times> json) list option" where
  "struct_fields names n v =
     (case v of
        JObj fs \<Rightarrow> Some fs
      | JArr vs \<Rightarrow> if length names - n \<le> length vs \<and> length vs \<le> length names
                  then Some (zip names vs) else None
      | _ \<Rightarrow> None)"

lemma dec_simps [simp]:
  "dec_str (JStr s) = Some s" "dec_bool (JBool b) = Some b"
  "dec_obj (JObj fs) = Some fs"
  "0 \<le> k \<Longrightarrow> k < 2 ^ 32 \<Longrightarrow> dec_u32 (JNum k) = Some (nat k)"
  by (simp_all add: dec_str_def dec_bool_def dec_obj_def dec_u32_def)

lemma dec_opt_jstr_opt [simp]: "dec_opt dec_str (jstr_opt x) = Some x"
  by (cases x) (simp_all add: dec_opt_def jstr_opt_def dec_str_def)

lemma dec_list_map: "(\<And>x. x \<in> set xs \<Longrightarrow> d (e x) = Some x) \<Longrightarrow> dec_list d (map e xs) = Some xs"
  by (induction xs) auto

lemma dec_arr_map [simp]: "(\<And>x. x \<in> set xs \<Longrightarrow> d (e x) = Some x) \<Longrightarrow> dec_arr d (JArr (map e xs)) = Some xs"
  by (simp add: dec_arr_def dec_list_map)

lemmas fld_defs = fld_req_def fld_opt_def fld_default_def

end
