(* ===== verification/Lsbx_Kernel.thy ===== *)
theory Lsbx_Kernel
  imports Lsbx_Json
begin

text \<open>
  The crate \<open>lsbx-kernel\<close>: the closed error type with its exit codes and its text
  (\<open>error.rs\<close>, \<open>exit_code.rs\<close>), the response envelope of every door
  (\<open>envelope.rs\<close>), the persisted sandbox record with its on-disk encoding and its public
  view (\<open>types.rs\<close>).
\<close>

subsection \<open>Errors and exit codes\<close>

datatype lsbx_error =
    Usage string
  | BackendUnavailable string
  | NotFound string
  | ContractViolated string
  | LockContention string
  | AuthFailed string
  | Interrupted string

datatype exit_status =
    ExSuccess | ExUsage | ExBackendUnavailable | ExNotFound | ExContractViolated
  | ExLockContention | ExAuthFailed | ExInterrupted

fun exit_code_i32 :: "exit_status \<Rightarrow> 32 word" where
  "exit_code_i32 ExSuccess = 0"
| "exit_code_i32 ExUsage = 2"
| "exit_code_i32 ExBackendUnavailable = 3"
| "exit_code_i32 ExNotFound = 4"
| "exit_code_i32 ExContractViolated = 5"
| "exit_code_i32 ExLockContention = 6"
| "exit_code_i32 ExAuthFailed = 7"
| "exit_code_i32 ExInterrupted = 8"

fun exit_code :: "lsbx_error \<Rightarrow> exit_status" where
  "exit_code (Usage _) = ExUsage"
| "exit_code (BackendUnavailable _) = ExBackendUnavailable"
| "exit_code (NotFound _) = ExNotFound"
| "exit_code (ContractViolated _) = ExContractViolated"
| "exit_code (LockContention _) = ExLockContention"
| "exit_code (AuthFailed _) = ExAuthFailed"
| "exit_code (Interrupted _) = ExInterrupted"

text \<open>The text of an error: the \<open>Display\<close> implementation that the attributes derive.\<close>

fun err_display :: "lsbx_error \<Rightarrow> string" where
  "err_display (Usage m) = ''usage: '' @ m"
| "err_display (BackendUnavailable m) = ''backend unavailable: '' @ m"
| "err_display (NotFound m) = ''not found: '' @ m"
| "err_display (ContractViolated m) = ''contract violated: '' @ m"
| "err_display (LockContention m) = ''lock contention: '' @ m"
| "err_display (AuthFailed m) = ''auth failed: '' @ m"
| "err_display (Interrupted m) = ''interrupted: '' @ m"

datatype 'a envelope = Success 'a | EError "32 word" string

definition from_result :: "(lsbx_error + 'a) \<Rightarrow> 'a envelope" where
  "from_result r = (case r of Inr d \<Rightarrow> Success d
                    | Inl e \<Rightarrow> EError (exit_code_i32 (exit_code e)) (err_display e))"

text \<open>The JSON form of an envelope: the variant's name under \<open>status\<close>, the fields beside it.\<close>

definition envelope_json :: "('a \<Rightarrow> json) \<Rightarrow> 'a envelope \<Rightarrow> json" where
  "envelope_json enc v = (case v of
      Success d \<Rightarrow> JObj [(''status'', JStr ''success''), (''data'', enc d)]
    | EError c m \<Rightarrow> JObj [(''status'', JStr ''error''), (''code'', JNum (sint c)), (''message'', JStr m)])"

subsection \<open>The sandbox record\<close>

record sandbox_record =
  sr_id :: string
  sr_name :: string
  sr_host :: string
  sr_profile :: string
  sr_flavor :: string
  sr_streaming :: string
  sr_username :: "string option"
  sr_key_name :: "string option"
  sr_key_path :: "string option"
  sr_key_dir :: "string option"
  sr_pubkey :: "string option"
  sr_task_id :: "string option"
  sr_created_at :: "string option"
  sr_lease_expires_at :: "string option"
  sr_vm_tag :: "string option"
  sr_https_url :: "string option"
  sr_cleanup_failed :: bool
  sr_repository_key :: "string option"
  sr_repository :: "string option"
  sr_extra :: "(string \<times> json) list"

definition sandbox_to_json :: "sandbox_record \<Rightarrow> json" where
  "sandbox_to_json r = JObj
     [(''id'', JStr (sr_id r)), (''name'', JStr (sr_name r)), (''host'', JStr (sr_host r)),
      (''profile'', JStr (sr_profile r)), (''flavor'', JStr (sr_flavor r)),
      (''streaming'', JStr (sr_streaming r)), (''username'', jstr_opt (sr_username r)),
      (''key_name'', jstr_opt (sr_key_name r)), (''key_path'', jstr_opt (sr_key_path r)),
      (''key_dir'', jstr_opt (sr_key_dir r)), (''pubkey'', jstr_opt (sr_pubkey r)),
      (''task_id'', jstr_opt (sr_task_id r)), (''created_at'', jstr_opt (sr_created_at r)),
      (''lease_expires_at'', jstr_opt (sr_lease_expires_at r)), (''vm_tag'', jstr_opt (sr_vm_tag r)),
      (''https_url'', jstr_opt (sr_https_url r)), (''cleanup_failed'', JBool (sr_cleanup_failed r)),
      (''repository_key'', jstr_opt (sr_repository_key r)),
      (''repository'', jstr_opt (sr_repository r)), (''extra'', JObj (sr_extra r))]"

definition sandbox_field_names :: "string list" where
  "sandbox_field_names =
     [''id'', ''name'', ''host'', ''profile'', ''flavor'', ''streaming'', ''username'', ''key_name'',
      ''key_path'', ''key_dir'', ''pubkey'', ''task_id'', ''created_at'', ''lease_expires_at'', ''vm_tag'',
      ''https_url'', ''cleanup_failed'', ''repository_key'', ''repository'', ''extra'']"

definition sandbox_of_fields :: "(string \<times> json) list \<Rightarrow> sandbox_record option" where
  "sandbox_of_fields fs =
     Option.bind (fld_req fs ''id'' dec_str) (\<lambda>i.
     Option.bind (fld_req fs ''name'' dec_str) (\<lambda>n.
     Option.bind (fld_req fs ''host'' dec_str) (\<lambda>h.
     Option.bind (fld_req fs ''profile'' dec_str) (\<lambda>p.
     Option.bind (fld_req fs ''flavor'' dec_str) (\<lambda>f.
     Option.bind (fld_req fs ''streaming'' dec_str) (\<lambda>st.
     Option.bind (fld_opt fs ''username'' dec_str) (\<lambda>u.
     Option.bind (fld_opt fs ''key_name'' dec_str) (\<lambda>kn.
     Option.bind (fld_opt fs ''key_path'' dec_str) (\<lambda>kp.
     Option.bind (fld_opt fs ''key_dir'' dec_str) (\<lambda>kd.
     Option.bind (fld_opt fs ''pubkey'' dec_str) (\<lambda>pk.
     Option.bind (fld_opt fs ''task_id'' dec_str) (\<lambda>t.
     Option.bind (fld_opt fs ''created_at'' dec_str) (\<lambda>ca.
     Option.bind (fld_opt fs ''lease_expires_at'' dec_str) (\<lambda>le.
     Option.bind (fld_opt fs ''vm_tag'' dec_str) (\<lambda>vt.
     Option.bind (fld_opt fs ''https_url'' dec_str) (\<lambda>hu.
     Option.bind (fld_req fs ''cleanup_failed'' dec_bool) (\<lambda>cf.
     Option.bind (fld_opt fs ''repository_key'' dec_str) (\<lambda>rk.
     Option.bind (fld_opt fs ''repository'' dec_str) (\<lambda>rp.
     Option.bind (fld_default fs ''extra'' [] dec_obj) (\<lambda>ex.
       Some \<lparr>sr_id = i, sr_name = n, sr_host = h, sr_profile = p, sr_flavor = f,
             sr_streaming = st, sr_username = u, sr_key_name = kn, sr_key_path = kp,
             sr_key_dir = kd, sr_pubkey = pk, sr_task_id = t, sr_created_at = ca,
             sr_lease_expires_at = le, sr_vm_tag = vt, sr_https_url = hu, sr_cleanup_failed = cf,
             sr_repository_key = rk, sr_repository = rp, sr_extra = ex\<rparr>))))))))))))))))))))"

definition sandbox_of_json :: "json \<Rightarrow> sandbox_record option" where
  "sandbox_of_json v = Option.bind (struct_fields sandbox_field_names 1 v) sandbox_of_fields"

text \<open>\<open>SandboxRecord::from_legacy_flat\<close>; \<open>msg\<close> is the text of serde's error on the value.\<close>

definition from_legacy_flat :: "(json \<Rightarrow> string) \<Rightarrow> json \<Rightarrow> lsbx_error + sandbox_record" where
  "from_legacy_flat msg v =
     (case sandbox_of_json v of
        None \<Rightarrow> Inl (ContractViolated (''failed to parse legacy flat record: '' @ msg v))
      | Some r \<Rightarrow> Inr r)"

record sandbox_envelope =
  se_schema_version :: nat
  se_kind :: string
  se_sandbox :: sandbox_record

definition sandbox_envelope_to_json :: "sandbox_envelope \<Rightarrow> json" where
  "sandbox_envelope_to_json e = JObj
     [(''schema_version'', JNum (int (se_schema_version e))), (''kind'', JStr (se_kind e)),
      (''sandbox'', sandbox_to_json (se_sandbox e))]"

definition sandbox_envelope_of_json :: "json \<Rightarrow> sandbox_envelope option" where
  "sandbox_envelope_of_json v =
     Option.bind (struct_fields [''schema_version'', ''kind'', ''sandbox''] 0 v) (\<lambda>fs.
     Option.bind (fld_req fs ''schema_version'' dec_u32) (\<lambda>sv.
     Option.bind (fld_req fs ''kind'' dec_str) (\<lambda>k.
     Option.bind (fld_req fs ''sandbox'' sandbox_of_json) (\<lambda>r.
       Some \<lparr>se_schema_version = sv, se_kind = k, se_sandbox = r\<rparr>))))"

subsection \<open>The public view\<close>

record public_sandbox =
  ps_id :: string
  ps_name :: string
  ps_host :: string
  ps_profile :: string
  ps_flavor :: string
  ps_streaming :: string
  ps_task_id :: "string option"
  ps_created_at :: "string option"
  ps_lease_expires_at :: "string option"
  ps_console_url :: "string option"
  ps_cleanup_failed :: bool
  ps_repository :: "string option"

definition console_url_of :: "string \<Rightarrow> string option \<Rightarrow> string option" where
  "console_url_of streaming url =
     (if streaming = ''novnc''
      then map_option (\<lambda>u. trim_end_if (\<lambda>c. c = CHR ''/'') u @ ''/vnc.html'') url
      else None)"

definition public :: "sandbox_record \<Rightarrow> public_sandbox" where
  "public r =
     \<lparr>ps_id = sr_id r, ps_name = sr_name r, ps_host = sr_host r, ps_profile = sr_profile r,
      ps_flavor = sr_flavor r, ps_streaming = sr_streaming r, ps_task_id = sr_task_id r,
      ps_created_at = sr_created_at r, ps_lease_expires_at = sr_lease_expires_at r,
      ps_console_url = console_url_of (sr_streaming r) (sr_https_url r),
      ps_cleanup_failed = sr_cleanup_failed r, ps_repository = sr_repository r\<rparr>"

subsection \<open>Lemmas\<close>

lemma exit_code_never_success: "exit_code e \<noteq> ExSuccess"
  by (cases e) simp_all

lemma exit_code_i32_inj: "exit_code_i32 a = exit_code_i32 b \<Longrightarrow> a = b"
  by (cases a; cases b) simp_all

lemma sandbox_of_json_to_json [simp]: "sandbox_of_json (sandbox_to_json r) = Some r"
  by (simp add: sandbox_of_json_def sandbox_to_json_def struct_fields_def sandbox_of_fields_def
      fld_defs)

lemma sandbox_envelope_round_trip:
  "se_schema_version e < 2 ^ 32 \<Longrightarrow> sandbox_envelope_of_json (sandbox_envelope_to_json e) = Some e"
  by (simp add: sandbox_envelope_of_json_def sandbox_envelope_to_json_def struct_fields_def fld_defs)

lemma sandbox_json_no_version [simp]: "json_get (sandbox_to_json r) ''schema_version'' = None"
  by (simp add: json_get_def sandbox_to_json_def)

lemma sandbox_envelope_has_version [simp]:
  "json_get (sandbox_envelope_to_json e) ''schema_version'' = Some (JNum (int (se_schema_version e)))"
  by (simp add: json_get_def sandbox_envelope_to_json_def)

end
