(* ===== verification/Lsbx_Http.thy ===== *)
theory Lsbx_Http
  imports Lsbx_Kernel Complex_Main
begin

text \<open>
  The parts of the HTTP gateway that do not call the facade: requests and responses, authentication
  (\<open>lsbx-gateway/src/auth.rs\<close>), the rate limiter (\<open>ratelimit.rs\<close>), the check before binding
  (\<open>lib.rs\<close>), and from \<open>routes.rs\<close> the mapping of errors, the audit log and the escaping of HTML.
  Routing, the extraction of paths, queries and JSON bodies, and percent decoding are those of the
  framework; what the framework answers on its own is a status with a text that the model leaves out.
\<close>

datatype http_method = MGet | MHead | MPost | MPut | MPatch | MDelete | MOther string

fun method_name :: "http_method \<Rightarrow> string" where
  "method_name MGet = ''GET''"
| "method_name MHead = ''HEAD''"
| "method_name MPost = ''POST''"
| "method_name MPut = ''PUT''"
| "method_name MPatch = ''PATCH''"
| "method_name MDelete = ''DELETE''"
| "method_name (MOther m) = m"

text \<open>Names of headers are in lower case; a value is absent when it is not visible ASCII.\<close>

type_synonym http_headers = "(string \<times> string option) list"

record http_request =
  hq_method :: http_method
  hq_path :: string
  hq_query :: "(string \<times> string) list"
  hq_headers :: http_headers
  hq_json_type :: bool
  hq_upgrade :: bool
  hq_body :: string
  hq_peer :: "string option"

datatype http_body = NoBody | TextBody string | JsonBody json | HtmlBody string | FileBody string

record http_response =
  hs_status :: nat
  hs_body :: http_body
  hs_retry_after :: "nat option"

definition respond :: "nat \<Rightarrow> http_body \<Rightarrow> http_response" where
  "respond status body = \<lparr>hs_status = status, hs_body = body, hs_retry_after = None\<rparr>"

text \<open>Decoding of a path segment and of a body; \<open>None\<close> when it is not well formed.\<close>

record http_lib =
  hl_decode :: "string \<Rightarrow> string option"
  hl_json :: "string \<Rightarrow> json option"
  hl_sha :: "string \<Rightarrow> string"
  hl_round :: "rat \<Rightarrow> rat"

record gateway_config =
  gw_token :: "string option"
  gw_allow_local_files :: bool
  gw_insecure :: bool
  gw_max_sandboxes :: nat
  gw_rpm :: nat
  gw_burst :: nat

subsection \<open>Authentication\<close>

datatype auth_error = MissingCredentials | InvalidToken | NoTokenConfigured

definition unauthorized :: "auth_error \<Rightarrow> http_response" where
  "unauthorized e = respond 401 (TextBody ''unauthorized'')"

definition header :: "http_headers \<Rightarrow> string \<Rightarrow> string option" where
  "header hs n = Option.bind (map_of hs n) (\<lambda>v. v)"

definition extract_presented_token :: "http_headers \<Rightarrow> string option" where
  "extract_presented_token hs =
     (case Option.bind (header hs ''authorization'') (strip_prefix ''Bearer '') of
        Some token \<Rightarrow> Some token
      | None \<Rightarrow> header hs ''x-api-key'')"

definition from_request_parts :: "gateway_config \<Rightarrow> http_headers \<Rightarrow> auth_error + string" where
  "from_request_parts cfg hs =
     (case gw_token cfg of
        None \<Rightarrow> Inl NoTokenConfigured
      | Some configured \<Rightarrow>
          (case extract_presented_token hs of
             None \<Rightarrow> Inl MissingCredentials
           | Some presented \<Rightarrow> if presented = configured then Inr presented else Inl InvalidToken))"

definition auth_middleware ::
  "gateway_config \<Rightarrow> http_request \<Rightarrow> ('s \<Rightarrow> http_response \<times> 's) \<Rightarrow> 's \<Rightarrow> http_response \<times> 's" where
  "auth_middleware cfg rq next_handler s =
     (if hq_path rq = ''/console'' then next_handler s
      else if unwrap_or False (Option.bind (gw_token cfg) (\<lambda>configured.
                map_option (\<lambda>presented. presented = configured) (extract_presented_token (hq_headers rq))))
      then next_handler s
      else (unauthorized InvalidToken, s))"

subsection \<open>Binding\<close>

datatype ip_addr = V4 "8 word" "8 word" "8 word" "8 word" | V6 "128 word"

definition is_loopback :: "ip_addr \<Rightarrow> bool" where
  "is_loopback ip = (case ip of V4 a _ _ _ \<Rightarrow> a = 127 | V6 w \<Rightarrow> w = 1)"

definition bind_refused :: "string \<Rightarrow> bool \<Rightarrow> bool \<Rightarrow> lsbx_error" where
  "bind_refused ip has_token insecure =
     AuthFailed (''refusing to bind non-loopback address '' @ ip @ '': a non-loopback bind requires both a ''
       @ ''configured token (token: '' @ (if has_token then ''present'' else ''absent'')
       @ '') and the explicit --insecure opt-in (insecure: '' @ (if insecure then ''true'' else ''false'') @ '') ''
       @ em_dash @ '' binding unauthenticated to a non-loopback interface is never allowed'')"

definition enforce_fail_closed_bind :: "(ip_addr \<Rightarrow> string) \<Rightarrow> gateway_config \<Rightarrow> ip_addr \<Rightarrow> lsbx_error + unit" where
  "enforce_fail_closed_bind ip_text cfg ip =
     (if is_loopback ip then Inr ()
      else if gw_token cfg \<noteq> None \<and> gw_insecure cfg then Inr ()
      else Inl (bind_refused (ip_text ip) (gw_token cfg \<noteq> None) (gw_insecure cfg)))"

text \<open>
  The server, as the address it listens on. Binding and reading the address back are the host's, and so
  is the text of an address.
\<close>

record 'n net_lib =
  nl_ip_text :: "ip_addr \<Rightarrow> string"
  nl_addr_text :: "ip_addr \<times> nat \<Rightarrow> string"
  nl_bind :: "ip_addr \<times> nat \<Rightarrow> ('n, string, unit) comp"
  nl_local_addr :: "'n \<Rightarrow> string + ip_addr \<times> nat"

definition run_server :: "'n net_lib \<Rightarrow> gateway_config \<Rightarrow> ip_addr \<times> nat \<Rightarrow> ('n, lsbx_error, ip_addr \<times> nat) comp" where
  "run_server nl cfg addr =
     bindE (liftE (enforce_fail_closed_bind (nl_ip_text nl) cfg (fst addr))) (\<lambda>_.
     bindE (mapErr (\<lambda>e. ContractViolated (''failed to bind gateway listener on '' @ nl_addr_text nl addr @ '': '' @ e))
              (nl_bind nl addr)) (\<lambda>_ n.
     (case nl_local_addr nl n of
        Inl e \<Rightarrow> Inl (ContractViolated (''failed to read bound listener'' @ apostrophe @ ''s local address: '' @ e))
      | Inr a \<Rightarrow> Inr a, n)))"

subsection \<open>The rate limiter\<close>

text \<open>
  A bucket per key: its tokens and the time it was last refilled, in nanoseconds of a clock that does not
  go back. The tokens are 64-bit floats: each operation gives the rounding (\<open>hl_round\<close>) of the exact
  result, and of the floats that are no numbers only the infinity of a division by zero occurs.
\<close>

record limiter =
  tb_buckets :: "(string \<times> (rat \<times> nat)) list"
  tb_poisoned :: bool

definition limiter_new :: limiter where
  "limiter_new = \<lparr>tb_buckets = [], tb_poisoned = False\<rparr>"

datatype rate_decision = Allow | Deny nat

definition refill_per_sec :: "(rat \<Rightarrow> rat) \<Rightarrow> gateway_config \<Rightarrow> rat" where
  "refill_per_sec fl cfg = fl (of_nat (gw_rpm cfg) / 60)"

definition bucket_capacity :: "gateway_config \<Rightarrow> rat" where
  "bucket_capacity cfg = of_nat (max 1 (gw_burst cfg))"

definition secs_f64 :: "(rat \<Rightarrow> rat) \<Rightarrow> nat \<Rightarrow> rat" where
  "secs_f64 fl d = fl (fl (of_nat (d div 1000000000)) + fl (of_nat (d mod 1000000000) / 1000000000))"

definition refilled :: "(rat \<Rightarrow> rat) \<Rightarrow> gateway_config \<Rightarrow> nat \<Rightarrow> rat \<times> nat \<Rightarrow> rat" where
  "refilled fl cfg now b =
     min (fl (fst b + fl (secs_f64 fl (now - snd b) * refill_per_sec fl cfg))) (bucket_capacity cfg)"

text \<open>
  A denial tells how long to wait, in whole seconds. With no refill at all the wait is infinite, and
  turning it into a duration panics with the lock of the buckets held: the lock is poisoned, and every
  later check panics when it takes it. \<open>None\<close> is a panic.
\<close>

definition wait_secs :: "(rat \<Rightarrow> rat) \<Rightarrow> gateway_config \<Rightarrow> rat \<Rightarrow> nat option" where
  "wait_secs fl cfg tokens =
     (if refill_per_sec fl cfg = 0 then None
      else Some (nat (max 1 \<lceil>fl (fl (1 - tokens) / refill_per_sec fl cfg)\<rceil>)))"

definition limiter_check ::
  "(rat \<Rightarrow> rat) \<Rightarrow> gateway_config \<Rightarrow> nat \<Rightarrow> string \<Rightarrow> limiter \<Rightarrow> rate_decision option \<times> limiter" where
  "limiter_check fl cfg now key l =
     (if tb_poisoned l then (None, l)
      else let b = (case map_of (tb_buckets l) key of Some b \<Rightarrow> b | None \<Rightarrow> (bucket_capacity cfg, now));
               tokens = refilled fl cfg now b;
               put = (\<lambda>t. l\<lparr>tb_buckets := AList.update key (t, now) (tb_buckets l)\<rparr>)
           in if 1 \<le> tokens then (Some Allow, put (fl (tokens - 1)))
              else (case wait_secs fl cfg tokens of
                      None \<Rightarrow> (None, (put tokens)\<lparr>tb_poisoned := True\<rparr>)
                    | Some n \<Rightarrow> (Some (Deny n), put tokens)))"

definition rate_limit_key :: "http_headers \<Rightarrow> string \<Rightarrow> string" where
  "rate_limit_key hs ip = (case extract_presented_token hs of Some t \<Rightarrow> t | None \<Rightarrow> ''ip:'' @ ip)"

definition no_peer :: string where
  "no_peer = ''0.0.0.0''"

definition too_many_requests :: "nat \<Rightarrow> http_response" where
  "too_many_requests wait =
     \<lparr>hs_status = 429, hs_body = JsonBody (JObj [(''status'', JStr ''error''), (''code'', JNum 429),
        (''message'', JStr ''rate limit exceeded'')]), hs_retry_after = Some wait\<rparr>"

subsection \<open>The audit log\<close>

record audit_entry =
  ae_method :: string
  ae_path :: string
  ae_sha256 :: string

definition method_is_mutating :: "http_method \<Rightarrow> bool" where
  "method_is_mutating m \<longleftrightarrow> m \<in> {MPost, MPut, MPatch, MDelete}"

definition audit_of :: "http_lib \<Rightarrow> http_request \<Rightarrow> audit_entry" where
  "audit_of hl rq =
     \<lparr>ae_method = method_name (hq_method rq), ae_path = hq_path rq,
      ae_sha256 = hl_sha hl (method_name (hq_method rq) @ '' '' @ hq_path rq @ CHR 0x0A # hq_body rq)\<rparr>"

subsection \<open>Responses\<close>

fun status_of :: "lsbx_error \<Rightarrow> nat" where
  "status_of (Usage _) = 400"
| "status_of (BackendUnavailable _) = 503"
| "status_of (NotFound _) = 404"
| "status_of (ContractViolated _) = 422"
| "status_of (LockContention _) = 409"
| "status_of (AuthFailed _) = 401"
| "status_of (Interrupted _) = 500"

definition error_response :: "lsbx_error \<Rightarrow> http_response" where
  "error_response e =
     respond (status_of e) (JsonBody (JObj [(''status'', JStr ''error''),
       (''code'', JNum (sint (exit_code_i32 (exit_code e)))), (''message'', JStr (err_display e))]))"

definition success_response :: "json \<Rightarrow> http_response" where
  "success_response d = respond 200 (JsonBody (JObj [(''status'', JStr ''success''), (''data'', d)]))"

definition replace_char :: "char \<Rightarrow> string \<Rightarrow> string \<Rightarrow> string" where
  "replace_char c by_text s = concat (map (\<lambda>x. if x = c then by_text else [x]) s)"

definition html_escape :: "string \<Rightarrow> string" where
  "html_escape s =
     replace_char (CHR 0x27) ''&#39;'' (replace_char (CHR 0x22) ''&quot;'' (replace_char (CHR ''>'') ''&gt;''
       (replace_char (CHR ''<'') ''&lt;'' (replace_char (CHR ''&'') ''&amp;'' s))))"

subsection \<open>Who is let in\<close>

lemma auth_token: "from_request_parts cfg hs = Inr t \<longleftrightarrow> gw_token cfg = Some t \<and> extract_presented_token hs = Some t"
  by (auto simp: from_request_parts_def split: option.splits)

lemma auth_agree:
  "auth_middleware cfg rq h s =
    (if hq_path rq = ''/console'' \<or> from_request_parts cfg (hq_headers rq) \<in> range Inr then h s
     else (unauthorized InvalidToken, s))"
  by (auto simp: auth_middleware_def from_request_parts_def unwrap_or_def split: option.splits if_splits)

lemma run_server_refused:
  assumes "\<not> is_loopback (fst addr)" and "gw_token cfg = None \<or> \<not> gw_insecure cfg"
  shows "run_server nl cfg addr n =
    (Inl (bind_refused (nl_ip_text nl (fst addr)) (gw_token cfg \<noteq> None) (gw_insecure cfg)), n)"
  using assms unfolding run_server_def enforce_fail_closed_bind_def
  by (simp only: bindE_run liftE_run if_False prod.case sum.case) auto

subsection \<open>Escaped text\<close>

text \<open>The five replacements, one after the other, are one pass: ampersands come first.\<close>

definition html_escape_char :: "char \<Rightarrow> string" where
  "html_escape_char c =
     (if c = CHR ''&'' then ''&amp;'' else if c = CHR ''<'' then ''&lt;'' else if c = CHR ''>'' then ''&gt;''
      else if c = CHR 0x22 then ''&quot;'' else if c = CHR 0x27 then ''&#39;'' else [c])"

lemma replace_char_append: "replace_char c r (a @ b) = replace_char c r a @ replace_char c r b"
  by (simp add: replace_char_def)

lemma html_escape_eq: "html_escape s = concat (map html_escape_char s)"
proof (induction s)
  case Nil
  show ?case by (simp add: html_escape_def replace_char_def)
next
  case (Cons c s)
  have "html_escape (c # s) = html_escape [c] @ html_escape s"
    unfolding html_escape_def by (simp only: replace_char_append [symmetric] append_Cons append_Nil)
  moreover have "html_escape [c] = html_escape_char c"
    by (simp add: html_escape_def replace_char_def html_escape_char_def)
  ultimately show ?case using Cons by simp
qed

lemma html_escape_safe: "set (html_escape s) \<inter> {CHR ''<'', CHR ''>'', CHR 0x22, CHR 0x27} = {}"
proof -
  have "set (html_escape_char c) \<inter> {CHR ''<'', CHR ''>'', CHR 0x22, CHR 0x27} = {}" for c
    by (auto simp: html_escape_char_def)
  then show ?thesis unfolding html_escape_eq by (induction s) auto
qed

text \<open>A browser reads the five entities back, so nothing is lost.\<close>

definition html_entities :: "(string \<times> char) list" where
  "html_entities = [(''&amp;'', CHR ''&''), (''&lt;'', CHR ''<''), (''&gt;'', CHR ''>''), (''&quot;'', CHR 0x22), (''&#39;'', CHR 0x27)]"

fun html_read :: "nat \<Rightarrow> string \<Rightarrow> string option" where
  "html_read n [] = Some []"
| "html_read 0 (c # s) = None"
| "html_read (Suc n) (c # s) =
     (case find (\<lambda>e. starts_with (fst e) (c # s)) html_entities of
        Some (e, d) \<Rightarrow> map_option (Cons d) (html_read n (drop (length e) (c # s)))
      | None \<Rightarrow> map_option (Cons c) (html_read n s))"

lemma html_read_escape: "length s \<le> n \<Longrightarrow> html_read n (html_escape s) = Some s"
proof (induction s arbitrary: n)
  case Nil
  show ?case by (simp add: html_escape_eq)
next
  case (Cons c s)
  then obtain m where n: "n = Suc m" "length s \<le> m" by (cases n) auto
  have r: "html_read m (html_escape s) = Some s" by (rule Cons.IH [OF n(2)])
  have plain: "find (\<lambda>e. starts_with (fst e) (c # t)) html_entities = None" if "c \<noteq> CHR ''&''" for t
    using that by (simp add: html_entities_def starts_with_def)
  show ?case
  proof (cases "c \<in> {CHR ''&'', CHR ''<'', CHR ''>'', CHR 0x22, CHR 0x27}")
    case True
    then show ?thesis using r unfolding html_escape_eq n
      by (auto simp: html_escape_char_def html_entities_def starts_with_def)
  next
    case False
    then have "html_escape_char c = [c]" "c \<noteq> CHR ''&''" by (auto simp: html_escape_char_def)
    then show ?thesis using r plain unfolding html_escape_eq n by simp
  qed
qed

subsection \<open>The limiter over a time\<close>

text \<open>What rounding to nearest gives for the numbers that matter: it is monotone and keeps naturals.\<close>

definition rounds_well :: "(rat \<Rightarrow> rat) \<Rightarrow> bool" where
  "rounds_well fl \<longleftrightarrow> mono fl \<and> (\<forall>n :: nat. n < 2 ^ 53 \<longrightarrow> fl (of_nat n) = of_nat n)"

lemma rounds_nat: "rounds_well fl \<Longrightarrow> n < 2 ^ 53 \<Longrightarrow> fl (of_nat n) = of_nat n"
  by (simp add: rounds_well_def)

lemma rounds_le: "rounds_well fl \<Longrightarrow> n < 2 ^ 53 \<Longrightarrow> x \<le> of_nat n \<Longrightarrow> fl x \<le> of_nat n"
  using rounds_nat [of fl n] by (auto simp: rounds_well_def dest: monoD)

lemma rounds_zero: "rounds_well fl \<Longrightarrow> fl 0 = 0"
  using rounds_nat [of fl 0] by simp

lemma secs_f64_zero: "rounds_well fl \<Longrightarrow> secs_f64 fl 0 = 0"
  by (simp add: secs_f64_def rounds_zero)

lemma refilled_now:
  "rounds_well fl \<Longrightarrow> refilled fl cfg now (t, now) = min (fl t) (bucket_capacity cfg)"
  by (simp add: refilled_def secs_f64_zero rounds_zero)

definition bucket_of :: "gateway_config \<Rightarrow> nat \<Rightarrow> string \<Rightarrow> limiter \<Rightarrow> rat \<times> nat" where
  "bucket_of cfg now key l =
     (case map_of (tb_buckets l) key of Some b \<Rightarrow> b | None \<Rightarrow> (bucket_capacity cfg, now))"

lemma limiter_check_eq:
  "limiter_check fl cfg now key l =
     (if tb_poisoned l then (None, l)
      else if 1 \<le> refilled fl cfg now (bucket_of cfg now key l)
      then (Some Allow,
            l\<lparr>tb_buckets := AList.update key (fl (refilled fl cfg now (bucket_of cfg now key l) - 1), now) (tb_buckets l)\<rparr>)
      else (case wait_secs fl cfg (refilled fl cfg now (bucket_of cfg now key l)) of
              None \<Rightarrow> (None, l\<lparr>tb_buckets := AList.update key (refilled fl cfg now (bucket_of cfg now key l), now) (tb_buckets l),
                               tb_poisoned := True\<rparr>)
            | Some n \<Rightarrow> (Some (Deny n),
                l\<lparr>tb_buckets := AList.update key (refilled fl cfg now (bucket_of cfg now key l), now) (tb_buckets l)\<rparr>)))"
  unfolding limiter_check_def bucket_of_def Let_def by (rule refl)

lemma limiter_check_cases:
  assumes "limiter_check fl cfg now key l = (d, l')"
  obtains (poisoned) "tb_poisoned l" "d = None" "l' = l"
    | (allowed) "\<not> tb_poisoned l" "1 \<le> refilled fl cfg now (bucket_of cfg now key l)" "d = Some Allow"
        "l' = l\<lparr>tb_buckets := AList.update key (fl (refilled fl cfg now (bucket_of cfg now key l) - 1), now) (tb_buckets l)\<rparr>"
    | (denied) n where "\<not> tb_poisoned l" "refilled fl cfg now (bucket_of cfg now key l) < 1" "d = Some (Deny n)"
        "refill_per_sec fl cfg \<noteq> 0"
        "l' = l\<lparr>tb_buckets := AList.update key (refilled fl cfg now (bucket_of cfg now key l), now) (tb_buckets l)\<rparr>"
    | (panicked) "\<not> tb_poisoned l" "refilled fl cfg now (bucket_of cfg now key l) < 1" "d = None"
        "refill_per_sec fl cfg = 0" "tb_poisoned l'"
        "tb_buckets l' = AList.update key (refilled fl cfg now (bucket_of cfg now key l), now) (tb_buckets l)"
proof (cases "tb_poisoned l \<or> 1 \<le> refilled fl cfg now (bucket_of cfg now key l)")
  case True
  then show thesis using assms unfolding limiter_check_eq
    by (cases "tb_poisoned l") (auto intro: poisoned allowed)
next
  case False
  then show thesis using assms unfolding limiter_check_eq wait_secs_def
    by (cases "refill_per_sec fl cfg = 0") (auto intro: denied panicked)
qed

fun limiter_run ::
  "(rat \<Rightarrow> rat) \<Rightarrow> gateway_config \<Rightarrow> (nat \<times> string) list \<Rightarrow> limiter \<Rightarrow> rate_decision option list \<times> limiter" where
  "limiter_run fl cfg [] l = ([], l)"
| "limiter_run fl cfg ((now, key) # cs) l =
     (case limiter_check fl cfg now key l of (d, l1) \<Rightarrow>
        (case limiter_run fl cfg cs l1 of (ds, l2) \<Rightarrow> (d # ds, l2)))"

fun allowed_for :: "string \<Rightarrow> (nat \<times> string) list \<Rightarrow> rate_decision option list \<Rightarrow> nat" where
  "allowed_for key ((now, k) # cs) (d # ds) = (if k = key \<and> d = Some Allow then 1 else 0) + allowed_for key cs ds"
| "allowed_for key _ _ = 0"

lemma limiter_run_bound:
  assumes "rounds_well fl" and "m < 2 ^ 53" and "\<And>c. c \<in> set cs \<Longrightarrow> fst c = now"
    and "refilled fl cfg now (bucket_of cfg now key l) \<le> of_nat m"
  shows "allowed_for key cs (fst (limiter_run fl cfg cs l)) \<le> m"
  using assms(2-)
proof (induction cs arbitrary: l m)
  case (Cons c cs)
  obtain k where c: "c = (now, k)" using Cons.prems(2) [of c] by (cases c) auto
  obtain d l1 where h: "limiter_check fl cfg now k l = (d, l1)" by fastforce
  obtain ds l2 where t: "limiter_run fl cfg cs l1 = (ds, l2)" by fastforce
  have r: "fst (limiter_run fl cfg (c # cs) l) = d # ds" by (simp add: c h t)
  have now: "\<And>c. c \<in> set cs \<Longrightarrow> fst c = now" using Cons.prems(2) by simp
  show ?case
  proof (cases "k = key")
    case False
    have "bucket_of cfg now key l1 = bucket_of cfg now key l"
      using h False by (cases rule: limiter_check_cases) (auto simp: bucket_of_def update_conv')
    then have "allowed_for key cs ds \<le> m" using Cons.IH [OF Cons.prems(1) now, of l1] Cons.prems(3) t by simp
    then show ?thesis using False by (simp add: r [unfolded c] c del: limiter_run.simps)
  next
    case True
    let ?t = "refilled fl cfg now (bucket_of cfg now key l)"
    from h show ?thesis
    proof (cases rule: limiter_check_cases)
      case allowed
      then have b: "bucket_of cfg now key l1 = (fl (?t - 1), now)" using True by (simp add: bucket_of_def update_conv')
      have "1 \<le> (of_nat m :: rat)" using allowed(2) Cons.prems(3) True by simp
      then obtain m' where m: "m = Suc m'" by (cases m) auto
      have "?t - 1 \<le> of_nat m'" using Cons.prems(3) m by simp
      then have "fl (fl (?t - 1)) \<le> of_nat m'" using Cons.prems(1) m by (intro rounds_le [OF assms(1)]) auto
      then have "refilled fl cfg now (bucket_of cfg now key l1) \<le> of_nat m'"
        unfolding b refilled_now [OF assms(1)] by simp
      then have "allowed_for key cs ds \<le> m'" using Cons.IH [OF _ now, of m' l1] Cons.prems(1) t m by simp
      then show ?thesis by (simp add: r [unfolded c] c m del: limiter_run.simps)
    next
      case poisoned
      then have "allowed_for key cs ds \<le> m" using Cons.IH [OF Cons.prems(1) now, of l1] Cons.prems(3) t by simp
      then show ?thesis using poisoned by (simp add: r [unfolded c] c del: limiter_run.simps)
    next
      case (denied n)
      then have b: "bucket_of cfg now key l1 = (?t, now)" using True by (simp add: bucket_of_def update_conv')
      have "fl ?t \<le> of_nat m" using Cons.prems by (intro rounds_le [OF assms(1)]) auto
      then have "refilled fl cfg now (bucket_of cfg now key l1) \<le> of_nat m" unfolding b refilled_now [OF assms(1)] by simp
      then have "allowed_for key cs ds \<le> m" using Cons.IH [OF Cons.prems(1) now, of l1] t by simp
      then show ?thesis using denied by (simp add: r [unfolded c] c del: limiter_run.simps)
    next
      case panicked
      then have b: "bucket_of cfg now key l1 = (?t, now)" using True by (simp add: bucket_of_def update_conv')
      have "fl ?t \<le> of_nat m" using Cons.prems by (intro rounds_le [OF assms(1)]) auto
      then have "refilled fl cfg now (bucket_of cfg now key l1) \<le> of_nat m" unfolding b refilled_now [OF assms(1)] by simp
      then have "allowed_for key cs ds \<le> m" using Cons.IH [OF Cons.prems(1) now, of l1] t by simp
      then show ?thesis using panicked by (simp add: r [unfolded c] c del: limiter_run.simps)
    qed
  qed
qed simp

lemma limiter_new_key:
  assumes "rounds_well fl" and "gw_burst cfg < 2 ^ 32" and "\<not> tb_poisoned l" and "map_of (tb_buckets l) key = None"
  shows "fst (limiter_check fl cfg now key l) = Some Allow"
proof -
  have "max 1 (gw_burst cfg) < 2 ^ 53" using assms(2) by simp
  then have "fl (bucket_capacity cfg) = bucket_capacity cfg"
    unfolding bucket_capacity_def by (rule rounds_nat [OF assms(1)])
  then have r: "refilled fl cfg now (bucket_capacity cfg, now) = bucket_capacity cfg"
    unfolding refilled_now [OF assms(1)] by simp
  have c: "1 \<le> bucket_capacity cfg" by (simp add: bucket_capacity_def)
  show ?thesis unfolding limiter_check_def using assms(3,4) by (simp add: Let_def r c)
qed

lemma limiter_poisoned: "tb_poisoned l \<Longrightarrow> limiter_check fl cfg now key l = (None, l)"
  by (simp add: limiter_check_def)

text \<open>With no refill, the first request beyond the burst panics, and after it every request does.\<close>

lemma limiter_dead:
  assumes "refill_per_sec fl cfg = 0" and "fst (limiter_check fl cfg now key l) \<noteq> Some Allow"
  shows "fst (limiter_check fl cfg now key l) = None \<and>
    fst (limiter_check fl cfg now' key' (snd (limiter_check fl cfg now key l))) = None"
proof -
  obtain d l' where c: "limiter_check fl cfg now key l = (d, l')" by fastforce
  from c show ?thesis
  proof (cases rule: limiter_check_cases)
    case allowed
    with assms(2) c show ?thesis by simp
  qed (use assms(1) c in \<open>auto simp: limiter_poisoned\<close>)
qed

end
