(* ===== verification/Lsbx_Fs.thy ===== *)
theory Lsbx_Fs
  imports Lsbx_Kernel
begin

text \<open>
  The part of \<open>std::fs\<close> and of the crate \<open>tempfile\<close> that the program uses, as
  computations on a file system state: regular files addressed by directory and file name, each
  with its content and mode, and directories with their modes. Every call is one tick of the state;
  the plan of the state says at which ticks the operating system refuses a call (permission,
  space, transient failure), so that every error branch of the callers is reachable. A call
  reports the kind \<open>KNotFound\<close> exactly when the path is missing. A file's content is the
  JSON value its text parses to, or a text that is not JSON.
\<close>

datatype io_kind = KNotFound | KWouldBlock | KOther

record io_error =
  io_kind :: io_kind
  io_text :: string

datatype fcontent = FJson json | FText string

record fs =
  fs_files :: "((string \<times> string) \<times> (fcontent \<times> nat)) list"
  fs_dirs :: "(string \<times> nat) list"
  fs_tick :: nat
  fs_plan :: "nat \<Rightarrow> string option"
  fs_fresh :: "nat \<Rightarrow> string"

type_synonym 'a io = "(fs, io_error, 'a) comp"

definition os_missing :: io_error where
  "os_missing = \<lparr>io_kind = KNotFound, io_text = ''No such file or directory (os error 2)''\<rparr>"

definition io_op :: "'a io \<Rightarrow> 'a io" where
  "io_op m s =
     (let s' = s\<lparr>fs_tick := Suc (fs_tick s)\<rparr>
      in case fs_plan s (fs_tick s) of
           Some t \<Rightarrow> (Inl \<lparr>io_kind = KOther, io_text = t\<rparr>, s')
         | None \<Rightarrow> m s')"

definition fs_get :: "fs \<Rightarrow> string \<Rightarrow> string \<Rightarrow> (fcontent \<times> nat) option" where
  "fs_get s d n = map_of (fs_files s) (d, n)"

definition dir_mode :: "fs \<Rightarrow> string \<Rightarrow> nat option" where
  "dir_mode s d = map_of (fs_dirs s) d"

definition create_dir_all :: "string \<Rightarrow> unit io" where
  "create_dir_all d = io_op (\<lambda>s.
     (Inr (), if dir_mode s d = None then s\<lparr>fs_dirs := AList.update d 493 (fs_dirs s)\<rparr> else s))"

definition dir_metadata :: "string \<Rightarrow> nat io" where
  "dir_metadata d = io_op (\<lambda>s.
     (case dir_mode s d of None \<Rightarrow> Inl os_missing | Some m \<Rightarrow> Inr m, s))"

definition set_dir_mode :: "string \<Rightarrow> nat \<Rightarrow> unit io" where
  "set_dir_mode d m = io_op (\<lambda>s.
     (case dir_mode s d of
        None \<Rightarrow> (Inl os_missing, s)
      | Some _ \<Rightarrow> (Inr (), s\<lparr>fs_dirs := AList.update d m (fs_dirs s)\<rparr>)))"

definition dir_exists :: "string \<Rightarrow> fs \<Rightarrow> bool" where
  "dir_exists d s \<longleftrightarrow> dir_mode s d \<noteq> None"

text \<open>
  A named temporary file is a value until it is persisted: its directory, content and mode. It is
  removed when dropped, and its name never ends in \<open>.json\<close>, so it is not one of the files of
  the state.
\<close>

record temp_file =
  tf_dir :: string
  tf_content :: fcontent
  tf_mode :: nat

definition temp_new_in :: "string \<Rightarrow> temp_file io" where
  "temp_new_in d = io_op (\<lambda>s.
     (case dir_mode s d of
        None \<Rightarrow> Inl os_missing
      | Some _ \<Rightarrow> Inr \<lparr>tf_dir = d, tf_content = FText [], tf_mode = 384\<rparr>, s))"

definition temp_write :: "temp_file \<Rightarrow> fcontent \<Rightarrow> temp_file io" where
  "temp_write t c = io_op (retE (t\<lparr>tf_content := c\<rparr>))"

definition temp_metadata :: "temp_file \<Rightarrow> nat io" where
  "temp_metadata t = io_op (retE (tf_mode t))"

definition temp_set_mode :: "temp_file \<Rightarrow> nat \<Rightarrow> temp_file io" where
  "temp_set_mode t m = io_op (retE (t\<lparr>tf_mode := m\<rparr>))"

text \<open>Persisting is one rename: the target is replaced as a whole or not at all.\<close>

definition temp_persist :: "temp_file \<Rightarrow> string \<Rightarrow> unit io" where
  "temp_persist t n = io_op (\<lambda>s.
     (Inr (), s\<lparr>fs_files := AList.update (tf_dir t, n) (tf_content t, tf_mode t) (fs_files s)\<rparr>))"

definition read_file :: "string \<Rightarrow> string \<Rightarrow> fcontent io" where
  "read_file d n = io_op (\<lambda>s.
     (case fs_get s d n of None \<Rightarrow> Inl os_missing | Some (c, _) \<Rightarrow> Inr c, s))"

text \<open>\<open>fs::write\<close>: creates or truncates; an existing file keeps its mode.\<close>

definition write_file :: "string \<Rightarrow> string \<Rightarrow> fcontent \<Rightarrow> unit io" where
  "write_file d n c = io_op (\<lambda>s.
     (case dir_mode s d of
        None \<Rightarrow> (Inl os_missing, s)
      | Some _ \<Rightarrow>
          (Inr (), s\<lparr>fs_files := AList.update (d, n)
              (c, case fs_get s d n of None \<Rightarrow> 420 | Some (_, m) \<Rightarrow> m) (fs_files s)\<rparr>)))"

text \<open>Open with \<open>create_new\<close> and a mode: an existing file is an error.\<close>

definition create_new_file :: "string \<Rightarrow> string \<Rightarrow> nat \<Rightarrow> unit io" where
  "create_new_file d n m = io_op (\<lambda>s.
     (case fs_get s d n of
        Some _ \<Rightarrow> (Inl \<lparr>io_kind = KOther, io_text = ''File exists (os error 17)''\<rparr>, s)
      | None \<Rightarrow> (Inr (), s\<lparr>fs_files := AList.update (d, n) (FText [], m) (fs_files s)\<rparr>)))"

definition remove_file :: "string \<Rightarrow> string \<Rightarrow> unit io" where
  "remove_file d n = io_op (\<lambda>s.
     (case fs_get s d n of
        None \<Rightarrow> (Inl os_missing, s)
      | Some _ \<Rightarrow> (Inr (), s\<lparr>fs_files := AList.delete (d, n) (fs_files s)\<rparr>)))"

definition dir_names :: "fs \<Rightarrow> string \<Rightarrow> string list" where
  "dir_names s d = map (snd \<circ> fst) (filter (\<lambda>e. fst (fst e) = d) (fs_files s))"

definition read_dir :: "string \<Rightarrow> string list io" where
  "read_dir d = io_op (\<lambda>s.
     (case dir_mode s d of None \<Rightarrow> Inl os_missing | Some _ \<Rightarrow> Inr (dir_names s d), s))"

text \<open>
  A temporary directory below a base directory, with a name the library picks (it retries until
  the name is new, so the name is taken from the state's supply); mode 0700 from the start.
\<close>

definition temp_dir_in :: "string \<Rightarrow> string \<Rightarrow> string io" where
  "temp_dir_in base pre = io_op (\<lambda>s.
     (case dir_mode s base of
        None \<Rightarrow> (Inl os_missing, s)
      | Some _ \<Rightarrow>
          (let p = base @ ''/'' @ pre @ fs_fresh s (fs_tick s)
           in (Inr p, s\<lparr>fs_dirs := AList.update p 448 (fs_dirs s)\<rparr>))))"

text \<open>\<open>fs::remove_dir_all\<close>: the directory and every file in it.\<close>

definition remove_dir_all :: "string \<Rightarrow> unit io" where
  "remove_dir_all d = io_op (\<lambda>s.
     (case dir_mode s d of
        None \<Rightarrow> (Inl os_missing, s)
      | Some _ \<Rightarrow>
          (Inr (), s\<lparr>fs_dirs := AList.delete d (fs_dirs s),
                    fs_files := filter (\<lambda>e. fst (fst e) \<noteq> d) (fs_files s)\<rparr>)))"

subsection \<open>File names\<close>

text \<open>
  \<open>Path::extension\<close> and \<open>Path::file_stem\<close> of a file name: the parts around the last dot; a name
  without a dot, or whose only dot is its first character, has no extension.
\<close>

definition rsplit_dot :: "string \<Rightarrow> (string \<times> string) option" where
  "rsplit_dot n = map_option (\<lambda>(a, b). (rev b, rev a)) (split_once (CHR ''.'') (rev n))"

definition file_extension :: "string \<Rightarrow> string option" where
  "file_extension n = (case rsplit_dot n of
     None \<Rightarrow> None | Some (a, b) \<Rightarrow> if a = [] \<or> n = ''..'' then None else Some b)"

definition file_stem :: "string \<Rightarrow> string" where
  "file_stem n = (case rsplit_dot n of
     None \<Rightarrow> n | Some (a, b) \<Rightarrow> if a = [] \<or> n = ''..'' then n else a)"

text \<open>\<open>Path::file_name\<close> and \<open>Path::parent\<close> of a path: around the last slash.\<close>

definition rsplit_slash :: "string \<Rightarrow> (string \<times> string) option" where
  "rsplit_slash p = map_option (\<lambda>(a, b). (rev b, rev a)) (split_once (CHR ''/'') (rev p))"

definition path_file_name :: "string \<Rightarrow> string" where
  "path_file_name p = (case rsplit_slash p of None \<Rightarrow> p | Some (_, n) \<Rightarrow> n)"

definition path_parent :: "string \<Rightarrow> string option" where
  "path_parent p = (case rsplit_slash p of
     None \<Rightarrow> if p = [] then None else Some []
   | Some (d, n) \<Rightarrow> if d = [] \<and> n = [] then None else if d = [] then Some ''/'' else Some d)"

subsection \<open>Lemmas\<close>

lemma split_once_append:
  "d \<notin> set a \<Longrightarrow> split_once d (a @ d # b) = Some (a, b)"
  by (induction a) auto

lemma split_once_Some: "split_once d s = Some (a, b) \<Longrightarrow> s = a @ d # b \<and> d \<notin> set a"
  by (induction s arbitrary: a) (auto split: if_splits)

lemma rsplit_slash_append: "CHR ''/'' \<notin> set n \<Longrightarrow> rsplit_slash (d @ CHR ''/'' # n) = Some (d, n)"
  using split_once_append [of "CHR ''/''" "rev n" "rev d"] by (simp add: rsplit_slash_def)

lemma path_parent_append:
  "CHR ''/'' \<notin> set n \<Longrightarrow> d \<noteq> [] \<Longrightarrow> path_parent (d @ CHR ''/'' # n) = Some d"
  by (simp add: path_parent_def rsplit_slash_append)

lemma path_file_name_append:
  "CHR ''/'' \<notin> set n \<Longrightarrow> path_file_name (d @ CHR ''/'' # n) = n"
  by (simp add: path_file_name_def rsplit_slash_append)

lemma rsplit_dot_json: "rsplit_dot (i @ ''.json'') = Some (i, ''json'')"
  using split_once_append [of "CHR ''.''" "''nosj''" "rev i"] by (simp add: rsplit_dot_def)

lemma json_name_not_dots: "i @ ''.json'' \<noteq> ''..''"
proof
  assume "i @ ''.json'' = ''..''"
  then have "length (i @ ''.json'') = length ''..''" by (rule arg_cong)
  then show False by simp
qed

lemma file_extension_json: "i \<noteq> [] \<Longrightarrow> file_extension (i @ ''.json'') = Some ''json''"
  by (simp add: file_extension_def rsplit_dot_json json_name_not_dots del: append_eq_Cons_conv)

lemma file_stem_json: "i \<noteq> [] \<Longrightarrow> file_stem (i @ ''.json'') = i"
  by (simp add: file_stem_def rsplit_dot_json json_name_not_dots)

lemma json_file_name_stem:
  assumes "file_extension n = Some ''json''"
  shows "file_stem n @ ''.json'' = n"
proof -
  from assms obtain a where a: "rsplit_dot n = Some (a, ''json'')" "a \<noteq> []" "n \<noteq> ''..''"
    by (auto simp: file_extension_def split: option.splits if_splits)
  then obtain x y where x: "split_once (CHR ''.'') (rev n) = Some (x, y)" and y: "rev y = a"
    and xj: "rev x = ''json''"
    by (auto simp: rsplit_dot_def)
  from split_once_Some [OF x] have "rev n = x @ CHR ''.'' # y" by simp
  then have "n = rev (x @ CHR ''.'' # y)" by (metis rev_rev_ident)
  then have "n = a @ CHR ''.'' # ''json''" by (simp add: y xj)
  moreover have "file_stem n = a" using a by (simp add: file_stem_def)
  ultimately show ?thesis by simp
qed

lemmas io_op_defs = create_dir_all_def dir_metadata_def set_dir_mode_def temp_new_in_def
  temp_write_def temp_metadata_def temp_set_mode_def temp_persist_def read_file_def write_file_def
  create_new_file_def remove_file_def read_dir_def temp_dir_in_def remove_dir_all_def

text \<open>No operation changes the plan or the name supply.\<close>

lemma io_op_plan: "(\<And>s. fs_plan (snd (m s)) = fs_plan s) \<Longrightarrow> fs_plan (snd (io_op m s)) = fs_plan s"
  by (simp add: io_op_def Let_def split: option.splits)

lemma fs_ops_plan [frame_simps]:
  "fs_plan (snd (create_dir_all d s)) = fs_plan s" "fs_plan (snd (dir_metadata d s)) = fs_plan s"
  "fs_plan (snd (set_dir_mode d k s)) = fs_plan s" "fs_plan (snd (temp_new_in d s)) = fs_plan s"
  "fs_plan (snd (temp_write t c s)) = fs_plan s" "fs_plan (snd (temp_metadata t s)) = fs_plan s"
  "fs_plan (snd (temp_set_mode t k s)) = fs_plan s" "fs_plan (snd (temp_persist t n s)) = fs_plan s"
  "fs_plan (snd (read_file d n s)) = fs_plan s" "fs_plan (snd (write_file d n c s)) = fs_plan s"
  "fs_plan (snd (create_new_file d n k s)) = fs_plan s" "fs_plan (snd (remove_file d n s)) = fs_plan s"
  "fs_plan (snd (read_dir d s)) = fs_plan s" "fs_plan (snd (temp_dir_in d n s)) = fs_plan s"
  "fs_plan (snd (remove_dir_all d s)) = fs_plan s"
  by (auto simp: io_op_defs Let_def intro!: io_op_plan split: option.splits)

text \<open>The files an operation can touch.\<close>

lemma io_op_files: "(\<And>s. fs_files (snd (m s)) = fs_files s) \<Longrightarrow> fs_files (snd (io_op m s)) = fs_files s"
  by (simp add: io_op_def Let_def split: option.splits)

lemma fs_ops_files [frame_simps]:
  "fs_files (snd (create_dir_all d s)) = fs_files s" "fs_files (snd (dir_metadata d s)) = fs_files s"
  "fs_files (snd (set_dir_mode d k s)) = fs_files s" "fs_files (snd (temp_new_in d s)) = fs_files s"
  "fs_files (snd (temp_write t c s)) = fs_files s" "fs_files (snd (temp_metadata t s)) = fs_files s"
  "fs_files (snd (temp_set_mode t k s)) = fs_files s" "fs_files (snd (read_file d n s)) = fs_files s"
  "fs_files (snd (read_dir d s)) = fs_files s" "fs_files (snd (temp_dir_in d n s)) = fs_files s"
  by (auto simp: io_op_defs Let_def intro!: io_op_files split: option.splits)

lemma temp_write_Inr: "temp_write t c s = (Inr t', s') \<Longrightarrow> t' = t\<lparr>tf_content := c\<rparr>"
  by (auto simp: temp_write_def io_op_def Let_def split: option.splits)

lemma temp_set_mode_Inr: "temp_set_mode t m s = (Inr t', s') \<Longrightarrow> t' = t\<lparr>tf_mode := m\<rparr>"
  by (auto simp: temp_set_mode_def io_op_def Let_def split: option.splits)

lemma temp_new_in_Inr: "temp_new_in d s = (Inr t, s') \<Longrightarrow> tf_dir t = d"
  by (auto simp: temp_new_in_def io_op_def Let_def split: option.splits)

lemma temp_persist_Inr:
  "temp_persist t n s = (Inr u, s') \<Longrightarrow>
   fs_files s' = AList.update (tf_dir t, n) (tf_content t, tf_mode t) (fs_files s)"
  by (auto simp: temp_persist_def io_op_def Let_def split: option.splits)

lemma temp_persist_Inl: "temp_persist t n s = (Inl e, s') \<Longrightarrow> fs_files s' = fs_files s"
  by (auto simp: temp_persist_def io_op_def Let_def split: option.splits)

lemma read_file_Inr: "read_file d n s = (Inr c, s') \<Longrightarrow> \<exists>m. fs_get s d n = Some (c, m)"
  by (auto simp: read_file_def io_op_def Let_def fs_get_def split: option.splits)

lemma fs_get_update:
  "map_of (AList.update (d, n) v fl) (d', n') =
     (if d' = d \<and> n' = n then Some v else map_of fl (d', n'))"
  by (simp add: update_conv')

lemma remove_file_cases:
  "remove_file d n s = (r, s') \<Longrightarrow>
     (r = Inr () \<and> fs_get s' d n = None \<and> (\<forall>d' n'. (d', n') \<noteq> (d, n) \<longrightarrow> fs_get s' d' n' = fs_get s d' n'))
   \<or> (\<exists>e. r = Inl e \<and> (io_kind e = KNotFound \<longrightarrow> fs_get s d n = None) \<and> fs_files s' = fs_files s)"
  by (auto simp: remove_file_def io_op_def Let_def fs_get_def os_missing_def delete_conv'
      split: option.splits if_splits)

subsection \<open>Frames, and states in which nothing is refused\<close>

definition calm :: "fs \<Rightarrow> bool" where
  "calm s \<longleftrightarrow> (\<forall>n. fs_plan s n = None)"

lemma calm_cong: "fs_plan s' = fs_plan s \<Longrightarrow> calm s' = calm s"
  by (simp add: calm_def)

lemma frame_files:
  "create_dir_all d s = (r1, s') \<Longrightarrow> fs_files s' = fs_files s"
  "dir_metadata d s = (r2, s') \<Longrightarrow> fs_files s' = fs_files s"
  "set_dir_mode d k s = (r3, s') \<Longrightarrow> fs_files s' = fs_files s"
  "temp_new_in d s = (r4, s') \<Longrightarrow> fs_files s' = fs_files s"
  "temp_write t c s = (r5, s') \<Longrightarrow> fs_files s' = fs_files s"
  "temp_metadata t s = (r6, s') \<Longrightarrow> fs_files s' = fs_files s"
  "temp_set_mode t k s = (r7, s') \<Longrightarrow> fs_files s' = fs_files s"
  "read_file d n s = (r8, s') \<Longrightarrow> fs_files s' = fs_files s"
  "read_dir d s = (r9, s') \<Longrightarrow> fs_files s' = fs_files s"
  "temp_dir_in d n s = (r10, s') \<Longrightarrow> fs_files s' = fs_files s"
  by (metis fs_ops_files snd_conv)+

lemma temp_step_Inr:
  "temp_new_in d s = (Inr t, s') \<Longrightarrow> tf_dir t = d \<and> fs_files s' = fs_files s"
  "temp_write t c s = (Inr t', s') \<Longrightarrow> t' = t\<lparr>tf_content := c\<rparr> \<and> fs_files s' = fs_files s"
  "temp_set_mode t m s = (Inr t', s') \<Longrightarrow> t' = t\<lparr>tf_mode := m\<rparr> \<and> fs_files s' = fs_files s"
  by (auto dest: temp_new_in_Inr temp_write_Inr temp_set_mode_Inr frame_files)

lemma calm_steps:
  assumes "calm s"
  shows "fst (create_dir_all d s) = Inr ()" "dir_mode (snd (create_dir_all d s)) d \<noteq> None"
    "dir_mode s d \<noteq> None \<Longrightarrow> fst (dir_metadata d s) \<in> range Inr"
    "dir_mode (snd (dir_metadata d s)) = dir_mode s"
    "dir_mode s d \<noteq> None \<Longrightarrow> fst (set_dir_mode d k s) = Inr ()"
    "dir_mode s d \<noteq> None \<Longrightarrow> dir_mode (snd (set_dir_mode d k s)) d \<noteq> None"
    "dir_mode s d \<noteq> None \<Longrightarrow> fst (temp_new_in d s) \<in> range Inr"
    "fst (temp_write t c s) \<in> range Inr" "fst (temp_metadata t s) \<in> range Inr"
    "fst (temp_set_mode t k s) \<in> range Inr" "fst (temp_persist t n s) = Inr ()"
  using assms by (auto simp: io_op_defs io_op_def calm_def Let_def dir_mode_def fun_eq_iff update_conv')

end
