(* ===== verification/Lsbx_Store.thy ===== *)
theory Lsbx_Store
  imports Lsbx_Fs
begin

text \<open>
  The crate \<open>lsbx-store\<close>: one JSON file per sandbox (\<open>sandbox_store.rs\<close>) and per CI job
  (\<open>ci_job_store.rs\<close>), written through a temporary file and a rename. A record's file is
  \<open>(store_dir, id.json)\<close>; ids are single path components, as every id the program makes is.
  The locale \<open>record_store\<close> states what the clients rely on, whatever calls the operating
  system refuses; both stores interpret it.
\<close>

definition map_io_err :: "string \<Rightarrow> io_error \<Rightarrow> lsbx_error" where
  "map_io_err context e =
     (if io_kind e = KNotFound then NotFound (context @ '': '' @ io_text e)
      else ContractViolated (context @ '': '' @ io_text e))"

definition map_json_err :: "string \<Rightarrow> string \<Rightarrow> lsbx_error" where
  "map_json_err context t = ContractViolated (context @ '': '' @ t)"

type_synonym 'a store_op = "(fs, lsbx_error, 'a) comp"

subsection \<open>The sandbox store\<close>

definition store_dir :: "string \<Rightarrow> string" where
  "store_dir sd = sd @ ''/state''"

definition record_file :: "string \<Rightarrow> string" where
  "record_file i = i @ ''.json''"

text \<open>
  Both stores write a record the same way; only the words of the messages differ (\<open>dn\<close> names the
  directory, \<open>rn\<close> the record).
\<close>

definition atomic_write :: "string \<Rightarrow> string \<Rightarrow> string \<Rightarrow> string \<Rightarrow> json \<Rightarrow> unit store_op" where
  "atomic_write dn rn d n j =
     bindE (mapErr (map_io_err (''failed to create '' @ dn)) (create_dir_all d)) (\<lambda>_.
     bindE (mapErr (map_io_err (''failed to stat '' @ dn)) (dir_metadata d)) (\<lambda>_.
     bindE (mapErr (map_io_err (''failed to chmod '' @ dn)) (set_dir_mode d 448)) (\<lambda>_.
     bindE (mapErr (map_io_err ''failed to create temp file'') (temp_new_in d)) (\<lambda>t.
     bindE (mapErr (\<lambda>e. map_json_err (''failed to serialize '' @ rn) (io_text e))
             (temp_write t (FJson j))) (\<lambda>t.
     bindE (mapErr (map_io_err ''failed to stat temp file'') (temp_metadata t)) (\<lambda>_.
     bindE (mapErr (map_io_err ''failed to chmod temp file'') (temp_set_mode t 384)) (\<lambda>t.
     mapErr (\<lambda>e. ContractViolated (''failed to atomically rename into place: '' @ io_text e))
       (temp_persist t n))))))))"

definition sandbox_save :: "string \<Rightarrow> sandbox_record \<Rightarrow> unit store_op" where
  "sandbox_save sd r =
     atomic_write ''state dir'' ''sandbox record'' (store_dir sd) (record_file (sr_id r))
       (sandbox_envelope_to_json \<lparr>se_schema_version = 1, se_kind = ''sandbox'', se_sandbox = r\<rparr>)"

text \<open>
  Decoding a record file: an envelope when the value has a schema version, the legacy flat record
  otherwise. \<open>msg\<close> is the text of serde's error on a value.
\<close>

definition sandbox_decode :: "(json \<Rightarrow> string) \<Rightarrow> (string \<Rightarrow> string) \<Rightarrow> fcontent \<Rightarrow> lsbx_error + sandbox_record" where
  "sandbox_decode msg txt c =
     (case c of
        FText t \<Rightarrow> Inl (map_json_err ''failed to parse sandbox record json'' (txt t))
      | FJson v \<Rightarrow>
          if json_get v ''schema_version'' \<noteq> None then
            (case sandbox_envelope_of_json v of
               None \<Rightarrow> Inl (map_json_err ''failed to parse sandbox record envelope'' (msg v))
             | Some e \<Rightarrow> Inr (se_sandbox e))
          else from_legacy_flat msg v)"

text \<open>The library texts that reach messages: serde's error on a value and on a text.\<close>

record serde_text =
  sx_value :: "json \<Rightarrow> string"
  sx_text :: "string \<Rightarrow> string"

definition sandbox_load :: "serde_text \<Rightarrow> string \<Rightarrow> string \<Rightarrow> sandbox_record store_op" where
  "sandbox_load sx sd i =
     bindE (mapErr (map_io_err (''failed to open sandbox record '' @ i))
             (read_file (store_dir sd) (record_file i))) (\<lambda>c.
     liftE (sandbox_decode (sx_value sx) (sx_text sx) c))"

text \<open>Removing a file that is already gone counts as removed.\<close>

definition ignore_missing :: "string \<Rightarrow> unit io \<Rightarrow> unit store_op" where
  "ignore_missing context m s =
     (case m s of
        (Inr u, s') \<Rightarrow> (Inr (), s')
      | (Inl e, s') \<Rightarrow> (if io_kind e = KNotFound then Inr () else Inl (map_io_err context e), s'))"

definition sandbox_delete :: "string \<Rightarrow> string \<Rightarrow> unit store_op" where
  "sandbox_delete sd i =
     ignore_missing (''failed to delete sandbox record '' @ i) (remove_file (store_dir sd) (record_file i))"

fun sandbox_list_entries :: "serde_text \<Rightarrow> string \<Rightarrow> string list \<Rightarrow> sandbox_record list store_op" where
  "sandbox_list_entries sx sd [] = retE []"
| "sandbox_list_entries sx sd (n # ns) =
     bindE (mapErr (map_io_err ''failed to read state dir entry'') (io_op (retE ()))) (\<lambda>_.
     if file_extension n = Some ''json'' then
       bindE (sandbox_load sx sd (file_stem n)) (\<lambda>r.
       bindE (sandbox_list_entries sx sd ns) (\<lambda>rs. retE (r # rs)))
     else sandbox_list_entries sx sd ns)"

definition sandbox_list :: "serde_text \<Rightarrow> string \<Rightarrow> sandbox_record list store_op" where
  "sandbox_list sx sd s =
     (if \<not> dir_exists (store_dir sd) s then (Inr [], s)
      else bindE (mapErr (map_io_err ''failed to read state dir'') (read_dir (store_dir sd)))
             (sandbox_list_entries sx sd) s)"

subsection \<open>The CI job store\<close>

record ci_job_record =
  cj_job_id :: string
  cj_queue_label :: string
  cj_runner_group :: "string option"
  cj_host_prefix :: "string option"
  cj_phase :: string
  cj_sandbox_id :: "string option"
  cj_runner_name :: "string option"
  cj_dispatched_job_name :: "string option"
  cj_actual_job_id :: "string option"
  cj_actual_job_name :: "string option"
  cj_diverged :: bool
  cj_repository :: string
  cj_created_at :: string
  cj_updated_at :: string
  cj_lease_expires_at :: "string option"
  cj_last_error :: "string option"

definition ci_job_to_json :: "ci_job_record \<Rightarrow> json" where
  "ci_job_to_json r = JObj
     [(''job_id'', JStr (cj_job_id r)), (''queue_label'', JStr (cj_queue_label r)),
      (''runner_group'', jstr_opt (cj_runner_group r)), (''host_prefix'', jstr_opt (cj_host_prefix r)),
      (''phase'', JStr (cj_phase r)), (''sandbox_id'', jstr_opt (cj_sandbox_id r)),
      (''runner_name'', jstr_opt (cj_runner_name r)),
      (''dispatched_job_name'', jstr_opt (cj_dispatched_job_name r)),
      (''actual_job_id'', jstr_opt (cj_actual_job_id r)),
      (''actual_job_name'', jstr_opt (cj_actual_job_name r)),
      (''diverged'', JBool (cj_diverged r)), (''repository'', JStr (cj_repository r)),
      (''created_at'', JStr (cj_created_at r)), (''updated_at'', JStr (cj_updated_at r)),
      (''lease_expires_at'', jstr_opt (cj_lease_expires_at r)),
      (''last_error'', jstr_opt (cj_last_error r))]"

definition ci_job_field_names :: "string list" where
  "ci_job_field_names =
     [''job_id'', ''queue_label'', ''runner_group'', ''host_prefix'', ''phase'', ''sandbox_id'',
      ''runner_name'', ''dispatched_job_name'', ''actual_job_id'', ''actual_job_name'', ''diverged'',
      ''repository'', ''created_at'', ''updated_at'', ''lease_expires_at'', ''last_error'']"

definition ci_job_of_json :: "json \<Rightarrow> ci_job_record option" where
  "ci_job_of_json v =
     Option.bind (struct_fields ci_job_field_names 0 v) (\<lambda>fs.
     Option.bind (fld_req fs ''job_id'' dec_str) (\<lambda>j.
     Option.bind (fld_req fs ''queue_label'' dec_str) (\<lambda>q.
     Option.bind (fld_opt fs ''runner_group'' dec_str) (\<lambda>rg.
     Option.bind (fld_opt fs ''host_prefix'' dec_str) (\<lambda>hp.
     Option.bind (fld_req fs ''phase'' dec_str) (\<lambda>ph.
     Option.bind (fld_opt fs ''sandbox_id'' dec_str) (\<lambda>sb.
     Option.bind (fld_opt fs ''runner_name'' dec_str) (\<lambda>rn.
     Option.bind (fld_opt fs ''dispatched_job_name'' dec_str) (\<lambda>dj.
     Option.bind (fld_opt fs ''actual_job_id'' dec_str) (\<lambda>ai.
     Option.bind (fld_opt fs ''actual_job_name'' dec_str) (\<lambda>an.
     Option.bind (fld_req fs ''diverged'' dec_bool) (\<lambda>dv.
     Option.bind (fld_req fs ''repository'' dec_str) (\<lambda>rp.
     Option.bind (fld_req fs ''created_at'' dec_str) (\<lambda>ca.
     Option.bind (fld_req fs ''updated_at'' dec_str) (\<lambda>ua.
     Option.bind (fld_opt fs ''lease_expires_at'' dec_str) (\<lambda>le.
     Option.bind (fld_opt fs ''last_error'' dec_str) (\<lambda>er.
       Some \<lparr>cj_job_id = j, cj_queue_label = q, cj_runner_group = rg, cj_host_prefix = hp,
             cj_phase = ph, cj_sandbox_id = sb, cj_runner_name = rn, cj_dispatched_job_name = dj,
             cj_actual_job_id = ai, cj_actual_job_name = an, cj_diverged = dv, cj_repository = rp,
             cj_created_at = ca, cj_updated_at = ua, cj_lease_expires_at = le,
             cj_last_error = er\<rparr>)))))))))))))))))"

definition ci_envelope_to_json :: "ci_job_record \<Rightarrow> json" where
  "ci_envelope_to_json r = JObj
     [(''schema_version'', JNum 1), (''kind'', JStr ''ci-job''), (''job'', ci_job_to_json r)]"

definition ci_envelope_of_json :: "json \<Rightarrow> ci_job_record option" where
  "ci_envelope_of_json v =
     Option.bind (struct_fields [''schema_version'', ''kind'', ''job''] 0 v) (\<lambda>fs.
     Option.bind (fld_req fs ''schema_version'' dec_u32) (\<lambda>_.
     Option.bind (fld_req fs ''kind'' dec_str) (\<lambda>_.
     fld_req fs ''job'' ci_job_of_json)))"

definition ci_store_dir :: "string \<Rightarrow> string" where
  "ci_store_dir sd = sd @ ''/ci-broker''"

definition ci_save :: "string \<Rightarrow> ci_job_record \<Rightarrow> unit store_op" where
  "ci_save sd r =
     atomic_write ''ci-broker dir'' ''ci job record'' (ci_store_dir sd) (record_file (cj_job_id r))
       (ci_envelope_to_json r)"

definition ci_decode :: "serde_text \<Rightarrow> fcontent \<Rightarrow> lsbx_error + ci_job_record" where
  "ci_decode sx c =
     (case c of
        FText t \<Rightarrow> Inl (map_json_err ''failed to parse ci job envelope'' (sx_text sx t))
      | FJson v \<Rightarrow>
          (case ci_envelope_of_json v of
             None \<Rightarrow> Inl (map_json_err ''failed to parse ci job envelope'' (sx_value sx v))
           | Some r \<Rightarrow> Inr r))"

definition ci_load :: "serde_text \<Rightarrow> string \<Rightarrow> string \<Rightarrow> ci_job_record store_op" where
  "ci_load sx sd i =
     bindE (mapErr (map_io_err (''failed to open ci job record '' @ i))
             (read_file (ci_store_dir sd) (record_file i))) (\<lambda>c.
     liftE (ci_decode sx c))"

definition ci_terminal :: "string \<Rightarrow> bool" where
  "ci_terminal p \<longleftrightarrow> p = ''completed'' \<or> p = ''failed''"

fun ci_in_flight_entries :: "serde_text \<Rightarrow> string \<Rightarrow> string list \<Rightarrow> ci_job_record list store_op" where
  "ci_in_flight_entries sx sd [] = retE []"
| "ci_in_flight_entries sx sd (n # ns) =
     bindE (mapErr (map_io_err ''failed to read ci-broker dir entry'') (io_op (retE ()))) (\<lambda>_.
     if file_extension n = Some ''json'' then
       bindE (ci_load sx sd (file_stem n)) (\<lambda>r.
       bindE (ci_in_flight_entries sx sd ns) (\<lambda>rs.
         retE (if \<not> ci_terminal (cj_phase r) then r # rs else rs)))
     else ci_in_flight_entries sx sd ns)"

definition ci_list_in_flight :: "serde_text \<Rightarrow> string \<Rightarrow> ci_job_record list store_op" where
  "ci_list_in_flight sx sd s =
     (if \<not> dir_exists (ci_store_dir sd) s then (Inr [], s)
      else bindE (mapErr (map_io_err ''failed to read ci-broker dir'') (read_dir (ci_store_dir sd)))
             (ci_in_flight_entries sx sd) s)"

definition ci_delete :: "string \<Rightarrow> string \<Rightarrow> unit store_op" where
  "ci_delete sd i =
     ignore_missing ''failed to delete ci job record'' (remove_file (ci_store_dir sd) (record_file i))"

subsection \<open>The interface of a record store\<close>

text \<open>
  \<open>view s k\<close> is the record a reader of key \<open>k\<close> would decode in state \<open>s\<close>; \<open>calm s\<close> says that the
  operating system refuses no call from \<open>s\<close> on.
\<close>

locale record_store =
  fixes put :: "'r \<Rightarrow> ('s, lsbx_error, unit) comp"
    and get :: "string \<Rightarrow> ('s, lsbx_error, 'r) comp"
    and del :: "string \<Rightarrow> ('s, lsbx_error, unit) comp"
    and key :: "'r \<Rightarrow> string"
    and view :: "'s \<Rightarrow> string \<Rightarrow> 'r option"
    and calm :: "'s \<Rightarrow> bool"
  assumes put_ok: "put r s = (Inr u, s') \<Longrightarrow> view s' = (view s)(key r \<mapsto> r)"
    and put_err: "put r s = (Inl e, s') \<Longrightarrow> view s' = view s"
    and get_keeps: "view (snd (get k s)) = view s"
    and get_ok: "get k s = (Inr r, s') \<Longrightarrow> view s k = Some r"
    and del_ok: "del k s = (Inr u, s') \<Longrightarrow> view s' = (view s)(k := None)"
    and del_err: "del k s = (Inl e, s') \<Longrightarrow> view s' = view s"
    and put_calm: "calm s \<Longrightarrow> fst (put r s) = Inr ()"
    and get_calm: "calm s \<Longrightarrow> view s k = Some r \<Longrightarrow> fst (get k s) = Inr r"
    and del_calm: "calm s \<Longrightarrow> fst (del k s) = Inr ()"
    and calm_put: "calm (snd (put r s)) = calm s"
    and calm_get: "calm (snd (get k s)) = calm s"
    and calm_del: "calm (snd (del k s)) = calm s"
begin

lemma read_after_write:
  assumes "put r s = (Inr u, s')" and "calm s'"
  shows "fst (get (key r) s') = Inr r"
  using get_calm [OF assms(2)] put_ok [OF assms(1)] by simp

lemma put_all_or_nothing:
  "view (snd (put r s)) = view s \<or> view (snd (put r s)) = (view s)(key r \<mapsto> r)"
proof (cases "put r s")
  case (Pair x s')
  then show ?thesis by (cases x) (auto dest: put_ok put_err)
qed

lemma put_result:
  "view (snd (put r s)) = (case fst (put r s) of Inr _ \<Rightarrow> (view s)(key r \<mapsto> r) | Inl _ \<Rightarrow> view s)"
proof (cases "put r s")
  case (Pair x s')
  then show ?thesis by (cases x) (auto dest: put_ok put_err)
qed

lemma del_result:
  "view (snd (del k s)) = (case fst (del k s) of Inr _ \<Rightarrow> (view s)(k := None) | Inl _ \<Rightarrow> view s)"
proof (cases "del k s")
  case (Pair x s')
  then show ?thesis by (cases x) (auto dest: del_ok del_err)
qed

lemma read_other_after_write:
  assumes "k \<noteq> key r" "get k (snd (put r s)) = (Inr r', s'')"
  shows "view s k = Some r'"
  using get_ok [OF assms(2)] assms(1) by (auto simp: put_result split: sum.splits)

lemma get_fails_after_del:
  assumes "del k s = (Inr u, s')"
  shows "\<exists>e. fst (get k s') = Inl e"
proof (cases "get k s'")
  case (Pair x s'')
  then show ?thesis using get_ok [of k s'] del_ok [OF assms] by (cases x) auto
qed

lemma del_twice:
  "calm s \<Longrightarrow> fst (del k (snd (del k s))) = Inr () \<and> view (snd (del k (snd (del k s)))) = (view s)(k := None)"
  using del_calm [of s k] del_calm [of "snd (del k s)" k]
  by (simp add: del_result calm_del)

end

subsection \<open>The stores provide it\<close>

lemma atomic_write_Inr:
  assumes "atomic_write dn rn d n j s = (Inr u, s')"
  shows "fs_files s' = AList.update (d, n) (FJson j, 384) (fs_files s)"
  using assms unfolding atomic_write_def
  by (auto simp: bindE_Inr_iff dest!: temp_step_Inr temp_persist_Inr frame_files(1-3,6))

lemma atomic_write_Inl:
  assumes "atomic_write dn rn d n j s = (Inl e, s')"
  shows "fs_files s' = fs_files s"
  using assms unfolding atomic_write_def
  by (auto simp: bindE_Inl_iff mapErr_Inl_iff dest!: temp_persist_Inl frame_files)

lemma atomic_write_plan [frame_simps]: "fs_plan (snd (atomic_write dn rn d n j s)) = fs_plan s"
  unfolding atomic_write_def
  by (intro bindE_inv [where P = "\<lambda>x. fs_plan x = fs_plan s"])
    (simp_all add: frame_simps)

lemma atomic_write_calm:
  assumes "calm s" shows "fst (atomic_write dn rn d n j s) = Inr ()"
proof -
  obtain s1 where 1: "create_dir_all d s = (Inr (), s1)" "calm s1" "dir_mode s1 d \<noteq> None"
    using calm_steps(1,2) [OF assms, of d] assms
    by (metis calm_cong fs_ops_plan(1) prod.collapse)
  obtain x s2 where 2: "dir_metadata d s1 = (Inr x, s2)" "calm s2" "dir_mode s2 d \<noteq> None"
    using calm_steps(3,4) [OF 1(2), of d] 1(2,3)
    by (metis calm_cong fs_ops_plan(2) prod.collapse rangeE)
  obtain s3 where 3: "set_dir_mode d 448 s2 = (Inr (), s3)" "calm s3" "dir_mode s3 d \<noteq> None"
    using calm_steps(5,6) [OF 2(2), of d 448] 2(2,3)
    by (metis calm_cong fs_ops_plan(3) prod.collapse)
  obtain t4 s4 where 4: "temp_new_in d s3 = (Inr t4, s4)" "calm s4"
    using calm_steps(7) [OF 3(2), of d] 3(2,3)
    by (metis calm_cong fs_ops_plan(4) prod.collapse rangeE)
  obtain t5 s5 where 5: "temp_write t4 (FJson j) s4 = (Inr t5, s5)" "calm s5"
    using calm_steps(8) [OF 4(2), of t4 "FJson j"] 4(2)
    by (metis calm_cong fs_ops_plan(5) prod.collapse rangeE)
  obtain y s6 where 6: "temp_metadata t5 s5 = (Inr y, s6)" "calm s6"
    using calm_steps(9) [OF 5(2), of t5] 5(2)
    by (metis calm_cong fs_ops_plan(6) prod.collapse rangeE)
  obtain t7 s7 where 7: "temp_set_mode t5 384 s6 = (Inr t7, s7)" "calm s7"
    using calm_steps(10) [OF 6(2), of t5 384] 6(2)
    by (metis calm_cong fs_ops_plan(7) prod.collapse rangeE)
  obtain s8 where 8: "temp_persist t7 n s7 = (Inr (), s8)"
    using calm_steps(11) [OF 7(2), of t7 n] by (metis prod.collapse)
  show ?thesis using 1 2 3 4 5 6 7 8 by (simp add: atomic_write_def)
qed

text \<open>What a reader of an id would decode; the text of serde's messages plays no part.\<close>

definition no_text :: serde_text where
  "no_text = \<lparr>sx_value = (\<lambda>_. []), sx_text = (\<lambda>_. [])\<rparr>"

definition right_of :: "'e + 'a \<Rightarrow> 'a option" where
  "right_of r = (case r of Inl _ \<Rightarrow> None | Inr x \<Rightarrow> Some x)"

definition sandbox_view :: "string \<Rightarrow> fs \<Rightarrow> string \<Rightarrow> sandbox_record option" where
  "sandbox_view sd s i =
     Option.bind (fs_get s (store_dir sd) (record_file i))
       (\<lambda>(c, _). right_of (sandbox_decode (sx_value no_text) (sx_text no_text) c))"

definition ci_view :: "string \<Rightarrow> fs \<Rightarrow> string \<Rightarrow> ci_job_record option" where
  "ci_view sd s i =
     Option.bind (fs_get s (ci_store_dir sd) (record_file i)) (\<lambda>(c, _). right_of (ci_decode no_text c))"

lemma right_of_simps [simp]: "right_of (Inr x) = Some x" "right_of (Inl e) = None"
  by (simp_all add: right_of_def)

lemma right_of_Some [simp]: "right_of r = Some x \<longleftrightarrow> r = Inr x"
  by (cases r) auto

lemma record_file_inj [simp]: "record_file a = record_file b \<longleftrightarrow> a = b"
  by (simp add: record_file_def)

lemma store_dirs_differ [simp]: "store_dir sd \<noteq> ci_store_dir sd" "ci_store_dir sd \<noteq> store_dir sd"
  by (simp_all add: store_dir_def ci_store_dir_def)

lemma right_of_sandbox_decode:
  "right_of (sandbox_decode m t c) = right_of (sandbox_decode m' t' c)"
  by (simp add: sandbox_decode_def from_legacy_flat_def split: fcontent.splits option.splits)

lemma right_of_ci_decode: "right_of (ci_decode sx c) = right_of (ci_decode sx' c)"
  by (simp add: ci_decode_def split: fcontent.splits option.splits)

lemma sandbox_decode_saved [simp]:
  "sandbox_decode m t (FJson (sandbox_envelope_to_json
     \<lparr>se_schema_version = Suc 0, se_kind = k, se_sandbox = r\<rparr>)) = Inr r"
  by (simp add: sandbox_decode_def sandbox_envelope_round_trip)

lemma sandbox_decode_legacy: "sandbox_decode m t (FJson (sandbox_to_json r)) = Inr r"
  by (simp add: sandbox_decode_def from_legacy_flat_def)

lemma ci_job_round_trip [simp]: "ci_job_of_json (ci_job_to_json r) = Some r"
  by (simp add: ci_job_of_json_def ci_job_to_json_def struct_fields_def fld_defs)

lemma ci_envelope_round_trip [simp]: "ci_envelope_of_json (ci_envelope_to_json r) = Some r"
  by (simp add: ci_envelope_of_json_def ci_envelope_to_json_def struct_fields_def fld_defs)

lemma ci_decode_saved [simp]: "ci_decode sx (FJson (ci_envelope_to_json r)) = Inr r"
  by (simp add: ci_decode_def)

lemma sandbox_view_cong: "fs_files s' = fs_files s \<Longrightarrow> sandbox_view sd s' = sandbox_view sd s"
  by (simp add: sandbox_view_def fs_get_def fun_eq_iff)

lemma ci_view_cong: "fs_files s' = fs_files s \<Longrightarrow> ci_view sd s' = ci_view sd s"
  by (simp add: ci_view_def fs_get_def fun_eq_iff)

lemma read_file_calm:
  "calm s \<Longrightarrow> fst (read_file d n s) = (case fs_get s d n of None \<Rightarrow> Inl os_missing | Some (c, _) \<Rightarrow> Inr c)"
  by (auto simp: read_file_def io_op_def calm_def Let_def fs_get_def split: option.splits)

lemma remove_file_calm:
  "calm s \<Longrightarrow> fst (remove_file d n s) = (case fs_get s d n of None \<Rightarrow> Inl os_missing | Some _ \<Rightarrow> Inr ())"
  by (auto simp: remove_file_def io_op_def calm_def Let_def fs_get_def split: option.splits)

lemma sandbox_load_snd [frame_simps]:
  "fs_files (snd (sandbox_load sx sd i s)) = fs_files s" "fs_plan (snd (sandbox_load sx sd i s)) = fs_plan s"
  using fs_ops_files(8) [of "store_dir sd" "record_file i" s] fs_ops_plan(9) [of "store_dir sd" "record_file i" s]
  by (auto simp: sandbox_load_def bindE_def mapErr_def split: prod.splits sum.splits)

lemma ci_load_snd [frame_simps]:
  "fs_files (snd (ci_load sx sd i s)) = fs_files s" "fs_plan (snd (ci_load sx sd i s)) = fs_plan s"
  using fs_ops_files(8) [of "ci_store_dir sd" "record_file i" s] fs_ops_plan(9) [of "ci_store_dir sd" "record_file i" s]
  by (auto simp: ci_load_def bindE_def mapErr_def split: prod.splits sum.splits)

lemma sandbox_decode_any:
  "sandbox_decode m t c = Inr r \<Longrightarrow> sandbox_decode m' t' c = Inr r"
  using right_of_sandbox_decode [of m t c m' t'] by (metis right_of_Some)

lemma ci_decode_any: "ci_decode sx c = Inr r \<Longrightarrow> ci_decode sx' c = Inr r"
  using right_of_ci_decode [of sx c sx'] by (metis right_of_Some)

lemma sandbox_load_Inr:
  assumes "sandbox_load sx sd i s = (Inr r, s')"
  shows "sandbox_view sd s i = Some r"
proof -
  from assms obtain c s1 where c: "read_file (store_dir sd) (record_file i) s = (Inr c, s1)"
    and d: "sandbox_decode (sx_value sx) (sx_text sx) c = Inr r"
    by (auto simp: sandbox_load_def bindE_Inr_iff)
  from read_file_Inr [OF c] sandbox_decode_any [OF d] show ?thesis
    by (auto simp: sandbox_view_def)
qed

lemma ci_load_Inr:
  assumes "ci_load sx sd i s = (Inr r, s')"
  shows "ci_view sd s i = Some r"
proof -
  from assms obtain c s1 where c: "read_file (ci_store_dir sd) (record_file i) s = (Inr c, s1)"
    and d: "ci_decode sx c = Inr r"
    by (auto simp: ci_load_def bindE_Inr_iff)
  from read_file_Inr [OF c] ci_decode_any [OF d] show ?thesis
    by (auto simp: ci_view_def)
qed

lemma sandbox_load_calm:
  assumes "calm s" "sandbox_view sd s i = Some r"
  shows "fst (sandbox_load sx sd i s) = Inr r"
proof -
  from assms(2) obtain c m where c: "fs_get s (store_dir sd) (record_file i) = Some (c, m)"
    and d: "sandbox_decode (sx_value no_text) (sx_text no_text) c = Inr r"
    by (auto simp: sandbox_view_def bind_eq_Some_conv)
  have "fst (read_file (store_dir sd) (record_file i) s) = Inr c"
    using read_file_calm [OF assms(1)] by (simp add: c)
  then obtain s1 where "read_file (store_dir sd) (record_file i) s = (Inr c, s1)"
    by (metis prod.collapse)
  then show ?thesis using sandbox_decode_any [OF d] by (simp add: sandbox_load_def)
qed

lemma ci_load_calm:
  assumes "calm s" "ci_view sd s i = Some r"
  shows "fst (ci_load sx sd i s) = Inr r"
proof -
  from assms(2) obtain c m where c: "fs_get s (ci_store_dir sd) (record_file i) = Some (c, m)"
    and d: "ci_decode no_text c = Inr r"
    by (auto simp: ci_view_def bind_eq_Some_conv)
  have "fst (read_file (ci_store_dir sd) (record_file i) s) = Inr c"
    using read_file_calm [OF assms(1)] by (simp add: c)
  then obtain s1 where "read_file (ci_store_dir sd) (record_file i) s = (Inr c, s1)"
    by (metis prod.collapse)
  then show ?thesis using ci_decode_any [OF d] by (simp add: ci_load_def)
qed

lemma sandbox_save_Inr:
  "sandbox_save sd r s = (Inr u, s') \<Longrightarrow> sandbox_view sd s' = (sandbox_view sd s)(sr_id r \<mapsto> r)"
  by (auto simp: sandbox_save_def sandbox_view_def fs_get_def fun_eq_iff fs_get_update
      dest!: atomic_write_Inr)

lemma ci_save_Inr: "ci_save sd r s = (Inr u, s') \<Longrightarrow> ci_view sd s' = (ci_view sd s)(cj_job_id r \<mapsto> r)"
  by (auto simp: ci_save_def ci_view_def fs_get_def fun_eq_iff fs_get_update dest!: atomic_write_Inr)

lemma ignore_missing_remove:
  assumes "ignore_missing ctx (remove_file d n) s = (r, s')"
  shows "r = Inr () \<Longrightarrow> fs_get s' d' n' = (if d' = d \<and> n' = n then None else fs_get s d' n')"
    and "r = Inl e \<Longrightarrow> fs_files s' = fs_files s"
proof -
  obtain q where q: "remove_file d n s = (q, s')"
    and r: "r = (case q of Inr u \<Rightarrow> Inr () | Inl e \<Rightarrow> if io_kind e = KNotFound then Inr () else Inl (map_io_err ctx e))"
    using assms by (cases "remove_file d n s") (auto simp: ignore_missing_def split: sum.splits)
  show "r = Inr () \<Longrightarrow> fs_get s' d' n' = (if d' = d \<and> n' = n then None else fs_get s d' n')"
    and "r = Inl e \<Longrightarrow> fs_files s' = fs_files s"
    using remove_file_cases [OF q] r by (auto simp: fs_get_def split: if_splits)
qed

lemma sandbox_delete_Inr:
  "sandbox_delete sd i s = (Inr u, s') \<Longrightarrow>
   fs_get s' d n = (if d = store_dir sd \<and> n = record_file i then None else fs_get s d n)"
  unfolding sandbox_delete_def by (rule ignore_missing_remove(1)) simp_all

lemma ci_delete_Inr:
  "ci_delete sd i s = (Inr u, s') \<Longrightarrow>
   fs_get s' d n = (if d = ci_store_dir sd \<and> n = record_file i then None else fs_get s d n)"
  unfolding ci_delete_def by (rule ignore_missing_remove(1)) simp_all

lemma delete_Inl:
  "sandbox_delete sd i s = (Inl e, s') \<Longrightarrow> fs_files s' = fs_files s"
  "ci_delete sd i s = (Inl e, s') \<Longrightarrow> fs_files s' = fs_files s"
  unfolding sandbox_delete_def ci_delete_def by (rule ignore_missing_remove(2), simp_all)+

lemma ignore_missing_snd [simp]: "snd (ignore_missing ctx m s) = snd (m s)"
  by (simp add: ignore_missing_def split: prod.splits sum.splits)

lemma ignore_missing_calm:
  "calm s \<Longrightarrow> fst (ignore_missing ctx (remove_file d n) s) = Inr ()"
  using remove_file_calm [of s d n]
  by (cases "remove_file d n s") (auto simp: ignore_missing_def os_missing_def split: option.splits)

interpretation sandboxes: record_store "sandbox_save sd" "sandbox_load sx sd" "sandbox_delete sd" sr_id
  "sandbox_view sd" calm for sd sx
proof unfold_locales
  fix s r s' e k u
  show "sandbox_save sd r s = (Inr u, s') \<Longrightarrow> sandbox_view sd s' = (sandbox_view sd s)(sr_id r \<mapsto> r)"
    by (rule sandbox_save_Inr)
  show "sandbox_save sd r s = (Inl e, s') \<Longrightarrow> sandbox_view sd s' = sandbox_view sd s"
    by (auto simp: sandbox_save_def intro!: sandbox_view_cong dest: atomic_write_Inl)
  show "sandbox_view sd (snd (sandbox_load sx sd k s)) = sandbox_view sd s"
    by (rule sandbox_view_cong) (simp add: frame_simps)
  show "sandbox_load sx sd k s = (Inr r, s') \<Longrightarrow> sandbox_view sd s k = Some r"
    by (rule sandbox_load_Inr)
  show "sandbox_delete sd k s = (Inr u, s') \<Longrightarrow> sandbox_view sd s' = (sandbox_view sd s)(k := None)"
    by (simp add: sandbox_view_def fun_eq_iff sandbox_delete_Inr)
  show "sandbox_delete sd k s = (Inl e, s') \<Longrightarrow> sandbox_view sd s' = sandbox_view sd s"
    by (auto intro!: sandbox_view_cong dest: delete_Inl)
  show "calm s \<Longrightarrow> fst (sandbox_save sd r s) = Inr ()"
    by (simp add: sandbox_save_def atomic_write_calm)
  show "calm s \<Longrightarrow> sandbox_view sd s k = Some r \<Longrightarrow> fst (sandbox_load sx sd k s) = Inr r"
    by (rule sandbox_load_calm)
  show "calm s \<Longrightarrow> fst (sandbox_delete sd k s) = Inr ()"
    by (simp add: sandbox_delete_def ci_delete_def ignore_missing_calm)
  show "calm (snd (sandbox_save sd r s)) = calm s" "calm (snd (sandbox_load sx sd k s)) = calm s"
    "calm (snd (sandbox_delete sd k s)) = calm s"
    by (auto intro!: calm_cong simp: frame_simps sandbox_save_def sandbox_delete_def)
qed

interpretation ci_jobs: record_store "ci_save sd" "ci_load sx sd" "ci_delete sd" cj_job_id
  "ci_view sd" calm for sd sx
proof unfold_locales
  fix s r s' e k u
  show "ci_save sd r s = (Inr u, s') \<Longrightarrow> ci_view sd s' = (ci_view sd s)(cj_job_id r \<mapsto> r)"
    by (rule ci_save_Inr)
  show "ci_save sd r s = (Inl e, s') \<Longrightarrow> ci_view sd s' = ci_view sd s"
    by (auto simp: ci_save_def intro!: ci_view_cong dest: atomic_write_Inl)
  show "ci_view sd (snd (ci_load sx sd k s)) = ci_view sd s"
    by (rule ci_view_cong) (simp add: frame_simps)
  show "ci_load sx sd k s = (Inr r, s') \<Longrightarrow> ci_view sd s k = Some r"
    by (rule ci_load_Inr)
  show "ci_delete sd k s = (Inr u, s') \<Longrightarrow> ci_view sd s' = (ci_view sd s)(k := None)"
    by (simp add: ci_view_def fun_eq_iff ci_delete_Inr)
  show "ci_delete sd k s = (Inl e, s') \<Longrightarrow> ci_view sd s' = ci_view sd s"
    by (auto intro!: ci_view_cong dest: delete_Inl)
  show "calm s \<Longrightarrow> fst (ci_save sd r s) = Inr ()"
    by (simp add: ci_save_def atomic_write_calm)
  show "calm s \<Longrightarrow> ci_view sd s k = Some r \<Longrightarrow> fst (ci_load sx sd k s) = Inr r"
    by (rule ci_load_calm)
  show "calm s \<Longrightarrow> fst (ci_delete sd k s) = Inr ()"
    by (simp add: sandbox_delete_def ci_delete_def ignore_missing_calm)
  show "calm (snd (ci_save sd r s)) = calm s" "calm (snd (ci_load sx sd k s)) = calm s"
    "calm (snd (ci_delete sd k s)) = calm s"
    by (auto intro!: calm_cong simp: frame_simps ci_save_def ci_delete_def)
qed

subsection \<open>Listing\<close>

lemma dir_names_iff: "n \<in> set (dir_names s d) \<longleftrightarrow> fs_get s d n \<noteq> None"
  by (force simp: dir_names_def fs_get_def map_of_eq_None_iff)

lemma io_op_ret_snd [frame_simps]:
  "fs_files (snd (io_op (retE x) s)) = fs_files s" "fs_plan (snd (io_op (retE x) s)) = fs_plan s"
  by (auto simp: io_op_def Let_def split: option.splits)

lemma io_op_ret_Inr: "io_op (retE x) s = (Inr y, s') \<Longrightarrow> y = x \<and> fs_files s' = fs_files s"
  by (auto simp: io_op_def Let_def split: option.splits)

lemma sandbox_load_files: "sandbox_load sx sd i s = (r, s') \<Longrightarrow> fs_files s' = fs_files s"
  using sandbox_load_snd(1) by (metis snd_conv)

lemma ci_load_files: "ci_load sx sd i s = (r, s') \<Longrightarrow> fs_files s' = fs_files s"
  using ci_load_snd(1) by (metis snd_conv)

text \<open>A successful listing decoded every JSON file, in the order of the names.\<close>

lemma sandbox_list_entries_Inr:
  "sandbox_list_entries sx sd ns s = (Inr rs, s') \<Longrightarrow>
   map Some rs = map (\<lambda>n. sandbox_view sd s (file_stem n))
     (filter (\<lambda>n. file_extension n = Some ''json'') ns) \<and> fs_files s' = fs_files s"
proof (induction ns arbitrary: s s' rs)
  case Nil
  then show ?case by simp
next
  case (Cons n ns)
  show ?case
  proof (cases "file_extension n = Some ''json''")
    case True
    with Cons.prems obtain s1 r s2 rs' where
      st: "io_op (retE ()) s = (Inr (), s1)" "sandbox_load sx sd (file_stem n) s1 = (Inr r, s2)"
      "sandbox_list_entries sx sd ns s2 = (Inr rs', s')" "rs = r # rs'"
      by (auto simp: bindE_Inr_iff)
    have f: "fs_files s1 = fs_files s" "fs_files s2 = fs_files s"
      using st io_op_ret_Inr sandbox_load_files by metis+
    show ?thesis using Cons.IH [OF st(3)] sandbox_load_Inr [OF st(2)] True f st(4)
      by (simp add: sandbox_view_cong [OF f(1)] sandbox_view_cong [OF f(2)])
  next
    case False
    with Cons.prems obtain s1 where
      st: "io_op (retE ()) s = (Inr (), s1)" "sandbox_list_entries sx sd ns s1 = (Inr rs, s')"
      by (auto simp: bindE_Inr_iff)
    have f: "fs_files s1 = fs_files s" using st io_op_ret_Inr by metis
    show ?thesis using Cons.IH [OF st(2)] False by (simp add: sandbox_view_cong [OF f] f)
  qed
qed

lemma ci_in_flight_entries_Inr:
  "ci_in_flight_entries sx sd ns s = (Inr rs, s') \<Longrightarrow>
   map Some rs = filter (\<lambda>v. case v of None \<Rightarrow> True | Some r \<Rightarrow> \<not> ci_terminal (cj_phase r))
     (map (\<lambda>n. ci_view sd s (file_stem n)) (filter (\<lambda>n. file_extension n = Some ''json'') ns))
   \<and> fs_files s' = fs_files s"
proof (induction ns arbitrary: s s' rs)
  case Nil
  then show ?case by simp
next
  case (Cons n ns)
  show ?case
  proof (cases "file_extension n = Some ''json''")
    case True
    with Cons.prems obtain s1 r s2 rs' where
      st: "io_op (retE ()) s = (Inr (), s1)" "ci_load sx sd (file_stem n) s1 = (Inr r, s2)"
      "ci_in_flight_entries sx sd ns s2 = (Inr rs', s')"
      "rs = (if \<not> ci_terminal (cj_phase r) then r # rs' else rs')"
      by (auto simp: bindE_Inr_iff)
    have f: "fs_files s1 = fs_files s" "fs_files s2 = fs_files s"
      using st io_op_ret_Inr ci_load_files by metis+
    show ?thesis using Cons.IH [OF st(3)] ci_load_Inr [OF st(2)] True f st(4)
      by (simp add: ci_view_cong [OF f(1)] ci_view_cong [OF f(2)])
  next
    case False
    with Cons.prems obtain s1 where
      st: "io_op (retE ()) s = (Inr (), s1)" "ci_in_flight_entries sx sd ns s1 = (Inr rs, s')"
      by (auto simp: bindE_Inr_iff)
    have f: "fs_files s1 = fs_files s" using st io_op_ret_Inr by metis
    show ?thesis using Cons.IH [OF st(2)] False by (simp add: ci_view_cong [OF f] f)
  qed
qed

lemma read_dir_Inr: "read_dir d s = (Inr ns, s') \<Longrightarrow> ns = dir_names s d \<and> fs_files s' = fs_files s"
  by (auto simp: read_dir_def io_op_def Let_def dir_names_def dir_mode_def split: option.splits)

lemma ignore_other_names:
  assumes "file_extension n = Some ''json''"
  shows "record_file (file_stem n) = n"
  using json_file_name_stem [OF assms] by (simp add: record_file_def)

lemma sandbox_list_Inr:
  assumes "sandbox_list sx sd s = (Inr rs, s')"
  shows "fs_files s' = fs_files s"
    and "dir_exists (store_dir sd) s \<Longrightarrow> r \<in> set rs \<longleftrightarrow>
      (\<exists>i. file_extension (record_file i) = Some ''json'' \<and> sandbox_view sd s i = Some r)"
proof -
  show "fs_files s' = fs_files s"
    using assms
    by (auto simp: sandbox_list_def bindE_Inr_iff split: if_splits
        dest!: read_dir_Inr sandbox_list_entries_Inr)
  assume d: "dir_exists (store_dir sd) s"
  with assms obtain s1 where
    e: "sandbox_list_entries sx sd (dir_names s (store_dir sd)) s1 = (Inr rs, s')"
    and f: "fs_files s1 = fs_files s"
    by (auto simp: sandbox_list_def bindE_Inr_iff dest!: read_dir_Inr)
  have m: "map Some rs = map (\<lambda>n. sandbox_view sd s (file_stem n))
     (filter (\<lambda>n. file_extension n = Some ''json'') (dir_names s (store_dir sd)))"
    using sandbox_list_entries_Inr [OF e] by (simp add: sandbox_view_cong [OF f])
  have "r \<in> set rs \<longleftrightarrow> Some r \<in> set (map Some rs)" by auto
  also have "\<dots> \<longleftrightarrow> (\<exists>n. n \<in> set (dir_names s (store_dir sd)) \<and> file_extension n = Some ''json''
      \<and> sandbox_view sd s (file_stem n) = Some r)"
    unfolding m by (auto simp: image_iff)
  also have "\<dots> \<longleftrightarrow> (\<exists>i. file_extension (record_file i) = Some ''json'' \<and> sandbox_view sd s i = Some r)"
  proof safe
    fix n assume "file_extension n = Some ''json''" "sandbox_view sd s (file_stem n) = Some r"
    then show "\<exists>i. file_extension (record_file i) = Some ''json'' \<and> sandbox_view sd s i = Some r"
      using ignore_other_names by metis
  next
    fix i assume j: "file_extension (record_file i) = Some ''json''" and v: "sandbox_view sd s i = Some r"
    have st: "file_stem (record_file i) = i"
      using ignore_other_names [OF j] by simp
    have "fs_get s (store_dir sd) (record_file i) \<noteq> None"
      using v by (auto simp: sandbox_view_def bind_eq_Some_conv)
    then show "\<exists>n. n \<in> set (dir_names s (store_dir sd)) \<and> file_extension n = Some ''json''
      \<and> sandbox_view sd s (file_stem n) = Some r"
      using j v st by (auto simp: dir_names_iff intro!: exI [of _ "record_file i"])
  qed
  finally show "r \<in> set rs \<longleftrightarrow>
      (\<exists>i. file_extension (record_file i) = Some ''json'' \<and> sandbox_view sd s i = Some r)" .
qed

text \<open>The in-flight listing holds exactly the stored records that are not terminal.\<close>

lemma ci_in_flight_Inr:
  assumes "ci_list_in_flight sx sd s = (Inr rs, s')" and "dir_exists (ci_store_dir sd) s"
  shows "fs_files s' = fs_files s \<and>
    (r \<in> set rs \<longleftrightarrow> (\<exists>i. file_extension (record_file i) = Some ''json'' \<and> ci_view sd s i = Some r \<and> \<not> ci_terminal (cj_phase r)))"
proof -
  let ?js = "filter (\<lambda>n. file_extension n = Some ''json'') (dir_names s (ci_store_dir sd))"
  obtain s1 where rd: "read_dir (ci_store_dir sd) s = (Inr (dir_names s (ci_store_dir sd)), s1)"
    and f1: "fs_files s1 = fs_files s" and l: "ci_in_flight_entries sx sd (dir_names s (ci_store_dir sd)) s1 = (Inr rs, s')"
    using assms by (auto simp: ci_list_in_flight_def bindE_Inr_iff dest: read_dir_Inr)
  note e = ci_in_flight_entries_Inr [OF l]
  have v: "ci_view sd s1 = ci_view sd s" by (rule ci_view_cong [OF f1])
  have m: "map Some rs = filter (\<lambda>v. case v of None \<Rightarrow> True | Some r \<Rightarrow> \<not> ci_terminal (cj_phase r))
      (map (\<lambda>n. ci_view sd s (file_stem n)) ?js)" using e by (simp add: v)
  have a: "r \<in> set rs \<longleftrightarrow> Some r \<in> set (map Some rs)" by (simp only: set_map inj_image_mem_iff [OF inj_Some])
  have b: "Some r \<in> set (map Some rs) \<longleftrightarrow>
      (\<exists>n \<in> set ?js. ci_view sd s (file_stem n) = Some r) \<and> \<not> ci_terminal (cj_phase r)"
    unfolding m by (auto simp: image_iff)
  have c: "(\<exists>n \<in> set ?js. ci_view sd s (file_stem n) = Some r) \<longleftrightarrow>
      (\<exists>i. file_extension (record_file i) = Some ''json'' \<and> ci_view sd s i = Some r)" (is "?L \<longleftrightarrow> ?R")
  proof
    assume ?L
    then obtain n where n: "file_extension n = Some ''json''" "ci_view sd s (file_stem n) = Some r" by auto
    then have "record_file (file_stem n) = n" using ignore_other_names by blast
    with n show ?R by metis
  next
    assume ?R
    then obtain i where i: "file_extension (record_file i) = Some ''json''" "ci_view sd s i = Some r" by blast
    then have g: "fs_get s (ci_store_dir sd) (record_file i) \<noteq> None" by (auto simp: ci_view_def bind_eq_Some_conv)
    have st: "file_stem (record_file i) = i" using ignore_other_names [OF i(1)] by simp
    have "record_file i \<in> set (dir_names s (ci_store_dir sd))" using g by (simp only: dir_names_iff not_False_eq_True)
    then have "record_file i \<in> set ?js" using i(1) by (simp only: set_filter mem_Collect_eq)
    moreover have "ci_view sd s (file_stem (record_file i)) = Some r" using i(2) by (simp only: st)
    ultimately show ?L by (rule bexI [rotated])
  qed
  have f: "fs_files s' = fs_files s" using e f1 by (simp only:)
  show ?thesis using f unfolding a b c by blast
qed

end
