(* ===== verification/Lsbx_Lock.thy ===== *)
theory Lsbx_Lock
  imports Lsbx_Store
begin

text \<open>
  The lock sentinel of \<open>lock.rs\<close>, on which the broker's process lock is built. Several
  processes run \<open>acquire\<close> or \<open>try_acquire\<close> on one path, one system call per step, in any
  interleaving, and something outside may unlink or recreate the path. Inodes are numbers; the
  kernel's \<open>flock\<close> table says which process has an inode locked.
\<close>

datatype lock_pc =
    LIdle
  | LOpened nat
  | LLocked nat
  | LGuard nat
  | LFailed lsbx_error

record lock_sys =
  ls_path :: "nat option"
  ls_next :: nat
  ls_flock :: "nat \<Rightarrow> nat option"
  ls_pc :: "nat \<Rightarrow> lock_pc"
  ls_blocking :: "nat \<Rightarrow> bool"
  ls_unlinked :: bool

definition lock_held_msg :: "string \<Rightarrow> lsbx_error" where
  "lock_held_msg path = LockContention (''lock held elsewhere: '' @ path)"

definition lock_recreated_msg :: "string \<Rightarrow> lsbx_error" where
  "lock_recreated_msg path = LockContention (''lock path was recreated during acquire: '' @ path)"

definition set_pc :: "nat \<Rightarrow> lock_pc \<Rightarrow> lock_sys \<Rightarrow> lock_sys" where
  "set_pc p c s = s\<lparr>ls_pc := (ls_pc s)(p := c)\<rparr>"

definition set_flock :: "nat \<Rightarrow> nat option \<Rightarrow> lock_sys \<Rightarrow> lock_sys" where
  "set_flock i h s = s\<lparr>ls_flock := (ls_flock s)(i := h)\<rparr>"

text \<open>\<open>open\<close> with \<open>create(true)\<close>: the inode at the path, a new one when there is none.\<close>

definition open_lock :: "nat \<Rightarrow> lock_sys \<Rightarrow> lock_sys" where
  "open_lock p s = (case ls_path s of
     Some i \<Rightarrow> set_pc p (LOpened i) s
   | None \<Rightarrow> set_pc p (LOpened (ls_next s)) (s\<lparr>ls_path := Some (ls_next s), ls_next := Suc (ls_next s)\<rparr>))"

text \<open>
  The comparison of the held descriptor's inode with the inode at the path: equal, the guard is
  handed out; otherwise the descriptor is dropped, which unlocks it, and the blocking variant
  starts over while the other one reports contention.
\<close>

definition still_same_file :: "lock_sys \<Rightarrow> nat \<Rightarrow> bool" where
  "still_same_file s i \<longleftrightarrow> ls_path s = Some i"

definition check_lock :: "string \<Rightarrow> nat \<Rightarrow> nat \<Rightarrow> lock_sys \<Rightarrow> lock_sys" where
  "check_lock path p i s =
     (if still_same_file s i then set_pc p (LGuard i) s
      else set_pc p (if ls_blocking s p then LIdle else LFailed (lock_recreated_msg path))
             (set_flock i None s))"

inductive lock_step :: "string \<Rightarrow> lock_sys \<Rightarrow> lock_sys \<Rightarrow> bool" for path where
  step_open: "ls_pc s p = LIdle \<Longrightarrow> lock_step path s (open_lock p s)"
| step_flock: "ls_pc s p = LOpened i \<Longrightarrow> ls_flock s i = None \<Longrightarrow>
    lock_step path s (set_pc p (LLocked i) (set_flock i (Some p) s))"
| step_would_block: "ls_pc s p = LOpened i \<Longrightarrow> ls_flock s i = Some q \<Longrightarrow> \<not> ls_blocking s p \<Longrightarrow>
    lock_step path s (set_pc p (LFailed (lock_held_msg path)) s)"
| step_check: "ls_pc s p = LLocked i \<Longrightarrow> lock_step path s (check_lock path p i s)"
| step_drop: "ls_pc s p = LGuard i \<Longrightarrow> lock_step path s (set_pc p LIdle (set_flock i None s))"
| step_unlink: "ls_path s = Some i \<Longrightarrow> lock_step path s (s\<lparr>ls_path := None, ls_unlinked := True\<rparr>)"
| step_recreate: "ls_path s = None \<Longrightarrow>
    lock_step path s (s\<lparr>ls_path := Some (ls_next s), ls_next := Suc (ls_next s)\<rparr>)"

definition lock_init :: "(nat \<Rightarrow> bool) \<Rightarrow> lock_sys" where
  "lock_init bl = \<lparr>ls_path = None, ls_next = 0, ls_flock = (\<lambda>_. None), ls_pc = (\<lambda>_. LIdle),
                  ls_blocking = bl, ls_unlinked = False\<rparr>"

inductive lock_reach :: "string \<Rightarrow> lock_sys \<Rightarrow> bool" for path where
  reach_init: "lock_reach path (lock_init bl)"
| reach_step: "lock_reach path s \<Longrightarrow> lock_step path s t \<Longrightarrow> lock_reach path t"

inductive_cases lock_stepE: "lock_step path s t"

definition owns :: "lock_sys \<Rightarrow> nat \<Rightarrow> nat \<Rightarrow> bool" where
  "owns s p i \<longleftrightarrow> ls_pc s p = LLocked i \<or> ls_pc s p = LGuard i"

text \<open>
  The invariant: the flock table agrees with the processes' states, and as long as nothing was
  unlinked every open descriptor is on the inode at the path.
\<close>

definition table_agrees :: "lock_sys \<Rightarrow> bool" where
  "table_agrees s \<longleftrightarrow> (\<forall>p i. owns s p i \<longleftrightarrow> ls_flock s i = Some p)"

definition on_path :: "lock_sys \<Rightarrow> bool" where
  "on_path s \<longleftrightarrow>
     (\<not> ls_unlinked s \<longrightarrow> (\<forall>p i. ls_pc s p = LOpened i \<or> owns s p i \<longrightarrow> ls_path s = Some i))"

definition lock_inv :: "lock_sys \<Rightarrow> bool" where
  "lock_inv s \<longleftrightarrow> table_agrees s \<and> on_path s"

lemmas lock_ops = set_pc_def set_flock_def open_lock_def check_lock_def still_same_file_def

lemma lock_inv_init: "lock_inv (lock_init bl)"
  by (simp add: lock_inv_def table_agrees_def on_path_def owns_def lock_init_def)

lemma owns_set_pc [simp]:
  "owns (set_pc p c s) q i \<longleftrightarrow> (if q = p then c = LLocked i \<or> c = LGuard i else owns s q i)"
  by (simp add: owns_def set_pc_def)

lemma owns_frame [simp]:
  "owns (set_flock j h s) q i = owns s q i" "owns (s\<lparr>ls_path := x\<rparr>) q i = owns s q i"
  "owns (s\<lparr>ls_next := k\<rparr>) q i = owns s q i" "owns (s\<lparr>ls_unlinked := b\<rparr>) q i = owns s q i"
  by (simp_all add: owns_def set_flock_def)

lemma table_agreesD: "table_agrees s \<Longrightarrow> ls_flock s j = Some p \<Longrightarrow> owns s p j"
  by (simp add: table_agrees_def)

lemma not_owns_flock:
  "table_agrees s \<Longrightarrow> (\<And>j. \<not> owns s p j) \<Longrightarrow> ls_flock s i \<noteq> Some p"
  using table_agreesD by blast

lemma table_agrees_set_pc:
  "table_agrees s \<Longrightarrow> (\<And>j. \<not> owns s p j) \<Longrightarrow> (\<And>j. c \<noteq> LLocked j \<and> c \<noteq> LGuard j) \<Longrightarrow>
   table_agrees (set_pc p c s)"
  using not_owns_flock [of s p] by (auto simp: table_agrees_def set_pc_def owns_def)

lemma table_agrees_frame [simp]:
  "table_agrees (s\<lparr>ls_path := x\<rparr>) = table_agrees s" "table_agrees (s\<lparr>ls_next := k\<rparr>) = table_agrees s"
  "table_agrees (s\<lparr>ls_unlinked := b\<rparr>) = table_agrees s"
  by (simp_all add: table_agrees_def)

lemma owns_unique: "table_agrees s \<Longrightarrow> owns s p i \<Longrightarrow> owns s q i \<Longrightarrow> q = p"
  by (simp add: table_agrees_def)

lemma owns_one: "owns s p i \<Longrightarrow> owns s p j \<longleftrightarrow> j = i"
  by (auto simp: owns_def)

lemma flock_frame [simp]:
  "ls_flock (set_pc p c s) = ls_flock s" "ls_flock (set_flock i h s) = (ls_flock s)(i := h)"
  "ls_path (set_pc p c s) = ls_path s" "ls_path (set_flock i h s) = ls_path s"
  by (simp_all add: set_pc_def set_flock_def)

lemma flock_iff: "table_agrees s \<Longrightarrow> ls_flock s i = Some p \<longleftrightarrow> owns s p i"
  by (simp add: table_agrees_def)

lemma table_agrees_unlock:
  assumes "table_agrees s" and "owns s p i" and "\<And>j. c \<noteq> LLocked j \<and> c \<noteq> LGuard j"
  shows "table_agrees (set_pc p c (set_flock i None s))"
proof -
  have "owns s q i \<Longrightarrow> q = p" for q using owns_unique [OF assms(1,2)] .
  then show ?thesis
    using assms(3) owns_one [OF assms(2)] by (auto simp: table_agrees_def [of "set_pc _ _ _"] flock_iff [OF assms(1)])
qed

lemma table_agrees_step: "lock_step path s t \<Longrightarrow> table_agrees s \<Longrightarrow> table_agrees t"
proof (induction rule: lock_step.induct)
  case (step_open s p)
  then show ?case
    by (auto simp: open_lock_def owns_def split: option.splits intro!: table_agrees_set_pc)
next
  case (step_flock s p i)
  then have "\<not> owns s q i" for q using flock_iff [OF step_flock(3), of i q] by simp
  moreover have "\<not> owns s p j" for j using step_flock by (simp add: owns_def)
  ultimately show ?case
    by (auto simp: table_agrees_def [of "set_pc _ _ _"] flock_iff [OF step_flock(3)])
next
  case (step_would_block s p i q)
  then show ?case by (auto simp: owns_def intro!: table_agrees_set_pc)
next
  case (step_check s p i)
  then have o: "owns s p i" by (simp add: owns_def)
  have "table_agrees (set_pc p (LGuard i) s)"
    using owns_one [OF o] by (auto simp: table_agrees_def [of "set_pc _ _ _"] flock_iff [OF step_check(2)])
  then show ?case using table_agrees_unlock [OF step_check(2) o] by (simp add: check_lock_def)
next
  case (step_drop s p i)
  then show ?case by (auto simp: owns_def intro!: table_agrees_unlock)
qed simp_all

lemma on_path_set_pc:
  "on_path s \<Longrightarrow> (\<And>i. c = LOpened i \<or> c = LLocked i \<or> c = LGuard i \<Longrightarrow> ls_path s = Some i) \<Longrightarrow>
   on_path (set_pc p c s)"
  by (auto simp: on_path_def set_pc_def owns_def)

lemma on_path_set_flock [simp]: "on_path (set_flock i h s) = on_path s"
  by (simp add: on_path_def set_flock_def owns_def)

lemma on_path_recreate:
  "on_path s \<Longrightarrow> ls_path s = None \<Longrightarrow> on_path (s\<lparr>ls_path := Some i, ls_next := k\<rparr>)"
  by (auto simp: on_path_def owns_def)

lemma on_path_step: "lock_step path s t \<Longrightarrow> on_path s \<Longrightarrow> on_path t"
proof (induction rule: lock_step.induct)
  case (step_open s p)
  then show ?case
    by (auto simp: open_lock_def split: option.splits intro!: on_path_set_pc on_path_recreate)
next
  case (step_flock s p i)
  show ?case
  proof (cases "ls_unlinked s")
    case True
    then show ?thesis by (simp add: on_path_def set_pc_def set_flock_def)
  next
    case False
    with step_flock have "ls_path s = Some i" by (simp add: on_path_def)
    with step_flock show ?thesis by (intro on_path_set_pc) auto
  qed
next
  case (step_check s p i)
  show ?case
  proof (cases "ls_path s = Some i")
    case True
    with step_check show ?thesis
      by (auto simp: check_lock_def still_same_file_def intro!: on_path_set_pc)
  next
    case False
    with step_check have "ls_unlinked s" by (auto simp: on_path_def owns_def)
    then show ?thesis by (simp add: on_path_def check_lock_def set_pc_def set_flock_def)
  qed
next
  case (step_drop s p i)
  then show ?case by (intro on_path_set_pc) simp_all
next
  case (step_unlink s i)
  then show ?case by (simp add: on_path_def)
next
  case (step_recreate s)
  then show ?case by (intro on_path_recreate)
qed (auto intro!: on_path_set_pc)

lemma lock_step_inv: "lock_step path s t \<Longrightarrow> lock_inv s \<Longrightarrow> lock_inv t"
  by (simp add: lock_inv_def table_agrees_step on_path_step)

lemma lock_reach_inv: "lock_reach path s \<Longrightarrow> lock_inv s"
  by (induction rule: lock_reach.induct) (auto intro: lock_inv_init lock_step_inv)

lemma one_guard_per_inode:
  "lock_inv s \<Longrightarrow> ls_pc s p = LGuard i \<Longrightarrow> ls_pc s q = LGuard i \<Longrightarrow> p = q"
  by (metis lock_inv_def table_agrees_def owns_def option.inject)

lemma guards_on_path:
  "lock_inv s \<Longrightarrow> \<not> ls_unlinked s \<Longrightarrow> ls_pc s p = LGuard i \<Longrightarrow> ls_path s = Some i"
  by (simp add: lock_inv_def on_path_def owns_def)

end
