(* ===== verification/Lsbx_Keys.thy ===== *)
theory Lsbx_Keys
  imports Lsbx_Lock
begin

text \<open>
  The crate \<open>lsbx-keys\<close>: ephemeral key pairs in their own directories (\<open>keygen.rs\<close>) and the
  revocation of orphaned keys by their \<open>lsbx:\<close> comment (\<open>reconcile.rs\<close>). The key material and
  its OpenSSH texts come from the crates \<open>ed25519-dalek\<close> and \<open>ssh-key\<close> and are parameters: a seed
  and a comment give the private text or an error text, and the public line or an error text.
\<close>

record key_lib =
  kl_temp_dir :: string
  kl_private :: "nat \<Rightarrow> string \<Rightarrow> string + string"
  kl_public :: "nat \<Rightarrow> string \<Rightarrow> string + string"

record keypair =
  kp_private_key_path :: string
  kp_public_key_line :: string
  kp_label :: string

definition cviol :: "string \<Rightarrow> io_error \<Rightarrow> lsbx_error" where
  "cviol context e = ContractViolated (context @ '': '' @ io_text e)"

text \<open>Dropping a temporary directory that was not kept removes it, whatever that call says.\<close>

definition on_error :: "('s, 'e, 'a) comp \<Rightarrow> ('s \<Rightarrow> 's) \<Rightarrow> ('s, 'e, 'a) comp" where
  "on_error m c s = (case m s of (Inl e, s') \<Rightarrow> (Inl e, c s') | (Inr x, s') \<Rightarrow> (Inr x, s'))"

definition mode_0700 :: nat where "mode_0700 = 448"
definition mode_0600 :: nat where "mode_0600 = 384"

definition key_dir_prefix :: string where
  "key_dir_prefix = ''lsbx-key-''"

definition key_file_name :: string where
  "key_file_name = ''id_ed25519''"

definition key_lib_result :: "string \<Rightarrow> (string + string) \<Rightarrow> lsbx_error + string" where
  "key_lib_result context r = (case r of Inl t \<Rightarrow> Inl (ContractViolated (context @ '': '' @ t)) | Inr x \<Rightarrow> Inr x)"

definition generate_ephemeral_keypair_in :: "key_lib \<Rightarrow> string \<Rightarrow> string \<Rightarrow> keypair store_op" where
  "generate_ephemeral_keypair_in kl base label s0 =
     bindE (mapErr (cviol ''failed to create base directory for ephemeral key'') (create_dir_all base)) (\<lambda>_.
     bindE (if base \<noteq> kl_temp_dir kl
            then mapErr (cviol ''failed to set key base directory permissions'') (set_dir_mode base mode_0700)
            else retE ()) (\<lambda>_.
     bindE (mapErr (cviol ''failed to create temp dir for ephemeral key'') (temp_dir_in base key_dir_prefix)) (\<lambda>dir.
     bindE (on_error (mapErr (cviol ''failed to set temp dir permissions'') (set_dir_mode dir mode_0700))
              (\<lambda>s. snd (remove_dir_all dir s))) (\<lambda>_.
     bindE (liftE (key_lib_result ''failed to construct ephemeral ssh private key''
              (kl_private kl (fs_tick s0) (''lsbx:'' @ label)))) (\<lambda>priv.
     bindE (mapErr (cviol ''failed to create private key file'') (create_new_file dir key_file_name mode_0600)) (\<lambda>_.
     bindE (mapErr (cviol ''failed to write private key file'') (write_file dir key_file_name (FText priv))) (\<lambda>_.
     bindE (liftE (key_lib_result ''failed to serialize ephemeral public key''
              (kl_public kl (fs_tick s0) (''lsbx:'' @ label)))) (\<lambda>pub.
     retE \<lparr>kp_private_key_path = dir @ ''/'' @ key_file_name, kp_public_key_line = pub,
           kp_label = label\<rparr>)))))))) s0"

definition cleanup_keypair :: "keypair \<Rightarrow> unit store_op" where
  "cleanup_keypair kp s =
     (case path_parent (kp_private_key_path kp) of
        None \<Rightarrow> (Inr (), s)
      | Some parent \<Rightarrow>
          if \<not> starts_with key_dir_prefix (path_file_name parent) then (Inr (), s)
          else (case remove_dir_all parent s of
                  (Inr _, s') \<Rightarrow> (Inr (), s')
                | (Inl e, s') \<Rightarrow>
                    (if io_kind e = KNotFound then Inr ()
                     else Inl (ContractViolated (''failed to remove ephemeral key directory '' @ parent
                                 @ '': '' @ io_text e)), s')))"

subsection \<open>Orphaned keys\<close>

definition label_prefix :: string where
  "label_prefix = ''lsbx:''"

definition parse_label_tag :: "string \<Rightarrow> string option" where
  "parse_label_tag comment = strip_prefix label_prefix comment"

record 's tagged_key =
  tk_comment :: string
  tk_revoke :: "('s, lsbx_error, unit) comp"

fun reconcile_orphaned_keys :: "'s tagged_key list \<Rightarrow> string list \<Rightarrow> nat \<Rightarrow> ('s, lsbx_error, nat) comp" where
  "reconcile_orphaned_keys [] known n = retE n"
| "reconcile_orphaned_keys (k # ks) known n =
     (case parse_label_tag (tk_comment k) of
        None \<Rightarrow> reconcile_orphaned_keys ks known n
      | Some label \<Rightarrow>
          if label \<in> set known then reconcile_orphaned_keys ks known n
          else bindE (tk_revoke k) (\<lambda>_. reconcile_orphaned_keys ks known (Suc n)))"

text \<open>The keys the reconciliation is to revoke.\<close>

definition orphaned :: "string list \<Rightarrow> 's tagged_key \<Rightarrow> bool" where
  "orphaned known k \<longleftrightarrow> (\<exists>l. tk_comment k = label_prefix @ l \<and> l \<notin> set known)"

fun revoke_all :: "'s tagged_key list \<Rightarrow> ('s, lsbx_error, unit) comp" where
  "revoke_all [] = retE ()"
| "revoke_all (k # ks) = bindE (tk_revoke k) (\<lambda>_. revoke_all ks)"

lemma parse_label_tag_Some: "parse_label_tag c = Some l \<longleftrightarrow> c = label_prefix @ l"
  by (simp only: parse_label_tag_def strip_prefix_Some)

lemma orphaned_iff:
  "orphaned known k \<longleftrightarrow> (case parse_label_tag (tk_comment k) of None \<Rightarrow> False | Some l \<Rightarrow> l \<notin> set known)"
proof -
  have "orphaned known k \<longleftrightarrow> (\<exists>l. parse_label_tag (tk_comment k) = Some l \<and> l \<notin> set known)"
    by (simp only: orphaned_def parse_label_tag_Some)
  then show ?thesis by (simp split: option.splits)
qed

lemma bindE_assoc: "bindE (bindE m k) l s = bindE m (\<lambda>x. bindE (k x) l) s"
  by (simp add: bindE_def split: prod.splits sum.splits)

lemma reconcile_orphaned_keys_eq:
  "reconcile_orphaned_keys ks known n s =
     bindE (revoke_all (filter (orphaned known) ks))
       (\<lambda>_. retE (n + length (filter (orphaned known) ks))) s"
proof (induction ks arbitrary: n s)
  case Nil
  show ?case by (simp add: bindE_def)
next
  case (Cons k ks)
  show ?case
  proof (cases "orphaned known k")
    case True
    then obtain l where "parse_label_tag (tk_comment k) = Some l" "l \<notin> set known"
      by (auto simp: orphaned_iff split: option.splits)
    with True show ?thesis
      by (simp add: bindE_assoc) (simp add: bindE_def Cons.IH split: prod.splits sum.splits)
  next
    case False
    then have "reconcile_orphaned_keys (k # ks) known n s = reconcile_orphaned_keys ks known n s"
      by (auto simp: orphaned_iff split: option.splits)
    with False show ?thesis by (simp add: Cons.IH)
  qed
qed

subsection \<open>Key directories\<close>

lemma cleanup_keypair_plan [frame_simps]: "fs_plan (snd (cleanup_keypair kp s)) = fs_plan s"
proof -
  have "fs_plan s' = fs_plan s" if "remove_dir_all d s = (r, s')" for d r s'
    using fs_ops_plan(15) [of d s] that by simp
  then show ?thesis
    by (auto simp: cleanup_keypair_def split: option.splits prod.splits sum.splits)
qed

end
