(* ===== verification/Lsbx_Backend.thy ===== *)
theory Lsbx_Backend
  imports Lsbx_Keys
begin

text \<open>
  The trait \<open>Backend\<close> of \<open>lsbx-kernel/backend.rs\<close>, as a record of operations on the backend's
  own state, with its default methods; the contract its clients rely on, as a locale; and the demo
  backend (\<open>lsbx-backend-demo\<close>), which interprets it. A run also has a duration in nanoseconds
  and, for a caller that drops it early, the state it leaves behind.
\<close>

record created_vm =
  cv_vm_tag :: string
  cv_host :: string
  cv_https_url :: "string option"

record command_output =
  co_exit_code :: int
  co_stdout :: string
  co_stderr :: string

record create_from_golden_request =
  cg_golden :: string
  cg_name :: string
  cg_pubkey :: string
  cg_cpu :: nat
  cg_memory :: string
  cg_os :: string

record backend_capabilities =
  bc_console :: bool
  bc_remote_transport :: bool
  bc_snapshot :: bool

type_synonym ('b, 'a) bk_op = "('b, lsbx_error, 'a) comp"

record 'b backend =
  bk_capabilities :: backend_capabilities
  bk_create_from_golden :: "create_from_golden_request \<Rightarrow> ('b, created_vm) bk_op"
  bk_run :: "string \<Rightarrow> string list \<Rightarrow> nat \<Rightarrow> string option \<Rightarrow> ('b, command_output) bk_op"
  bk_run_time :: "string \<Rightarrow> string list \<Rightarrow> nat \<Rightarrow> string option \<Rightarrow> 'b \<Rightarrow> nat"
  bk_run_dropped :: "string \<Rightarrow> string list \<Rightarrow> nat \<Rightarrow> 'b \<Rightarrow> 'b"
  bk_put_file :: "string \<Rightarrow> string \<Rightarrow> string \<Rightarrow> string option \<Rightarrow> ('b, unit) bk_op"
  bk_get_file :: "string \<Rightarrow> string \<Rightarrow> string \<Rightarrow> string option \<Rightarrow> ('b, unit) bk_op"
  bk_destroy :: "string \<Rightarrow> ('b, unit) bk_op"
  bk_register_vm_key :: "string \<Rightarrow> string \<Rightarrow> ('b, unit) bk_op"
  bk_list_vms :: "('b, string list) bk_op"
  bk_list_golden_artifacts :: "('b, string list) bk_op"
  bk_reconcile_orphaned_keys :: "string list \<Rightarrow> ('b, nat) bk_op"
  bk_destroy_with_key :: "string \<Rightarrow> string \<Rightarrow> ('b, unit) bk_op"
  bk_rename_vm :: "string \<Rightarrow> string \<Rightarrow> ('b, unit) bk_op"

subsection \<open>The default methods of the trait\<close>

definition default_register_vm_key :: "string \<Rightarrow> string \<Rightarrow> ('b, unit) bk_op" where
  "default_register_vm_key tag key_path = retE ()"

definition default_list_golden_artifacts :: "('b, string list) bk_op \<Rightarrow> ('b, string list) bk_op" where
  "default_list_golden_artifacts list_vms = bindE list_vms (\<lambda>vms. retE (filter (starts_with ''lsbx-'') vms))"

definition default_reconcile_orphaned_keys :: "string list \<Rightarrow> ('b, nat) bk_op" where
  "default_reconcile_orphaned_keys known = retE 0"

definition default_destroy_with_key :: "(string \<Rightarrow> ('b, unit) bk_op) \<Rightarrow> string \<Rightarrow> string \<Rightarrow> ('b, unit) bk_op" where
  "default_destroy_with_key destroy tag pubkey = destroy tag"

subsection \<open>The contract\<close>

locale backend_contract =
  fixes be :: "'b backend" and live :: "'b \<Rightarrow> string set"
  assumes create_ok: "bk_create_from_golden be r s = (Inr v, s') \<Longrightarrow> live s' = insert (cv_vm_tag v) (live s)"
    and create_err: "bk_create_from_golden be r s = (Inl e, s') \<Longrightarrow> live s' = live s"
    and destroy_ok: "bk_destroy be t s = (Inr u, s') \<Longrightarrow> live s' = live s - {t}"
    and destroy_err: "bk_destroy be t s = (Inl e, s') \<Longrightarrow> live s' = live s"
    and destroy_not_found: "bk_destroy be t s = (Inl (NotFound m), s') \<Longrightarrow> t \<notin> live s"
    and destroy_with_key_ok: "bk_destroy_with_key be t k s = (Inr u, s') \<Longrightarrow> live s' = live s - {t}"
    and destroy_with_key_err: "bk_destroy_with_key be t k s = (Inl e, s') \<Longrightarrow> live s' = live s"
    and destroy_with_key_not_found:
      "bk_destroy_with_key be t k s = (Inl (NotFound m), s') \<Longrightarrow> t \<notin> live s"
    and run_live: "live (snd (bk_run be t c tmo i s)) = live s"
    and run_dropped_live: "live (bk_run_dropped be t c d s) = live s"
    and put_live: "live (snd (bk_put_file be t p q i s)) = live s"
    and get_live: "live (snd (bk_get_file be t p q i s)) = live s"
    and register_live: "live (snd (bk_register_vm_key be t p s)) = live s"
    and reconcile_live: "live (snd (bk_reconcile_orphaned_keys be ks s)) = live s"
    and list_vms_live: "live (snd (bk_list_vms be s)) = live s"
    and list_vms_ok: "bk_list_vms be s = (Inr vms, s') \<Longrightarrow> set vms = live s"
begin

lemma destroy_result:
  "live (snd (bk_destroy be t s)) = (case fst (bk_destroy be t s) of Inr _ \<Rightarrow> live s - {t} | Inl _ \<Rightarrow> live s)"
proof (cases "bk_destroy be t s")
  case (Pair x s')
  then show ?thesis by (cases x) (auto dest: destroy_ok destroy_err)
qed

lemma destroy_with_key_result:
  "live (snd (bk_destroy_with_key be t k s)) =
     (case fst (bk_destroy_with_key be t k s) of Inr _ \<Rightarrow> live s - {t} | Inl _ \<Rightarrow> live s)"
proof (cases "bk_destroy_with_key be t k s")
  case (Pair x s')
  then show ?thesis by (cases x) (auto dest: destroy_with_key_ok destroy_with_key_err)
qed

lemma destroy_shrinks: "live (snd (bk_destroy be t s)) \<subseteq> live s"
  by (auto simp: destroy_result split: sum.splits)

lemma destroyed_not_listed:
  assumes "bk_destroy be t s = (Inr u, s')" and "bk_list_vms be s' = (Inr vms, s'')"
  shows "t \<notin> set vms"
  using destroy_ok [OF assms(1)] list_vms_ok [OF assms(2)] by auto

end

subsection \<open>The demo backend\<close>

datatype fault_mode = FNone | FUnavailable | FHangOnRun | FPartialDestroyFailure

record demo_vm =
  dv_vm_tag :: string
  dv_host :: string
  dv_https_url :: "string option"

record demo_state =
  ds_internal :: "(string \<times> demo_vm) list"
  ds_fault :: fault_mode

definition demo_new :: demo_state where
  "demo_new = \<lparr>ds_internal = [], ds_fault = FNone\<rparr>"

definition demo_with_fault :: "fault_mode \<Rightarrow> demo_state" where
  "demo_with_fault m = \<lparr>ds_internal = [], ds_fault = m\<rparr>"

definition demo_unavailable :: lsbx_error where
  "demo_unavailable = BackendUnavailable ''DemoBackend is configured to be unavailable''"

definition demo_no_vm :: "string \<Rightarrow> lsbx_error" where
  "demo_no_vm tag = NotFound (''VM '' @ tag @ '' not found'')"

definition demo_has :: "demo_state \<Rightarrow> string \<Rightarrow> bool" where
  "demo_has s tag \<longleftrightarrow> map_of (ds_internal s) tag \<noteq> None"

text \<open>\<open>sha\<close> is the hexadecimal SHA-256 digest of a text (crates \<open>sha2\<close> and \<open>hex\<close>).\<close>

definition demo_create :: "(string \<Rightarrow> string) \<Rightarrow> create_from_golden_request \<Rightarrow> (demo_state, created_vm) bk_op" where
  "demo_create sha req s =
     (if ds_fault s = FUnavailable then (Inl demo_unavailable, s)
      else let h = take 12 (sha (cg_golden req @ '':'' @ cg_name req));
               tag = ''demo-'' @ h; host = h @ ''.demo.local'';
               url = Some (''https://'' @ host @ ''/novnc'')
           in (Inr \<lparr>cv_vm_tag = tag, cv_host = host, cv_https_url = url\<rparr>,
               s\<lparr>ds_internal := AList.update tag
                  \<lparr>dv_vm_tag = tag, dv_host = host, dv_https_url = url\<rparr> (ds_internal s)\<rparr>))"

definition demo_run :: "string \<Rightarrow> string list \<Rightarrow> nat \<Rightarrow> string option \<Rightarrow> (demo_state, command_output) bk_op" where
  "demo_run tag command tmo identity s =
     (if ds_fault s = FUnavailable then (Inl demo_unavailable, s)
      else if \<not> demo_has s tag then (Inl (demo_no_vm tag), s)
      else (Inr \<lparr>co_exit_code = 0, co_stdout = [], co_stderr = []\<rparr>, s))"

text \<open>Under the hang fault a run sleeps one second past the timeout it was handed.\<close>

definition demo_run_time :: "string \<Rightarrow> string list \<Rightarrow> nat \<Rightarrow> string option \<Rightarrow> demo_state \<Rightarrow> nat" where
  "demo_run_time tag command tmo identity s =
     (if ds_fault s = FHangOnRun \<and> demo_has s tag then tmo + 1000000000 else 0)"

definition demo_file :: "string \<Rightarrow> string \<Rightarrow> string \<Rightarrow> string option \<Rightarrow> (demo_state, unit) bk_op" where
  "demo_file tag source destination identity s =
     (if demo_has s tag then Inr () else Inl (demo_no_vm tag), s)"

definition demo_destroy :: "string \<Rightarrow> (demo_state, unit) bk_op" where
  "demo_destroy tag s =
     (if ds_fault s = FUnavailable then (Inl demo_unavailable, s)
      else if ds_fault s = FPartialDestroyFailure then
        (if \<not> demo_has s tag then Inl (demo_no_vm tag)
         else Inl (BackendUnavailable ''Partial destroy failure''), s)
      else if \<not> demo_has s tag then (Inl (demo_no_vm tag), s)
      else (Inr (), s\<lparr>ds_internal := AList.delete tag (ds_internal s)\<rparr>))"

definition demo_list_vms :: "(demo_state, string list) bk_op" where
  "demo_list_vms s =
     (if ds_fault s = FUnavailable then Inl demo_unavailable else Inr (map fst (ds_internal s)), s)"

definition demo_rename :: "string \<Rightarrow> string \<Rightarrow> (demo_state, unit) bk_op" where
  "demo_rename old_tag new_tag s =
     (if ds_fault s = FUnavailable then (Inl demo_unavailable, s)
      else (case map_of (ds_internal s) old_tag of
              None \<Rightarrow> (Inl (demo_no_vm old_tag), s)
            | Some vm \<Rightarrow>
                (Inr (), s\<lparr>ds_internal := AList.update new_tag (vm\<lparr>dv_vm_tag := new_tag\<rparr>)
                    (AList.delete old_tag (ds_internal s))\<rparr>)))"

definition demo_backend :: "(string \<Rightarrow> string) \<Rightarrow> demo_state backend" where
  "demo_backend sha =
     \<lparr>bk_capabilities = \<lparr>bc_console = True, bc_remote_transport = False, bc_snapshot = False\<rparr>,
      bk_create_from_golden = demo_create sha, bk_run = demo_run, bk_run_time = demo_run_time,
      bk_run_dropped = (\<lambda>_ _ _ s. s), bk_put_file = demo_file, bk_get_file = demo_file,
      bk_destroy = demo_destroy, bk_register_vm_key = default_register_vm_key,
      bk_list_vms = demo_list_vms,
      bk_list_golden_artifacts = default_list_golden_artifacts demo_list_vms,
      bk_reconcile_orphaned_keys = default_reconcile_orphaned_keys,
      bk_destroy_with_key = default_destroy_with_key demo_destroy, bk_rename_vm = demo_rename\<rparr>"

definition demo_live :: "demo_state \<Rightarrow> string set" where
  "demo_live s = {t. demo_has s t}"

lemma demo_live_keys: "demo_live s = fst ` set (ds_internal s)"
  by (auto simp: demo_live_def demo_has_def map_of_eq_None_iff image_iff)

lemma demo_live_simps:
  "demo_live (s\<lparr>ds_internal := AList.update t v (ds_internal s)\<rparr>) = insert t (demo_live s)"
  "demo_live (s\<lparr>ds_internal := AList.delete t (ds_internal s)\<rparr>) = demo_live s - {t}"
  by (auto simp: demo_live_def demo_has_def update_conv' delete_conv')

lemma demo_run_snd [simp]: "snd (demo_run t c tmo i s) = s"
  by (simp add: demo_run_def)

lemma demo_destroy_cases:
  "demo_destroy t s = (r, s') \<Longrightarrow>
     demo_live s' = (case r of Inr _ \<Rightarrow> demo_live s - {t} | Inl _ \<Rightarrow> demo_live s) \<and>
     (\<forall>m. r = Inl (NotFound m) \<longrightarrow> t \<notin> demo_live s)"
  by (auto simp: demo_destroy_def demo_live_simps demo_unavailable_def split: if_splits)
    (auto simp: demo_live_def)

interpretation demo: backend_contract "demo_backend sha" demo_live for sha
proof unfold_locales
  fix r :: create_from_golden_request and s s' :: demo_state and v e t u k m c tmo i d p dst ks vms
  show "bk_create_from_golden (demo_backend sha) r s = (Inr v, s') \<Longrightarrow>
      demo_live s' = insert (cv_vm_tag v) (demo_live s)"
    by (auto simp: demo_backend_def demo_create_def Let_def demo_live_simps split: if_splits)
  show "bk_create_from_golden (demo_backend sha) r s = (Inl e, s') \<Longrightarrow> demo_live s' = demo_live s"
    by (auto simp: demo_backend_def demo_create_def Let_def split: if_splits)
  show "bk_destroy (demo_backend sha) t s = (Inr u, s') \<Longrightarrow> demo_live s' = demo_live s - {t}"
    "bk_destroy (demo_backend sha) t s = (Inl e, s') \<Longrightarrow> demo_live s' = demo_live s"
    "bk_destroy (demo_backend sha) t s = (Inl (NotFound m), s') \<Longrightarrow> t \<notin> demo_live s"
    "bk_destroy_with_key (demo_backend sha) t k s = (Inr u, s') \<Longrightarrow> demo_live s' = demo_live s - {t}"
    "bk_destroy_with_key (demo_backend sha) t k s = (Inl e, s') \<Longrightarrow> demo_live s' = demo_live s"
    "bk_destroy_with_key (demo_backend sha) t k s = (Inl (NotFound m), s') \<Longrightarrow> t \<notin> demo_live s"
    by (auto simp: demo_backend_def default_destroy_with_key_def dest!: demo_destroy_cases)
  show "demo_live (snd (bk_run (demo_backend sha) t c tmo i s)) = demo_live s"
    "demo_live (bk_run_dropped (demo_backend sha) t c d s) = demo_live s"
    "demo_live (snd (bk_put_file (demo_backend sha) t p dst i s)) = demo_live s"
    "demo_live (snd (bk_get_file (demo_backend sha) t p dst i s)) = demo_live s"
    "demo_live (snd (bk_register_vm_key (demo_backend sha) t p s)) = demo_live s"
    "demo_live (snd (bk_reconcile_orphaned_keys (demo_backend sha) ks s)) = demo_live s"
    "demo_live (snd (bk_list_vms (demo_backend sha) s)) = demo_live s"
    by (simp_all add: demo_backend_def default_register_vm_key_def demo_file_def
        default_reconcile_orphaned_keys_def demo_list_vms_def)
  show "bk_list_vms (demo_backend sha) s = (Inr vms, s') \<Longrightarrow> set vms = demo_live s"
    by (force simp: demo_backend_def demo_list_vms_def demo_live_keys split: if_splits)
qed

end
