(* ===== verification/Lsbx_Lifecycle.thy ===== *)
theory Lsbx_Lifecycle
  imports Lsbx_Backend "HOL-Library.Char_ord" "HOL-Library.List_Lexorder"
begin

text \<open>
  The crate \<open>lsbx-lifecycle\<close>: creating, destroying and renewing a sandbox (\<open>create.rs\<close>), the
  expiry of its lease (\<open>lease.rs\<close>) and the sweep over expired ones (\<open>reap.rs\<close>). The state is the
  host's file system, the backend's state, the time in nanoseconds since the epoch and the number
  of random draws. Time passes in backend runs and in sleeps. The texts of time stamps and
  durations and the random numbers come from libraries (\<open>chrono\<close>, \<open>rand\<close>) and are parameters.
\<close>

record 'b world =
  w_fs :: fs
  w_bk :: 'b
  w_now :: nat
  w_rnd :: nat

record lib =
  lb_serde :: serde_text
  lb_keys :: key_lib
  lb_to_rfc3339 :: "int \<Rightarrow> string"
  lb_parse_rfc3339 :: "string \<Rightarrow> int option"
  lb_rand :: "nat \<Rightarrow> nat"
  lb_dur_text :: "nat \<Rightarrow> string"

type_synonym ('b, 'a) act = "('b world, lsbx_error, 'a) comp"

definition on_fs :: "'a store_op \<Rightarrow> ('b, 'a) act" where
  "on_fs m w = (case m (w_fs w) of (r, f) \<Rightarrow> (r, w\<lparr>w_fs := f\<rparr>))"

definition on_bk :: "('b, 'a) bk_op \<Rightarrow> ('b, 'a) act" where
  "on_bk m w = (case m (w_bk w) of (r, b) \<Rightarrow> (r, w\<lparr>w_bk := b\<rparr>))"

subsection \<open>Requests and records\<close>

record create_request =
  rq_profile :: string
  rq_golden :: "string option"
  rq_name :: "string option"
  rq_task_id :: "string option"
  rq_lease :: nat
  rq_ready_timeout :: nat
  rq_verify :: bool
  rq_cpu :: "nat option"
  rq_memory :: "string option"
  rq_flavor :: "string option"
  rq_streaming :: "string option"
  rq_healthchecks :: "string list list"
  rq_os :: "string option"

definition baked_guest_identity_pubkey :: string where
  "baked_guest_identity_pubkey = ''ssh-ed25519 AAAA lsbx-baked-guest-identity''"

definition golden_key_for_profile :: "create_request \<Rightarrow> string" where
  "golden_key_for_profile rq = unwrap_or (rq_profile rq) (rq_golden rq)"

definition rfc3339_now :: "lib \<Rightarrow> 'b world \<Rightarrow> string" where
  "rfc3339_now lb w = lb_to_rfc3339 lb (int (w_now w))"

definition rfc3339_now_plus :: "lib \<Rightarrow> 'b world \<Rightarrow> nat \<Rightarrow> string" where
  "rfc3339_now_plus lb w d = lb_to_rfc3339 lb (int (w_now w) + int d)"

definition hex_char :: "nat \<Rightarrow> char" where
  "hex_char d = (if d < 10 then char_of (48 + d) else char_of (87 + d))"

fun show_hex :: "nat \<Rightarrow> string" where
  "show_hex n = (if n < 16 then [hex_char n] else show_hex (n div 16) @ [hex_char (n mod 16)])"

declare show_hex.simps [simp del]

definition show_hex8 :: "nat \<Rightarrow> string" where
  "show_hex8 n = replicate (8 - length (show_hex n)) (CHR ''0'') @ show_hex n"

text \<open>The clock's nanoseconds as an \<open>i64\<close>, 0 when they do not fit; the suffix is a random \<open>u32\<close>.\<close>

definition uuid_like_id :: "lib \<Rightarrow> 'b world \<Rightarrow> string" where
  "uuid_like_id lb w =
     (let nanos = (if w_now w < 2 ^ 63 then w_now w else 0); suffix = lb_rand lb (w_rnd w) mod 2 ^ 32
      in ''sbx-'' @ show_hex nanos @ ''-'' @ show_hex8 suffix)"

subsection \<open>Readiness\<close>

text \<open>
  One attempt at the health checks, raced against a budget: \<open>None\<close> when the budget ran out, in
  which case the run in flight is dropped at that moment.
\<close>

fun healthchecks_pass ::
  "'b backend \<Rightarrow> string \<Rightarrow> string list list \<Rightarrow> nat \<Rightarrow> string option \<Rightarrow> nat \<Rightarrow> nat \<Rightarrow> 'b
   \<Rightarrow> bool option \<times> nat \<times> 'b" where
  "healthchecks_pass be tag [] tmo ident budget e b = (Some True, e, b)"
| "healthchecks_pass be tag (c # cs) tmo ident budget e b =
     (let d = bk_run_time be tag c tmo ident b
      in if budget < e + d then (None, budget, bk_run_dropped be tag c (budget - e) b)
         else (case bk_run be tag c tmo ident b of
                 (Inr out, b') \<Rightarrow>
                   if co_exit_code out = 0 then healthchecks_pass be tag cs tmo ident budget (e + d) b'
                   else (Some False, e + d, b')
               | (Inl _, b') \<Rightarrow> (Some False, e + d, b')))"

definition readiness_poll_interval :: nat where
  "readiness_poll_interval = 20000000"

definition not_ready :: "lib \<Rightarrow> string \<Rightarrow> nat \<Rightarrow> lsbx_error" where
  "not_ready lb tag tmo = ContractViolated (''sandbox '' @ tag @ '' did not become ready within ''
     @ lb_dur_text lb tmo @ '' (healthchecks did not pass)'')"

function poll_loop ::
  "lib \<Rightarrow> 'b backend \<Rightarrow> string \<Rightarrow> string list list \<Rightarrow> nat \<Rightarrow> string option \<Rightarrow> nat \<Rightarrow> ('b, unit) act" where
  "poll_loop lb be tag probe tmo ident deadline w =
     (let remaining = deadline - w_now w
      in if remaining = 0 then (Inl (not_ready lb tag tmo), w)
         else (case healthchecks_pass be tag probe remaining ident remaining 0 (w_bk w) of
                 (att, e, b) \<Rightarrow>
                   let w' = w\<lparr>w_bk := b, w_now := w_now w + e\<rparr>
                   in if att = Some True then (Inr (), w')
                      else let rest = deadline - w_now w'
                           in if rest = 0 then (Inl (not_ready lb tag tmo), w')
                              else poll_loop lb be tag probe tmo ident deadline
                                     (w'\<lparr>w_now := w_now w' + min readiness_poll_interval rest\<rparr>)))"
  by pat_completeness auto
termination
  by (relation "measure (\<lambda>(lb, be, tag, probe, tmo, ident, deadline, w). deadline - w_now w)")
    (auto simp: readiness_poll_interval_def)

declare poll_loop.simps [simp del]

definition poll_ready ::
  "lib \<Rightarrow> 'b backend \<Rightarrow> string \<Rightarrow> string list list \<Rightarrow> nat \<Rightarrow> string option \<Rightarrow> ('b, unit) act" where
  "poll_ready lb be tag checks tmo ident w =
     poll_loop lb be tag (if checks = [] then [[''true'']] else checks) tmo ident (w_now w + tmo) w"

subsection \<open>Creating a sandbox\<close>

definition backend_request :: "create_request \<Rightarrow> string \<Rightarrow> string \<Rightarrow> create_from_golden_request" where
  "backend_request rq name pubkey =
     \<lparr>cg_golden = golden_key_for_profile rq, cg_name = name, cg_pubkey = pubkey,
      cg_cpu = unwrap_or 1 (rq_cpu rq), cg_memory = unwrap_or ''1G'' (rq_memory rq),
      cg_os = unwrap_or ''linux'' (rq_os rq)\<rparr>"

definition new_record ::
  "create_request \<Rightarrow> string \<Rightarrow> string \<Rightarrow> keypair option \<Rightarrow> created_vm \<Rightarrow> string \<Rightarrow> string \<Rightarrow> sandbox_record" where
  "new_record rq i name kp vm created expires =
     \<lparr>sr_id = i, sr_name = name, sr_host = cv_host vm, sr_profile = rq_profile rq,
      sr_flavor = unwrap_or ''default'' (rq_flavor rq),
      sr_streaming = unwrap_or (if cv_https_url vm \<noteq> None then ''novnc'' else ''none'') (rq_streaming rq),
      sr_username = None, sr_key_name = map_option kp_label kp,
      sr_key_path = map_option kp_private_key_path kp,
      sr_key_dir = Option.bind kp (\<lambda>k. path_parent (kp_private_key_path k)),
      sr_pubkey = Some (case kp of Some k \<Rightarrow> kp_public_key_line k | None \<Rightarrow> baked_guest_identity_pubkey),
      sr_task_id = rq_task_id rq, sr_created_at = Some created, sr_lease_expires_at = Some expires,
      sr_vm_tag = Some (cv_vm_tag vm), sr_https_url = cv_https_url vm, sr_cleanup_failed = False,
      sr_repository_key = None, sr_repository = None, sr_extra = []\<rparr>"

definition drop_keypair :: "keypair option \<Rightarrow> 'b world \<Rightarrow> 'b world" where
  "drop_keypair kp w = (case kp of None \<Rightarrow> w | Some k \<Rightarrow> snd (on_fs (cleanup_keypair k) w))"

definition make_keypair :: "lib \<Rightarrow> string \<Rightarrow> create_request \<Rightarrow> string \<Rightarrow> ('b, keypair option) act" where
  "make_keypair lb sd rq i =
     (if rq_os rq = Some ''windows'' then retE None
      else bindE (on_fs (generate_ephemeral_keypair_in (lb_keys lb) (sd @ ''/keys'') i)) (\<lambda>k. retE (Some k)))"

definition register_key :: "'b backend \<Rightarrow> keypair option \<Rightarrow> created_vm \<Rightarrow> ('b, unit) act" where
  "register_key be kp vm =
     (case kp of
        None \<Rightarrow> retE ()
      | Some k \<Rightarrow>
          on_error (on_bk (bk_register_vm_key be (cv_vm_tag vm) (kp_private_key_path k)))
            (\<lambda>w. drop_keypair kp (snd (on_bk (bk_destroy be (cv_vm_tag vm)) w))))"

definition create :: "lib \<Rightarrow> 'b backend \<Rightarrow> string \<Rightarrow> create_request \<Rightarrow> ('b, public_sandbox) act" where
  "create lb be sd rq w0 =
     (let i = uuid_like_id lb w0; w = w0\<lparr>w_rnd := Suc (w_rnd w0)\<rparr>; name = unwrap_or i (rq_name rq)
      in bindE (make_keypair lb sd rq i) (\<lambda>kp.
         let pubkey = (case kp of Some k \<Rightarrow> kp_public_key_line k | None \<Rightarrow> baked_guest_identity_pubkey)
         in bindE (on_error (on_bk (bk_create_from_golden be (backend_request rq name pubkey)))
                     (drop_keypair kp)) (\<lambda>vm.
            bindE (register_key be kp vm) (\<lambda>_ w.
            let r = new_record rq i name kp vm (rfc3339_now lb w) (rfc3339_now_plus lb w (rq_lease rq))
            in bindE (on_fs (sandbox_save sd r)) (\<lambda>_.
               bindE (if rq_verify rq
                      then poll_ready lb be (cv_vm_tag vm) (rq_healthchecks rq) (rq_ready_timeout rq)
                             (map_option kp_private_key_path kp)
                      else retE ()) (\<lambda>_.
               retE (public r))) w))) w)"

subsection \<open>Destroying and renewing\<close>

definition destroy_vm :: "'b backend \<Rightarrow> sandbox_record \<Rightarrow> ('b, unit) act" where
  "destroy_vm be r =
     (case sr_vm_tag r of
        None \<Rightarrow> retE ()
      | Some tag \<Rightarrow>
          on_bk (case sr_pubkey r of
                   Some pk \<Rightarrow> bk_destroy_with_key be tag pk
                 | None \<Rightarrow> bk_destroy be tag))"

definition record_keypair :: "sandbox_record \<Rightarrow> string \<Rightarrow> keypair" where
  "record_keypair r path =
     \<lparr>kp_private_key_path = path, kp_public_key_line = unwrap_or [] (sr_pubkey r),
      kp_label = unwrap_or [] (sr_key_name r)\<rparr>"

definition cleanup_record_key :: "sandbox_record \<Rightarrow> unit store_op" where
  "cleanup_record_key r =
     (case sr_key_path r of None \<Rightarrow> retE () | Some p \<Rightarrow> cleanup_keypair (record_keypair r p))"

definition destroy :: "lib \<Rightarrow> 'b backend \<Rightarrow> string \<Rightarrow> string \<Rightarrow> ('b, unit) act" where
  "destroy lb be sd i =
     bindE (on_fs (sandbox_load (lb_serde lb) sd i)) (\<lambda>r.
     bindE (destroy_vm be r) (\<lambda>_.
     bindE (on_fs (cleanup_record_key r)) (\<lambda>_.
     on_fs (sandbox_delete sd i))))"

definition renew_refused :: "string \<Rightarrow> lsbx_error" where
  "renew_refused i = ContractViolated (''refusing to renew sandbox '' @ i @ '': cleanup_failed is set'')"

definition renew :: "lib \<Rightarrow> string \<Rightarrow> string \<Rightarrow> nat \<Rightarrow> ('b, public_sandbox) act" where
  "renew lb sd i duration =
     bindE (on_fs (sandbox_load (lb_serde lb) sd i)) (\<lambda>r w.
     if sr_cleanup_failed r then (Inl (renew_refused i), w)
     else let r' = r\<lparr>sr_lease_expires_at := Some (rfc3339_now_plus lb w duration)\<rparr>
          in bindE (on_fs (sandbox_save sd r')) (\<lambda>_. retE (public r')) w)"

subsection \<open>Leases\<close>

definition is_expired :: "lib \<Rightarrow> nat \<Rightarrow> sandbox_record \<Rightarrow> bool" where
  "is_expired lb now r =
     (case sr_lease_expires_at r of
        None \<Rightarrow> False
      | Some t \<Rightarrow> (case lb_parse_rfc3339 lb t of None \<Rightarrow> False | Some e \<Rightarrow> e < int now))"

text \<open>\<open>chrono::Duration::from_std\<close>: at most \<open>i64::MAX\<close> milliseconds.\<close>

definition chrono_from_std :: "nat \<Rightarrow> nat option" where
  "chrono_from_std d = (if d \<le> (2 ^ 63 - 1) * 1000000 then Some d else None)"

definition is_past_grace_window :: "lib \<Rightarrow> nat \<Rightarrow> nat \<Rightarrow> sandbox_record \<Rightarrow> bool" where
  "is_past_grace_window lb now ttl r =
     (if ttl = 0 then True
      else case sr_lease_expires_at r of
        None \<Rightarrow> True
      | Some t \<Rightarrow>
          (case lb_parse_rfc3339 lb t of
             None \<Rightarrow> True
           | Some e \<Rightarrow> e + int (unwrap_or 0 (chrono_from_std ttl)) < int now))"

subsection \<open>The sweep\<close>

record reap_report =
  rr_destroyed :: "string list"
  rr_would_destroy :: "string list"
  rr_keys_reconciled :: nat

definition sweep_targets :: "lib \<Rightarrow> nat \<Rightarrow> nat \<Rightarrow> sandbox_record list \<Rightarrow> sandbox_record list" where
  "sweep_targets lb now ttl rs =
     sort_key sr_id (filter (is_past_grace_window lb now ttl) (filter (is_expired lb now) rs))"

text \<open>
  One sandbox of the sweep: destroyed, or its record retired because the backend no longer knows
  it, or left for the next sweep. The known goldens only decide a warning in the log.
\<close>

definition reap_one :: "lib \<Rightarrow> 'b backend \<Rightarrow> string \<Rightarrow> string \<Rightarrow> 'b world \<Rightarrow> bool \<times> 'b world" where
  "reap_one lb be sd i w =
     (case destroy lb be sd i w of
        (Inr _, w') \<Rightarrow> (True, w')
      | (Inl (NotFound _), w') \<Rightarrow>
          (case on_fs (sandbox_delete sd i) w' of
             (Inr _, w'') \<Rightarrow> (True, w'')
           | (Inl _, w'') \<Rightarrow> (False, w''))
      | (Inl _, w') \<Rightarrow> (False, w'))"

fun reap_loop :: "lib \<Rightarrow> 'b backend \<Rightarrow> string \<Rightarrow> sandbox_record list \<Rightarrow> 'b world \<Rightarrow> string list \<times> 'b world" where
  "reap_loop lb be sd [] w = ([], w)"
| "reap_loop lb be sd (r # rs) w =
     (let (done_r, w1) = reap_one lb be sd (sr_id r) w; (ds, w2) = reap_loop lb be sd rs w1
      in (if done_r then sr_id r # ds else ds, w2))"

definition known_labels :: "sandbox_record list \<Rightarrow> string list" where
  "known_labels rs =
     map (\<lambda>l. unwrap_or l (strip_prefix label_prefix l)) (List.map_filter sr_key_name rs)"

definition reap :: "lib \<Rightarrow> 'b backend \<Rightarrow> string \<Rightarrow> nat \<Rightarrow> bool \<Rightarrow> ('b, reap_report) act" where
  "reap lb be sd ttl dry_run =
     bindE (on_fs (sandbox_list (lb_serde lb) sd)) (\<lambda>all w.
     let expired = sweep_targets lb (w_now w) ttl all
     in if dry_run
        then (Inr \<lparr>rr_destroyed = [], rr_would_destroy = map sr_id expired, rr_keys_reconciled = 0\<rparr>, w)
        else let (destroyed, w') = reap_loop lb be sd expired w
             in bindE (on_fs (sandbox_list (lb_serde lb) sd)) (\<lambda>rest.
                bindE (on_bk (bk_reconcile_orphaned_keys be (known_labels rest))) (\<lambda>n.
                retE \<lparr>rr_destroyed = destroyed, rr_would_destroy = [], rr_keys_reconciled = n\<rparr>)) w')"

subsection \<open>What the key operations touch\<close>

lemma fs_get_frame: "fs_files s' = fs_files s \<Longrightarrow> fs_get s' d n = fs_get s d n"
  by (simp add: fs_get_def)

lemma map_of_filter_dir:
  "d \<noteq> d' \<Longrightarrow> map_of (filter (\<lambda>e. fst (fst e) \<noteq> d') fl) (d, n) = map_of fl (d, n)"
  by (induction fl) auto

lemma fs_get_other_dir [frame_simps]:
  assumes "d \<noteq> d'"
  shows "fs_get (snd (create_new_file d' n' m s)) d n = fs_get s d n"
    and "fs_get (snd (write_file d' n' c s)) d n = fs_get s d n"
    and "fs_get (snd (remove_dir_all d' s)) d n = fs_get s d n"
  using assms
  by (auto simp: create_new_file_def write_file_def remove_dir_all_def io_op_def Let_def fs_get_def
      fs_get_update map_of_filter_dir split: option.splits)

lemma fs_get_same [frame_simps]:
  "fs_get (snd (create_dir_all d s)) = fs_get s" "fs_get (snd (set_dir_mode d k s)) = fs_get s"
  "fs_get (snd (temp_dir_in d p s)) = fs_get s"
  by (simp_all add: fs_get_def fun_eq_iff frame_simps)

lemma temp_dir_in_Inr: "temp_dir_in base pre s = (Inr p, s') \<Longrightarrow> \<exists>x. p = base @ ''/'' @ pre @ x"
  by (auto simp: temp_dir_in_def io_op_def Let_def split: option.splits)

lemma snd_on_error: "snd (on_error m c s) = (case fst (m s) of Inl _ \<Rightarrow> c (snd (m s)) | Inr _ \<Rightarrow> snd (m s))"
  by (auto simp: on_error_def split: prod.splits sum.splits)

lemma on_error_Inr_iff [simp]: "on_error m c s = (Inr x, s') \<longleftrightarrow> m s = (Inr x, s')"
  by (auto simp: on_error_def split: prod.splits sum.splits)

lemma keygen_other_dir:
  assumes "\<And>x. d \<noteq> base @ ''/'' @ key_dir_prefix @ x"
  shows "fs_get (snd (generate_ephemeral_keypair_in kl base label s)) d n = fs_get s d n"
proof -
  have "d \<noteq> dir" if "temp_dir_in base key_dir_prefix s1 = (Inr dir, s2)" for dir s1 s2
    using temp_dir_in_Inr [OF that] assms by blast
  then show ?thesis
    unfolding generate_ephemeral_keypair_in_def
    by (intro bindE_inv [where P = "\<lambda>s'. fs_get s' d n = fs_get s d n"])
      (auto simp: frame_simps snd_on_error split: sum.splits)
qed

lemma keygen_plan [frame_simps]:
  "fs_plan (snd (generate_ephemeral_keypair_in kl base label s)) = fs_plan s"
  unfolding generate_ephemeral_keypair_in_def
  by (intro bindE_inv [where P = "\<lambda>s'. fs_plan s' = fs_plan s"])
    (auto simp: frame_simps snd_on_error split: sum.splits)

lemma cleanup_other_dir:
  assumes "\<not> starts_with key_dir_prefix (path_file_name d)"
  shows "fs_get (snd (cleanup_keypair kp s)) d n = fs_get s d n"
proof (cases "path_parent (kp_private_key_path kp)")
  case None
  then show ?thesis by (simp add: cleanup_keypair_def)
next
  case (Some p)
  show ?thesis
  proof (cases "starts_with key_dir_prefix (path_file_name p)")
    case True
    with assms have "d \<noteq> p" by auto
    then have "fs_get (snd (remove_dir_all p s)) d n = fs_get s d n" by (rule fs_get_other_dir(3))
    with Some True show ?thesis
      by (auto simp: cleanup_keypair_def split: prod.splits sum.splits)
  next
    case False
    with Some show ?thesis by (simp add: cleanup_keypair_def)
  qed
qed

lemma store_dir_plain: "\<not> starts_with key_dir_prefix (path_file_name (store_dir sd))"
  using path_file_name_append [of "''state''" sd]
  by (simp add: store_dir_def key_dir_prefix_def starts_with_def)

lemma store_dir_not_key_dir: "store_dir sd \<noteq> (sd @ ''/keys'') @ ''/'' @ key_dir_prefix @ x"
  by (simp add: store_dir_def)

lemma sandbox_view_get: "(\<And>n. fs_get s' (store_dir sd) n = fs_get s (store_dir sd) n) \<Longrightarrow>
   sandbox_view sd s' = sandbox_view sd s"
  by (simp add: sandbox_view_def fun_eq_iff)

lemma keygen_view [frame_simps]:
  "sandbox_view sd (snd (generate_ephemeral_keypair_in kl (sd @ ''/keys'') label s)) = sandbox_view sd s"
  by (rule sandbox_view_get, rule keygen_other_dir, rule store_dir_not_key_dir)

lemma cleanup_view [frame_simps]:
  "sandbox_view sd (snd (cleanup_keypair kp s)) = sandbox_view sd s"
  by (rule sandbox_view_get, rule cleanup_other_dir, rule store_dir_plain)

subsection \<open>Lifting to the world\<close>

lemma on_fs_simps [simp]:
  "fst (on_fs m w) = fst (m (w_fs w))" "w_fs (snd (on_fs m w)) = snd (m (w_fs w))"
  "w_bk (snd (on_fs m w)) = w_bk w" "w_now (snd (on_fs m w)) = w_now w"
  "w_rnd (snd (on_fs m w)) = w_rnd w"
  by (simp_all add: on_fs_def split: prod.splits)

lemma on_bk_simps [simp]:
  "fst (on_bk m w) = fst (m (w_bk w))" "w_bk (snd (on_bk m w)) = snd (m (w_bk w))"
  "w_fs (snd (on_bk m w)) = w_fs w" "w_now (snd (on_bk m w)) = w_now w"
  "w_rnd (snd (on_bk m w)) = w_rnd w"
  by (simp_all add: on_bk_def split: prod.splits)

lemma on_fs_iff: "on_fs m w = (r, w') \<longleftrightarrow> (\<exists>f. m (w_fs w) = (r, f) \<and> w' = w\<lparr>w_fs := f\<rparr>)"
  by (auto simp: on_fs_def split: prod.splits)

lemma on_bk_iff: "on_bk m w = (r, w') \<longleftrightarrow> (\<exists>b. m (w_bk w) = (r, b) \<and> w' = w\<lparr>w_bk := b\<rparr>)"
  by (auto simp: on_bk_def split: prod.splits)

subsection \<open>Readiness is bounded and proven\<close>

text \<open>Every command of a list ran in turn and exited with 0.\<close>

fun checks_ran :: "'b backend \<Rightarrow> string \<Rightarrow> string list list \<Rightarrow> nat \<Rightarrow> string option \<Rightarrow> 'b \<Rightarrow> 'b \<Rightarrow> bool" where
  "checks_ran be tag [] tmo ident b b' = (b' = b)"
| "checks_ran be tag (c # cs) tmo ident b b' =
     (case bk_run be tag c tmo ident b of
        (Inr out, b1) \<Rightarrow> co_exit_code out = 0 \<and> checks_ran be tag cs tmo ident b1 b'
      | (Inl _, _) \<Rightarrow> False)"

lemma healthchecks_pass_time:
  "healthchecks_pass be tag cs tmo ident budget e b = (r, e', b') \<Longrightarrow> e \<le> budget \<Longrightarrow> e' \<le> budget"
  by (induction cs arbitrary: e b)
    (auto simp: Let_def split: if_splits prod.splits sum.splits)

lemma healthchecks_pass_ran:
  "healthchecks_pass be tag cs tmo ident budget e b = (Some True, e', b') \<Longrightarrow>
   checks_ran be tag cs tmo ident b b'"
  by (induction cs arbitrary: e b)
    (auto simp: Let_def split: if_splits prod.splits sum.splits)

text \<open>An invariant rule for the polling loop: \<open>Q\<close> holds before every attempt, \<open>R\<close> of the result.\<close>

lemma poll_loop_rule:
  assumes "poll_loop lb be tag probe tmo ident deadline w = (r, w')" and "Q w"
    and "\<And>w. Q w \<Longrightarrow> deadline \<le> w_now w \<Longrightarrow> R (Inl (not_ready lb tag tmo)) w"
    and "\<And>w e b. Q w \<Longrightarrow> w_now w + e \<le> deadline \<Longrightarrow>
      healthchecks_pass be tag probe (deadline - w_now w) ident (deadline - w_now w) 0 (w_bk w) = (Some True, e, b) \<Longrightarrow>
      R (Inr ()) (w\<lparr>w_bk := b, w_now := w_now w + e\<rparr>)"
    and "\<And>w att e b. Q w \<Longrightarrow> w_now w + e = deadline \<Longrightarrow> att \<noteq> Some True \<Longrightarrow>
      healthchecks_pass be tag probe (deadline - w_now w) ident (deadline - w_now w) 0 (w_bk w) = (att, e, b) \<Longrightarrow>
      R (Inl (not_ready lb tag tmo)) (w\<lparr>w_bk := b, w_now := w_now w + e\<rparr>)"
    and "\<And>w att e b k. Q w \<Longrightarrow> w_now w + e + k \<le> deadline \<Longrightarrow> att \<noteq> Some True \<Longrightarrow>
      healthchecks_pass be tag probe (deadline - w_now w) ident (deadline - w_now w) 0 (w_bk w) = (att, e, b) \<Longrightarrow>
      Q (w\<lparr>w_bk := b, w_now := w_now w + e + k\<rparr>)"
  shows "R r w'"
  using assms(1,2)
proof (induction "deadline - w_now w" arbitrary: w rule: less_induct)
  case less
  let ?rem = "deadline - w_now w"
  obtain att e b where hp: "healthchecks_pass be tag probe ?rem ident ?rem 0 (w_bk w) = (att, e, b)"
    by (cases "healthchecks_pass be tag probe ?rem ident ?rem 0 (w_bk w)") auto
  have e: "e \<le> ?rem" using healthchecks_pass_time [OF hp] by simp
  note step = poll_loop.simps [of lb be tag probe tmo ident deadline w]
  consider "deadline \<le> w_now w" | "w_now w < deadline" "att = Some True"
    | "w_now w < deadline" "att \<noteq> Some True" "w_now w + e = deadline"
    | "w_now w < deadline" "att \<noteq> Some True" "w_now w + e < deadline"
    using e by linarith
  then show ?case
  proof cases
    case 1
    with less.prems assms(3) show ?thesis by (simp add: step)
  next
    case 2
    with less.prems(1) hp have "r = Inr ()" "w' = w\<lparr>w_bk := b, w_now := w_now w + e\<rparr>"
      by (auto simp: step)
    with assms(4) [OF less.prems(2)] 2 e hp show ?thesis by simp
  next
    case 3
    with less.prems(1) hp have "r = Inl (not_ready lb tag tmo)" "w' = w\<lparr>w_bk := b, w_now := w_now w + e\<rparr>"
      by (auto simp: step)
    with assms(5) [OF less.prems(2)] 3 hp show ?thesis by simp
  next
    case 4
    let ?k = "min readiness_poll_interval (deadline - (w_now w + e))"
    let ?w1 = "w\<lparr>w_bk := b, w_now := w_now w + e + ?k\<rparr>"
    have k: "0 < ?k" "w_now w + e + ?k \<le> deadline"
      using 4 by (auto simp: readiness_poll_interval_def min_def)
    have pl: "poll_loop lb be tag probe tmo ident deadline ?w1 = (r, w')"
      using 4 hp less.prems(1) by (simp add: step Let_def)
    show ?thesis
    proof (rule less.hyps [OF _ pl])
      show "deadline - w_now ?w1 < deadline - w_now w" using k 4 by simp
      show "Q ?w1" using assms(6) [OF less.prems(2) k(2)] 4 hp by simp
    qed
  qed
qed

lemma poll_loop_sound:
  assumes "poll_loop lb be tag probe tmo ident deadline w = (r, w')" and "w_now w \<le> deadline"
  shows "w_fs w' = w_fs w \<and> w_now w' \<le> deadline \<and>
    (case r of
       Inl e \<Rightarrow> e = not_ready lb tag tmo \<and> w_now w' = deadline
     | Inr _ \<Rightarrow> \<exists>b left. checks_ran be tag probe left ident b (w_bk w'))"
proof (rule poll_loop_rule [OF assms(1), where Q = "\<lambda>x. w_fs x = w_fs w \<and> w_now x \<le> deadline"])
  show "w_fs w = w_fs w \<and> w_now w \<le> deadline" using assms(2) by simp
next
  fix x e b
  assume "healthchecks_pass be tag probe (deadline - w_now x) ident (deadline - w_now x) 0 (w_bk x) = (Some True, e, b)"
  from healthchecks_pass_ran [OF this]
  have "\<exists>c left. checks_ran be tag probe left ident c b" by blast
  moreover assume "w_fs x = w_fs w \<and> w_now x \<le> deadline" "w_now x + e \<le> deadline"
  ultimately show "w_fs (x\<lparr>w_bk := b, w_now := w_now x + e\<rparr>) = w_fs w \<and>
    w_now (x\<lparr>w_bk := b, w_now := w_now x + e\<rparr>) \<le> deadline \<and>
    (case Inr () of Inl ee \<Rightarrow> ee = not_ready lb tag tmo \<and> w_now (x\<lparr>w_bk := b, w_now := w_now x + e\<rparr>) = deadline
     | Inr _ \<Rightarrow> \<exists>c left. checks_ran be tag probe left ident c (w_bk (x\<lparr>w_bk := b, w_now := w_now x + e\<rparr>)))"
    by simp
qed auto

lemma poll_ready_sound:
  assumes "poll_ready lb be tag checks tmo ident w = (r, w')"
  shows "w_fs w' = w_fs w" and "w_now w' \<le> w_now w + tmo"
    and "r = Inl e \<Longrightarrow> e = not_ready lb tag tmo \<and> w_now w' = w_now w + tmo"
    and "r = Inr u \<Longrightarrow>
      \<exists>b left. checks_ran be tag (if checks = [] then [[''true'']] else checks) left ident b (w_bk w')"
  using poll_loop_sound [OF assms [unfolded poll_ready_def]] by auto


subsection \<open>Creation\<close>

lemma w_simps [simp]:
  "w_fs (w\<lparr>w_rnd := k\<rparr>) = w_fs w" "w_bk (w\<lparr>w_rnd := k\<rparr>) = w_bk w"
  by simp_all

lemma make_keypair_frame:
  assumes "make_keypair lb sd rq i w = (r, w')"
  shows "sandbox_view sd (w_fs w') = sandbox_view sd (w_fs w) \<and> w_bk w' = w_bk w \<and>
    w_now w' = w_now w \<and> fs_plan (w_fs w') = fs_plan (w_fs w)"
proof -
  have "w' = snd (make_keypair lb sd rq i w)" using assms by simp
  then show ?thesis
    by (auto simp: make_keypair_def bindE_run frame_simps split: sum.splits)
qed

lemma drop_keypair_frame [frame_simps]:
  "sandbox_view sd (w_fs (drop_keypair kp w)) = sandbox_view sd (w_fs w)"
  "w_bk (drop_keypair kp w) = w_bk w" "w_now (drop_keypair kp w) = w_now w"
  "fs_plan (w_fs (drop_keypair kp w)) = fs_plan (w_fs w)"
  by (simp_all add: drop_keypair_def frame_simps split: option.splits)

text \<open>What no run changes is unchanged by the polling.\<close>

lemma healthchecks_keep:
  assumes "\<And>c tmo i b. f (snd (bk_run be tag c tmo i b)) = f b"
    and "\<And>c d b. f (bk_run_dropped be tag c d b) = f b"
    and "healthchecks_pass be tag cs tmo ident budget e b = (r, e', b')"
  shows "f b' = f b"
  using assms(3)
proof (induction cs arbitrary: e b)
  case (Cons c cs)
  have rl: "f b1 = f b" if "bk_run be tag c tmo ident b = (x, b1)" for x b1
    using assms(1) [of c tmo ident b] that by simp
  show ?case using Cons.prems rl assms(2)
    by (auto simp: Let_def split: if_splits prod.splits sum.splits dest!: Cons.IH)
qed simp

lemma poll_loop_keep:
  assumes "\<And>c tmo i b. f (snd (bk_run be tag c tmo i b)) = f b"
    and "\<And>c d b. f (bk_run_dropped be tag c d b) = f b"
    and "poll_loop lb be tag probe tmo ident deadline w = (r, w')"
  shows "f (w_bk w') = f (w_bk w)"
proof -
  have k: "healthchecks_pass be tag probe t ident t 0 x = (att, e, b) \<Longrightarrow> f b = f x" for t x att e b
    using healthchecks_keep [where f = f, OF assms(1,2)] by blast
  show ?thesis
    by (rule poll_loop_rule [OF assms(3), where Q = "\<lambda>x. f (w_bk x) = f (w_bk w)"]) (auto dest: k)
qed

context backend_contract begin

lemma poll_ready_live:
  "poll_ready lb be tag checks tmo ident w = (r, w') \<Longrightarrow> live (w_bk w') = live (w_bk w)"
  unfolding poll_ready_def by (rule poll_loop_keep [OF run_live run_dropped_live])

lemma register_key_frame:
  assumes "register_key be kp vm w = (r, w')"
  shows "sandbox_view sd (w_fs w') = sandbox_view sd (w_fs w)"
    and "fs_plan (w_fs w') = fs_plan (w_fs w)" and "live (w_bk w') \<subseteq> live (w_bk w)"
    and "r = Inr u \<Longrightarrow> live (w_bk w') = live (w_bk w)" and "w_now w' = w_now w"
proof -
  have w': "w' = snd (register_key be kp vm w)" and r: "r = fst (register_key be kp vm w)"
    using assms by simp_all
  show "sandbox_view sd (w_fs w') = sandbox_view sd (w_fs w)"
    "fs_plan (w_fs w') = fs_plan (w_fs w)" "w_now w' = w_now w"
    by (auto simp: w' register_key_def snd_on_error frame_simps split: option.splits sum.splits)
  have d: "live (snd (bk_destroy be t (snd (bk_register_vm_key be t p b)))) \<subseteq> live b" for t p b
    using destroy_shrinks [of t "snd (bk_register_vm_key be t p b)"] register_live by simp
  show "live (w_bk w') \<subseteq> live (w_bk w)"
    using d by (auto simp: w' register_key_def snd_on_error frame_simps register_live split: option.splits sum.splits)
  show "r = Inr u \<Longrightarrow> live (w_bk w') = live (w_bk w)"
    using assms r register_live [of "cv_vm_tag vm"]
    by (auto simp: register_key_def on_bk_iff split: option.splits) (metis snd_conv)+
qed

text \<open>
  A creation that returns has made exactly one machine and one record that names it, and the
  record was saved before anything was returned.
\<close>

lemma create_ok_durable:
  assumes "create lb be sd rq w = (Inr ps, w')"
  shows "\<exists>r t. ps = public r \<and> sr_id r = uuid_like_id lb w \<and> sr_vm_tag r = Some t \<and>
    sandbox_view sd (w_fs w') = (sandbox_view sd (w_fs w))(sr_id r \<mapsto> r) \<and>
    live (w_bk w') = insert t (live (w_bk w)) \<and> sr_cleanup_failed r = False \<and>
    sr_lease_expires_at r = Some (rfc3339_now_plus lb w (rq_lease rq)) \<and>
    (rq_verify rq \<longrightarrow> (\<exists>b left ident. checks_ran be t
        (if rq_healthchecks rq = [] then [[''true'']] else rq_healthchecks rq) left ident b (w_bk w')))"
proof -
  let ?i = "uuid_like_id lb w" and ?w = "w\<lparr>w_rnd := Suc (w_rnd w)\<rparr>"
  let ?name = "unwrap_or ?i (rq_name rq)"
  from assms obtain kp w1 pk vm w2 w3 r w4 w5 where
    kp: "make_keypair lb sd rq ?i ?w = (Inr kp, w1)" and
    cr: "on_bk (bk_create_from_golden be (backend_request rq ?name pk)) w1 = (Inr vm, w2)" and
    rk: "register_key be kp vm w2 = (Inr (), w3)" and
    r: "r = new_record rq ?i ?name kp vm (rfc3339_now lb w3) (rfc3339_now_plus lb w3 (rq_lease rq))" and
    sv: "on_fs (sandbox_save sd r) w3 = (Inr (), w4)" and
    pr: "(if rq_verify rq then poll_ready lb be (cv_vm_tag vm) (rq_healthchecks rq) (rq_ready_timeout rq)
            (map_option kp_private_key_path kp) else retE ()) w4 = (Inr (), w5)" and
    ps: "ps = public r" "w' = w5"
    by (auto simp: create_def Let_def bindE_Inr_iff)
  note k = make_keypair_frame [OF kp] and g = register_key_frame [OF rk]
  have v: "sandbox_view sd (w_fs w4) = (sandbox_view sd (w_fs w))(sr_id r \<mapsto> r)"
    using sv cr k g(1) [of sd] by (auto simp: on_fs_iff on_bk_iff dest!: sandbox_save_Inr)
  have l: "live (w_bk w4) = insert (cv_vm_tag vm) (live (w_bk w))"
    using sv cr k g(4) by (auto simp: on_fs_iff on_bk_iff dest!: create_ok)
  have n: "w_now w3 = w_now w" using cr k g(5) by (auto simp: on_bk_iff)
  have p: "w_fs w5 = w_fs w4 \<and> live (w_bk w5) = live (w_bk w4)"
    using pr poll_ready_live poll_ready_sound(1) by (auto split: if_splits)
  have c: "rq_verify rq \<longrightarrow> (\<exists>b left ident. checks_ran be (cv_vm_tag vm)
      (if rq_healthchecks rq = [] then [[''true'']] else rq_healthchecks rq) left ident b (w_bk w5))"
  proof
    assume "rq_verify rq"
    with pr have q: "poll_ready lb be (cv_vm_tag vm) (rq_healthchecks rq) (rq_ready_timeout rq)
        (map_option kp_private_key_path kp) w4 = (Inr (), w5)" by simp
    from poll_ready_sound(4) [OF q refl]
    show "\<exists>b left ident. checks_ran be (cv_vm_tag vm)
      (if rq_healthchecks rq = [] then [[''true'']] else rq_healthchecks rq) left ident b (w_bk w5)"
      by blast
  qed
  have f: "sr_id r = ?i" "sr_vm_tag r = Some (cv_vm_tag vm)" "\<not> sr_cleanup_failed r"
    "sr_lease_expires_at r = Some (rfc3339_now_plus lb w (rq_lease rq))"
    using n by (simp_all add: r new_record_def rfc3339_now_plus_def)
  have v5: "sandbox_view sd (w_fs w') = (sandbox_view sd (w_fs w))(sr_id r \<mapsto> r)"
    and l5: "live (w_bk w') = insert (cv_vm_tag vm) (live (w_bk w))"
    using v l p ps(2) by simp_all
  show ?thesis
    by (intro exI [of _ r] exI [of _ "cv_vm_tag vm"] conjI)
      (use f v5 l5 c ps in simp_all)
qed

end

lemma sandbox_save_Inl: "sandbox_save sd r s = (Inl e, s') \<Longrightarrow> sandbox_view sd s' = sandbox_view sd s \<and> \<not> calm s"
  using sandboxes.put_err [of sd r s e s'] sandboxes.put_calm [of s sd r] by auto

lemma on_error_Inl_iff: "on_error m c s = (Inl e, s') \<longleftrightarrow> (\<exists>s1. m s = (Inl e, s1) \<and> s' = c s1)"
  by (auto simp: on_error_def split: prod.splits sum.splits)

context backend_contract begin

lemma create_err_accounted:
  assumes "create lb be sd rq w = (Inl e, w')"
  shows "(sandbox_view sd (w_fs w') = sandbox_view sd (w_fs w) \<and> live (w_bk w') \<subseteq> live (w_bk w))
    \<or> (\<exists>r t. sr_vm_tag r = Some t \<and> live (w_bk w') = insert t (live (w_bk w)) \<and> rq_verify rq \<and>
         sandbox_view sd (w_fs w') = (sandbox_view sd (w_fs w))(sr_id r \<mapsto> r) \<and>
         e = not_ready lb t (rq_ready_timeout rq))
    \<or> (\<not> calm (w_fs w) \<and> sandbox_view sd (w_fs w') = sandbox_view sd (w_fs w) \<and>
         (\<exists>t. live (w_bk w') = insert t (live (w_bk w))))
    \<or> (\<exists>t p b e1 e2. fst (bk_register_vm_key be t p b) = Inl e1 \<and>
         fst (bk_destroy be t (snd (bk_register_vm_key be t p b))) = Inl e2)"
    (is "?none \<or> ?unready \<or> ?unsaved \<or> ?stuck")
proof -
  let ?i = "uuid_like_id lb w" and ?w = "w\<lparr>w_rnd := Suc (w_rnd w)\<rparr>"
  let ?name = "unwrap_or ?i (rq_name rq)"
  obtain q1 w1 where m: "make_keypair lb sd rq ?i ?w = (q1, w1)" by fastforce
  note k = make_keypair_frame [OF m]
  show ?thesis
  proof (cases q1)
    case (Inl e1)
    with m assms have "w' = w1" by (simp add: create_def Let_def)
    with k show ?thesis by simp
  next
    case (Inr kp)
    define pk where "pk = (case kp of Some k \<Rightarrow> kp_public_key_line k | None \<Rightarrow> baked_guest_identity_pubkey)"
    obtain q2 w2 where c: "on_bk (bk_create_from_golden be (backend_request rq ?name pk)) w1 = (q2, w2)"
      by fastforce
    show ?thesis
    proof (cases q2)
      case (Inl e2)
      with m c \<open>q1 = Inr kp\<close> assms have "w' = drop_keypair kp w2"
        by (simp add: create_def Let_def pk_def on_error_def)
      moreover have "sandbox_view sd (w_fs w2) = sandbox_view sd (w_fs w1)" "live (w_bk w2) = live (w_bk w1)"
        using c Inl create_err by (auto simp: on_bk_iff)
      ultimately show ?thesis using k by (simp add: frame_simps)
    next
      case (Inr vm)
      have f2: "w_fs w2 = w_fs w1" "live (w_bk w2) = insert (cv_vm_tag vm) (live (w_bk w1))"
        using c Inr create_ok by (auto simp: on_bk_iff)
      obtain q3 w3 where g: "register_key be kp vm w2 = (q3, w3)" by fastforce
      note gf = register_key_frame [OF g]
      show ?thesis
      proof (cases q3)
        case (Inl e3)
        with m c g \<open>q1 = Inr kp\<close> Inr assms have w': "w' = w3"
          by (simp add: create_def Let_def pk_def on_error_def)
        from g Inl obtain k' b3 where kp: "kp = Some k'" and
          b3: "bk_register_vm_key be (cv_vm_tag vm) (kp_private_key_path k') (w_bk w2) = (Inl e3, b3)" and
          w3: "w_bk w3 = snd (bk_destroy be (cv_vm_tag vm) b3)"
          by (auto simp: register_key_def on_error_Inl_iff on_bk_iff frame_simps split: option.splits)
        have l3: "live b3 = live (w_bk w2)"
          using register_live [of "cv_vm_tag vm" "kp_private_key_path k'" "w_bk w2"] b3 by simp
        show ?thesis
        proof (cases "fst (bk_destroy be (cv_vm_tag vm) b3)")
          case (Inl e4)
          then have ?stuck using b3 by (metis fst_conv snd_conv)
          then show ?thesis by blast
        next
          case (Inr u)
          then have "live (w_bk w3) \<subseteq> live (w_bk w)"
            using w3 l3 f2 k by (auto simp: destroy_result)
          then show ?thesis using gf(1) f2 k w' by auto
        qed
      next
        case (Inr u)
        let ?r = "new_record rq ?i ?name kp vm (rfc3339_now lb w3) (rfc3339_now_plus lb w3 (rq_lease rq))"
        obtain q4 w4 where s: "on_fs (sandbox_save sd ?r) w3 = (q4, w4)" by fastforce
        have l3: "live (w_bk w3) = insert (cv_vm_tag vm) (live (w_bk w))"
          using gf(4) [OF Inr] f2 k by simp
        have v3: "sandbox_view sd (w_fs w3) = sandbox_view sd (w_fs w)"
          using gf(1) f2 k by simp
        have l4: "live (w_bk w4) = live (w_bk w3)" using s by (auto simp: on_fs_iff)
        show ?thesis
        proof (cases q4)
          case (Inl e4)
          with m c g s \<open>q1 = Inr kp\<close> \<open>q2 = Inr vm\<close> Inr assms have w': "w' = w4"
            by (simp add: create_def Let_def pk_def on_error_def)
          have "sandbox_view sd (w_fs w4) = sandbox_view sd (w_fs w3) \<and> \<not> calm (w_fs w3)"
            using s Inl by (auto simp: on_fs_iff dest: sandbox_save_Inl)
          moreover have "calm (w_fs w3) = calm (w_fs w)"
            using gf(2) f2 k by (auto intro!: calm_cong)
          ultimately have ?unsaved using v3 l3 l4 w' by auto
          then show ?thesis by blast
        next
          case (Inr u4)
          then have v4: "sandbox_view sd (w_fs w4) = (sandbox_view sd (w_fs w))(sr_id ?r \<mapsto> ?r)"
            using s v3 by (auto simp: on_fs_iff dest!: sandbox_save_Inr)
          from m c g s \<open>q1 = Inr kp\<close> \<open>q2 = Inr vm\<close> \<open>q3 = Inr u\<close> Inr assms
          have ver: "rq_verify rq" and
            p: "poll_ready lb be (cv_vm_tag vm) (rq_healthchecks rq) (rq_ready_timeout rq)
              (map_option kp_private_key_path kp) w4 = (Inl e, w')"
            by (auto simp: create_def Let_def pk_def on_error_def bindE_Inl_iff split: if_splits)
          have "sr_vm_tag ?r = Some (cv_vm_tag vm)" by (simp add: new_record_def)
          then have ?unready
            using ver poll_ready_sound(1) [OF p] poll_ready_sound(3) [OF p refl] poll_ready_live [OF p]
              v4 l3 l4 by (intro exI [of _ ?r] exI [of _ "cv_vm_tag vm"]) simp
          then show ?thesis by blast
        qed
      qed
    qed
  qed
qed

end

subsection \<open>Destruction and renewal\<close>

lemma cleanup_record_key_frame [frame_simps]:
  "sandbox_view sd (snd (cleanup_record_key r s)) = sandbox_view sd s"
  "fs_plan (snd (cleanup_record_key r s)) = fs_plan s"
  by (simp_all add: cleanup_record_key_def frame_simps split: option.splits)

lemma destroy_vm_fs [simp]: "w_fs (snd (destroy_vm be r w)) = w_fs w"
  "w_now (snd (destroy_vm be r w)) = w_now w"
  by (simp_all add: destroy_vm_def split: option.splits)

lemma destroy_vm_Inr_fs: "destroy_vm be r w = (x, w') \<Longrightarrow> w_fs w' = w_fs w"
  using destroy_vm_fs(1) [of be r w] by simp

text \<open>A destruction that fails anywhere leaves every record as it was.\<close>

lemma destroy_err_keeps_records:
  assumes "destroy lb be sd i w = (Inl e, w')"
  shows "sandbox_view sd (w_fs w') = sandbox_view sd (w_fs w)"
proof -
  from assms consider "on_fs (sandbox_load (lb_serde lb) sd i) w = (Inl e, w')"
    | r w1 where "on_fs (sandbox_load (lb_serde lb) sd i) w = (Inr r, w1)" "destroy_vm be r w1 = (Inl e, w')"
    | r w1 w2 where "on_fs (sandbox_load (lb_serde lb) sd i) w = (Inr r, w1)" "destroy_vm be r w1 = (Inr (), w2)"
        "on_fs (cleanup_record_key r) w2 = (Inl e, w')"
    | r w1 w2 w3 where "on_fs (sandbox_load (lb_serde lb) sd i) w = (Inr r, w1)" "destroy_vm be r w1 = (Inr (), w2)"
        "on_fs (cleanup_record_key r) w2 = (Inr (), w3)" "on_fs (sandbox_delete sd i) w3 = (Inl e, w')"
    by (auto simp: destroy_def bindE_Inl_iff)
  then show ?thesis
  proof cases
    case 1
    then show ?thesis by (auto simp: on_fs_iff dest!: sandbox_load_files intro: sandbox_view_cong)
  next
    case 2
    then show ?thesis
      by (auto simp: on_fs_iff dest!: sandbox_load_files destroy_vm_Inr_fs intro: sandbox_view_cong)
  next
    case 3
    have "sandbox_view sd (w_fs w1) = sandbox_view sd (w_fs w)"
      using 3 by (auto simp: on_fs_iff dest!: sandbox_load_files intro: sandbox_view_cong)
    moreover have "w_fs w2 = w_fs w1" using 3 destroy_vm_Inr_fs by metis
    moreover have "sandbox_view sd (w_fs w') = sandbox_view sd (w_fs w2)"
      using 3(3) cleanup_record_key_frame(1) [of sd r "w_fs w2"] by (auto simp: on_fs_iff)
    ultimately show ?thesis by simp
  next
    case 4
    have "sandbox_view sd (w_fs w1) = sandbox_view sd (w_fs w)"
      using 4 by (auto simp: on_fs_iff dest!: sandbox_load_files intro: sandbox_view_cong)
    moreover have "w_fs w2 = w_fs w1" using 4 destroy_vm_Inr_fs by metis
    moreover have "sandbox_view sd (w_fs w3) = sandbox_view sd (w_fs w2)"
      using 4(3) cleanup_record_key_frame(1) [of sd r "w_fs w2"] by (auto simp: on_fs_iff)
    moreover have "sandbox_view sd (w_fs w') = sandbox_view sd (w_fs w3)"
      using 4(4) by (auto simp: on_fs_iff dest!: sandboxes.del_err)
    ultimately show ?thesis by simp
  qed
qed

lemma on_load_Inr:
  "on_fs (sandbox_load sx sd i) w = (Inr r, w') \<Longrightarrow>
   sandbox_view sd (w_fs w) i = Some r \<and> fs_files (w_fs w') = fs_files (w_fs w) \<and>
   fs_plan (w_fs w') = fs_plan (w_fs w) \<and> w_bk w' = w_bk w \<and> w_now w' = w_now w"
  using sandbox_load_snd [of sx sd i "w_fs w"] sandbox_load_Inr [of sx sd i "w_fs w" r]
  by (auto simp: on_fs_iff)

lemma destroy_InrE:
  assumes "destroy lb be sd i w = (Inr u, w')"
  obtains r w1 w2 w3 where "sandbox_view sd (w_fs w) i = Some r"
    and "fs_files (w_fs w1) = fs_files (w_fs w)" "w_bk w1 = w_bk w"
    and "destroy_vm be r w1 = (Inr (), w2)" "on_fs (cleanup_record_key r) w2 = (Inr (), w3)"
    and "on_fs (sandbox_delete sd i) w3 = (Inr (), w')"
  using assms by (auto simp: destroy_def bindE_Inr_iff dest!: on_load_Inr)

lemma destroy_ok_record:
  assumes "destroy lb be sd i w = (Inr u, w')"
  shows "sandbox_view sd (w_fs w') = (sandbox_view sd (w_fs w))(i := None)"
proof -
  from assms obtain r w1 w2 w3 where s: "fs_files (w_fs w1) = fs_files (w_fs w)"
    "destroy_vm be r w1 = (Inr (), w2)" "on_fs (cleanup_record_key r) w2 = (Inr (), w3)"
    "on_fs (sandbox_delete sd i) w3 = (Inr (), w')"
    by (rule destroy_InrE)
  have "sandbox_view sd (w_fs w3) = sandbox_view sd (w_fs w2)"
    using s(3) cleanup_record_key_frame(1) [of sd r "w_fs w2"] by (auto simp: on_fs_iff)
  moreover have "w_fs w2 = w_fs w1" using s(2) by (rule destroy_vm_Inr_fs)
  moreover have "sandbox_view sd (w_fs w1) = sandbox_view sd (w_fs w)" using s(1) by (rule sandbox_view_cong)
  ultimately show ?thesis using s(4) by (auto simp: on_fs_iff dest!: sandboxes.del_ok)
qed

lemma remove_dir_all_gone:
  "remove_dir_all d s = (r, s') \<Longrightarrow> r = Inr u \<or> (r = Inl e \<and> io_kind e = KNotFound) \<Longrightarrow>
   dir_mode s' d = None"
  by (auto simp: remove_dir_all_def io_op_def Let_def dir_mode_def delete_conv' os_missing_def
      split: option.splits)

lemma cleanup_keypair_ok:
  assumes "cleanup_keypair kp s = (Inr u, s')" and "path_parent (kp_private_key_path kp) = Some d"
    and "starts_with key_dir_prefix (path_file_name d)"
  shows "dir_mode s' d = None"
proof -
  obtain q where q: "remove_dir_all d s = (q, s')" "q = Inr () \<or> (\<exists>e. q = Inl e \<and> io_kind e = KNotFound)"
    using assms by (auto simp: cleanup_keypair_def split: prod.splits sum.splits if_splits)
  then show ?thesis using remove_dir_all_gone [OF q(1)] by blast
qed

lemma sandbox_delete_dirs: "fs_dirs (snd (sandbox_delete sd i s)) = fs_dirs s"
  by (auto simp: sandbox_delete_def remove_file_def io_op_def Let_def split: option.splits)

lemma destroy_ok_key:
  assumes "destroy lb be sd i w = (Inr u, w')" and "sandbox_view sd (w_fs w) i = Some r"
    and "sr_key_path r = Some p" and "path_parent p = Some d"
    and "starts_with key_dir_prefix (path_file_name d)"
  shows "dir_mode (w_fs w') d = None"
proof -
  from assms(1) obtain r' w1 w2 w3 where s: "sandbox_view sd (w_fs w) i = Some r'"
    "on_fs (cleanup_record_key r') w2 = (Inr (), w3)" "on_fs (sandbox_delete sd i) w3 = (Inr (), w')"
    by (rule destroy_InrE)
  then have r: "r' = r" using assms(2) by simp
  from s(2) have "dir_mode (w_fs w3) d = None"
    using assms(3-5) cleanup_keypair_ok [of "record_keypair r p" "w_fs w2" "()" "w_fs w3" d]
    by (auto simp: on_fs_iff r cleanup_record_key_def record_keypair_def)
  moreover have "fs_dirs (w_fs w') = fs_dirs (w_fs w3)"
    using s(3) sandbox_delete_dirs [of sd i "w_fs w3"] by (auto simp: on_fs_iff)
  ultimately show ?thesis by (simp add: dir_mode_def)
qed

text \<open>When the backend fails, neither the key nor the record has been touched.\<close>

lemma destroy_backend_first:
  assumes "on_fs (sandbox_load (lb_serde lb) sd i) w = (Inr r, w1)" and "destroy_vm be r w1 = (Inl e, w2)"
  shows "destroy lb be sd i w = (Inl e, w2) \<and> w_fs w2 = w_fs w1"
  using assms destroy_vm_Inr_fs [OF assms(2)] by (simp add: destroy_def)

context backend_contract begin

lemma destroy_vm_live:
  "live (w_bk (snd (destroy_vm be r w))) =
    (case sr_vm_tag r of None \<Rightarrow> live (w_bk w)
     | Some t \<Rightarrow> (case fst (destroy_vm be r w) of Inr _ \<Rightarrow> live (w_bk w) - {t} | Inl _ \<Rightarrow> live (w_bk w)))"
  by (auto simp: destroy_vm_def destroy_result destroy_with_key_result split: option.splits sum.splits)

lemma destroy_live:
  assumes "destroy lb be sd i w = (x, w')"
  shows "live (w_bk w') \<subseteq> live (w_bk w) \<and>
    live (w_bk w) - live (w_bk w') \<subseteq> {t. \<exists>r. sandbox_view sd (w_fs w) i = Some r \<and> sr_vm_tag r = Some t}"
proof (cases "on_fs (sandbox_load (lb_serde lb) sd i) w")
  case (Pair q w1)
  show ?thesis
  proof (cases q)
    case (Inl e)
    with Pair assms have "w' = w1" by (simp add: destroy_def)
    then show ?thesis using Pair by (auto simp: on_fs_iff)
  next
    case (Inr r)
    note l = on_load_Inr [OF Pair [unfolded Inr]]
    obtain q2 w2 where d: "destroy_vm be r w1 = (q2, w2)" by fastforce
    have "w_bk w' = w_bk w2"
      using assms Pair Inr d by (auto simp: destroy_def bindE_def on_fs_def split: prod.splits sum.splits)
    moreover have "w_bk w2 = w_bk (snd (destroy_vm be r w1))" using d by simp
    ultimately show ?thesis using destroy_vm_live [of r w1] l by (auto split: option.splits sum.splits)
  qed
qed

lemma destroy_ok_live:
  assumes "destroy lb be sd i w = (Inr u, w')" and "sandbox_view sd (w_fs w) i = Some r"
    and "sr_vm_tag r = Some t"
  shows "t \<notin> live (w_bk w')"
proof -
  from assms(1) obtain r' w1 w2 w3 where s: "sandbox_view sd (w_fs w) i = Some r'"
    "destroy_vm be r' w1 = (Inr (), w2)" "on_fs (cleanup_record_key r') w2 = (Inr (), w3)"
    "on_fs (sandbox_delete sd i) w3 = (Inr (), w')"
    by (rule destroy_InrE)
  then have "w_bk w' = w_bk w2" "r' = r" using assms(2) by (auto simp: on_fs_iff)
  then show ?thesis using destroy_vm_live [of r w1] s(2) assms(3) by simp
qed

end

subsection \<open>Renewal\<close>

lemma renew_spec:
  assumes "renew lb sd i d w = (Inr ps, w')"
  shows "\<exists>r. sandbox_view sd (w_fs w) i = Some r \<and> \<not> sr_cleanup_failed r \<and>
    ps = public (r\<lparr>sr_lease_expires_at := Some (rfc3339_now_plus lb w d)\<rparr>) \<and>
    sandbox_view sd (w_fs w') = (sandbox_view sd (w_fs w))
      (sr_id r \<mapsto> r\<lparr>sr_lease_expires_at := Some (rfc3339_now_plus lb w d)\<rparr>) \<and>
    w_bk w' = w_bk w"
proof -
  from assms obtain r w1 where l: "on_fs (sandbox_load (lb_serde lb) sd i) w = (Inr r, w1)"
    and nf: "\<not> sr_cleanup_failed r"
    and s: "on_fs (sandbox_save sd (r\<lparr>sr_lease_expires_at := Some (rfc3339_now_plus lb w1 d)\<rparr>)) w1 = (Inr (), w')"
    and ps: "ps = public (r\<lparr>sr_lease_expires_at := Some (rfc3339_now_plus lb w1 d)\<rparr>)"
    by (auto simp: renew_def bindE_Inr_iff Let_def split: if_splits)
  note f = on_load_Inr [OF l]
  have n: "rfc3339_now_plus lb w1 d = rfc3339_now_plus lb w d" using f by (simp add: rfc3339_now_plus_def)
  have v1: "sandbox_view sd (w_fs w1) = sandbox_view sd (w_fs w)" using f by (auto intro: sandbox_view_cong)
  have "w_bk w' = w_bk w1" using s by (auto simp: on_fs_iff)
  moreover have "sandbox_view sd (w_fs w') = (sandbox_view sd (w_fs w1))
      (sr_id r \<mapsto> r\<lparr>sr_lease_expires_at := Some (rfc3339_now_plus lb w1 d)\<rparr>)"
    using s by (auto simp: on_fs_iff dest!: sandbox_save_Inr)
  ultimately show ?thesis using f nf ps n v1 by auto
qed

lemma renew_refuses_broken:
  assumes "calm (w_fs w)" and "sandbox_view sd (w_fs w) i = Some r" and "sr_cleanup_failed r"
  shows "fst (renew lb sd i d w) = Inl (renew_refused i) \<and>
    sandbox_view sd (w_fs (snd (renew lb sd i d w))) = sandbox_view sd (w_fs w)"
proof -
  have "fst (on_fs (sandbox_load (lb_serde lb) sd i) w) = Inr r"
    using sandbox_load_calm [OF assms(1,2)] by simp
  then obtain w1 where l: "on_fs (sandbox_load (lb_serde lb) sd i) w = (Inr r, w1)"
    by (metis prod.collapse)
  have "sandbox_view sd (w_fs w1) = sandbox_view sd (w_fs w)"
    using on_load_Inr [OF l] by (auto intro: sandbox_view_cong)
  then show ?thesis using l assms(3) by (simp add: renew_def)
qed

subsection \<open>What a sweep does\<close>

lemma cleanup_record_key_calm: "calm s \<Longrightarrow> fst (cleanup_record_key r s) = Inr ()"
  by (auto simp: cleanup_record_key_def cleanup_keypair_def calm_steps remove_dir_all_def io_op_def
      Let_def calm_def os_missing_def split: option.splits prod.splits sum.splits)

lemma cleanup_record_key_calm_iff: "calm (snd (cleanup_record_key r s)) = calm s"
  by (intro calm_cong cleanup_record_key_frame)

lemma destroy_frame:
  "(calm (w_fs (snd (destroy lb be sd i w))) \<longleftrightarrow> calm (w_fs w)) \<and> w_now (snd (destroy lb be sd i w)) = w_now w"
  for w :: "'b world"
proof -
  define P where "P v \<longleftrightarrow> (calm (w_fs v) \<longleftrightarrow> calm (w_fs w)) \<and> w_now v = w_now w" for v :: "'b world"
  have a: "P (snd (on_fs m v))" if "P v" "\<And>s. calm (snd (m s)) = calm s" for m :: "'x store_op" and v
    using that by (simp add: P_def)
  have "P (snd (destroy lb be sd i w))"
    unfolding destroy_def
    by (rule bindE_keep [where P = P] a sandboxes.calm_get sandboxes.calm_del cleanup_record_key_calm_iff | assumption | simp add: P_def)+
  then show ?thesis by (simp add: P_def)
qed

lemma sandbox_delete_view:
  "on_fs (sandbox_delete sd i) w = (x, w') \<Longrightarrow> sandbox_view sd (w_fs w') =
     (case x of Inr _ \<Rightarrow> (sandbox_view sd (w_fs w))(i := None) | Inl _ \<Rightarrow> sandbox_view sd (w_fs w))"
  by (cases x) (auto simp: on_fs_iff dest: sandboxes.del_ok sandboxes.del_err)

lemma reap_one_view:
  assumes "reap_one lb be sd i w = (d, w')"
  shows "sandbox_view sd (w_fs w') =
    (if d then (sandbox_view sd (w_fs w))(i := None) else sandbox_view sd (w_fs w))"
proof (cases "destroy lb be sd i w")
  case (Pair x w1)
  show ?thesis
  proof (cases x)
    case (Inr u)
    with assms Pair show ?thesis
      using destroy_ok_record [OF Pair [unfolded Inr]] by (auto simp: reap_one_def)
  next
    case (Inl e)
    note k = destroy_err_keeps_records [OF Pair [unfolded Inl]]
    with assms Pair Inl show ?thesis
      by (cases e) (auto simp: reap_one_def split: prod.splits sum.splits dest!: sandbox_delete_view)
  qed
qed

lemma reap_one_bk: "w_bk (snd (reap_one lb be sd i w)) = w_bk (snd (destroy lb be sd i w))"
  by (auto simp: reap_one_def on_fs_def split: prod.splits sum.splits lsbx_error.splits)

lemma reap_one_frame:
  "(calm (w_fs (snd (reap_one lb be sd i w))) \<longleftrightarrow> calm (w_fs w)) \<and> w_now (snd (reap_one lb be sd i w)) = w_now w"
proof (cases "destroy lb be sd i w")
  case (Pair x w1)
  have d: "calm (w_fs w1) \<longleftrightarrow> calm (w_fs w)" "w_now w1 = w_now w"
    using destroy_frame [of lb be sd i w] Pair by simp_all
  have s: "(calm (w_fs (snd (on_fs (sandbox_delete sd i) w1))) \<longleftrightarrow> calm (w_fs w1)) \<and>
      w_now (snd (on_fs (sandbox_delete sd i) w1)) = w_now w1"
    by (simp add: sandboxes.calm_del)
  show ?thesis
  proof (cases "on_fs (sandbox_delete sd i) w1")
    case (Pair y w2)
    with s have "(calm (w_fs w2) \<longleftrightarrow> calm (w_fs w1)) \<and> w_now w2 = w_now w1" by simp
    then show ?thesis using \<open>destroy lb be sd i w = (x, w1)\<close> Pair d
      by (auto simp: reap_one_def split: sum.splits lsbx_error.splits)
  qed
qed

text \<open>What the loop did: the destroyed sandboxes are among those it was given, and exactly their
  records are gone.\<close>

lemma reap_loop_view:
  "reap_loop lb be sd rs w = (ds, w') \<Longrightarrow>
   set ds \<subseteq> sr_id ` set rs \<and>
   sandbox_view sd (w_fs w') = (\<lambda>i. if i \<in> set ds then None else sandbox_view sd (w_fs w) i) \<and>
   (calm (w_fs w') \<longleftrightarrow> calm (w_fs w)) \<and> w_now w' = w_now w"
proof (induction rs arbitrary: ds w w')
  case Nil
  then show ?case by auto
next
  case (Cons r rs)
  obtain d w1 where o: "reap_one lb be sd (sr_id r) w = (d, w1)" by fastforce
  obtain ds' w2 where l: "reap_loop lb be sd rs w1 = (ds', w2)" by fastforce
  have e: "ds = (if d then sr_id r # ds' else ds')" "w' = w2"
    using Cons.prems o l by (auto split: if_splits)
  show ?case
    using Cons.IH [OF l] reap_one_view [OF o] reap_one_frame [of lb be sd "sr_id r" w] o e
    by (auto simp: fun_eq_iff)
qed

lemma reap_loop_distinct:
  "reap_loop lb be sd rs w = (ds, w') \<Longrightarrow> \<exists>ps. length ps = length rs \<and>
     ds = map (sr_id \<circ> fst) (filter snd (zip rs ps))"
proof (induction rs arbitrary: ds w w')
  case Nil
  then show ?case by simp
next
  case (Cons r rs)
  obtain d w1 where o: "reap_one lb be sd (sr_id r) w = (d, w1)" by fastforce
  obtain ds' w2 where l: "reap_loop lb be sd rs w1 = (ds', w2)" by fastforce
  obtain ps where "length ps = length rs" "ds' = map (sr_id \<circ> fst) (filter snd (zip rs ps))"
    using Cons.IH [OF l] by auto
  with Cons.prems o l show ?case by (intro exI [of _ "d # ps"]) auto
qed


context backend_contract begin

lemma reap_one_live:
  "live (w_bk (snd (reap_one lb be sd i w))) \<subseteq> live (w_bk w) \<and>
   live (w_bk w) - live (w_bk (snd (reap_one lb be sd i w)))
     \<subseteq> {t. \<exists>r. sandbox_view sd (w_fs w) i = Some r \<and> sr_vm_tag r = Some t}"
  unfolding reap_one_bk by (rule destroy_live [OF prod.collapse [symmetric]])

lemma reap_loop_live:
  "reap_loop lb be sd rs w = (ds, w') \<Longrightarrow>
   live (w_bk w') \<subseteq> live (w_bk w) \<and>
   live (w_bk w) - live (w_bk w') \<subseteq>
     {t. \<exists>r\<in>set rs. \<exists>q. sandbox_view sd (w_fs w) (sr_id r) = Some q \<and> sr_vm_tag q = Some t}"
proof (induction rs arbitrary: ds w w')
  case Nil
  then show ?case by simp
next
  case (Cons r rs)
  obtain d w1 where o: "reap_one lb be sd (sr_id r) w = (d, w1)" by fastforce
  obtain ds' w2 where l: "reap_loop lb be sd rs w1 = (ds', w2)" by fastforce
  have e: "w' = w2" using Cons.prems o l by (auto split: if_splits)
  have v: "sandbox_view sd (w_fs w1) k = Some q \<Longrightarrow> sandbox_view sd (w_fs w) k = Some q" for k q
    using reap_one_view [OF o] by (auto split: if_splits)
  have a: "live (w_bk w1) \<subseteq> live (w_bk w)"
    "\<And>t. t \<in> live (w_bk w) \<Longrightarrow> t \<notin> live (w_bk w1) \<Longrightarrow>
      \<exists>q. sandbox_view sd (w_fs w) (sr_id r) = Some q \<and> sr_vm_tag q = Some t"
    using reap_one_live [of lb sd "sr_id r" w, unfolded o] by auto
  note b = Cons.IH [OF l]
  show ?case
  proof (intro conjI subsetI)
    fix t assume "t \<in> live (w_bk w')"
    then show "t \<in> live (w_bk w)" using a(1) b e by blast
  next
    fix t assume t: "t \<in> live (w_bk w) - live (w_bk w')"
    show "t \<in> {t. \<exists>r\<in>set (r # rs). \<exists>q. sandbox_view sd (w_fs w) (sr_id r) = Some q \<and> sr_vm_tag q = Some t}"
    proof (cases "t \<in> live (w_bk w1)")
      case True
      with t b e obtain r' q where "r' \<in> set rs" "sandbox_view sd (w_fs w1) (sr_id r') = Some q" "sr_vm_tag q = Some t"
        by blast
      then show ?thesis using v by (auto intro: bexI [of _ r'])
    next
      case False
      then show ?thesis using a(2) [of t] t by auto
    qed
  qed
qed

lemma destroy_not_found_gone:
  assumes "destroy lb be sd i w = (Inl (NotFound m), w')" and "calm (w_fs w)"
    and v: "sandbox_view sd (w_fs w) i = Some r" and t: "sr_vm_tag r = Some t"
  shows "t \<notin> live (w_bk w')"
proof -
  have "fst (on_fs (sandbox_load (lb_serde lb) sd i) w) = Inr r"
    using sandboxes.get_calm [OF assms(2) v] by simp
  then obtain w1 where l: "on_fs (sandbox_load (lb_serde lb) sd i) w = (Inr r, w1)"
    by (metis prod.collapse)
  obtain x w2 where d: "destroy_vm be r w1 = (x, w2)" by fastforce
  show ?thesis
  proof (cases x)
    case (Inl e)
    with assms l d have "e = NotFound m" "w' = w2" by (auto simp: destroy_def)
    moreover from this d Inl t have "t \<notin> live (w_bk w1)"
      by (auto simp: destroy_vm_def on_bk_iff split: option.splits
          dest: destroy_not_found destroy_with_key_not_found)
    ultimately show ?thesis using destroy_vm_live [of r w1] d Inl t by auto
  next
    case (Inr u)
    have "w_bk w' = w_bk w2"
      using assms(1) l d Inr by (auto simp: destroy_def bindE_def on_fs_def split: prod.splits sum.splits)
    then show ?thesis using destroy_vm_live [of r w1] d Inr t by auto
  qed
qed

lemma reap_one_gone:
  assumes "reap_one lb be sd i w = (True, w')" and "calm (w_fs w)"
    and v: "sandbox_view sd (w_fs w) i = Some r" and t: "sr_vm_tag r = Some t"
  shows "t \<notin> live (w_bk w')"
proof (cases "destroy lb be sd i w")
  case (Pair x w1)
  have b: "w_bk w' = w_bk w1" using reap_one_bk [of lb be sd i w] assms(1) Pair by simp
  show ?thesis
  proof (cases x)
    case (Inr u)
    with Pair have "destroy lb be sd i w = (Inr u, w1)" by simp
    from destroy_ok_live [OF this v t] show ?thesis by (simp add: b)
  next
    case (Inl e)
    with assms(1) Pair obtain m where "e = NotFound m" by (cases e) (auto simp: reap_one_def)
    with Pair Inl have "destroy lb be sd i w = (Inl (NotFound m), w1)" by simp
    from destroy_not_found_gone [OF this assms(2) v t] show ?thesis by (simp add: b)
  qed
qed

lemma reap_loop_gone:
  "reap_loop lb be sd rs w = (ds, w') \<Longrightarrow> calm (w_fs w) \<Longrightarrow> i \<in> set ds \<Longrightarrow>
   sandbox_view sd (w_fs w) i = Some q \<Longrightarrow> sr_vm_tag q = Some t \<Longrightarrow> t \<notin> live (w_bk w')"
proof (induction rs arbitrary: ds w w')
  case Nil
  then show ?case by simp
next
  case (Cons r rs)
  obtain d w1 where o: "reap_one lb be sd (sr_id r) w = (d, w1)" by fastforce
  obtain ds' w2 where l: "reap_loop lb be sd rs w1 = (ds', w2)" by fastforce
  have e: "w' = w2" "ds = (if d then sr_id r # ds' else ds')"
    using Cons.prems o l by (auto split: if_splits)
  show ?case
  proof (cases "d \<and> i = sr_id r")
    case True
    then have "t \<notin> live (w_bk w1)" using reap_one_gone o Cons.prems(2,4,5) by metis
    then show ?thesis using reap_loop_live [OF l] e by blast
  next
    case False
    then have i: "i \<in> set ds'" using Cons.prems(3) e by (auto split: if_splits)
    have "sandbox_view sd (w_fs w1) i = Some q"
      using reap_one_view [OF o] False Cons.prems(4) by (auto split: if_splits)
    moreover have "calm (w_fs w1)"
      using reap_one_frame [of lb be sd "sr_id r" w] o Cons.prems(2) by simp
    ultimately show ?thesis using Cons.IH [OF l _ i _ Cons.prems(5)] e by simp
  qed
qed

end

lemma sandbox_list_plan [frame_simps]: "fs_plan (snd (sandbox_list sx sd s)) = fs_plan s"
proof -
  have e: "fs_plan (snd (sandbox_list_entries sx sd ns s)) = fs_plan s" for ns s
    by (induction ns arbitrary: s) (auto simp: bindE_run frame_simps split: sum.splits)
  show ?thesis
    by (auto simp: sandbox_list_def bindE_run e frame_simps split: sum.splits)
qed

lemma sandbox_list_files [frame_simps]: "fs_files (snd (sandbox_list sx sd s)) = fs_files s"
proof -
  have e: "fs_files (snd (sandbox_list_entries sx sd ns s)) = fs_files s" for ns s
    by (induction ns arbitrary: s) (auto simp: bindE_run frame_simps split: sum.splits)
  show ?thesis
    by (auto simp: sandbox_list_def bindE_run e frame_simps split: sum.splits)
qed

lemma on_list:
  "on_fs (sandbox_list sx sd) w = (x, w') \<Longrightarrow>
   sandbox_view sd (w_fs w') = sandbox_view sd (w_fs w) \<and> w_bk w' = w_bk w \<and> w_now w' = w_now w \<and>
   calm (w_fs w') = calm (w_fs w)"
  using sandbox_list_plan [of sx sd "w_fs w"] sandbox_list_files [of sx sd "w_fs w"]
  by (auto simp: on_fs_iff calm_def intro: sandbox_view_cong)

lemma on_list_Inr:
  assumes "on_fs (sandbox_list sx sd) w = (Inr rs, w')" and "r \<in> set rs"
  shows "\<exists>i. sandbox_view sd (w_fs w) i = Some r"
proof -
  obtain f where l: "sandbox_list sx sd (w_fs w) = (Inr rs, f)" using assms(1) by (auto simp: on_fs_iff)
  then have "dir_exists (store_dir sd) (w_fs w)"
    using assms(2) by (auto simp: sandbox_list_def split: if_splits)
  then show ?thesis using sandbox_list_Inr(2) [OF l] assms(2) by auto
qed

lemma set_sweep_targets:
  "set (sweep_targets lb now ttl rs) = {r \<in> set rs. is_expired lb now r \<and> is_past_grace_window lb now ttl r}"
  by (auto simp: sweep_targets_def)

text \<open>The stages of a sweep that is not a dry run.\<close>

lemma reap_real_cases:
  assumes "reap lb be sd ttl False w = (x, w')"
  obtains (unlisted) e where "on_fs (sandbox_list (lb_serde lb) sd) w = (Inl e, w')" "x = Inl e"
  | (swept) rs w1 ds w2 where "on_fs (sandbox_list (lb_serde lb) sd) w = (Inr rs, w1)"
      "reap_loop lb be sd (sweep_targets lb (w_now w) ttl rs) w1 = (ds, w2)"
      "w_fs w' = snd (sandbox_list (lb_serde lb) sd (w_fs w2))"
      "w_bk w' = w_bk w2 \<or> (\<exists>ks. w_bk w' = snd (bk_reconcile_orphaned_keys be ks (w_bk w2)))"
      "\<And>rep. x = Inr rep \<Longrightarrow> rr_destroyed rep = ds \<and> rr_would_destroy rep = []"
proof (cases "on_fs (sandbox_list (lb_serde lb) sd) w")
  case (Pair y w1)
  show ?thesis
  proof (cases y)
    case (Inl e)
    with Pair assms show ?thesis by (intro unlisted [of e]) (simp_all add: reap_def)
  next
    case (Inr rs)
    obtain ds w2 where l: "reap_loop lb be sd (sweep_targets lb (w_now w) ttl rs) w1 = (ds, w2)" by fastforce
    have n: "w_now w1 = w_now w" using on_list [OF Pair] by simp
    from assms Pair Inr l have r: "(x, w') =
        bindE (on_fs (sandbox_list (lb_serde lb) sd)) (\<lambda>rest.
          bindE (on_bk (bk_reconcile_orphaned_keys be (known_labels rest))) (\<lambda>n.
            retE \<lparr>rr_destroyed = ds, rr_would_destroy = [], rr_keys_reconciled = n\<rparr>)) w2"
      by (simp add: reap_def n)
    show ?thesis
      by (rule swept [OF Pair [unfolded Inr] l])
        (use r in \<open>auto simp: bindE_run split: sum.splits\<close>)
  qed
qed

lemma reap_dry:
  assumes "reap lb be sd ttl True w = (x, w')"
  shows "fs_files (w_fs w') = fs_files (w_fs w) \<and> w_bk w' = w_bk w"
proof -
  have "fs_files (w_fs (snd (on_fs (sandbox_list sx sd) w))) = fs_files (w_fs w)" for sx
    by (simp add: frame_simps)
  moreover have "w_bk (snd (on_fs (sandbox_list sx sd) w)) = w_bk w" for sx by simp
  ultimately show ?thesis
    using assms by (auto simp: reap_def bindE_run Let_def split: sum.splits)
qed

lemma reap_records:
  assumes "reap lb be sd ttl False w = (x, w')"
    and ids: "\<And>k r. sandbox_view sd (w_fs w) k = Some r \<Longrightarrow> sr_id r = k"
  shows "sandbox_view sd (w_fs w') k = sandbox_view sd (w_fs w) k \<or>
    sandbox_view sd (w_fs w') k = None \<and>
      (\<exists>r. sandbox_view sd (w_fs w) k = Some r \<and> is_expired lb (w_now w) r \<and>
        is_past_grace_window lb (w_now w) ttl r)"
  using assms(1)
proof (cases rule: reap_real_cases)
  case (unlisted e)
  then show ?thesis using on_list [OF unlisted(1)] by simp
next
  case (swept rs w1 ds w2)
  have v1: "sandbox_view sd (w_fs w1) = sandbox_view sd (w_fs w)" using on_list [OF swept(1)] by simp
  have v': "sandbox_view sd (w_fs w') = sandbox_view sd (w_fs w2)"
    by (rule sandbox_view_cong) (simp add: swept(3) frame_simps)
  note l = reap_loop_view [OF swept(2)]
  show ?thesis
  proof (cases "k \<in> set ds")
    case True
    with l obtain r where r: "r \<in> set (sweep_targets lb (w_now w) ttl rs)" "sr_id r = k" by auto
    then have "sandbox_view sd (w_fs w) k = Some r"
      using on_list_Inr [OF swept(1), of r] ids by (auto simp: set_sweep_targets)
    then show ?thesis using r True l v' by (simp add: set_sweep_targets)
  next
    case False
    then show ?thesis using l v' v1 by simp
  qed
qed



context backend_contract begin

lemma reap_vms:
  assumes "reap lb be sd ttl False w = (x, w')"
    and ids: "\<And>k r. sandbox_view sd (w_fs w) k = Some r \<Longrightarrow> sr_id r = k"
  shows "live (w_bk w') \<subseteq> live (w_bk w) \<and>
    (\<forall>t \<in> live (w_bk w) - live (w_bk w').
      \<exists>k r. sandbox_view sd (w_fs w) k = Some r \<and> sr_vm_tag r = Some t \<and>
        is_expired lb (w_now w) r \<and> is_past_grace_window lb (w_now w) ttl r)"
  using assms(1)
proof (cases rule: reap_real_cases)
  case (unlisted e)
  then show ?thesis using on_list [OF unlisted(1)] by simp
next
  case (swept rs w1 ds w2)
  have b: "live (w_bk w') = live (w_bk w2)" using swept(4) by (auto simp: reconcile_live)
  note o = on_list [OF swept(1)] and l = reap_loop_live [OF swept(2)]
  have "\<exists>k r. sandbox_view sd (w_fs w) k = Some r \<and> sr_vm_tag r = Some t \<and>
        is_expired lb (w_now w) r \<and> is_past_grace_window lb (w_now w) ttl r"
    if t: "t \<in> live (w_bk w1)" "t \<notin> live (w_bk w2)" for t
  proof -
    from l t obtain r q where q: "r \<in> set (sweep_targets lb (w_now w) ttl rs)"
      "sandbox_view sd (w_fs w1) (sr_id r) = Some q" "sr_vm_tag q = Some t" by blast
    moreover have "sandbox_view sd (w_fs w) (sr_id r) = Some r"
      using on_list_Inr [OF swept(1), of r] ids q(1) by (auto simp: set_sweep_targets)
    ultimately show ?thesis using o by (auto simp: set_sweep_targets)
  qed
  then show ?thesis using b o l by simp
qed

lemma reap_destroyed_gone:
  assumes "reap lb be sd ttl False w = (Inr rep, w')" and "calm (w_fs w)"
    and "i \<in> set (rr_destroyed rep)" and "sandbox_view sd (w_fs w) i = Some r"
  shows "sandbox_view sd (w_fs w') i = None \<and> (\<forall>t. sr_vm_tag r = Some t \<longrightarrow> t \<notin> live (w_bk w'))"
  using assms(1)
proof (cases rule: reap_real_cases)
  case (unlisted e)
  then show ?thesis by simp
next
  case (swept rs w1 ds w2)
  have b: "live (w_bk w') = live (w_bk w2)" using swept(4) by (auto simp: reconcile_live)
  have v': "sandbox_view sd (w_fs w') = sandbox_view sd (w_fs w2)"
    by (rule sandbox_view_cong) (simp add: swept(3) frame_simps)
  have i: "i \<in> set ds" using swept(5) assms(3) by simp
  note o = on_list [OF swept(1)]
  have "t \<notin> live (w_bk w2)" if "sr_vm_tag r = Some t" for t
    using reap_loop_gone [OF swept(2) _ i _ that] o assms(2,4) by simp
  then show ?thesis using reap_loop_view [OF swept(2)] i v' b by simp
qed

end

subsection \<open>A backend that answers\<close>

text \<open>
  On a backend that answers every destruction with success or \<open>NotFound\<close> and a file system that
  refuses nothing, a sweep leaves no expired sandbox behind.
\<close>

locale answering_backend = backend_contract be live
  for be :: "'b backend" and live :: "'b \<Rightarrow> string set" +
  fixes up :: "'b \<Rightarrow> bool"
  assumes up_destroy: "up s \<Longrightarrow> up (snd (bk_destroy be t s)) \<and>
      (fst (bk_destroy be t s) = Inr () \<or> (\<exists>m. fst (bk_destroy be t s) = Inl (NotFound m)))"
    and up_destroy_with_key: "up s \<Longrightarrow> up (snd (bk_destroy_with_key be t k s)) \<and>
      (fst (bk_destroy_with_key be t k s) = Inr () \<or>
       (\<exists>m. fst (bk_destroy_with_key be t k s) = Inl (NotFound m)))"
begin

lemma destroy_vm_up:
  assumes "up (w_bk w)"
  shows "up (w_bk (snd (destroy_vm be r w))) \<and>
    (fst (destroy_vm be r w) = Inr () \<or> (\<exists>m. fst (destroy_vm be r w) = Inl (NotFound m)))"
  using assms up_destroy [OF assms] up_destroy_with_key [OF assms]
  by (auto simp: destroy_vm_def split: option.splits)

lemma destroy_up: "up (w_bk w) \<Longrightarrow> up (w_bk (snd (destroy lb be sd i w)))"
  unfolding destroy_def
  by (rule bindE_keep [where P = "\<lambda>v. up (w_bk v)"] | assumption | simp add: destroy_vm_up)+

lemma reap_one_answers:
  assumes "up (w_bk w)" and "calm (w_fs w)" and "sandbox_view sd (w_fs w) i = Some r"
  shows "fst (reap_one lb be sd i w)"
proof -
  have "fst (on_fs (sandbox_load (lb_serde lb) sd i) w) = Inr r"
    using sandboxes.get_calm [OF assms(2,3)] by simp
  then obtain w1 where l: "on_fs (sandbox_load (lb_serde lb) sd i) w = (Inr r, w1)"
    by (metis prod.collapse)
  have "w1 = snd (on_fs (sandbox_load (lb_serde lb) sd i) w)" using l by simp
  then have w1: "up (w_bk w1)" "calm (w_fs w1)" using assms(1,2) by (simp_all add: sandboxes.calm_get)
  obtain x w2 where d: "destroy_vm be r w1 = (x, w2)" by fastforce
  have w2: "calm (w_fs w2)" using d w1 destroy_vm_Inr_fs by metis
  have del: "fst (on_fs (sandbox_delete sd i) v) = Inr ()" if "calm (w_fs v)" for v :: "'b world"
    using that by (simp add: sandboxes.del_calm)
  show ?thesis
  proof (cases x)
    case (Inl e)
    then obtain m where e: "e = NotFound m" using destroy_vm_up [OF w1(1), of r] d by auto
    have "destroy lb be sd i w = (Inl (NotFound m), w2)" using l d Inl e by (simp add: destroy_def)
    moreover obtain w3 where "on_fs (sandbox_delete sd i) w2 = (Inr (), w3)"
      using del [OF w2] by (metis prod.collapse)
    ultimately show ?thesis by (simp add: reap_one_def)
  next
    case (Inr u)
    define w3 where "w3 = snd (on_fs (cleanup_record_key r) w2)"
    have c: "on_fs (cleanup_record_key r) w2 = (Inr (), w3)"
      using cleanup_record_key_calm [OF w2] by (simp add: w3_def prod_eq_iff)
    have "calm (w_fs w3)" using w2 by (simp add: w3_def cleanup_record_key_calm_iff)
    then have "fst (destroy lb be sd i w) = Inr ()" using l d Inr c del by (simp add: destroy_def)
    then show ?thesis by (auto simp: reap_one_def split: prod.splits)
  qed
qed

lemma reap_loop_answers:
  "reap_loop lb be sd rs w = (ds, w') \<Longrightarrow> up (w_bk w) \<Longrightarrow> calm (w_fs w) \<Longrightarrow>
   (\<And>r. r \<in> set rs \<Longrightarrow> sandbox_view sd (w_fs w) (sr_id r) \<noteq> None \<or> sr_id r \<in> D) \<Longrightarrow>
   sr_id ` set rs \<subseteq> set ds \<union> D"
proof (induction rs arbitrary: ds w w' D)
  case Nil
  then show ?case by simp
next
  case (Cons r rs)
  obtain d w1 where o: "reap_one lb be sd (sr_id r) w = (d, w1)" by fastforce
  obtain ds' w2 where l: "reap_loop lb be sd rs w1 = (ds', w2)" by fastforce
  have ds: "ds = (if d then sr_id r # ds' else ds')" using Cons.prems(1) o l by (auto split: if_splits)
  have d: "d \<or> sr_id r \<in> D"
    using reap_one_answers [OF Cons.prems(2,3), of sd "sr_id r"] Cons.prems(4) [of r] o
    by (metis fst_conv list.set_intros(1) option.collapse)
  have "up (w_bk w1)" using reap_one_bk [of lb be sd "sr_id r" w] destroy_up [OF Cons.prems(2)] o by simp
  moreover have "calm (w_fs w1)" using reap_one_frame [of lb be sd "sr_id r" w] o Cons.prems(3) by simp
  moreover have "sandbox_view sd (w_fs w1) (sr_id q) \<noteq> None \<or> sr_id q \<in> insert (sr_id r) D"
    if "q \<in> set rs" for q
    using reap_one_view [OF o] Cons.prems(4) [of q] that by (auto split: if_splits)
  ultimately have "sr_id ` set rs \<subseteq> set ds' \<union> insert (sr_id r) D" by (rule Cons.IH [OF l])
  then show ?case using d ds by auto
qed

text \<open>Every file of the store that a listing opens holds a record.\<close>

end

definition all_decode :: "string \<Rightarrow> fs \<Rightarrow> bool" where
  "all_decode sd s \<longleftrightarrow> (\<forall>i. record_file i \<in> set (dir_names s (store_dir sd)) \<longrightarrow>
     i \<noteq> [] \<longrightarrow> sandbox_view sd s i \<noteq> None)"

lemma json_names:
  assumes "file_extension n = Some ''json''"
  shows "file_stem n \<noteq> [] \<and> record_file (file_stem n) = n"
proof -
  have n: "record_file (file_stem n) = n" using ignore_other_names [OF assms] .
  moreover have "file_stem n \<noteq> []"
  proof
    assume "file_stem n = []"
    with n have "n = ''.json''" by (simp add: record_file_def)
    moreover have "file_extension ''.json'' = None" by code_simp
    ultimately show False using assms by simp
  qed
  ultimately show ?thesis by simp
qed

lemma sandbox_list_entries_calm:
  assumes "calm s" and "\<And>n. n \<in> set ns \<Longrightarrow> file_extension n = Some ''json'' \<Longrightarrow> sandbox_view sd s (file_stem n) \<noteq> None"
  shows "fst (sandbox_list_entries sx sd ns s) \<in> range Inr"
  using assms
proof (induction ns arbitrary: s)
  case Nil
  then show ?case by simp
next
  case (Cons n ns)
  obtain s1 where i: "io_op (retE ()) s = (Inr (), s1)"
    using Cons.prems(1) by (auto simp: io_op_def Let_def calm_def)
  then have s1: "s1 = snd (io_op (retE ()) s)" by simp
  have f: "fs_files s1 = fs_files s" "fs_plan s1 = fs_plan s" by (simp_all add: s1 io_op_ret_snd)
  have c: "calm s1" using Cons.prems(1) f by (simp add: calm_def)
  show ?case
  proof (cases "file_extension n = Some ''json''")
    case False
    have "fst (sandbox_list_entries sx sd ns s1) \<in> range Inr"
      using Cons.prems(2) c by (intro Cons.IH) (simp_all add: sandbox_view_cong [OF f(1)])
    then show ?thesis using i False by simp
  next
    case True
    obtain r where "sandbox_view sd s1 (file_stem n) = Some r"
      using Cons.prems(2) [of n] True by (auto simp: sandbox_view_cong [OF f(1)])
    then have "fst (sandbox_load sx sd (file_stem n) s1) = Inr r" using sandboxes.get_calm c by blast
    then obtain s2 where l: "sandbox_load sx sd (file_stem n) s1 = (Inr r, s2)" by (metis prod.collapse)
    then have s2: "s2 = snd (sandbox_load sx sd (file_stem n) s1)" by simp
    have g: "fs_files s2 = fs_files s" "calm s2" using f c by (simp_all add: s2 frame_simps sandboxes.calm_get)
    have "fst (sandbox_list_entries sx sd ns s2) \<in> range Inr"
      using Cons.prems(2) g(2) by (intro Cons.IH) (simp_all add: sandbox_view_cong [OF g(1)])
    then show ?thesis using i True l by (auto simp: bindE_run split: sum.splits)
  qed
qed

lemma sandbox_list_calm:
  assumes "calm s" and "all_decode sd s"
  shows "fst (sandbox_list sx sd s) \<in> range Inr"
proof (cases "dir_exists (store_dir sd) s")
  case False
  then show ?thesis by (simp add: sandbox_list_def)
next
  case True
  then obtain s1 where r: "read_dir (store_dir sd) s = (Inr (dir_names s (store_dir sd)), s1)"
    using assms(1)
    by (auto simp: read_dir_def io_op_def Let_def calm_def dir_exists_def dir_names_def dir_mode_def split: option.splits)
  then have s1: "s1 = snd (read_dir (store_dir sd) s)" by simp
  have f: "fs_files s1 = fs_files s" "fs_plan s1 = fs_plan s" by (simp_all add: s1 frame_simps)
  have "fst (sandbox_list_entries sx sd (dir_names s (store_dir sd)) s1) \<in> range Inr"
    using assms f(2) json_names
    by (intro sandbox_list_entries_calm) (auto simp: sandbox_view_cong [OF f(1)] all_decode_def calm_def)
  then show ?thesis using True r by (simp add: sandbox_list_def)
qed


lemma all_decode_shrink:
  assumes "\<And>n. fs_get s' (store_dir sd) n = fs_get s (store_dir sd) n \<or> fs_get s' (store_dir sd) n = None"
    and "all_decode sd s"
  shows "all_decode sd s'"
  unfolding all_decode_def
proof (intro allI impI)
  fix i assume "record_file i \<in> set (dir_names s' (store_dir sd))" "i \<noteq> []"
  moreover from this have "fs_get s' (store_dir sd) (record_file i) = fs_get s (store_dir sd) (record_file i)"
    using assms(1) [of "record_file i"] by (auto simp: dir_names_iff)
  moreover from calculation have "sandbox_view sd s' i = sandbox_view sd s i" by (simp add: sandbox_view_def)
  ultimately show "sandbox_view sd s' i \<noteq> None"
    using assms(2) by (simp add: all_decode_def dir_names_iff)
qed

lemma sandbox_delete_get:
  "fs_get (snd (sandbox_delete sd i s)) d n = fs_get s d n \<or> fs_get (snd (sandbox_delete sd i s)) d n = None"
proof (cases "sandbox_delete sd i s")
  case (Pair x s')
  show ?thesis
  proof (cases x)
    case (Inl e)
    have "fs_files s' = fs_files s" by (rule delete_Inl(1) [OF Pair [unfolded Inl]])
    then have "fs_get s' d n = fs_get s d n" by (rule fs_get_frame)
    with Pair show ?thesis by simp
  next
    case (Inr u)
    with Pair show ?thesis using sandbox_delete_Inr [of sd i s u s' d n] by simp
  qed
qed

lemma all_decode_delete: "all_decode sd s \<Longrightarrow> all_decode sd (snd (sandbox_delete sd i s))"
  by (rule all_decode_shrink [OF sandbox_delete_get])

lemma all_decode_cleanup: "all_decode sd s \<Longrightarrow> all_decode sd (snd (cleanup_record_key r s))"
  by (erule all_decode_shrink [rotated], cases "sr_key_path r")
    (simp_all add: cleanup_record_key_def cleanup_other_dir [OF store_dir_plain])

lemma all_decode_files: "fs_files s' = fs_files s \<Longrightarrow> all_decode sd s \<Longrightarrow> all_decode sd s'"
  by (erule all_decode_shrink [rotated]) (rule disjI1, rule fs_get_frame)

lemma all_decode_load: "all_decode sd s \<Longrightarrow> all_decode sd (snd (sandbox_load sx sd i s))"
  by (rule all_decode_files) (simp_all add: frame_simps)

lemma destroy_all_decode:
  "all_decode sd (w_fs w) \<Longrightarrow> all_decode sd (w_fs (snd (destroy lb be sd i w)))"
  unfolding destroy_def
  by (rule bindE_keep [where P = "\<lambda>v. all_decode sd (w_fs v)"] | assumption |
      (simp only: on_fs_simps destroy_vm_fs all_decode_load all_decode_delete all_decode_cleanup; fail))+

lemma reap_loop_all_decode:
  "reap_loop lb be sd rs w = (ds, w') \<Longrightarrow> all_decode sd (w_fs w) \<Longrightarrow> all_decode sd (w_fs w')"
proof (induction rs arbitrary: ds w w')
  case Nil
  then show ?case by simp
next
  case (Cons r rs)
  obtain d w1 where o: "reap_one lb be sd (sr_id r) w = (d, w1)" by fastforce
  obtain ds' w2 where l: "reap_loop lb be sd rs w1 = (ds', w2)" by fastforce
  have e: "w' = w2" using Cons.prems(1) o l by (auto split: if_splits)
  obtain x v where d: "destroy lb be sd (sr_id r) w = (x, v)" by fastforce
  have v: "all_decode sd (w_fs v)" using destroy_all_decode [OF Cons.prems(2), of lb be "sr_id r"] d by simp
  obtain y u where s: "on_fs (sandbox_delete sd (sr_id r)) v = (y, u)" by fastforce
  have "u = snd (on_fs (sandbox_delete sd (sr_id r)) v)" using s by simp
  then have "all_decode sd (w_fs u)" using v by (simp add: all_decode_delete)
  then have "all_decode sd (w_fs w1)" using o d v s
    by (auto simp: reap_one_def split: sum.splits lsbx_error.splits)
  then show ?case using Cons.IH [OF l] e by simp
qed

context answering_backend begin

lemma reap_loop_up: "reap_loop lb be sd rs w = (ds, w') \<Longrightarrow> up (w_bk w) \<Longrightarrow> up (w_bk w')"
proof (induction rs arbitrary: ds w w')
  case Nil
  then show ?case by simp
next
  case (Cons r rs)
  obtain d w1 where o: "reap_one lb be sd (sr_id r) w = (d, w1)" by fastforce
  obtain ds' w2 where l: "reap_loop lb be sd rs w1 = (ds', w2)" by fastforce
  have "up (w_bk w1)" using reap_one_bk [of lb be sd "sr_id r" w] destroy_up [OF Cons.prems(2)] o by simp
  then show ?case using Cons.IH [OF l] Cons.prems(1) o l by (auto split: if_splits)
qed

lemma reap_converges:
  assumes "calm (w_fs w)" and "up (w_bk w)" and "all_decode sd (w_fs w)" and "dir_exists (store_dir sd) (w_fs w)"
    and ids: "\<And>k r. sandbox_view sd (w_fs w) k = Some r \<Longrightarrow> sr_id r = k"
    and rec: "\<And>ks s. up s \<Longrightarrow> fst (bk_reconcile_orphaned_keys be ks s) \<in> range Inr"
  shows "\<exists>rep w'. reap lb be sd ttl False w = (Inr rep, w') \<and>
    (\<forall>k r. k \<noteq> [] \<longrightarrow> sandbox_view sd (w_fs w') k = Some r \<longrightarrow>
      \<not> (is_expired lb (w_now w) r \<and> is_past_grace_window lb (w_now w) ttl r))"
proof -
  obtain rs f where sl: "sandbox_list (lb_serde lb) sd (w_fs w) = (Inr rs, f)"
    using sandbox_list_calm [OF assms(1,3), of "lb_serde lb"] by (metis prod.collapse rangeE)
  define w1 where "w1 = w\<lparr>w_fs := f\<rparr>"
  have l: "on_fs (sandbox_list (lb_serde lb) sd) w = (Inr rs, w1)" using sl by (simp add: on_fs_iff w1_def)
  note o = on_list [OF l]
  let ?T = "sweep_targets lb (w_now w) ttl rs"
  obtain ds w2 where lp: "reap_loop lb be sd ?T w1 = (ds, w2)" by fastforce
  note v2 = reap_loop_view [OF lp]
  have "calm (w_fs w2)" "up (w_bk w2)" "all_decode sd (w_fs w2)"
    using v2 o assms reap_loop_up [OF lp] reap_loop_all_decode [OF lp]
      all_decode_files [of "w_fs w1" "w_fs w" sd] sandbox_list_Inr(1) [OF sl] by (auto simp: w1_def)
  then obtain rest w3 where l3: "on_fs (sandbox_list (lb_serde lb) sd) w2 = (Inr rest, w3)"
    using sandbox_list_calm [of "w_fs w2" sd "lb_serde lb"]
    by (metis on_fs_simps(1) prod.collapse rangeE)
  have "up (w_bk w3)" using on_list [OF l3] \<open>up (w_bk w2)\<close> by simp
  then obtain n w4 where l4: "on_bk (bk_reconcile_orphaned_keys be (known_labels rest)) w3 = (Inr n, w4)"
    using rec [of "w_bk w3" "known_labels rest"] by (metis on_bk_simps(1) prod.collapse rangeE)
  have r: "reap lb be sd ttl False w = (Inr \<lparr>rr_destroyed = ds, rr_would_destroy = [], rr_keys_reconciled = n\<rparr>, w4)"
    using l lp l3 l4 o by (simp add: reap_def)
  have v4: "sandbox_view sd (w_fs w4) = sandbox_view sd (w_fs w2)"
    using on_list [OF l3] l4 by (auto simp: on_bk_iff)
  have "sr_id ` set ?T \<subseteq> set ds \<union> {}"
  proof (rule reap_loop_answers [OF lp])
    show "up (w_bk w1)" "calm (w_fs w1)" using o assms by simp_all
    fix r assume "r \<in> set ?T"
    then show "sandbox_view sd (w_fs w1) (sr_id r) \<noteq> None \<or> sr_id r \<in> {}"
      using on_list_Inr [OF l, of r] ids o by (auto simp: set_sweep_targets)
  qed
  then have T: "sr_id ` set ?T \<subseteq> set ds" by simp
  have "\<not> (is_expired lb (w_now w) r \<and> is_past_grace_window lb (w_now w) ttl r)"
    if k: "k \<noteq> []" "sandbox_view sd (w_fs w4) k = Some r" for k r
  proof
    assume x: "is_expired lb (w_now w) r \<and> is_past_grace_window lb (w_now w) ttl r"
    have kv: "k \<notin> set ds" "sandbox_view sd (w_fs w) k = Some r"
      using k(2) v4 v2 o by (auto split: if_splits)
    have "r \<in> set rs" using sandbox_list_Inr(2) [OF sl assms(4)] kv(2) k(1)
      by (auto simp: record_file_def file_extension_json intro!: exI [of _ k])
    then have "k \<in> sr_id ` set ?T" using x ids [OF kv(2)] by (auto simp: set_sweep_targets)
    then show False using T kv(1) by auto
  qed
  then show ?thesis using r by blast
qed

end

interpretation demo_up: answering_backend "demo_backend sha" demo_live "\<lambda>s. ds_fault s = FNone" for sha
  by unfold_locales (auto simp: demo_backend_def demo_destroy_def default_destroy_with_key_def demo_no_vm_def)

subsection \<open>Creating keeps what the host refuses\<close>

lemma drop_plan: "fs_plan (w_fs (drop_keypair kp w)) = fs_plan (w_fs w)"
  by (rule drop_keypair_frame(4))

lemma on_error_keep: "P (snd (m w)) \<Longrightarrow> (\<And>v. P v \<Longrightarrow> P (c v)) \<Longrightarrow> P (snd (on_error m c w))"
  by (auto simp: snd_on_error split: sum.split)

lemma create_plan: "fs_plan (w_fs (snd (create lb be sd rq w))) = fs_plan (w_fs w)" for w :: "'b world"
proof -
  define P where "P v \<longleftrightarrow> fs_plan (w_fs v) = fs_plan (w_fs w)" for v :: "'b world"
  have k: "P (snd (make_keypair lb sd rq i v))" if "P v" for i v
    using that make_keypair_frame [of lb sd rq i v] by (metis P_def prod.collapse)
  have d: "P (drop_keypair kp v)" if "P v" for kp v
    using that by (simp add: P_def drop_plan)
  have r: "P (snd (register_key be kp vm v))" if "P v" for kp vm v
    unfolding register_key_def
    using that by (cases kp) (auto simp: P_def snd_on_error drop_plan split: sum.split)
  have s: "P (snd (on_fs (sandbox_save sd q) v))" if "P v" for q v
    using that by (simp add: P_def sandbox_save_def frame_simps)
  have p: "P (snd (poll_ready lb be t c tmo i v))" if "P v" for t c tmo i v
    using that poll_ready_sound(1) [of lb be t c tmo i v] by (metis P_def prod.collapse)
  have c: "P (snd (on_error (on_bk (bk_create_from_golden be q)) (drop_keypair kp) v))" if "P v" for q kp v
    using that by (intro on_error_keep [where P = P] d) (simp_all add: P_def)
  have "P (snd (create lb be sd rq w))"
    unfolding create_def Let_def
    by (rule bindE_keep [where P = P] k c r s p | assumption | (simp add: P_def; fail) | simp only: Let_def split: if_split | simp only: retE_run snd_conv | intro conjI impI)+
  then show ?thesis by (simp add: P_def)
qed

text \<open>What a dry run of the sweep reports.\<close>

lemma reap_dry_report:
  assumes "reap lb be sd ttl True w = (Inr rep, w')" and "dir_exists (store_dir sd) (w_fs w)"
    and ids: "\<And>k r. sandbox_view sd (w_fs w) k = Some r \<Longrightarrow> sr_id r = k"
  shows "rr_destroyed rep = [] \<and>
    (\<forall>k. k \<in> set (rr_would_destroy rep) \<longleftrightarrow> file_extension (record_file k) = Some ''json'' \<and>
      (\<exists>r. sandbox_view sd (w_fs w) k = Some r \<and> is_expired lb (w_now w) r \<and>
        is_past_grace_window lb (w_now w) ttl r))"
proof -
  obtain rs w1 where l: "on_fs (sandbox_list (lb_serde lb) sd) w = (Inr rs, w1)"
    and rep: "rr_destroyed rep = []" "rr_would_destroy rep = map sr_id (sweep_targets lb (w_now w1) ttl rs)"
    using assms(1) by (auto simp: reap_def bindE_Inr_iff Let_def)
  obtain f where sl: "sandbox_list (lb_serde lb) sd (w_fs w) = (Inr rs, f)" using l by (auto simp: on_fs_iff)
  have n: "w_now w1 = w_now w" using on_list [OF l] by blast
  have m: "r \<in> set rs \<longleftrightarrow> file_extension (record_file (sr_id r)) = Some ''json'' \<and> sandbox_view sd (w_fs w) (sr_id r) = Some r" for r
    using sandbox_list_Inr(2) [OF sl assms(2)] ids by metis
  show ?thesis using ids by (auto simp: rep n set_sweep_targets m image_iff)
qed

text \<open>The key pair a caller is handed: its directory is private from the start, and so is the file.\<close>

lemma generate_keypair_private:
  assumes "generate_ephemeral_keypair_in kl base label s = (Inr kp, s')"
  shows "\<exists>dir x priv. dir = base @ ''/'' @ key_dir_prefix @ x \<and> kp_private_key_path kp = dir @ ''/'' @ key_file_name \<and>
    kp_label kp = label \<and> dir_mode s' dir = Some mode_0700 \<and>
    fs_get s' dir key_file_name = Some (FText priv, mode_0600) \<and>
    kl_private kl (fs_tick s) (''lsbx:'' @ label) = Inr priv"
proof -
  obtain dir priv pub s1 s2 s3 s4 s5 where
    d: "temp_dir_in base key_dir_prefix s1 = (Inr dir, s2)"
    and m: "set_dir_mode dir mode_0700 s2 = (Inr (), s3)"
    and k: "kl_private kl (fs_tick s) (''lsbx:'' @ label) = Inr priv"
    and c: "create_new_file dir key_file_name mode_0600 s3 = (Inr (), s4)"
    and w: "write_file dir key_file_name (FText priv) s4 = (Inr (), s')"
    and kp: "kp = \<lparr>kp_private_key_path = dir @ ''/'' @ key_file_name, kp_public_key_line = pub, kp_label = label\<rparr>"
    using assms by (auto simp: generate_ephemeral_keypair_in_def bindE_Inr_iff key_lib_result_def split: sum.splits)
  have "dir_mode s3 dir = Some mode_0700" using m
    by (auto simp: set_dir_mode_def io_op_def Let_def dir_mode_def update_conv' split: option.splits)
  then have "dir_mode s' dir = Some mode_0700" using c w
    by (auto simp: create_new_file_def write_file_def io_op_def Let_def dir_mode_def split: option.splits)
  moreover have "fs_get s4 dir key_file_name = Some (FText [], mode_0600)" using c
    by (auto simp: create_new_file_def io_op_def Let_def fs_get_def update_conv' split: option.splits)
  then have "fs_get s' dir key_file_name = Some (FText priv, mode_0600)" using w
    by (auto simp: write_file_def io_op_def Let_def fs_get_def update_conv' split: option.splits)
  ultimately show ?thesis using temp_dir_in_Inr [OF d] kp k by auto
qed

end
