(* ===== verification/Lsbx_Registry.thy ===== *)
theory Lsbx_Registry
  imports Lsbx_Lifecycle
begin

text \<open>
  The golden image registry of \<open>lsbx-golden\<close> (\<open>registry.rs\<close>): the manifest with its JSON form,
  the validity of keys and bases, the resolution of a profile to a golden, loading and saving; and
  the content hash of an image (\<open>hash.rs\<close>). A manifest's path is its directory and name. SHA-256
  and the messages of \<open>serde_json\<close> are parameters. A hash map is its list of entries.
\<close>

datatype golden_flavor = Desktop | Agent | CiRunner
datatype golden_mode = Copy | New
datatype streaming_mode = StreamNone | Novnc

datatype profile_config = ProfileGolden string | ProfileIso string string

record image_config =
  ic_key :: string
  ic_os :: string
  ic_arch :: string
  ic_iso_path :: string
  ic_description :: string

record golden_config =
  gc_key :: string
  gc_flavor :: golden_flavor
  gc_os :: string
  gc_base :: string
  gc_mode :: golden_mode
  gc_cpu :: nat
  gc_memory :: string
  gc_disk :: "string option"
  gc_streaming :: streaming_mode
  gc_capabilities :: "string list"
  gc_healthcheck :: "string list"
  gc_repo :: "string option"
  gc_content_hash :: "string option"
  gc_description :: string

record image_registry =
  ir_images :: "image_config list"
  ir_goldens :: "golden_config list"
  ir_profiles :: "(string \<times> profile_config) list"

subsection \<open>The JSON form\<close>

text \<open>A variant without data is its name, or an object of its name and null.\<close>

definition variant_name :: "json \<Rightarrow> string option" where
  "variant_name v = (case v of JStr s \<Rightarrow> Some s | JObj [(s, JNull)] \<Rightarrow> Some s | _ \<Rightarrow> None)"

definition format_golden_flavor :: "golden_flavor \<Rightarrow> string" where
  "format_golden_flavor f =
     (case f of Desktop \<Rightarrow> ''desktop'' | Agent \<Rightarrow> ''agent'' | CiRunner \<Rightarrow> ''ci-runner'')"

definition flavor_of_name :: "string \<Rightarrow> golden_flavor option" where
  "flavor_of_name s = (if s = ''desktop'' then Some Desktop else if s = ''agent'' then Some Agent
     else if s = ''ci-runner'' then Some CiRunner else None)"

definition mode_name :: "golden_mode \<Rightarrow> string" where
  "mode_name m = (case m of Copy \<Rightarrow> ''copy'' | New \<Rightarrow> ''new'')"

definition mode_of_name :: "string \<Rightarrow> golden_mode option" where
  "mode_of_name s = (if s = ''copy'' then Some Copy else if s = ''new'' then Some New else None)"

definition format_streaming_mode :: "streaming_mode \<Rightarrow> string" where
  "format_streaming_mode m = (case m of StreamNone \<Rightarrow> ''none'' | Novnc \<Rightarrow> ''novnc'')"

definition streaming_of_name :: "string \<Rightarrow> streaming_mode option" where
  "streaming_of_name s = (if s = ''none'' then Some StreamNone else if s = ''novnc'' then Some Novnc else None)"

definition dec_variant :: "(string \<Rightarrow> 'a option) \<Rightarrow> json \<Rightarrow> 'a option" where
  "dec_variant of_name v = Option.bind (variant_name v) of_name"

definition image_to_json :: "image_config \<Rightarrow> json" where
  "image_to_json i = JObj [(''key'', JStr (ic_key i)), (''os'', JStr (ic_os i)), (''arch'', JStr (ic_arch i)),
     (''iso_path'', JStr (ic_iso_path i)), (''description'', JStr (ic_description i))]"

definition image_of_json :: "json \<Rightarrow> image_config option" where
  "image_of_json v =
     Option.bind (struct_fields [''key'', ''os'', ''arch'', ''iso_path'', ''description''] 0 v) (\<lambda>fs.
     Option.bind (fld_req fs ''key'' dec_str) (\<lambda>k.
     Option.bind (fld_req fs ''os'' dec_str) (\<lambda>os.
     Option.bind (fld_req fs ''arch'' dec_str) (\<lambda>a.
     Option.bind (fld_req fs ''iso_path'' dec_str) (\<lambda>p.
     Option.bind (fld_req fs ''description'' dec_str) (\<lambda>d.
       Some \<lparr>ic_key = k, ic_os = os, ic_arch = a, ic_iso_path = p, ic_description = d\<rparr>))))))"

definition jstrs :: "string list \<Rightarrow> json" where
  "jstrs xs = JArr (map JStr xs)"

definition golden_to_json :: "golden_config \<Rightarrow> json" where
  "golden_to_json g = JObj
     [(''key'', JStr (gc_key g)), (''flavor'', JStr (format_golden_flavor (gc_flavor g))),
      (''os'', JStr (gc_os g)), (''base'', JStr (gc_base g)), (''mode'', JStr (mode_name (gc_mode g))),
      (''cpu'', JNum (int (gc_cpu g))), (''memory'', JStr (gc_memory g)),
      (''disk'', jstr_opt (gc_disk g)), (''streaming'', JStr (format_streaming_mode (gc_streaming g))),
      (''capabilities'', jstrs (gc_capabilities g)), (''healthcheck'', jstrs (gc_healthcheck g)),
      (''repo'', jstr_opt (gc_repo g)), (''content_hash'', jstr_opt (gc_content_hash g)),
      (''description'', JStr (gc_description g))]"

definition golden_field_names :: "string list" where
  "golden_field_names = [''key'', ''flavor'', ''os'', ''base'', ''mode'', ''cpu'', ''memory'', ''disk'',
     ''streaming'', ''capabilities'', ''healthcheck'', ''repo'', ''content_hash'', ''description'']"

definition golden_of_json :: "json \<Rightarrow> golden_config option" where
  "golden_of_json v =
     Option.bind (struct_fields golden_field_names 0 v) (\<lambda>fs.
     Option.bind (fld_req fs ''key'' dec_str) (\<lambda>k.
     Option.bind (fld_req fs ''flavor'' (dec_variant flavor_of_name)) (\<lambda>f.
     Option.bind (fld_req fs ''os'' dec_str) (\<lambda>os.
     Option.bind (fld_req fs ''base'' dec_str) (\<lambda>b.
     Option.bind (fld_req fs ''mode'' (dec_variant mode_of_name)) (\<lambda>m.
     Option.bind (fld_req fs ''cpu'' dec_u32) (\<lambda>c.
     Option.bind (fld_req fs ''memory'' dec_str) (\<lambda>mem.
     Option.bind (fld_opt fs ''disk'' dec_str) (\<lambda>dk.
     Option.bind (fld_req fs ''streaming'' (dec_variant streaming_of_name)) (\<lambda>st.
     Option.bind (fld_default fs ''capabilities'' [] (dec_arr dec_str)) (\<lambda>cap.
     Option.bind (fld_default fs ''healthcheck'' [] (dec_arr dec_str)) (\<lambda>hc.
     Option.bind (fld_opt fs ''repo'' dec_str) (\<lambda>rp.
     Option.bind (fld_opt fs ''content_hash'' dec_str) (\<lambda>ch.
     Option.bind (fld_req fs ''description'' dec_str) (\<lambda>d.
       Some \<lparr>gc_key = k, gc_flavor = f, gc_os = os, gc_base = b, gc_mode = m, gc_cpu = c,
             gc_memory = mem, gc_disk = dk, gc_streaming = st, gc_capabilities = cap,
             gc_healthcheck = hc, gc_repo = rp, gc_content_hash = ch, gc_description = d\<rparr>)))))))))))))))"

text \<open>An untagged enum: the first variant whose fields are there.\<close>

definition profile_to_json :: "profile_config \<Rightarrow> json" where
  "profile_to_json p =
     (case p of
        ProfileGolden g \<Rightarrow> JObj [(''golden'', JStr g)]
      | ProfileIso i f \<Rightarrow> JObj [(''iso'', JStr i), (''flavor'', JStr f)])"

definition profile_golden_of_json :: "json \<Rightarrow> profile_config option" where
  "profile_golden_of_json v =
     Option.bind (struct_fields [''golden''] 0 v) (\<lambda>fs. map_option ProfileGolden (fld_req fs ''golden'' dec_str))"

definition profile_iso_of_json :: "json \<Rightarrow> profile_config option" where
  "profile_iso_of_json v =
     Option.bind (struct_fields [''iso'', ''flavor''] 0 v) (\<lambda>fs.
     Option.bind (fld_req fs ''iso'' dec_str) (\<lambda>i.
     Option.bind (fld_req fs ''flavor'' dec_str) (\<lambda>f. Some (ProfileIso i f))))"

definition profile_of_json :: "json \<Rightarrow> profile_config option" where
  "profile_of_json v =
     (case profile_golden_of_json v of Some p \<Rightarrow> Some p | None \<Rightarrow> profile_iso_of_json v)"

fun dec_entries :: "(json \<Rightarrow> 'a option) \<Rightarrow> (string \<times> json) list \<Rightarrow> (string \<times> 'a) list option" where
  "dec_entries d [] = Some []"
| "dec_entries d ((k, v) # es) =
     Option.bind (d v) (\<lambda>x. Option.bind (dec_entries d es) (\<lambda>xs. Some ((k, x) # xs)))"

definition dec_map :: "(json \<Rightarrow> 'a option) \<Rightarrow> json \<Rightarrow> (string \<times> 'a) list option" where
  "dec_map d v = (case v of JObj es \<Rightarrow> dec_entries d es | _ \<Rightarrow> None)"

definition registry_to_json :: "image_registry \<Rightarrow> json" where
  "registry_to_json r = JObj
     [(''images'', JArr (map image_to_json (ir_images r))),
      (''goldens'', JArr (map golden_to_json (ir_goldens r))),
      (''profiles'', JObj (map (\<lambda>(k, p). (k, profile_to_json p)) (ir_profiles r)))]"

definition registry_of_json :: "json \<Rightarrow> image_registry option" where
  "registry_of_json v =
     Option.bind (struct_fields [''images'', ''goldens'', ''profiles''] 3 v) (\<lambda>fs.
     Option.bind (fld_default fs ''images'' [] (dec_arr image_of_json)) (\<lambda>is.
     Option.bind (fld_default fs ''goldens'' [] (dec_arr golden_of_json)) (\<lambda>gs.
     Option.bind (fld_default fs ''profiles'' [] (dec_map profile_of_json)) (\<lambda>ps.
       Some \<lparr>ir_images = is, ir_goldens = gs, ir_profiles = ps\<rparr>))))"

subsection \<open>Loading and saving\<close>

type_synonym manifest_path = "string \<times> string"

definition display_path :: "manifest_path \<Rightarrow> string" where
  "display_path p = fst p @ ''/'' @ snd p"

definition registry_schema_error :: "manifest_path \<Rightarrow> string \<Rightarrow> lsbx_error" where
  "registry_schema_error p t = ContractViolated (''golden image manifest at '' @ display_path p
     @ '' does not match the expected schema: '' @ t)"

definition registry_decode :: "serde_text \<Rightarrow> manifest_path \<Rightarrow> fcontent \<Rightarrow> lsbx_error + image_registry" where
  "registry_decode sx p c =
     (case c of
        FText t \<Rightarrow> Inl (registry_schema_error p (sx_text sx t))
      | FJson v \<Rightarrow>
          (case registry_of_json v of
             None \<Rightarrow> Inl (registry_schema_error p (sx_value sx v))
           | Some r \<Rightarrow> Inr r))"

definition registry_load :: "serde_text \<Rightarrow> manifest_path \<Rightarrow> image_registry store_op" where
  "registry_load sx p =
     bindE (mapErr (\<lambda>e. NotFound (''could not read golden image manifest at '' @ display_path p
              @ '': '' @ io_text e)) (read_file (fst p) (snd p))) (\<lambda>c.
     liftE (registry_decode sx p c))"

text \<open>\<open>fs::write\<close> on a path: the file is opened and emptied, then written.\<close>

definition std_fs_write :: "manifest_path \<Rightarrow> fcontent \<Rightarrow> unit io" where
  "std_fs_write p c =
     bindE (write_file (fst p) (snd p) (FText [])) (\<lambda>_. write_file (fst p) (snd p) c)"

definition registry_save :: "image_registry \<Rightarrow> manifest_path \<Rightarrow> unit store_op" where
  "registry_save r p =
     mapErr (\<lambda>e. BackendUnavailable (''failed to write golden image manifest at '' @ display_path p
              @ '': '' @ io_text e))
       (std_fs_write p (FJson (registry_to_json r)))"

subsection \<open>Keys, bases and resolution\<close>

definition quoted :: "string \<Rightarrow> string" where
  "quoted s = CHR 0x27 # s @ [CHR 0x27]"

definition golden_key_char :: "char \<Rightarrow> bool" where
  "golden_key_char c \<longleftrightarrow> is_lower c \<or> is_digit c \<or> c \<in> {CHR ''.'', CHR ''_'', CHR ''-''}"

definition base_key_char :: "char \<Rightarrow> bool" where
  "base_key_char c \<longleftrightarrow> is_lower c \<or> is_digit c \<or> c = CHR ''-''"

text \<open>A lower-case letter, then at most 63 characters of a class.\<close>

definition matches_key :: "(char \<Rightarrow> bool) \<Rightarrow> string \<Rightarrow> bool" where
  "matches_key ok s = (case s of [] \<Rightarrow> False | c # cs \<Rightarrow> is_lower c \<and> length cs \<le> 63 \<and> list_all ok cs)"

definition validate_key :: "string \<Rightarrow> lsbx_error + string" where
  "validate_key k =
     (if matches_key golden_key_char k then Inr k
      else Inl (Usage (''golden key '' @ quoted k @ '' does not match the required pattern ^[a-z][a-z0-9._-]{0,63}$'')))"

definition qcow2_suffix :: string where
  "qcow2_suffix = ''.qcow2''"

definition validate_base :: "string \<Rightarrow> lsbx_error + string" where
  "validate_base b =
     (let stripped = unwrap_or b (strip_suffix qcow2_suffix b)
      in if matches_key base_key_char stripped then Inr stripped
         else Inl (Usage (''base '' @ quoted b @ '' does not match the required pattern ^[a-z][a-z0-9-]{0,63}$''
              @ '' (after stripping a trailing .qcow2)'')))"

definition allowed_goldens :: "image_registry \<Rightarrow> string set" where
  "allowed_goldens r = gc_base ` set (ir_goldens r)"

definition find_golden :: "image_registry \<Rightarrow> string \<Rightarrow> golden_config option" where
  "find_golden r key = find (\<lambda>g. gc_key g = key) (ir_goldens r)"

definition resolve_golden :: "image_registry \<Rightarrow> string \<Rightarrow> lsbx_error + golden_config" where
  "resolve_golden r name =
     (case map_of (ir_profiles r) name of
        Some (ProfileGolden g) \<Rightarrow>
          (case find_golden r g of
             Some c \<Rightarrow> Inr c
           | None \<Rightarrow> Inl (ContractViolated (''profile '' @ quoted name @ '' references unknown golden '' @ quoted g)))
      | Some (ProfileIso i f) \<Rightarrow>
          Inl (Usage (''profile '' @ quoted name @ '' installs ISO '' @ quoted i @ '' and is not provisionable from a golden''))
      | None \<Rightarrow>
          (case find_golden r name of
             Some c \<Rightarrow> Inr c
           | None \<Rightarrow> Inl (NotFound (''no profile or golden registered under key '' @ quoted name))))"

definition resolve_profile_golden_key :: "image_registry \<Rightarrow> string \<Rightarrow> string option" where
  "resolve_profile_golden_key r profile =
     (case map_of (ir_profiles r) profile of Some (ProfileGolden g) \<Rightarrow> Some g | _ \<Rightarrow> None)"

subsection \<open>The content hash\<close>

definition content_hash :: "(fcontent \<Rightarrow> string) \<Rightarrow> manifest_path \<Rightarrow> string store_op" where
  "content_hash sha p =
     bindE (mapErr (\<lambda>e. NotFound (''could not open golden image at '' @ display_path p
              @ '' for content hashing: '' @ io_text e)) (read_file (fst p) (snd p))) (\<lambda>_.
     bindE (mapErr (\<lambda>e. NotFound (''failed reading golden image at '' @ display_path p
              @ '' while computing content hash: '' @ io_text e)) (read_file (fst p) (snd p))) (\<lambda>c.
     retE (''lufs-'' @ take 8 (sha c))))"

subsection \<open>The manifest reads back\<close>

lemma variant_name_simp [simp]: "dec_variant f (JStr s) = f s"
  by (simp add: dec_variant_def variant_name_def)

lemma names_back [simp]:
  shows "flavor_of_name (format_golden_flavor f) = Some f" "mode_of_name (mode_name m) = Some m"
  "streaming_of_name (format_streaming_mode t) = Some t"
  by ((cases f; simp add: flavor_of_name_def format_golden_flavor_def)[1],
      (cases m; simp add: mode_of_name_def mode_name_def)[1],
      (cases t; simp add: streaming_of_name_def format_streaming_mode_def)[1])

lemma jstrs_back [simp]: "dec_arr dec_str (jstrs xs) = Some xs"
  by (simp add: jstrs_def)

lemma image_round_trip [simp]: "image_of_json (image_to_json i) = Some i"
  by (simp add: image_of_json_def image_to_json_def struct_fields_def fld_defs)

lemma dec_u32_int [simp]: "n < 2 ^ 32 \<Longrightarrow> dec_u32 (JNum (int n)) = Some n"
  by (simp add: dec_u32_def)

lemma golden_round_trip: "gc_cpu g < 2 ^ 32 \<Longrightarrow> golden_of_json (golden_to_json g) = Some g"
  by (simp add: golden_of_json_def golden_to_json_def struct_fields_def fld_defs)

lemma profile_round_trip [simp]: "profile_of_json (profile_to_json p) = Some p"
  by (cases p) (simp_all add: profile_of_json_def profile_golden_of_json_def profile_iso_of_json_def
      profile_to_json_def struct_fields_def fld_defs)

lemma dec_entries_map:
  "(\<And>x. d (e x) = Some x) \<Longrightarrow> dec_entries d (map (\<lambda>(k, x). (k, e x)) es) = Some es"
  by (induction es) auto

definition registry_sized :: "image_registry \<Rightarrow> bool" where
  "registry_sized r \<longleftrightarrow> (\<forall>g\<in>set (ir_goldens r). gc_cpu g < 2 ^ 32)"

lemma registry_json_round_trip:
  assumes "registry_sized r"
  shows "registry_of_json (registry_to_json r) = Some r"
proof -
  have "dec_arr golden_of_json (JArr (map golden_to_json (ir_goldens r))) = Some (ir_goldens r)"
    using assms by (intro dec_arr_map golden_round_trip) (simp add: registry_sized_def)
  moreover have "dec_map profile_of_json (JObj (map (\<lambda>(k, p). (k, profile_to_json p)) (ir_profiles r)))
      = Some (ir_profiles r)"
    by (simp add: dec_map_def dec_entries_map)
  ultimately show ?thesis
    by (simp add: registry_of_json_def registry_to_json_def struct_fields_def fld_defs)
qed

subsection \<open>Saving\<close>

lemma write_file_cases:
  assumes "write_file d n c s = (r, s')"
  shows "r = Inr () \<Longrightarrow> map_option fst (fs_get s' d n) = Some c"
    and "r = Inl e \<Longrightarrow> fs_files s' = fs_files s"
  using assms by (auto simp: write_file_def io_op_def Let_def fs_get_def update_conv' split: option.splits)

lemma registry_save_Inr:
  assumes "registry_save r p s = (Inr u, s')"
  shows "map_option fst (fs_get s' (fst p) (snd p)) = Some (FJson (registry_to_json r))"
  using assms by (auto simp: registry_save_def std_fs_write_def bindE_Inr_iff dest: write_file_cases(1))

text \<open>A save that fails may have emptied the manifest.\<close>

lemma registry_save_Inl:
  assumes "registry_save r p s = (Inl e, s')"
  shows "fs_files s' = fs_files s \<or> map_option fst (fs_get s' (fst p) (snd p)) = Some (FText [])"
proof -
  obtain e' where "std_fs_write p (FJson (registry_to_json r)) s = (Inl e', s')"
    using assms by (auto simp: registry_save_def mapErr_Inl_iff)
  then consider "write_file (fst p) (snd p) (FText []) s = (Inl e', s')"
    | s1 where "write_file (fst p) (snd p) (FText []) s = (Inr (), s1)"
        "write_file (fst p) (snd p) (FJson (registry_to_json r)) s1 = (Inl e', s')"
    by (auto simp: std_fs_write_def bindE_Inl_iff)
  then show ?thesis
  proof cases
    case 1
    then show ?thesis using write_file_cases(2) by blast
  next
    case 2
    have "fs_files s' = fs_files s1" using 2(2) write_file_cases(2) by blast
    then have "fs_get s' (fst p) (snd p) = fs_get s1 (fst p) (snd p)" by (rule fs_get_frame)
    then show ?thesis using write_file_cases(1) [OF 2(1)] by simp
  qed
qed

lemma registry_load_content:
  assumes "map_option fst (fs_get s (fst p) (snd p)) = Some c" and "calm s"
  shows "fst (registry_load sx p s) = registry_decode sx p c"
  using assms by (auto simp: registry_load_def bindE_run mapErr_def read_file_def io_op_def Let_def calm_def fs_get_def
      split: option.splits)

lemma registry_saved_loads:
  assumes "registry_save r p s = (Inr u, s')" and "calm s'" and "registry_sized r"
  shows "fst (registry_load sx p s') = Inr r"
  using registry_load_content [OF registry_save_Inr [OF assms(1)] assms(2)]
  by (simp add: registry_decode_def registry_json_round_trip [OF assms(3)])

subsection \<open>Keys and resolution\<close>

lemma validate_key_Inr:
  "validate_key k = Inr v \<longleftrightarrow> v = k \<and> matches_key golden_key_char k"
  by (auto simp: validate_key_def)

lemma matches_key_length: "matches_key ok s \<Longrightarrow> 1 \<le> length s \<and> length s \<le> 64"
  by (auto simp: matches_key_def split: list.splits)

lemma matches_key_chars: "matches_key ok s \<Longrightarrow> c \<in> set s \<Longrightarrow> is_lower c \<or> ok c"
  by (auto simp: matches_key_def list_all_iff split: list.splits)

lemma base_is_safe:
  assumes "matches_key base_key_char b"
  shows "CHR ''/'' \<notin> set b \<and> CHR ''.'' \<notin> set b"
  using matches_key_chars [OF assms, of "CHR ''/''"] matches_key_chars [OF assms, of "CHR ''.''"]
  by (auto simp: base_key_char_def is_lower_def is_digit_def)

lemma validate_base_Inr:
  assumes "validate_base b = Inr v"
  shows "matches_key base_key_char v \<and> (b = v \<or> b = v @ qcow2_suffix)"
  using assms
  by (auto simp: validate_base_def Let_def unwrap_or_def strip_suffix_Some split: option.splits if_splits)

lemma validate_base_again: "validate_base b = Inr v \<Longrightarrow> validate_base v = Inr v"
proof -
  assume "validate_base b = Inr v"
  then have m: "matches_key base_key_char v" using validate_base_Inr by blast
  have "strip_suffix qcow2_suffix v = None"
  proof (rule ccontr)
    assume "strip_suffix qcow2_suffix v \<noteq> None"
    then obtain t where "v = t @ qcow2_suffix" by (auto simp: strip_suffix_Some)
    then have "CHR ''.'' \<in> set v" by (simp add: qcow2_suffix_def)
    with base_is_safe [OF m] show False by simp
  qed
  with m show ?thesis by (simp add: validate_base_def unwrap_or_def)
qed

lemma find_golden_Some: "find_golden r k = Some g \<Longrightarrow> g \<in> set (ir_goldens r) \<and> gc_key g = k"
  by (auto simp: find_golden_def find_Some_iff)

lemma find_golden_None: "find_golden r k = None \<longleftrightarrow> k \<notin> gc_key ` set (ir_goldens r)"
  by (auto simp: find_golden_def find_None_iff)

lemma resolve_golden_Inr:
  assumes "resolve_golden r name = Inr g"
  shows "g \<in> set (ir_goldens r) \<and> gc_base g \<in> allowed_goldens r \<and>
    gc_key g = unwrap_or name (resolve_profile_golden_key r name)"
  using assms
  by (auto simp: resolve_golden_def resolve_profile_golden_key_def allowed_goldens_def unwrap_or_def
      split: option.splits profile_config.splits dest: find_golden_Some)

end
