(* ===== verification/Lsbx_Ops.thy ===== *)
theory Lsbx_Ops
  imports Lsbx_Registry
begin

text \<open>
  The facade \<open>LsbxOps\<close> of \<open>lsbx-ops\<close>: every door of the program goes through it. Its state is the
  world with the image registry it keeps in memory; the backend, its name, the state directory
  and the path of the manifest are fixed. The operations that build and verify goldens are in
  \<open>Lsbx_Golden\<close>.
\<close>

record 'b ops_world =
  ow_world :: "'b world"
  ow_registry :: image_registry

record 'b ops =
  op_lib :: lib
  op_backend :: "'b backend"
  op_backend_name :: string
  op_state_dir :: string
  op_images_path :: "manifest_path option"

type_synonym ('b, 'a) ops_act = "('b ops_world, lsbx_error, 'a) comp"

definition in_world :: "('b, 'a) act \<Rightarrow> ('b, 'a) ops_act" where
  "in_world m s = (case m (ow_world s) of (r, w) \<Rightarrow> (r, s\<lparr>ow_world := w\<rparr>))"

subsection \<open>Sandboxes\<close>

record resolved =
  rv_golden :: "string option"
  rv_cpu :: "nat option"
  rv_memory :: "string option"
  rv_flavor :: "string option"
  rv_streaming :: "string option"
  rv_healthchecks :: "string list option"
  rv_os :: "string option"

definition resolve_request :: "image_registry \<Rightarrow> string \<Rightarrow> lsbx_error + resolved" where
  "resolve_request reg profile =
     (if ir_profiles reg = [] \<and> ir_goldens reg = []
      then Inr \<lparr>rv_golden = None, rv_cpu = None, rv_memory = None, rv_flavor = None, rv_streaming = None,
                rv_healthchecks = None, rv_os = None\<rparr>
      else bindS (resolve_golden reg profile) (\<lambda>c.
           Inr \<lparr>rv_golden = Some (gc_base c), rv_cpu = Some (gc_cpu c), rv_memory = Some (gc_memory c),
                rv_flavor = Some (format_golden_flavor (gc_flavor c)),
                rv_streaming = Some (format_streaming_mode (gc_streaming c)),
                rv_healthchecks = Some (gc_healthcheck c), rv_os = Some (gc_os c)\<rparr>))"

definition shell_check :: "string option \<Rightarrow> string \<Rightarrow> string list" where
  "shell_check os command =
     (if os = Some ''windows'' then [''cmd'', ''/c'', command] else [''sh'', ''-c'', command])"

definition resolved_healthchecks :: "resolved \<Rightarrow> string list list \<Rightarrow> string list list" where
  "resolved_healthchecks v asked =
     (if asked = [] then unwrap_or [] (map_option (map (shell_check (rv_os v))) (rv_healthchecks v))
      else asked)"

definition resolved_request :: "create_request \<Rightarrow> resolved \<Rightarrow> create_request" where
  "resolved_request rq v =
     rq\<lparr>rq_golden := rv_golden v, rq_cpu := rv_cpu v, rq_memory := rv_memory v, rq_flavor := rv_flavor v,
        rq_streaming := rv_streaming v, rq_healthchecks := resolved_healthchecks v (rq_healthchecks rq),
        rq_os := rv_os v\<rparr>"

definition ops_create :: "'b ops \<Rightarrow> create_request \<Rightarrow> ('b, public_sandbox) ops_act" where
  "ops_create op rq s =
     (case resolve_request (ow_registry s) (rq_profile rq) of
        Inl e \<Rightarrow> (Inl e, s)
      | Inr v \<Rightarrow> in_world (create (op_lib op) (op_backend op) (op_state_dir op) (resolved_request rq v)) s)"

definition ops_destroy :: "'b ops \<Rightarrow> string \<Rightarrow> ('b, unit) ops_act" where
  "ops_destroy op i = in_world (destroy (op_lib op) (op_backend op) (op_state_dir op) i)"

definition ops_renew :: "'b ops \<Rightarrow> string \<Rightarrow> nat \<Rightarrow> ('b, public_sandbox) ops_act" where
  "ops_renew op i duration = in_world (renew (op_lib op) (op_state_dir op) i duration)"

definition ops_reap :: "'b ops \<Rightarrow> nat \<Rightarrow> bool \<Rightarrow> ('b, reap_report) ops_act" where
  "ops_reap op ttl dry_run = in_world (reap (op_lib op) (op_backend op) (op_state_dir op) ttl dry_run)"

definition load_record :: "'b ops \<Rightarrow> string \<Rightarrow> ('b, sandbox_record) ops_act" where
  "load_record op i = in_world (on_fs (sandbox_load (lb_serde (op_lib op)) (op_state_dir op) i))"

definition list_records :: "'b ops \<Rightarrow> ('b, sandbox_record list) ops_act" where
  "list_records op = in_world (on_fs (sandbox_list (lb_serde (op_lib op)) (op_state_dir op)))"

definition ops_list :: "'b ops \<Rightarrow> ('b, public_sandbox list) ops_act" where
  "ops_list op = bindE (list_records op) (\<lambda>rs. retE (map public rs))"

definition ops_info :: "'b ops \<Rightarrow> string \<Rightarrow> ('b, public_sandbox) ops_act" where
  "ops_info op i = bindE (load_record op i) (\<lambda>r. retE (public r))"

definition ops_console_url :: "'b ops \<Rightarrow> string \<Rightarrow> ('b, string option) ops_act" where
  "ops_console_url op i = bindE (load_record op i) (\<lambda>r. retE (ps_console_url (public r)))"

subsection \<open>Commands and files\<close>

definition no_vm_tag :: "string \<Rightarrow> lsbx_error" where
  "no_vm_tag i = NotFound (''sandbox '' @ i @ '' has no vm_tag (never fully provisioned)'')"

text \<open>The guest of a sandbox and the key it is reached with.\<close>

definition guest_of :: "'b ops \<Rightarrow> string \<Rightarrow> ('b, string \<times> string option) ops_act" where
  "guest_of op i =
     bindE (load_record op i) (\<lambda>r.
     case sr_vm_tag r of
       None \<Rightarrow> failE (no_vm_tag i)
     | Some tag \<Rightarrow> retE (tag, sr_key_path r))"

definition run_guest :: "'b backend \<Rightarrow> string \<Rightarrow> string list \<Rightarrow> nat \<Rightarrow> string option \<Rightarrow> ('b, command_output) act" where
  "run_guest be tag command tmo ident w =
     (let d = bk_run_time be tag command tmo ident (w_bk w)
      in case on_bk (bk_run be tag command tmo ident) w of (r, w') \<Rightarrow> (r, w'\<lparr>w_now := w_now w + d\<rparr>))"

definition ops_exec :: "'b ops \<Rightarrow> string \<Rightarrow> string list \<Rightarrow> nat \<Rightarrow> ('b, command_output) ops_act" where
  "ops_exec op i command tmo =
     bindE (guest_of op i) (\<lambda>(tag, ident). in_world (run_guest (op_backend op) tag command tmo ident))"

definition ops_put :: "'b ops \<Rightarrow> string \<Rightarrow> string \<Rightarrow> string \<Rightarrow> ('b, unit) ops_act" where
  "ops_put op i source destination =
     bindE (guest_of op i) (\<lambda>(tag, ident).
     in_world (on_bk (bk_put_file (op_backend op) tag source destination ident)))"

definition ops_get :: "'b ops \<Rightarrow> string \<Rightarrow> string \<Rightarrow> string \<Rightarrow> ('b, unit) ops_act" where
  "ops_get op i source destination =
     bindE (guest_of op i) (\<lambda>(tag, ident).
     in_world (on_bk (bk_get_file (op_backend op) tag source destination ident)))"

subsection \<open>Status\<close>

record status_report =
  st_backend_name :: string
  st_backend_available :: bool
  st_sandbox_count :: nat

definition backend_available :: "'b ops \<Rightarrow> ('b, bool) ops_act" where
  "backend_available op s =
     (case in_world (on_bk (bk_list_vms (op_backend op))) s of
        (Inr _, s') \<Rightarrow> (Inr True, s')
      | (Inl (BackendUnavailable _), s') \<Rightarrow> (Inr False, s')
      | (Inl e, s') \<Rightarrow> (Inl e, s'))"

definition ops_status :: "'b ops \<Rightarrow> ('b, status_report) ops_act" where
  "ops_status op =
     bindE (backend_available op) (\<lambda>up.
     bindE (list_records op) (\<lambda>rs.
     retE \<lparr>st_backend_name = op_backend_name op, st_backend_available = up, st_sandbox_count = length rs\<rparr>))"

subsection \<open>The registry of goldens\<close>

definition persist_registry :: "'b ops \<Rightarrow> ('b, unit) ops_act" where
  "persist_registry op s =
     (case op_images_path op of
        None \<Rightarrow> (Inr (), s)
      | Some p \<Rightarrow> in_world (on_fs (registry_save (ow_registry s) p)) s)"

definition no_golden :: "string \<Rightarrow> lsbx_error" where
  "no_golden name = NotFound (''no golden registered under key '' @ quoted name)"

definition already_registered :: "string \<Rightarrow> lsbx_error" where
  "already_registered key = Usage (''a golden is already registered under key '' @ quoted key)"

definition golden_register :: "'b ops \<Rightarrow> golden_config \<Rightarrow> ('b, unit) ops_act" where
  "golden_register op c s =
     (case find_golden (ow_registry s) (gc_key c) of
        Some _ \<Rightarrow> (Inl (already_registered (gc_key c)), s)
      | None \<Rightarrow>
          persist_registry op (s\<lparr>ow_registry := (ow_registry s)\<lparr>ir_goldens := ir_goldens (ow_registry s) @ [c]\<rparr>\<rparr>))"

definition golden_delete :: "'b ops \<Rightarrow> string \<Rightarrow> bool \<Rightarrow> ('b, unit) ops_act" where
  "golden_delete op name keep_snapshot s =
     (let before = length (ir_goldens (ow_registry s));
          s' = s\<lparr>ow_registry := (ow_registry s)\<lparr>ir_goldens :=
                   filter (\<lambda>g. gc_key g \<noteq> name) (ir_goldens (ow_registry s))\<rparr>\<rparr>
      in if length (ir_goldens (ow_registry s')) = before then (Inl (no_golden name), s')
         else persist_registry op s')"

definition golden_list :: "('b, golden_config list) ops_act" where
  "golden_list s = (Inr (ir_goldens (ow_registry s)), s)"

record golden_reconcile_item =
  gi_key :: string
  gi_base :: string
  gi_status :: string

record golden_reconcile_report =
  gr_items :: "golden_reconcile_item list"
  gr_unregistered_vms :: "string list"

definition reconcile_report :: "string list \<Rightarrow> image_registry \<Rightarrow> golden_reconcile_report" where
  "reconcile_report artifacts reg =
     \<lparr>gr_items = map (\<lambda>g. \<lparr>gi_key = gc_key g, gi_base = gc_base g,
                  gi_status = (if gc_base g \<in> set artifacts then ''present'' else ''missing'')\<rparr>) (ir_goldens reg),
      gr_unregistered_vms = filter (\<lambda>vm. vm \<notin> gc_base ` set (ir_goldens reg)) artifacts\<rparr>"

definition golden_reconcile :: "'b ops \<Rightarrow> ('b, golden_reconcile_report) ops_act" where
  "golden_reconcile op =
     bindE (in_world (on_bk (bk_list_golden_artifacts (op_backend op)))) (\<lambda>artifacts s.
     (Inr (reconcile_report artifacts (ow_registry s)), s))"

definition keys_json :: "string list \<Rightarrow> json" where
  "keys_json ks = JObj [(''count'', JNum (int (length ks))), (''keys'', jstrs ks)]"

definition config_show :: "'b ops \<Rightarrow> ('b, json) ops_act" where
  "config_show op s =
     (let reg = ow_registry s
      in (Inr (JObj [(''backend_name'', JStr (op_backend_name op)),
                     (''images'', keys_json (map ic_key (ir_images reg))),
                     (''goldens'', keys_json (map gc_key (ir_goldens reg))),
                     (''profiles'', keys_json (map fst (ir_profiles reg)))]), s))"

definition logs_query :: "string option \<Rightarrow> nat \<Rightarrow> ('b, string list) ops_act" where
  "logs_query since limit s =
     (Inl (ContractViolated (''no log backend is wired up yet '' @ em_dash @ '' no merged crate persists structured logs ''
        @ ''anywhere queryable (no log file, no tracing subscriber with a retrievable ''
        @ ''sink); this is an honest gap, not a fabricated empty result'')), s)"

subsection \<open>The lifted operations\<close>

lemma in_world_simps [simp]:
  "fst (in_world m s) = fst (m (ow_world s))" "ow_world (snd (in_world m s)) = snd (m (ow_world s))"
  "ow_registry (snd (in_world m s)) = ow_registry s"
  by (simp_all add: in_world_def split: prod.splits)

lemma in_world_iff: "in_world m s = (r, s') \<longleftrightarrow> (\<exists>w. m (ow_world s) = (r, w) \<and> s' = s\<lparr>ow_world := w\<rparr>)"
  by (auto simp: in_world_def split: prod.splits)

abbreviation ops_view :: "'b ops \<Rightarrow> 'b ops_world \<Rightarrow> string \<Rightarrow> sandbox_record option" where
  "ops_view op s \<equiv> sandbox_view (op_state_dir op) (w_fs (ow_world s))"

lemma load_record_Inr:
  assumes "load_record op i s = (Inr r, s')"
  shows "ops_view op s i = Some r \<and> ops_view op s' = ops_view op s \<and>
    w_bk (ow_world s') = w_bk (ow_world s) \<and> ow_registry s' = ow_registry s"
  using assms
  by (auto simp: load_record_def in_world_iff dest!: on_load_Inr intro: sandbox_view_cong)

lemma guest_of_Inr:
  assumes "guest_of op i s = (Inr (t, k), s')"
  shows "\<exists>r. ops_view op s i = Some r \<and> sr_vm_tag r = Some t \<and> sr_key_path r = k \<and>
    ops_view op s' = ops_view op s \<and> w_bk (ow_world s') = w_bk (ow_world s)"
  using assms
  by (auto simp: guest_of_def bindE_Inr_iff dest!: load_record_Inr split: option.splits)

text \<open>A command runs on the guest its sandbox's record names, with that record's key.\<close>

lemma ops_exec_Inr:
  assumes "ops_exec op i c tmo s = (Inr out, s')"
  shows "\<exists>r t. ops_view op s i = Some r \<and> sr_vm_tag r = Some t \<and>
    bk_run (op_backend op) t c tmo (sr_key_path r) (w_bk (ow_world s)) = (Inr out, w_bk (ow_world s')) \<and>
    ops_view op s' = ops_view op s"
proof -
  from assms obtain t k s1 where g: "guest_of op i s = (Inr (t, k), s1)"
    and r: "in_world (run_guest (op_backend op) t c tmo k) s1 = (Inr out, s')"
    by (auto simp: ops_exec_def bindE_Inr_iff)
  from r have "bk_run (op_backend op) t c tmo k (w_bk (ow_world s1)) = (Inr out, w_bk (ow_world s'))"
    "w_fs (ow_world s') = w_fs (ow_world s1)"
    by (auto simp: in_world_iff run_guest_def on_bk_def Let_def split: prod.splits)
  then show ?thesis using guest_of_Inr [OF g] by auto
qed

lemma ops_exec_missing:
  assumes "calm (w_fs (ow_world s))" and "ops_view op s i = Some r" and "sr_vm_tag r = None"
  shows "fst (ops_exec op i c tmo s) = Inl (no_vm_tag i)"
proof -
  have "fst (load_record op i s) = Inr r"
    using sandboxes.get_calm [OF assms(1,2)] by (simp add: load_record_def)
  then obtain s1 where "load_record op i s = (Inr r, s1)" by (metis prod.collapse)
  then show ?thesis using assms(3) by (simp add: ops_exec_def guest_of_def bindE_run)
qed

subsection \<open>Creation through the registry\<close>

lemma ops_create_unknown:
  assumes "resolve_request (ow_registry s) (rq_profile rq) = Inl e"
  shows "ops_create op rq s = (Inl e, s)"
  using assms by (simp add: ops_create_def)

lemma resolve_request_Inr:
  assumes "resolve_request reg p = Inr v"
  shows "(ir_profiles reg = [] \<and> ir_goldens reg = [] \<and> rv_golden v = None) \<or>
    (\<exists>g \<in> set (ir_goldens reg). rv_golden v = Some (gc_base g) \<and> rv_cpu v = Some (gc_cpu g) \<and>
       rv_memory v = Some (gc_memory g) \<and> rv_os v = Some (gc_os g) \<and>
       gc_key g = unwrap_or p (resolve_profile_golden_key reg p))"
proof (cases "ir_profiles reg = [] \<and> ir_goldens reg = []")
  case True
  then show ?thesis using assms by (auto simp: resolve_request_def)
next
  case False
  then obtain g where "resolve_golden reg p = Inr g" "rv_golden v = Some (gc_base g)"
    "rv_cpu v = Some (gc_cpu g)" "rv_memory v = Some (gc_memory g)" "rv_os v = Some (gc_os g)"
    using assms by (auto simp: resolve_request_def elim!: bindS_InrE)
  then show ?thesis using resolve_golden_Inr by blast
qed

subsection \<open>The registry of goldens\<close>

definition keys_distinct :: "image_registry \<Rightarrow> bool" where
  "keys_distinct r \<longleftrightarrow> distinct (map gc_key (ir_goldens r))"

lemma persist_registry_frame:
  "ow_registry (snd (persist_registry op s)) = ow_registry s"
  "w_bk (ow_world (snd (persist_registry op s))) = w_bk (ow_world s)"
  by (simp_all add: persist_registry_def split: option.splits)

lemma golden_register_registry:
  "ow_registry (snd (golden_register op c s)) =
    (if gc_key c \<in> gc_key ` set (ir_goldens (ow_registry s)) then ow_registry s
     else (ow_registry s)\<lparr>ir_goldens := ir_goldens (ow_registry s) @ [c]\<rparr>)"
  using find_golden_None [of "ow_registry s" "gc_key c"]
  by (auto simp: golden_register_def persist_registry_frame split: option.splits)

lemma golden_delete_registry:
  "ow_registry (snd (golden_delete op n k s)) =
    (ow_registry s)\<lparr>ir_goldens := filter (\<lambda>g. gc_key g \<noteq> n) (ir_goldens (ow_registry s))\<rparr>"
  by (simp add: golden_delete_def Let_def persist_registry_frame)

lemma registry_keys_distinct:
  assumes "keys_distinct (ow_registry s)"
  shows "keys_distinct (ow_registry (snd (golden_register op c s)))"
    and "keys_distinct (ow_registry (snd (golden_delete op n k s)))"
  using assms
  by (auto simp: keys_distinct_def golden_register_registry golden_delete_registry distinct_map_filter)

lemma persist_registry_durable:
  assumes "persist_registry op s = (Inr u, s')" and "op_images_path op = Some p"
    and "registry_sized (ow_registry s)" and "calm (w_fs (ow_world s'))"
  shows "fst (registry_load sx p (w_fs (ow_world s'))) = Inr (ow_registry s')"
proof -
  from assms(1,2) obtain f where f: "registry_save (ow_registry s) p (w_fs (ow_world s)) = (Inr u, f)"
    "w_fs (ow_world s') = f" "ow_registry s' = ow_registry s"
    by (auto simp: persist_registry_def in_world_iff on_fs_iff)
  then show ?thesis using registry_saved_loads [OF f(1)] assms(3,4) by simp
qed

lemma golden_register_Inr:
  assumes "golden_register op c s = (Inr u, s')"
  shows "find_golden (ow_registry s) (gc_key c) = None \<and>
    persist_registry op (s\<lparr>ow_registry := (ow_registry s)\<lparr>ir_goldens := ir_goldens (ow_registry s) @ [c]\<rparr>\<rparr>) = (Inr u, s')"
  using assms by (auto simp: golden_register_def split: option.splits)

lemma golden_register_found:
  assumes "golden_register op c s = (Inr u, s')"
  shows "find_golden (ow_registry s') (gc_key c) = Some c \<and>
    (\<forall>k. k \<noteq> gc_key c \<longrightarrow> find_golden (ow_registry s') k = find_golden (ow_registry s) k)"
proof -
  note g = golden_register_Inr [OF assms]
  have n: "gc_key c \<notin> gc_key ` set (ir_goldens (ow_registry s))" using g find_golden_None by blast
  have e: "ow_registry s' = (ow_registry s)\<lparr>ir_goldens := ir_goldens (ow_registry s) @ [c]\<rparr>"
    using golden_register_registry [of op c s] assms n by simp
  have f: "find P (xs @ [c]) = (case find P xs of None \<Rightarrow> if P c then Some c else None | Some x \<Rightarrow> Some x)"
    for P and xs :: "golden_config list" by (induction xs) auto
  show ?thesis using g by (auto simp: e find_golden_def f split: option.splits)
qed

lemma golden_register_durable:
  assumes "golden_register op c s = (Inr u, s')" and "op_images_path op = Some p"
    and "registry_sized (ow_registry s)" and "gc_cpu c < 2 ^ 32" and "calm (w_fs (ow_world s'))"
  shows "fst (registry_load sx p (w_fs (ow_world s'))) = Inr (ow_registry s')"
  using assms(3,4)
  by (intro persist_registry_durable [OF conjunct2 [OF golden_register_Inr [OF assms(1)]] assms(2) _ assms(5)])
    (auto simp: registry_sized_def)

lemma golden_delete_gone:
  "find_golden (ow_registry (snd (golden_delete op n k s))) n = None"
  by (auto simp: find_golden_None golden_delete_registry)

text \<open>A save that fails leaves the memory ahead of the file: the same call then fails for good.\<close>

lemma golden_register_retry:
  assumes "find_golden (ow_registry s) (gc_key c) = None" and "golden_register op c s = (Inl e, s')"
  shows "golden_register op c s' = (Inl (already_registered (gc_key c)), s')"
proof -
  have "gc_key c \<notin> gc_key ` set (ir_goldens (ow_registry s))" using assms(1) find_golden_None by blast
  then have "gc_key c \<in> gc_key ` set (ir_goldens (ow_registry s'))"
    using golden_register_registry [of op c s] assms(2) by simp
  then obtain g where "find_golden (ow_registry s') (gc_key c) = Some g"
    using find_golden_None by (metis not_None_eq)
  then show ?thesis by (simp add: golden_register_def)
qed

subsection \<open>Status and reports\<close>

lemma reconcile_report_complete:
  "vm \<in> set artifacts \<Longrightarrow>
   vm \<in> set (gr_unregistered_vms (reconcile_report artifacts reg)) \<or>
   (\<exists>i\<in>set (gr_items (reconcile_report artifacts reg)). gi_base i = vm \<and> gi_status i = ''present'')"
  by (auto simp: reconcile_report_def)

lemma reconcile_report_status:
  "i \<in> set (gr_items (reconcile_report artifacts reg)) \<Longrightarrow>
   gi_status i = (if gi_base i \<in> set artifacts then ''present'' else ''missing'')"
  by (auto simp: reconcile_report_def)

lemma ops_status_up:
  assumes "ops_status op s = (Inr st, s')"
  shows "st_backend_available st \<longleftrightarrow> fst (bk_list_vms (op_backend op) (w_bk (ow_world s))) \<in> range Inr"
  using assms
  by (auto simp: ops_status_def bindE_Inr_iff backend_available_def in_world_def on_bk_def
      split: prod.splits sum.splits lsbx_error.splits)

end
