(* ===== verification/Lsbx_Stream.thy ===== *)
theory Lsbx_Stream
  imports Lsbx_Http Lsbx_Ops
begin

text \<open>
  The console routes of \<open>lsbx-stream\<close>: where a stream goes (\<open>proxy.rs\<close>) and the console's page and
  detail (\<open>console.rs\<close>). The relay between the two sockets, once they are connected, and the bundled
  page's text are not modelled; parsing an address is a parameter.
\<close>

datatype stream_route = SPage | SDetail string | SStream string string

definition stream_route_of :: "string \<Rightarrow> stream_route option" where
  "stream_route_of path =
     (case split_on (CHR ''/'') path of
        [[], a] \<Rightarrow> if a = ''console'' then Some SPage else None
      | [[], a, i] \<Rightarrow> if a = ''consoles'' \<and> i \<noteq> [] then Some (SDetail i) else None
      | [[], a, i, g] \<Rightarrow> if a = ''stream'' \<and> i \<noteq> [] \<and> g \<noteq> [] then Some (SStream i g) else None
      | _ \<Rightarrow> None)"

record addr_lib =
  ad_socket :: "string \<Rightarrow> (ip_addr \<times> nat) option"
  ad_ip :: "string \<Rightarrow> ip_addr option"
  ad_page :: string

definition guest_vnc_port :: nat where
  "guest_vnc_port = 8000"

definition resolve_host_to_addr :: "addr_lib \<Rightarrow> string \<Rightarrow> nat \<Rightarrow> (ip_addr \<times> nat) option" where
  "resolve_host_to_addr ad host port =
     (case ad_socket ad host of
        Some a \<Rightarrow> Some a
      | None \<Rightarrow> map_option (\<lambda>ip. (ip, port)) (ad_ip ad host))"

definition unusable_host :: "string \<Rightarrow> string \<Rightarrow> lsbx_error" where
  "unusable_host i host =
     NotFound (''sandbox '' @ i @ '' resolved to host '' @ quoted host @ '', which is not a usable address'')"

definition resolve_destination :: "addr_lib \<Rightarrow> 'b ops \<Rightarrow> string \<Rightarrow> ('b, ip_addr \<times> nat) ops_act" where
  "resolve_destination ad op i =
     bindE (load_record op i) (\<lambda>r.
     case resolve_host_to_addr ad (sr_host r) guest_vnc_port of
       None \<Rightarrow> failE (unusable_host i (sr_host r))
     | Some a \<Rightarrow> retE a)"

fun stream_status :: "lsbx_error \<Rightarrow> nat" where
  "stream_status (Usage _) = 400"
| "stream_status (NotFound _) = 404"
| "stream_status (BackendUnavailable _) = 503"
| "stream_status (AuthFailed _) = 401"
| "stream_status (LockContention _) = 409"
| "stream_status (ContractViolated _) = 500"
| "stream_status (Interrupted _) = 500"

definition stream_error :: "lsbx_error \<Rightarrow> http_response" where
  "stream_error e = respond (stream_status e) (TextBody (err_display e))"

text \<open>What a handler of the facade answers: an error as its response, anything else as \<open>ok\<close> says.\<close>

definition reply :: "(lsbx_error \<Rightarrow> http_response) \<Rightarrow> ('b, 'a) ops_act \<Rightarrow> ('a \<Rightarrow> http_response) \<Rightarrow>
    'b ops_world \<Rightarrow> http_response \<times> 'b ops_world" where
  "reply bad m ok s = (case m s of (Inl e, s') \<Rightarrow> (bad e, s') | (Inr x, s') \<Rightarrow> (ok x, s'))"

definition switching_protocols :: http_response where
  "switching_protocols = respond 101 NoBody"

definition stream_route_handler :: "addr_lib \<Rightarrow> 'b ops \<Rightarrow> string \<Rightarrow> 'b ops_world \<Rightarrow> http_response \<times> 'b ops_world" where
  "stream_route_handler ad op i = reply stream_error (resolve_destination ad op i) (\<lambda>_. switching_protocols)"

record console_detail =
  cd_id :: string
  cd_console_url :: "string option"
  cd_console_password :: "string option"

definition detail_of :: "'b ops \<Rightarrow> string \<Rightarrow> ('b, console_detail) ops_act" where
  "detail_of op i =
     bindE (ops_info op i) (\<lambda>p.
     retE \<lparr>cd_id = ps_id p, cd_console_url = ps_console_url p, cd_console_password = None\<rparr>)"

definition detail_json :: "console_detail \<Rightarrow> json" where
  "detail_json d =
     JObj [(''id'', JStr (cd_id d)), (''console_url'', jstr_opt (cd_console_url d)),
           (''console_password'', jstr_opt (cd_console_password d))]"

definition consoles_route_handler :: "'b ops \<Rightarrow> string \<Rightarrow> 'b ops_world \<Rightarrow> http_response \<times> 'b ops_world" where
  "consoles_route_handler op i = reply stream_error (detail_of op i) (\<lambda>d. respond 200 (JsonBody (detail_json d)))"

text \<open>A query with one value of the name that is asked for.\<close>

definition query_field :: "http_request \<Rightarrow> string \<Rightarrow> string option" where
  "query_field rq n = (case filter (\<lambda>e. fst e = n) (hq_query rq) of [e] \<Rightarrow> Some (snd e) | _ \<Rightarrow> None)"

definition bad_request :: http_response where
  "bad_request = respond 400 (TextBody [])"

definition method_not_allowed :: http_response where
  "method_not_allowed = respond 405 NoBody"

definition with_id :: "http_lib \<Rightarrow> string \<Rightarrow> (string \<Rightarrow> 's \<Rightarrow> http_response \<times> 's) \<Rightarrow> 's \<Rightarrow> http_response \<times> 's" where
  "with_id hl raw h s = (case hl_decode hl raw of None \<Rightarrow> (bad_request, s) | Some i \<Rightarrow> h i s)"

definition stream_handle ::
  "http_lib \<Rightarrow> addr_lib \<Rightarrow> 'b ops \<Rightarrow> http_request \<Rightarrow> stream_route \<Rightarrow> 'b ops_world \<Rightarrow> http_response \<times> 'b ops_world" where
  "stream_handle hl ad op rq r s =
     (if hq_method rq \<notin> {MGet, MHead} then (method_not_allowed, s)
      else case r of
             SPage \<Rightarrow>
               (case query_field rq ''target'' of
                  None \<Rightarrow> (bad_request, s)
                | Some _ \<Rightarrow> (respond 200 (HtmlBody (ad_page ad)), s))
           | SDetail i \<Rightarrow> with_id hl i (consoles_route_handler op) s
           | SStream i g \<Rightarrow>
               with_id hl i (\<lambda>i. with_id hl g (\<lambda>_ s.
                 if hq_upgrade rq then stream_route_handler ad op i s else (bad_request, s))) s)"

subsection \<open>Where a stream goes\<close>

lemma resolve_destination_Inr:
  assumes "resolve_destination ad op i s = (Inr a, s')"
  shows "\<exists>r. ops_view op s i = Some r \<and> resolve_host_to_addr ad (sr_host r) guest_vnc_port = Some a \<and>
    ops_view op s' = ops_view op s \<and> w_bk (ow_world s') = w_bk (ow_world s)"
  using assms by (auto simp: resolve_destination_def bindE_Inr_iff dest!: load_record_Inr split: option.splits)

end
