(* ===== verification/Lsbx_Gateway.thy ===== *)
theory Lsbx_Gateway
  imports Lsbx_Stream
begin

text \<open>
  The routes of the HTTP gateway (\<open>lsbx-gateway/src/routes.rs\<close>): every handler as one call of the
  facade and its response, the table of routes, and the layers around them in their order, first the
  rate limiter, then the audit log, then the extractors of the handler with authentication among them.
  \<open>Lsbx_Http\<close> holds what needs no facade, \<open>Lsbx_Stream\<close> the routes that are mounted beside them.
\<close>

text \<open>
  What a downloaded file holds is the backend's doing: \<open>gv_read_back\<close> gives it. Which of the two merged
  routers answers a path that neither has is the framework's choice: \<open>gv_rest_fallback\<close> says that it is
  this crate's, behind its limiter, and not the stream's, behind its authentication.
\<close>

record 'b gateway_env =
  gv_lib :: http_lib
  gv_addr :: addr_lib
  gv_ops :: "'b ops"
  gv_config :: gateway_config
  gv_read_back :: "string \<Rightarrow> 'b ops_world \<Rightarrow> string + string"
  gv_rest_fallback :: bool

type_synonym 'b handler = "'b ops_world \<Rightarrow> http_response \<times> 'b ops_world"

subsection \<open>Bodies\<close>

definition dec_u64 :: "json \<Rightarrow> nat option" where
  "dec_u64 v = (case v of JNum n \<Rightarrow> if 0 \<le> n \<and> n < 2 ^ 64 then Some (nat n) else None | _ \<Rightarrow> None)"

record create_body =
  cb_profile :: string
  cb_name :: "string option"
  cb_task_id :: "string option"
  cb_lease_secs :: nat
  cb_ready_timeout_secs :: nat
  cb_verify :: bool
  cb_healthchecks :: "string list list"

definition default_lease_secs :: nat where "default_lease_secs = 3600"

definition default_ready_timeout_secs :: nat where "default_ready_timeout_secs = 30"

definition default_verify :: bool where "default_verify = True"

definition default_exec_timeout_secs :: nat where "default_exec_timeout_secs = 30"

definition create_body_of_json :: "json \<Rightarrow> create_body option" where
  "create_body_of_json v =
     Option.bind (struct_fields [''profile'', ''name'', ''task_id'', ''lease_secs'', ''ready_timeout_secs'', ''verify'',
       ''healthchecks''] 4 v) (\<lambda>fs.
     Option.bind (fld_req fs ''profile'' dec_str) (\<lambda>p.
     Option.bind (fld_opt fs ''name'' dec_str) (\<lambda>n.
     Option.bind (fld_opt fs ''task_id'' dec_str) (\<lambda>t.
     Option.bind (fld_default fs ''lease_secs'' default_lease_secs dec_u64) (\<lambda>l.
     Option.bind (fld_default fs ''ready_timeout_secs'' default_ready_timeout_secs dec_u64) (\<lambda>r.
     Option.bind (fld_default fs ''verify'' default_verify dec_bool) (\<lambda>vf.
     Option.bind (fld_default fs ''healthchecks'' [] (dec_arr (dec_arr dec_str))) (\<lambda>h.
       Some \<lparr>cb_profile = p, cb_name = n, cb_task_id = t, cb_lease_secs = l, cb_ready_timeout_secs = r,
             cb_verify = vf, cb_healthchecks = h\<rparr>))))))))"

definition create_request_of :: "create_body \<Rightarrow> create_request" where
  "create_request_of b =
     \<lparr>rq_profile = cb_profile b, rq_golden = None, rq_name = cb_name b, rq_task_id = cb_task_id b,
      rq_lease = secs (cb_lease_secs b), rq_ready_timeout = secs (cb_ready_timeout_secs b),
      rq_verify = cb_verify b, rq_cpu = None, rq_memory = None, rq_flavor = None, rq_streaming = None,
      rq_healthchecks = cb_healthchecks b, rq_os = None\<rparr>"

definition exec_body_of_json :: "json \<Rightarrow> (string list \<times> nat) option" where
  "exec_body_of_json v =
     Option.bind (struct_fields [''command'', ''timeout_secs''] 1 v) (\<lambda>fs.
     Option.bind (fld_req fs ''command'' (dec_arr dec_str)) (\<lambda>c.
     Option.bind (fld_default fs ''timeout_secs'' default_exec_timeout_secs dec_u64) (\<lambda>t. Some (c, t))))"

definition local_body_of_json :: "json \<Rightarrow> (string \<times> string) option" where
  "local_body_of_json v =
     Option.bind (struct_fields [''source'', ''destination''] 0 v) (\<lambda>fs.
     Option.bind (fld_req fs ''source'' dec_str) (\<lambda>a.
     Option.bind (fld_req fs ''destination'' dec_str) (\<lambda>b. Some (a, b))))"

definition renew_body_of_json :: "json \<Rightarrow> nat option" where
  "renew_body_of_json v =
     Option.bind (struct_fields [''duration_secs''] 0 v) (\<lambda>fs. fld_req fs ''duration_secs'' dec_u64)"

definition public_json :: "public_sandbox \<Rightarrow> json" where
  "public_json p =
     JObj [(''id'', JStr (ps_id p)), (''name'', JStr (ps_name p)), (''host'', JStr (ps_host p)),
           (''profile'', JStr (ps_profile p)), (''flavor'', JStr (ps_flavor p)),
           (''streaming'', JStr (ps_streaming p)), (''task_id'', jstr_opt (ps_task_id p)),
           (''created_at'', jstr_opt (ps_created_at p)), (''lease_expires_at'', jstr_opt (ps_lease_expires_at p)),
           (''console_url'', jstr_opt (ps_console_url p)), (''cleanup_failed'', JBool (ps_cleanup_failed p)),
           (''repository'', jstr_opt (ps_repository p))]"

subsection \<open>Extractors\<close>

definition authed :: "gateway_config \<Rightarrow> http_request \<Rightarrow> 'b handler \<Rightarrow> 'b handler" where
  "authed cfg rq h s =
     (case from_request_parts cfg (hq_headers rq) of Inl e \<Rightarrow> (unauthorized e, s) | Inr _ \<Rightarrow> h s)"

definition with_query :: "http_request \<Rightarrow> string \<Rightarrow> (string \<Rightarrow> 'b handler) \<Rightarrow> 'b handler" where
  "with_query rq n h s = (case query_field rq n of None \<Rightarrow> (bad_request, s) | Some v \<Rightarrow> h v s)"

definition with_json :: "http_lib \<Rightarrow> http_request \<Rightarrow> (json \<Rightarrow> 'a option) \<Rightarrow> ('a \<Rightarrow> 'b handler) \<Rightarrow> 'b handler" where
  "with_json hl rq dec h s =
     (if \<not> hq_json_type rq then (respond 415 (TextBody []), s)
      else case hl_json hl (hq_body rq) of
             None \<Rightarrow> (bad_request, s)
           | Some v \<Rightarrow> (case dec v of None \<Rightarrow> (respond 422 (TextBody []), s) | Some b \<Rightarrow> h b s))"

subsection \<open>Handlers\<close>

abbreviation answer :: "('b, 'a) ops_act \<Rightarrow> ('a \<Rightarrow> json) \<Rightarrow> 'b handler" where
  "answer m f \<equiv> reply error_response m (\<lambda>x. success_response (f x))"

definition health :: "'b ops \<Rightarrow> 'b handler" where
  "health op = answer (ops_status op) (\<lambda>r.
     JObj [(''backend_name'', JStr (st_backend_name r)), (''backend_available'', JBool (st_backend_available r)),
           (''sandbox_count'', JNum (int (st_sandbox_count r)))])"

definition images :: "'b ops \<Rightarrow> 'b handler" where
  "images op = answer (config_show op) (\<lambda>c. unwrap_or (JObj []) (json_get c ''images''))"

definition profiles :: "'b ops \<Rightarrow> 'b handler" where
  "profiles op = answer (config_show op) (\<lambda>c. unwrap_or (JObj []) (json_get c ''profiles''))"

definition capabilities :: "'b ops \<Rightarrow> 'b handler" where
  "capabilities op = answer (config_show op) (\<lambda>c. c)"

definition console_entry :: "public_sandbox \<Rightarrow> json option" where
  "console_entry p =
     map_option (\<lambda>url. JObj [(''id'', JStr (ps_id p)), (''console_url'', JStr url)]) (ps_console_url p)"

definition consoles :: "'b ops \<Rightarrow> 'b handler" where
  "consoles op = answer (ops_list op) (\<lambda>ps. JArr (List.map_filter console_entry ps))"

definition console_json :: "string \<Rightarrow> string option \<Rightarrow> json" where
  "console_json i url = JObj [(''id'', JStr i), (''console_url'', jstr_opt url)]"

definition console_by_id :: "'b ops \<Rightarrow> string \<Rightarrow> 'b handler" where
  "console_by_id op i = answer (ops_console_url op i) (console_json i)"

definition list_sandboxes :: "'b ops \<Rightarrow> 'b handler" where
  "list_sandboxes op = answer (ops_list op) (\<lambda>ps. JArr (map public_json ps))"

definition limit_reached :: "nat \<Rightarrow> nat \<Rightarrow> lsbx_error" where
  "limit_reached n m =
     ContractViolated (''sandbox limit reached: '' @ show_nat n @ '' active sandboxes (max '' @ show_nat m @ '')'')"

text \<open>The count and the creation are one step: they run under the creation gate.\<close>

definition create_sandbox :: "gateway_config \<Rightarrow> 'b ops \<Rightarrow> create_body \<Rightarrow> 'b handler" where
  "create_sandbox cfg op b s =
     (if gw_max_sandboxes cfg = 0
      then (error_response (ContractViolated ''gateway max_sandboxes must be greater than zero''), s)
      else case ops_list op s of
             (Inl e, s1) \<Rightarrow> (error_response e, s1)
           | (Inr ps, s1) \<Rightarrow>
               if gw_max_sandboxes cfg \<le> length ps
               then (error_response (limit_reached (length ps) (gw_max_sandboxes cfg)), s1)
               else answer (ops_create op (create_request_of b)) public_json s1)"

definition get_sandbox :: "'b ops \<Rightarrow> string \<Rightarrow> 'b handler" where
  "get_sandbox op i = answer (ops_info op i) public_json"

definition delete_sandbox :: "'b ops \<Rightarrow> string \<Rightarrow> 'b handler" where
  "delete_sandbox op i = reply error_response (ops_destroy op i) (\<lambda>_. respond 204 NoBody)"

text \<open>The path of a new temporary file, and the same file after it was written.\<close>

definition temp_path :: "string \<Rightarrow> string io" where
  "temp_path dir s = bindE (temp_new_in dir) (\<lambda>t. retE (dir @ ''/.tmp'' @ fs_fresh s (fs_tick s))) s"

definition stage_upload :: "string \<Rightarrow> string \<Rightarrow> string io" where
  "stage_upload dir body s =
     bindE (temp_new_in dir) (\<lambda>t. bindE (temp_write t (FText body)) (\<lambda>_.
       retE (dir @ ''/.tmp'' @ fs_fresh s (fs_tick s)))) s"

definition temp_dir_of :: "'b ops \<Rightarrow> string" where
  "temp_dir_of op = kl_temp_dir (lb_keys (op_lib op))"

definition upload_to_sandbox :: "'b ops \<Rightarrow> string \<Rightarrow> string \<Rightarrow> string \<Rightarrow> 'b handler" where
  "upload_to_sandbox op body i destination =
     answer (bindE (in_world (on_fs (mapErr (cviol ''failed to stage upload body to a temp file'')
                      (stage_upload (temp_dir_of op) body)))) (\<lambda>p. ops_put op i p destination))
       (\<lambda>_. JObj [(''id'', JStr i), (''destination'', JStr destination)])"

definition download_artifact ::
  "'b ops \<Rightarrow> (string \<Rightarrow> 'b ops_world \<Rightarrow> string + string) \<Rightarrow> string \<Rightarrow> string \<Rightarrow> 'b handler" where
  "download_artifact op read_back i source =
     reply error_response
       (bindE (in_world (on_fs (mapErr (cviol ''failed to create temp file for artifact download'')
                 (temp_path (temp_dir_of op))))) (\<lambda>p.
        bindE (ops_get op i source p) (\<lambda>_ s.
        (case read_back p s of
           Inl e \<Rightarrow> Inl (ContractViolated (''failed to read back downloaded artifact: '' @ e))
         | Inr t \<Rightarrow> Inr t, s))))
       (\<lambda>t. respond 200 (FileBody t))"

definition exec_json :: "command_output \<Rightarrow> json" where
  "exec_json out =
     JObj [(''exit_code'', JNum (co_exit_code out)), (''stdout'', JStr (co_stdout out)), (''stderr'', JStr (co_stderr out))]"

definition exec_in_sandbox :: "'b ops \<Rightarrow> string \<Rightarrow> string list \<times> nat \<Rightarrow> 'b handler" where
  "exec_in_sandbox op i b s =
     (if fst b = []
      then (error_response (Usage (''exec request body'' @ apostrophe @ ''s '' @ quoted ''command'' @ '' array must not be empty'')), s)
      else answer (ops_exec op i (fst b) (secs (snd b))) exec_json s)"

definition require_local_files_enabled :: "gateway_config \<Rightarrow> lsbx_error + unit" where
  "require_local_files_enabled cfg =
     (if gw_allow_local_files cfg then Inr ()
      else Inl (Usage (''local file access (put/get by server-side path) is disabled on this gateway ''
        @ ''(allow_local_files is false); this is a deliberate, default-off safety gate, not a missing feature'')))"

definition put_local_file :: "gateway_config \<Rightarrow> 'b ops \<Rightarrow> string \<Rightarrow> string \<times> string \<Rightarrow> 'b handler" where
  "put_local_file cfg op i b s =
     (case require_local_files_enabled cfg of
        Inl e \<Rightarrow> (error_response e, s)
      | Inr _ \<Rightarrow> answer (ops_put op i (fst b) (snd b))
                   (\<lambda>_. JObj [(''id'', JStr i), (''destination'', JStr (snd b))]) s)"

definition get_local_file :: "gateway_config \<Rightarrow> 'b ops \<Rightarrow> string \<Rightarrow> string \<times> string \<Rightarrow> 'b handler" where
  "get_local_file cfg op i b s =
     (case require_local_files_enabled cfg of
        Inl e \<Rightarrow> (error_response e, s)
      | Inr _ \<Rightarrow> answer (ops_get op i (fst b) (snd b))
                   (\<lambda>_. JObj [(''id'', JStr i), (''source'', JStr (fst b))]) s)"

definition check_sandbox :: "'b ops \<Rightarrow> string \<Rightarrow> 'b handler" where
  "check_sandbox op i = answer (ops_info op i) public_json"

definition info_sandbox :: "'b ops \<Rightarrow> string \<Rightarrow> 'b handler" where
  "info_sandbox op i = answer (ops_info op i) public_json"

definition renew_sandbox :: "'b ops \<Rightarrow> string \<Rightarrow> nat \<Rightarrow> 'b handler" where
  "renew_sandbox op i duration = answer (ops_renew op i (secs duration)) public_json"

definition console_for_sandbox :: "'b ops \<Rightarrow> string \<Rightarrow> 'b handler" where
  "console_for_sandbox op i = answer (ops_console_url op i) (console_json i)"

definition console_page :: "string \<Rightarrow> string \<Rightarrow> string" where
  "console_page i url =
     ''<!DOCTYPE html><html><head><title>lsbx console: '' @ html_escape i @ ''</title></head><body><p>Console for sandbox <code>''
       @ html_escape i @ ''</code>:</p><p><a href='' @ [CHR 0x22] @ html_escape url @ [CHR 0x22] @ ''>'' @ html_escape url
       @ ''</a></p></body></html>''"

definition no_console_page :: "string \<Rightarrow> string" where
  "no_console_page i =
     ''<!DOCTYPE html><html><body><p>Sandbox <code>'' @ html_escape i
       @ ''</code> has no console available (not a noVNC-streaming sandbox).</p></body></html>''"

definition browser_console :: "'b ops \<Rightarrow> string \<Rightarrow> 'b handler" where
  "browser_console op target =
     reply error_response (ops_console_url op target) (\<lambda>u.
       case u of
         Some url \<Rightarrow> respond 200 (HtmlBody (console_page target url))
       | None \<Rightarrow> respond 404 (HtmlBody (no_console_page target)))"

subsection \<open>The table of routes\<close>

datatype route =
    RHealth | RImages | RProfiles | RCapabilities | RConsoles | RSandboxes | RSandbox string
  | RAction string string | RConsoleById string | RConsole

definition sandbox_actions :: "string list" where
  "sandbox_actions = [''upload'', ''artifacts'', ''exec'', ''put'', ''get'', ''check'', ''info'', ''renew'', ''console'']"

definition route_of :: "bool \<Rightarrow> string \<Rightarrow> route option" where
  "route_of own path =
     (case split_on (CHR ''/'') path of
        [[], a] \<Rightarrow>
          (if a = ''health'' then Some RHealth else if a = ''images'' then Some RImages
           else if a = ''profiles'' then Some RProfiles else if a = ''capabilities'' then Some RCapabilities
           else if a = ''consoles'' then Some RConsoles else if a = ''sandboxes'' then Some RSandboxes
           else if a = ''console'' \<and> own then Some RConsole else None)
      | [[], a, i] \<Rightarrow>
          (if i = [] then None else if a = ''sandboxes'' then Some (RSandbox i)
           else if a = ''consoles'' \<and> own then Some (RConsoleById i) else None)
      | [[], a, i, c] \<Rightarrow>
          (if a = ''sandboxes'' \<and> i \<noteq> [] \<and> c \<in> set sandbox_actions then Some (RAction i c) else None)
      | _ \<Rightarrow> None)"

text \<open>
  The handler of a route with its extractors in their order: the path, the query, authentication, and the
  body last. \<open>None\<close> is a method the route does not have; a route for \<open>GET\<close> also answers \<open>HEAD\<close>.
\<close>

definition gets :: "http_request \<Rightarrow> 'b handler \<Rightarrow> 'b handler option" where
  "gets rq h = (if hq_method rq \<in> {MGet, MHead} then Some h else None)"

definition posts :: "http_request \<Rightarrow> 'b handler \<Rightarrow> 'b handler option" where
  "posts rq h = (if hq_method rq = MPost then Some h else None)"

definition or_handler :: "'b handler option \<Rightarrow> 'b handler option \<Rightarrow> 'b handler option" where
  "or_handler a b = (case a of Some h \<Rightarrow> Some h | None \<Rightarrow> b)"

definition action_handler :: "'b gateway_env \<Rightarrow> http_request \<Rightarrow> string \<Rightarrow> string \<Rightarrow> 'b handler option" where
  "action_handler env rq raw c =
     (let op = gv_ops env; cfg = gv_config env; hl = gv_lib env;
          a = (\<lambda>h. authed cfg rq h);
          posted = (\<lambda>h. posts rq (with_id hl raw (\<lambda>i. a (h i))))
      in if c = ''upload''
         then posts rq (with_id hl raw (\<lambda>i. with_query rq ''destination'' (\<lambda>d. a (upload_to_sandbox op (hq_body rq) i d))))
         else if c = ''artifacts''
         then gets rq (with_id hl raw (\<lambda>i. with_query rq ''source'' (\<lambda>x. a (download_artifact op (gv_read_back env) i x))))
         else if c = ''exec'' then posted (\<lambda>i. with_json hl rq exec_body_of_json (exec_in_sandbox op i))
         else if c = ''put'' then posted (\<lambda>i. with_json hl rq local_body_of_json (put_local_file cfg op i))
         else if c = ''get'' then posted (\<lambda>i. with_json hl rq local_body_of_json (get_local_file cfg op i))
         else if c = ''check'' then posted (check_sandbox op)
         else if c = ''info'' then posted (info_sandbox op)
         else if c = ''renew'' then posted (\<lambda>i. with_json hl rq renew_body_of_json (renew_sandbox op i))
         else if c = ''console'' then posted (console_for_sandbox op)
         else None)"

definition route_handler :: "'b gateway_env \<Rightarrow> http_request \<Rightarrow> route \<Rightarrow> 'b handler option" where
  "route_handler env rq r =
     (let op = gv_ops env; cfg = gv_config env; hl = gv_lib env; a = (\<lambda>h. authed cfg rq h)
      in case r of
           RHealth \<Rightarrow> gets rq (a (health op))
         | RImages \<Rightarrow> gets rq (a (images op))
         | RProfiles \<Rightarrow> gets rq (a (profiles op))
         | RCapabilities \<Rightarrow> gets rq (a (capabilities op))
         | RConsoles \<Rightarrow> gets rq (a (consoles op))
         | RSandboxes \<Rightarrow>
             or_handler (gets rq (a (list_sandboxes op)))
               (posts rq (a (with_json hl rq create_body_of_json (create_sandbox cfg op))))
         | RSandbox raw \<Rightarrow>
             or_handler (gets rq (with_id hl raw (\<lambda>i. a (get_sandbox op i))))
               (if hq_method rq = MDelete then Some (with_id hl raw (\<lambda>i. a (delete_sandbox op i))) else None)
         | RAction raw c \<Rightarrow> action_handler env rq raw c
         | RConsoleById raw \<Rightarrow> gets rq (with_id hl raw (\<lambda>i. a (console_by_id op i)))
         | RConsole \<Rightarrow> gets rq (with_query rq ''target'' (browser_console op)))"

definition handle_route :: "'b gateway_env \<Rightarrow> http_request \<Rightarrow> route \<Rightarrow> 'b handler" where
  "handle_route env rq r s =
     (case route_handler env rq r of None \<Rightarrow> (method_not_allowed, s) | Some h \<Rightarrow> h s)"

subsection \<open>The layers\<close>

record 'b gateway =
  gt_ops :: "'b ops_world"
  gt_limiter :: limiter
  gt_audit :: "audit_entry list"

definition audit_log_middleware ::
  "http_lib \<Rightarrow> http_request \<Rightarrow> ('b gateway \<Rightarrow> http_response \<times> 'b gateway) \<Rightarrow> 'b gateway \<Rightarrow> http_response \<times> 'b gateway" where
  "audit_log_middleware hl rq next_handler g =
     (if method_is_mutating (hq_method rq)
      then next_handler (g\<lparr>gt_audit := gt_audit g @ [audit_of hl rq]\<rparr>)
      else next_handler g)"

text \<open>\<open>None\<close> is a panic of the limiter: the connection is closed without a response.\<close>

definition rate_limit_middleware ::
  "'b gateway_env \<Rightarrow> http_request \<Rightarrow> ('b gateway \<Rightarrow> http_response \<times> 'b gateway) \<Rightarrow> 'b gateway \<Rightarrow>
   http_response option \<times> 'b gateway" where
  "rate_limit_middleware env rq next_handler g =
     (case limiter_check (hl_round (gv_lib env)) (gv_config env) (w_now (ow_world (gt_ops g)))
             (rate_limit_key (hq_headers rq) (unwrap_or no_peer (hq_peer rq))) (gt_limiter g) of
        (None, l) \<Rightarrow> (None, g\<lparr>gt_limiter := l\<rparr>)
      | (Some Allow, l) \<Rightarrow> (case next_handler (g\<lparr>gt_limiter := l\<rparr>) of (r, g') \<Rightarrow> (Some r, g'))
      | (Some (Deny n), l) \<Rightarrow> (Some (too_many_requests n), g\<lparr>gt_limiter := l\<rparr>))"

definition on_ops :: "'b handler \<Rightarrow> 'b gateway \<Rightarrow> http_response \<times> 'b gateway" where
  "on_ops h g = (case h (gt_ops g) of (r, s) \<Rightarrow> (r, g\<lparr>gt_ops := s\<rparr>))"

definition not_found_response :: http_response where
  "not_found_response = respond 404 NoBody"

text \<open>The router of this crate, with its own console routes or without them.\<close>

definition build_router_inner ::
  "'b gateway_env \<Rightarrow> bool \<Rightarrow> http_request \<Rightarrow> 'b gateway \<Rightarrow> http_response option \<times> 'b gateway" where
  "build_router_inner env own rq =
     rate_limit_middleware env rq (\<lambda>g.
       case route_of own (hq_path rq) of
         None \<Rightarrow> (not_found_response, g)
       | Some RConsole \<Rightarrow> on_ops (handle_route env rq RConsole) g
       | Some r \<Rightarrow> audit_log_middleware (gv_lib env) rq (on_ops (handle_route env rq r)) g)"

text \<open>
  The router that is served: the paths of the stream's router go to it, behind authentication only; all
  others go through the layers of this crate, but for those without a route.
\<close>

definition serve_request ::
  "'b gateway_env \<Rightarrow> http_request \<Rightarrow> 'b gateway \<Rightarrow> http_response option \<times> 'b gateway" where
  "serve_request env rq g =
     (case stream_route_of (hq_path rq) of
        Some r \<Rightarrow>
          (case on_ops (auth_middleware (gv_config env) rq
                  (stream_handle (gv_lib env) (gv_addr env) (gv_ops env) rq r)) g of (resp, g') \<Rightarrow> (Some resp, g'))
      | None \<Rightarrow>
          if route_of False (hq_path rq) = None \<and> \<not> gv_rest_fallback env
          then (case auth_middleware (gv_config env) rq (\<lambda>g. (not_found_response, g)) g of (resp, g') \<Rightarrow> (Some resp, g'))
          else build_router_inner env False rq g)"

subsection \<open>Who gets in\<close>

definition refuses :: "'b handler \<Rightarrow> bool" where
  "refuses h \<longleftrightarrow> (\<forall>s. snd (h s) = s \<and> hs_status (fst (h s)) \<in> {400, 401, 405})"

lemma refuses_intros:
  "from_request_parts cfg (hq_headers rq) \<notin> range Inr \<Longrightarrow> refuses (authed cfg rq h)"
  "(\<And>i. refuses (k i)) \<Longrightarrow> refuses (with_id hl raw k)"
  "(\<And>v. refuses (k v)) \<Longrightarrow> refuses (with_query rq n k)"
  by (auto simp: refuses_def authed_def with_id_def with_query_def unauthorized_def bad_request_def respond_def
      split: sum.splits option.splits)

lemma table_simps:
  "gets rq h = Some h' \<longleftrightarrow> hq_method rq \<in> {MGet, MHead} \<and> h' = h"
  "posts rq h = Some h' \<longleftrightarrow> hq_method rq = MPost \<and> h' = h"
  "or_handler a b = Some h' \<longleftrightarrow> a = Some h' \<or> a = None \<and> b = Some h'"
  by (auto simp: gets_def posts_def or_handler_def split: option.split)

lemma action_refuses:
  assumes "from_request_parts (gv_config env) (hq_headers rq) \<notin> range Inr" and "action_handler env rq raw c = Some h"
  shows "refuses h"
  using assms(2) unfolding action_handler_def Let_def
  by (auto simp only: table_simps split: if_splits intro!: refuses_intros assms(1))

lemma route_refuses:
  assumes "from_request_parts (gv_config env) (hq_headers rq) \<notin> range Inr" and "r \<noteq> RConsole"
    and "route_handler env rq r = Some h"
  shows "refuses h"
proof (cases r)
  case (RAction raw c)
  then show ?thesis using action_refuses [OF assms(1)] assms(3) by (simp add: route_handler_def)
qed (use assms(2,3) in \<open>auto simp: route_handler_def Let_def table_simps split: if_splits intro!: refuses_intros assms(1)\<close>)

lemma handle_refuses:
  assumes "from_request_parts (gv_config env) (hq_headers rq) \<notin> range Inr" and "r \<noteq> RConsole"
  shows "refuses (handle_route env rq r)"
proof (cases "route_handler env rq r")
  case None
  then show ?thesis by (simp add: handle_route_def refuses_def method_not_allowed_def respond_def)
next
  case (Some h)
  then show ?thesis using route_refuses [OF assms Some] by (simp add: handle_route_def refuses_def)
qed

lemma no_own_console: "route_of False path \<noteq> Some RConsole"
  by (auto simp: route_of_def split: list.splits if_splits)

text \<open>What the layers do to the facade's state is what the handler does.\<close>

lemma audit_log_ops:
  "fst (audit_log_middleware hl rq (on_ops h) g) = fst (h (gt_ops g))"
  "gt_ops (snd (audit_log_middleware hl rq (on_ops h) g)) = snd (h (gt_ops g))"
  "gt_limiter (snd (audit_log_middleware hl rq (on_ops h) g)) = gt_limiter g"
  "gt_audit (snd (audit_log_middleware hl rq (on_ops h) g)) =
    gt_audit g @ (if method_is_mutating (hq_method rq) then [audit_of hl rq] else [])"
  by (auto simp: audit_log_middleware_def on_ops_def split: prod.split)

lemma rate_limit_cases:
  assumes "rate_limit_middleware env rq k g = (resp, g')"
  obtains (dropped) l where "resp = None" "g' = g\<lparr>gt_limiter := l\<rparr>"
    | (denied) l n where "resp = Some (too_many_requests n)" "g' = g\<lparr>gt_limiter := l\<rparr>"
    | (passed) l r where "k (g\<lparr>gt_limiter := l\<rparr>) = (r, g')" "resp = Some r"
proof -
  obtain d l where c: "limiter_check (hl_round (gv_lib env)) (gv_config env) (w_now (ow_world (gt_ops g)))
      (rate_limit_key (hq_headers rq) (unwrap_or no_peer (hq_peer rq))) (gt_limiter g) = (d, l)" by fastforce
  obtain r g1 where k: "k (g\<lparr>gt_limiter := l\<rparr>) = (r, g1)" by fastforce
  show thesis
  proof (cases d)
    case None
    then show thesis using assms c dropped [of l] by (simp add: rate_limit_middleware_def)
  next
    case (Some x)
    then show thesis using assms c k denied [of _ l] passed [of l r]
      by (cases x) (auto simp: rate_limit_middleware_def)
  qed
qed

text \<open>The runs of the served router.\<close>

lemma serve_cases:
  assumes "serve_request env rq g = (resp, g')"
  obtains (stream) r x where "stream_route_of (hq_path rq) = Some r"
      "auth_middleware (gv_config env) rq (stream_handle (gv_lib env) (gv_addr env) (gv_ops env) rq r) (gt_ops g)
        = (x, gt_ops g')" "resp = Some x" "gt_limiter g' = gt_limiter g" "gt_audit g' = gt_audit g"
    | (stopped) "gt_ops g' = gt_ops g" "gt_audit g' = gt_audit g"
        "resp = None \<or> (\<exists>n. resp = Some (too_many_requests n)) \<or> resp = Some not_found_response \<or>
         resp = Some (unauthorized InvalidToken)"
    | (routed) r x where "route_of False (hq_path rq) = Some r" "r \<noteq> RConsole" "resp = Some x"
        "handle_route env rq r (gt_ops g) = (x, gt_ops g')"
        "gt_audit g' = gt_audit g @ (if method_is_mutating (hq_method rq) then [audit_of (gv_lib env) rq] else [])"
proof (cases "stream_route_of (hq_path rq)")
  case (Some r)
  then show thesis using assms stream by (auto simp: serve_request_def on_ops_def split: prod.splits)
next
  case no_stream: None
  show thesis
  proof (cases "route_of False (hq_path rq)")
    case None
    show thesis
    proof (cases "gv_rest_fallback env")
      case True
      then have "build_router_inner env False rq g = (resp, g')" using assms no_stream by (simp add: serve_request_def)
      then show thesis using None stopped unfolding build_router_inner_def by (elim rate_limit_cases) auto
    next
      case False
      then show thesis using assms no_stream None stopped by (auto simp: serve_request_def auth_agree split: if_splits)
    qed
  next
    case (Some r)
    then have b: "build_router_inner env False rq g = (resp, g')" using assms no_stream by (simp add: serve_request_def)
    from Some have "r \<noteq> RConsole" using no_own_console by auto
    then have e: "(case Some r of None \<Rightarrow> (not_found_response, v) | Some RConsole \<Rightarrow> on_ops (handle_route env rq RConsole) v
        | Some q \<Rightarrow> audit_log_middleware (gv_lib env) rq (on_ops (handle_route env rq q)) v)
        = audit_log_middleware (gv_lib env) rq (on_ops (handle_route env rq r)) v" for v
      by (simp split: route.split)
    from b [unfolded build_router_inner_def Some e] show thesis
    proof (cases rule: rate_limit_cases)
      case (passed l x)
      note a = audit_log_ops [of "gv_lib env" rq "handle_route env rq r" "g\<lparr>gt_limiter := l\<rparr>", unfolded passed(1)]
      show thesis by (rule routed [OF Some \<open>r \<noteq> RConsole\<close> passed(2)]) (use a in \<open>auto simp: prod_eq_iff\<close>)
    qed (use stopped in auto)
  qed
qed

text \<open>Without the token nothing of the facade is reached, on any path.\<close>

lemma serve_unauthenticated:
  assumes "from_request_parts (gv_config env) (hq_headers rq) \<notin> range Inr" and "serve_request env rq g = (resp, g')"
  shows "gt_ops g' = gt_ops g \<and>
    (\<forall>r. resp = Some r \<longrightarrow> hq_path rq = ''/console'' \<or> hs_status r \<in> {400, 401, 404, 405, 429})"
  using assms(2)
proof (cases rule: serve_cases)
  case (stream r x)
  show ?thesis
  proof (cases "hq_path rq = ''/console''")
    case True
    then have "r = SPage" using stream(1) by (simp add: stream_route_of_def)
    then show ?thesis using stream(2) True unfolding auth_agree
      by (auto simp: stream_handle_def split: if_splits option.splits)
  next
    case False
    then show ?thesis using stream(2,3) assms(1) unfolding auth_agree by (auto simp: unauthorized_def respond_def)
  qed
next
  case stopped
  then show ?thesis by (auto simp: too_many_requests_def not_found_response_def unauthorized_def respond_def)
next
  case (routed r x)
  have "snd (handle_route env rq r (gt_ops g)) = gt_ops g \<and> hs_status (fst (handle_route env rq r (gt_ops g))) \<in> {400, 401, 405}"
    using handle_refuses [OF assms(1) routed(2)] by (auto simp: refuses_def)
  then show ?thesis using routed by auto
qed

end
