(* ===== verification/Lsbx_Admission.thy ===== *)
theory Lsbx_Admission
  imports Lsbx_Gateway
begin

text \<open>
  What a request can do to the stored records (\<open>lsbx-gateway/src/routes.rs\<close> over \<open>lsbx-lifecycle\<close>):
  which handlers leave every file as it is, how far creating, destroying and renewing change them, and
  from that the cap on sandboxes and the audit log's account of every change.
\<close>


subsection \<open>Which requests change a record\<close>

definition same_files :: "fs \<Rightarrow> fs \<Rightarrow> bool" where
  "same_files f f' \<longleftrightarrow> fs_files f' = fs_files f \<and> fs_dirs f' = fs_dirs f"

lemma same_files_refl [simp]: "same_files f f"
  by (simp add: same_files_def)

lemma same_files_trans: "same_files f g \<Longrightarrow> same_files g h \<Longrightarrow> same_files f h"
  by (simp add: same_files_def)

lemma io_op_same: "(\<And>s. same_files s (snd (m s))) \<Longrightarrow> same_files s (snd (io_op m s))"
  by (fastforce simp: io_op_def Let_def same_files_def split: option.split)

lemma bindE_same: "same_files s (snd (m s)) \<Longrightarrow> (\<And>x s. same_files s (snd (k x s))) \<Longrightarrow> same_files s (snd (bindE m k s))"
  by (simp add: bindE_run split: sum.split) (blast intro: same_files_trans)

lemma mapErr_same: "same_files s (snd (m s)) \<Longrightarrow> same_files s (snd (mapErr f m s))"
  by (cases "m s") (auto simp: mapErr_def split: sum.split)

lemma same_reads:
  "same_files s (snd (read_file d n s))" "same_files s (snd (read_dir d s))" "same_files s (snd (temp_new_in d s))"
  "same_files s (snd (temp_write t c s))" "same_files s (snd (io_op (retE x) s))"
  unfolding read_file_def read_dir_def temp_new_in_def temp_write_def
  by (rule io_op_same; simp split: option.split prod.split)+

lemma same_loads: "same_files s (snd (sandbox_load sx sd i s))"
  unfolding sandbox_load_def by (intro bindE_same mapErr_same same_reads) (simp add: liftE_def)

lemma same_entries: "same_files s (snd (sandbox_list_entries sx sd ns s))"
proof (induction ns arbitrary: s)
  case (Cons n ns)
  show ?case unfolding sandbox_list_entries.simps
    by (rule bindE_same, rule mapErr_same, rule same_reads) (auto intro!: bindE_same same_loads Cons.IH)
qed simp

lemma same_list: "same_files s (snd (sandbox_list sx sd s))"
  unfolding sandbox_list_def by (auto intro!: bindE_same mapErr_same same_reads same_entries)

lemma same_stage: "same_files s (snd (stage_upload d b s))" "same_files s (snd (temp_path d s))"
  unfolding stage_upload_def temp_path_def by (intro bindE_same same_reads; simp)+

definition still :: "'b ops \<Rightarrow> ('b ops_world \<Rightarrow> 'x \<times> 'b ops_world) \<Rightarrow> bool" where
  "still op m \<longleftrightarrow> (\<forall>s. same_files (w_fs (ow_world s)) (w_fs (ow_world (snd (m s)))))"

lemma still_lifted:
  "still op (retE x)" "still op (failE e)"
  "still op m \<Longrightarrow> (\<And>x. still op (k x)) \<Longrightarrow> still op (bindE m k)"
  "still op (in_world (on_bk b))" "still op (in_world (run_guest be t c tmo i))"
  "(\<And>f. same_files f (snd (q f))) \<Longrightarrow> still op (in_world (on_fs q))"
  by (auto simp: still_def bindE_run run_guest_def Let_def on_bk_iff intro: same_files_trans split: sum.split prod.split)

lemma still_load: "still op (load_record op i)" "still op (list_records op)"
  unfolding load_record_def list_records_def
  by (intro still_lifted same_loads same_list)+

lemma still_guest: "still op (guest_of op i)"
  unfolding guest_of_def by (auto intro!: still_lifted still_load split: option.split)

lemma still_ops:
  "still op (ops_list op)" "still op (ops_info op i)" "still op (ops_console_url op i)"
  "still op (ops_exec op i c tmo)" "still op (ops_put op i a b)" "still op (ops_get op i a b)"
  "still op (config_show op)"
  unfolding ops_list_def ops_info_def ops_console_url_def ops_exec_def ops_put_def ops_get_def
  by (auto intro!: still_lifted still_load still_guest simp: still_def [of _ "config_show op"] config_show_def Let_def)

lemma still_status: "still op (ops_status op)"
proof -
  have "snd (backend_available op s) = snd (in_world (on_bk (bk_list_vms (op_backend op))) s)" for s
    by (auto simp: backend_available_def split: prod.split sum.split lsbx_error.split)
  then have "still op (backend_available op)"
    using still_lifted(4) [of op "bk_list_vms (op_backend op)"] by (simp add: still_def)
  then show ?thesis unfolding ops_status_def by (intro still_lifted still_load)
qed

lemma still_stage:
  "still op (in_world (on_fs (mapErr f (stage_upload d b))))" "still op (in_world (on_fs (mapErr f (temp_path d))))"
  by (intro still_lifted mapErr_same same_stage)+

lemma still_handlers:
  "still op m \<Longrightarrow> still op (reply bad m ok)"
  "still op h \<Longrightarrow> still op (authed cfg rq h)"
  "(\<And>i. still op (k i)) \<Longrightarrow> still op (with_id hl raw k)"
  "(\<And>v. still op (q v)) \<Longrightarrow> still op (with_query rq n q)"
  "(\<And>b. still op (j b)) \<Longrightarrow> still op (with_json hl rq dec j)"
  by (auto simp: still_def reply_def authed_def with_id_def with_query_def with_json_def
      split: prod.split sum.split option.split) (metis snd_conv)+

lemma still_readers:
  "still op (health op)" "still op (images op)" "still op (profiles op)" "still op (capabilities op)"
  "still op (consoles op)" "still op (console_by_id op i)" "still op (list_sandboxes op)" "still op (get_sandbox op i)"
  "still op (upload_to_sandbox op b i d)" "still op (download_artifact op rb i x)" "still op (exec_in_sandbox op i c)"
  "still op (put_local_file cfg op i p)" "still op (get_local_file cfg op i p)" "still op (check_sandbox op i)"
  "still op (info_sandbox op i)" "still op (console_for_sandbox op i)" "still op (browser_console op i)"
proof -
  show "still op (exec_in_sandbox op i c)"
    using still_handlers(1) [OF still_ops(4) [of op i "fst c" "secs (snd c)"]] unfolding still_def exec_in_sandbox_def by (auto split: if_split)
  show "still op (put_local_file cfg op i p)"
    using still_handlers(1) [OF still_ops(5) [of op i "fst p" "snd p"]] unfolding still_def put_local_file_def by (auto split: sum.split)
  show "still op (get_local_file cfg op i p)"
    using still_handlers(1) [OF still_ops(6) [of op i "fst p" "snd p"]] unfolding still_def get_local_file_def by (auto split: sum.split)
  have r: "still op (bindE (ops_get op i x q) (\<lambda>_ s. (case rb q s of
      Inl e \<Rightarrow> Inl (ContractViolated (''failed to read back downloaded artifact: '' @ e)) | Inr t \<Rightarrow> Inr t, s)))" for q
    by (intro still_lifted(3) still_ops(6)) (simp add: still_def)
  show "still op (download_artifact op rb i x)"
    unfolding download_artifact_def by (rule still_handlers(1), rule still_lifted(3), rule still_stage, rule r)
  show "still op (upload_to_sandbox op b i d)"
    unfolding upload_to_sandbox_def by (intro still_handlers(1) still_lifted(3) still_stage still_ops)
qed (auto simp only: health_def images_def profiles_def capabilities_def consoles_def console_by_id_def list_sandboxes_def
    get_sandbox_def check_sandbox_def info_sandbox_def console_for_sandbox_def browser_console_def
    intro!: still_handlers(1) still_ops still_status)

text \<open>Only three routes can change a record: creating, destroying and renewing.\<close>

lemma action_still:
  assumes "action_handler env rq raw c = Some h" and "c \<noteq> ''renew''"
  shows "still (gv_ops env) h"
  using assms unfolding action_handler_def Let_def
  by (auto simp only: table_simps split: if_splits intro!: still_handlers(2-5) still_readers)

lemma renew_handler:
  "action_handler env rq raw ''renew'' = (if hq_method rq = MPost
     then Some (with_id (gv_lib env) raw (\<lambda>i. authed (gv_config env) rq
       (with_json (gv_lib env) rq renew_body_of_json (renew_sandbox (gv_ops env) i)))) else None)"
  by (simp add: action_handler_def Let_def posts_def)

lemma route_handler_kinds:
  assumes "route_handler env rq r = Some h"
  obtains (reads) "still (gv_ops env) h"
    | (creates) "r = RSandboxes" "hq_method rq = MPost" "h = authed (gv_config env) rq
        (with_json (gv_lib env) rq create_body_of_json (create_sandbox (gv_config env) (gv_ops env)))"
    | (deletes) raw where "r = RSandbox raw" "hq_method rq = MDelete"
        "h = with_id (gv_lib env) raw (\<lambda>i. authed (gv_config env) rq (delete_sandbox (gv_ops env) i))"
    | (renews) raw where "r = RAction raw ''renew''" "hq_method rq = MPost" "h = with_id (gv_lib env) raw
        (\<lambda>i. authed (gv_config env) rq (with_json (gv_lib env) rq renew_body_of_json (renew_sandbox (gv_ops env) i)))"
proof (cases r)
  case (RAction raw c)
  then have a: "action_handler env rq raw c = Some h" using assms by (simp add: route_handler_def)
  show thesis
  proof (cases "c = ''renew''")
    case True
    then show thesis using a renews RAction unfolding True renew_handler by (auto split: if_splits)
  next
    case False
    then show thesis using action_still [OF a] reads by blast
  qed
qed (use assms reads creates deletes in \<open>auto simp: route_handler_def Let_def table_simps split: if_splits
    intro!: still_handlers(2-5) still_readers\<close>)


subsection \<open>Records in place\<close>

text \<open>
  Every record lies under its own id, with a name the listing reads, and the store's directory exists
  when there is one.
\<close>

definition in_place :: "string \<Rightarrow> fs \<Rightarrow> bool" where
  "in_place sd f \<longleftrightarrow>
     (\<forall>i r. sandbox_view sd f i = Some r \<longrightarrow> sr_id r = i \<and> file_extension (record_file i) = Some ''json'' \<and> dir_exists (store_dir sd) f)"

lemma in_place_same: "same_files f f' \<Longrightarrow> in_place sd f' = in_place sd f"
  by (simp add: in_place_def same_files_def sandbox_view_def fs_get_def dir_exists_def dir_mode_def)

lemma dir_kept:
  "dir_exists d f \<Longrightarrow> dir_exists d (snd (create_dir_all e f))"
  "dir_exists d f \<Longrightarrow> dir_exists d (snd (set_dir_mode e k f))"
  "dir_exists d f \<Longrightarrow> dir_exists d (snd (temp_dir_in e p f))"
  "dir_exists d f \<Longrightarrow> dir_exists d (snd (create_new_file e n m f))"
  "dir_exists d f \<Longrightarrow> dir_exists d (snd (write_file e n c f))"
  "dir_exists d f \<Longrightarrow> d \<noteq> e \<Longrightarrow> dir_exists d (snd (remove_dir_all e f))"
  "dir_exists d (snd (temp_new_in e f)) = dir_exists d f"
  "dir_exists d (snd (temp_write t c f)) = dir_exists d f"
  "dir_exists d (snd (temp_set_mode t m f)) = dir_exists d f"
  "dir_exists d (snd (temp_metadata t f)) = dir_exists d f"
  "dir_exists d (snd (temp_persist t n f)) = dir_exists d f"
  "dir_exists d (snd (dir_metadata e f)) = dir_exists d f"
  by (auto simp: create_dir_all_def set_dir_mode_def temp_dir_in_def create_new_file_def write_file_def remove_dir_all_def
      temp_new_in_def temp_write_def temp_set_mode_def temp_metadata_def temp_persist_def dir_metadata_def
      io_op_def Let_def dir_exists_def dir_mode_def update_Some_unfold AList.update_conv' AList.delete_conv'
      split: option.splits if_splits)

lemma dir_kept_err: "dir_exists d (snd (m f)) \<Longrightarrow> dir_exists d (snd (mapErr g m f))"
  by (cases "m f") (simp add: mapErr_def split: sum.split)

lemma dir_created: "create_dir_all d f = (Inr u, f') \<Longrightarrow> dir_exists d f'"
  by (auto simp: create_dir_all_def io_op_def Let_def dir_exists_def dir_mode_def update_conv' split: option.splits if_splits)

lemma dir_steps:
  "dir_metadata e f = (a, f') \<Longrightarrow> dir_exists d f \<Longrightarrow> dir_exists d f'"
  "set_dir_mode e k f = (b, f') \<Longrightarrow> dir_exists d f \<Longrightarrow> dir_exists d f'"
  "temp_new_in e f = (c, f') \<Longrightarrow> dir_exists d f \<Longrightarrow> dir_exists d f'"
  "temp_write t x f = (g, f') \<Longrightarrow> dir_exists d f \<Longrightarrow> dir_exists d f'"
  "temp_metadata t f = (h, f') \<Longrightarrow> dir_exists d f \<Longrightarrow> dir_exists d f'"
  "temp_set_mode t m f = (i, f') \<Longrightarrow> dir_exists d f \<Longrightarrow> dir_exists d f'"
  "temp_persist t n f = (j, f') \<Longrightarrow> dir_exists d f \<Longrightarrow> dir_exists d f'"
  by (metis dir_kept snd_conv)+

lemma atomic_write_dir:
  "dir_exists e f \<Longrightarrow> dir_exists e (snd (atomic_write dn rn d n j f))"
  "atomic_write dn rn d n j f = (Inr u, f') \<Longrightarrow> dir_exists d f'"
proof -
  show "dir_exists e f \<Longrightarrow> dir_exists e (snd (atomic_write dn rn d n j f))"
    unfolding atomic_write_def by (rule bindE_keep [where P = "dir_exists e"] dir_kept_err dir_kept(1,2) | assumption | simp only: dir_kept)+
  show "atomic_write dn rn d n j f = (Inr u, f') \<Longrightarrow> dir_exists d f'"
    unfolding atomic_write_def bindE_Inr_iff mapErr_Inr_iff by (elim exE conjE)
      (drule dir_created, (drule (1) dir_steps)+, assumption)
qed

lemma keygen_dir:
  assumes "dir_exists (store_dir sd) f"
  shows "dir_exists (store_dir sd) (snd (generate_ephemeral_keypair_in kl (sd @ ''/keys'') l f))"
proof -
  have "store_dir sd \<noteq> d" if "temp_dir_in (sd @ ''/keys'') key_dir_prefix s1 = (Inr d, s2)" for d s1 s2
    using temp_dir_in_Inr [OF that] store_dir_not_key_dir [of sd] by blast
  then show ?thesis
    using assms unfolding generate_ephemeral_keypair_in_def
    by (intro bindE_inv [where P = "dir_exists (store_dir sd)"])
      (auto simp: dir_kept dir_kept_err snd_on_error split: sum.splits)
qed

lemma cleanup_dir: "dir_exists (store_dir sd) f \<Longrightarrow> dir_exists (store_dir sd) (snd (cleanup_keypair kp f))"
  using store_dir_plain [of sd]
  by (auto simp: cleanup_keypair_def split: option.split prod.split sum.split) (metis dir_kept(6) snd_conv)+


text \<open>A step that leaves the records in place, adds at most one, and then under its own id.\<close>

definition grows_by :: "nat \<Rightarrow> string \<Rightarrow> fs \<Rightarrow> fs \<Rightarrow> bool" where
  "grows_by n sd f f' \<longleftrightarrow> (in_place sd f \<longrightarrow> in_place sd f' \<and>
     card (dom (sandbox_view sd f')) \<le> card (dom (sandbox_view sd f)) + n)"

lemma dom_finite: "finite (dom (sandbox_view sd f))"
proof -
  have "record_file ` dom (sandbox_view sd f) \<subseteq> set (dir_names f (store_dir sd))"
    by (auto simp: sandbox_view_def dir_names_iff bind_eq_Some_conv)
  then have "finite (record_file ` dom (sandbox_view sd f))" by (rule finite_subset) simp
  then show ?thesis by (rule finite_imageD) (simp add: inj_on_def)
qed

lemma json_record_file: "i \<noteq> [] \<Longrightarrow> file_extension (record_file i) = Some ''json''"
  by (simp add: record_file_def file_extension_json)

lemma uuid_not_empty: "uuid_like_id lb w \<noteq> []"
  by (simp add: uuid_like_id_def Let_def)

lemma dir_worlds:
  fixes w :: "'b world"
  assumes "dir_exists (store_dir sd) (w_fs w)"
  shows "dir_exists (store_dir sd) (w_fs (snd (make_keypair lb sd rq i w)))"
    and "dir_exists (store_dir sd) (w_fs (drop_keypair kp w))"
    and "dir_exists (store_dir sd) (w_fs (snd (register_key be kp vm w)))"
    and "dir_exists (store_dir sd) (w_fs (snd (on_fs (sandbox_save sd r) w)))"
    and "dir_exists (store_dir sd) (w_fs (snd (on_fs (cleanup_record_key q) w)))"
  using assms
  by (auto simp: make_keypair_def bindE_run drop_keypair_def register_key_def snd_on_error sandbox_save_def
      cleanup_record_key_def keygen_dir cleanup_dir atomic_write_dir split: option.split sum.split)


lemma bindE_two:
  assumes "P (snd (m s))" and "\<And>x s'. P s' \<Longrightarrow> Q (snd (k x s'))" and "\<And>s. P s \<Longrightarrow> Q s"
  shows "Q (snd (bindE m k s))"
  using assms by (cases "m s") (auto simp: bindE_def split: sum.split)

lemma grows_cong:
  "sandbox_view sd f' = sandbox_view sd f \<Longrightarrow> (dir_exists (store_dir sd) f \<Longrightarrow> dir_exists (store_dir sd) f') \<Longrightarrow> grows_by 0 sd f f'"
  by (auto simp: grows_by_def in_place_def)

lemma grows_put:
  assumes "sandbox_view sd f' = (sandbox_view sd f)(sr_id r \<mapsto> r)" and "sr_id r \<noteq> []" and "dir_exists (store_dir sd) f'"
  shows "grows_by 1 sd f f'"
proof -
  have "card (insert (sr_id r) (dom (sandbox_view sd f))) \<le> Suc (card (dom (sandbox_view sd f)))"
    by (rule card_insert_le_m1) (simp_all add: dom_finite)
  then show ?thesis using assms by (auto simp: grows_by_def in_place_def json_record_file)
qed

lemma create_grows: "grows_by 1 sd (w_fs w) (w_fs (snd (create lb be sd rq w)))" for w :: "'b world"
proof -
  let ?V = "sandbox_view sd (w_fs w)" and ?i = "uuid_like_id lb w"
  define P where "P v \<longleftrightarrow> sandbox_view sd (w_fs v) = ?V \<and>
    (dir_exists (store_dir sd) (w_fs w) \<longrightarrow> dir_exists (store_dir sd) (w_fs v))" for v :: "'b world"
  define Q where "Q v \<longleftrightarrow> P v \<or> (\<exists>r. sr_id r = ?i \<and> sandbox_view sd (w_fs v) = ?V(?i \<mapsto> r) \<and>
    dir_exists (store_dir sd) (w_fs v))" for v :: "'b world"
  have k: "P (snd (make_keypair lb sd rq i v))" if "P v" for i v
    using that make_keypair_frame [where w = v, OF surjective_pairing] dir_worlds(1) [of sd v] by (simp add: P_def)
  have c: "P (snd (on_error (on_bk (bk_create_from_golden be q)) (drop_keypair kp) v))" if "P v" for q kp v
    using that by (intro on_error_keep [where P = P]) (simp_all add: P_def drop_keypair_frame dir_worlds(2))
  have r: "P (snd (register_key be kp vm v))" if "P v" for kp vm v
    using that dir_worlds(3) [of sd v]
    by (auto simp: P_def register_key_def snd_on_error drop_keypair_frame split: option.split sum.split)
  have s: "Q (snd (on_fs (sandbox_save sd q) v))" if "P v" "sr_id q = ?i" for q v
  proof (cases "sandbox_save sd q (w_fs v)")
    case (Pair x f)
    have "sandbox_view sd f = (case x of Inl _ \<Rightarrow> ?V | Inr _ \<Rightarrow> ?V(?i \<mapsto> q))"
      using that sandboxes.put_result [of sd q "w_fs v"] Pair by (simp add: P_def split: sum.split)
    moreover have "dir_exists (store_dir sd) f" if "x = Inr u" for u
      using atomic_write_dir(2) Pair that unfolding sandbox_save_def by blast
    ultimately show ?thesis using that dir_worlds(4) [of sd v q] Pair
      by (cases x) (auto simp: Q_def P_def on_fs_def)
  qed
  have p: "Q (snd (poll_ready lb be t cs tmo i v))" if "Q v" for t cs tmo i v
    using that poll_ready_sound(1) [where w = v, OF surjective_pairing] by (simp add: Q_def P_def)
  have pq: "P v \<Longrightarrow> Q v" for v by (simp add: Q_def)
  have t: "Q (snd (bindE (on_fs (sandbox_save sd y)) (\<lambda>_. bindE (if rq_verify rq then poll_ready lb be tg cs tmo i else retE ())
      (\<lambda>_. retE z)) v))" if "P v" "sr_id y = ?i" for y tg cs tmo i z v
    using s [OF that] p by (auto simp: bindE_run split: sum.split)
  have q: "Q (snd (create lb be sd rq w))"
    unfolding create_def Let_def
    by (rule bindE_two [where P = P and Q = Q] k c r t pq | assumption | simp add: P_def new_record_def; fail)+
  show ?thesis
  proof (cases "P (snd (create lb be sd rq w))")
    case True
    then show ?thesis using grows_cong by (auto simp: P_def grows_by_def)
  next
    case False
    then obtain r where r: "sr_id r = ?i" "sandbox_view sd (w_fs (snd (create lb be sd rq w))) = ?V(?i \<mapsto> r)"
      and d: "dir_exists (store_dir sd) (w_fs (snd (create lb be sd rq w)))" using q by (auto simp: Q_def)
    show ?thesis by (rule grows_put [of _ _ _ r]) (use r d uuid_not_empty [of lb w] in auto)
  qed
qed

lemma destroy_grows: "grows_by 0 sd (w_fs w) (w_fs (snd (destroy lb be sd i w)))" for w :: "'b world"
proof -
  define P where "P v \<longleftrightarrow> (dir_exists (store_dir sd) (w_fs w) \<longrightarrow> dir_exists (store_dir sd) (w_fs v))" for v :: "'b world"
  have l: "P (snd (on_fs (sandbox_load sx sd j) v))" if "P v" for sx j v
    using that same_loads [of "w_fs v" sx sd j] by (auto simp: P_def same_files_def dir_exists_def dir_mode_def)
  have c: "P (snd (on_fs (cleanup_record_key r) v))" if "P v" for r v
    using that dir_worlds(5) [of sd v r] by (simp add: P_def)
  have d: "P (snd (on_fs (sandbox_delete sd j) v))" if "P v" for j v
    using that by (simp add: P_def sandbox_delete_dirs dir_exists_def dir_mode_def)
  have v: "P (snd (destroy_vm be r v))" if "P v" for r v
    using that by (simp add: P_def)
  have "P (snd (destroy lb be sd i w))"
    unfolding destroy_def by (rule bindE_keep [where P = P] l c d v | assumption | simp add: P_def; fail)+
  then have k: "dir_exists (store_dir sd) (w_fs w) \<Longrightarrow> dir_exists (store_dir sd) (w_fs (snd (destroy lb be sd i w)))"
    by (simp add: P_def)
  let ?V = "sandbox_view sd (w_fs w)" and ?V' = "sandbox_view sd (w_fs (snd (destroy lb be sd i w)))"
  have "?V' = ?V \<or> ?V' = ?V(i := None)"
  proof (cases "destroy lb be sd i w")
    case (Pair x w')
    then show ?thesis by (cases x) (auto dest: destroy_ok_record destroy_err_keeps_records)
  qed
  then have m: "?V' j = Some r \<Longrightarrow> ?V j = Some r" for j r by (auto split: if_splits)
  then have "card (dom ?V') \<le> card (dom ?V)" by (intro card_mono dom_finite) blast
  then show ?thesis using m k unfolding grows_by_def in_place_def by auto
qed

lemma renew_grows: "grows_by 0 sd (w_fs w) (w_fs (snd (renew lb sd i d w)))" for w :: "'b world"
proof (cases "sandbox_load (lb_serde lb) sd i (w_fs w)")
  case (Pair x f)
  have f: "same_files (w_fs w) f" using same_loads [of "w_fs w" "lb_serde lb" sd i] Pair by simp
  have vf: "sandbox_view sd f = sandbox_view sd (w_fs w)" using f by (intro sandbox_view_cong) (simp add: same_files_def)
  have pf: "in_place sd f = in_place sd (w_fs w)" using f by (rule in_place_same)
  have g: "grows_by 0 sd (w_fs w) f" by (simp add: grows_by_def vf pf)
  show ?thesis
  proof (cases x)
    case (Inl e)
    then show ?thesis using Pair g by (simp add: renew_def bindE_run on_fs_def)
  next
    case (Inr r)
    then have r: "sandbox_view sd f i = Some r"
      using sandboxes.get_ok Pair vf by auto
    define q where "q = r\<lparr>sr_lease_expires_at := Some (rfc3339_now_plus lb (w\<lparr>w_fs := f\<rparr>) d)\<rparr>"
    let ?f = "w_fs (snd (renew lb sd i d w))"
    have l: "on_fs (sandbox_load (lb_serde lb) sd i) w = (Inr r, w\<lparr>w_fs := f\<rparr>)" using Pair Inr by (simp add: on_fs_def)
    have "?f = f \<or> ?f = snd (sandbox_save sd q f)"
      unfolding renew_def bindE_run l by (simp add: q_def Let_def bindE_run split: sum.split)
    moreover have "sandbox_view sd (snd (sandbox_save sd q f)) = sandbox_view sd f \<or>
        sandbox_view sd (snd (sandbox_save sd q f)) = (sandbox_view sd f)(sr_id r \<mapsto> q)"
      using sandboxes.put_all_or_nothing [of sd q f] by (simp add: q_def)
    moreover have "dir_exists (store_dir sd) f \<Longrightarrow> dir_exists (store_dir sd) (snd (sandbox_save sd q f))"
      using atomic_write_dir(1) by (simp add: sandbox_save_def)
    ultimately have "in_place sd f \<Longrightarrow> in_place sd ?f \<and> dom (sandbox_view sd ?f) = dom (sandbox_view sd f)"
      using r by (auto simp: in_place_def q_def split: if_splits)
    then show ?thesis by (simp add: grows_by_def vf pf)
  qed
qed

subsection \<open>The cap\<close>

abbreviation gate_fs :: "'b gateway \<Rightarrow> fs" where
  "gate_fs g \<equiv> w_fs (ow_world (gt_ops g))"

definition held :: "'b gateway_env \<Rightarrow> 'b gateway \<Rightarrow> nat" where
  "held env g = card (dom (sandbox_view (op_state_dir (gv_ops env)) (gate_fs g)))"

lemma grows_trans: "grows_by m sd f g \<Longrightarrow> grows_by n sd g h \<Longrightarrow> grows_by (m + n) sd f h"
  by (auto simp: grows_by_def)

lemma still_grows: "still op m \<Longrightarrow> grows_by 0 (op_state_dir op) (w_fs (ow_world s)) (w_fs (ow_world (snd (m s))))"
proof -
  assume "still op m"
  then have s: "same_files (w_fs (ow_world s)) (w_fs (ow_world (snd (m s))))" by (simp add: still_def)
  then have "ops_view op (snd (m s)) = ops_view op s" by (intro sandbox_view_cong) (simp add: same_files_def)
  then show ?thesis by (simp add: grows_by_def in_place_same [OF s])
qed

lemma listing_counts:
  assumes "ops_list op s = (Inr ps, s')" and "in_place (op_state_dir op) (w_fs (ow_world s))"
  shows "card (dom (ops_view op s)) \<le> length ps"
proof -
  obtain rs f where l: "sandbox_list (lb_serde (op_lib op)) (op_state_dir op) (w_fs (ow_world s)) = (Inr rs, f)"
    and p: "ps = map public rs"
    using assms(1) by (auto simp: ops_list_def list_records_def bindE_Inr_iff in_world_iff on_fs_iff)
  have "dom (ops_view op s) \<subseteq> sr_id ` set rs"
  proof
    fix i assume "i \<in> dom (ops_view op s)"
    then obtain r where v: "ops_view op s i = Some r" by blast
    with assms(2) have q: "sr_id r = i" "file_extension (record_file i) = Some ''json''"
      "dir_exists (store_dir (op_state_dir op)) (w_fs (ow_world s))" by (auto simp: in_place_def)
    have "r \<in> set rs" using sandbox_list_Inr(2) [OF l q(3)] v q(2) by blast
    then show "i \<in> sr_id ` set rs" using q(1) by blast
  qed
  then have "card (dom (ops_view op s)) \<le> card (sr_id ` set rs)" by (intro card_mono) auto
  also have "\<dots> \<le> length rs" using card_image_le [of "set rs" sr_id] card_length [of rs] by simp
  finally show ?thesis by (simp add: p)
qed

lemma ops_create_grows:
  "grows_by 1 (op_state_dir op) (w_fs (ow_world s)) (w_fs (ow_world (snd (ops_create op rq s))))"
proof (cases "resolve_request (ow_registry s) (rq_profile rq)")
  case (Inr v)
  then show ?thesis using create_grows [of "op_state_dir op" "ow_world s"] by (simp add: ops_create_def)
qed (simp add: ops_create_def grows_by_def)

lemma reply_snd: "snd (reply bad m ok s) = snd (m s)"
  by (simp add: reply_def split: prod.split sum.split)

lemma create_sandbox_cap:
  assumes "in_place (op_state_dir op) (w_fs (ow_world s))"
  shows "in_place (op_state_dir op) (w_fs (ow_world (snd (create_sandbox cfg op b s)))) \<and>
    card (dom (ops_view op (snd (create_sandbox cfg op b s)))) \<le> max (card (dom (ops_view op s))) (gw_max_sandboxes cfg)"
proof -
  obtain x s1 where l: "ops_list op s = (x, s1)" by fastforce
  have k: "in_place (op_state_dir op) (w_fs (ow_world s1))" "card (dom (ops_view op s1)) \<le> card (dom (ops_view op s))"
    using still_grows [OF still_ops(1), of op s] assms l by (auto simp: grows_by_def)
  have c: "length ps < gw_max_sandboxes cfg \<Longrightarrow> x = Inr ps \<Longrightarrow> card (dom (ops_view op s)) < gw_max_sandboxes cfg" for ps
    using listing_counts [of op s ps s1] l assms by simp
  show ?thesis
    using assms k c ops_create_grows [of op s1 "create_request_of b"]
    by (auto simp: create_sandbox_def l reply_snd grows_by_def split: sum.split) fastforce+
qed

lemma lifted_grows:
  "grows_by 0 (op_state_dir op) (w_fs (ow_world s)) (w_fs (ow_world (snd (delete_sandbox op i s))))"
  "grows_by 0 (op_state_dir op) (w_fs (ow_world s)) (w_fs (ow_world (snd (renew_sandbox op i d s))))"
  by (simp_all add: delete_sandbox_def renew_sandbox_def reply_snd ops_destroy_def ops_renew_def destroy_grows renew_grows)

lemma still_stream: "still op (stream_handle hl ad op rq r)"
proof -
  have m: "still op (resolve_destination ad op i)" "still op (detail_of op i)" for i
    unfolding resolve_destination_def detail_of_def
    by (auto intro!: still_lifted still_load still_ops split: option.split)
  have "still op (stream_route_handler ad op i)" "still op (consoles_route_handler op i)" for i
    unfolding stream_route_handler_def consoles_route_handler_def by (intro still_handlers(1) m)+
  then show ?thesis
    by (auto simp: still_def stream_handle_def with_id_def split: stream_route.split option.split)
qed

lemma wrapped_snd:
  "P s \<Longrightarrow> (\<And>i. P (snd (k i s))) \<Longrightarrow> P (snd (with_id hl raw k s))"
  "P s \<Longrightarrow> P (snd (h s)) \<Longrightarrow> P (snd (authed cfg rq h s))"
  "P s \<Longrightarrow> (\<And>b. P (snd (j b s))) \<Longrightarrow> P (snd (with_json hl rq dec j s))"
  by (auto simp: with_id_def authed_def with_json_def split: option.split sum.split)

lemma serve_cap:
  assumes "in_place (op_state_dir (gv_ops env)) (gate_fs g)"
  shows "in_place (op_state_dir (gv_ops env)) (gate_fs (snd (serve_request env rq g))) \<and>
    held env (snd (serve_request env rq g)) \<le> max (held env g) (gw_max_sandboxes (gv_config env))"
proof -
  let ?op = "gv_ops env" and ?m = "gw_max_sandboxes (gv_config env)" and ?s = "gt_ops g"
  define P where "P s \<longleftrightarrow> in_place (op_state_dir ?op) (w_fs (ow_world s)) \<and>
    card (dom (ops_view ?op s)) \<le> max (held env g) ?m" for s
  have p0: "P ?s" using assms by (simp add: P_def held_def)
  have pg: "P s" if "grows_by 0 (op_state_dir ?op) (w_fs (ow_world ?s)) (w_fs (ow_world s))" for s
    using that assms by (auto simp: P_def grows_by_def held_def)
  note w = wrapped_snd [where P = P and s = ?s, OF p0]
  obtain resp g' where sv: "serve_request env rq g = (resp, g')" by fastforce
  then have "P (gt_ops g')"
  proof (cases rule: serve_cases)
    case (stream r x)
    then have "gt_ops g' = snd (stream_handle (gv_lib env) (gv_addr env) ?op rq r ?s) \<or> gt_ops g' = ?s"
      by (auto simp: auth_agree split: if_splits)
    then show ?thesis using pg [OF still_grows [OF still_stream]] p0 by auto
  next
    case stopped
    then show ?thesis using p0 by simp
  next
    case (routed r x)
    show ?thesis
    proof (cases "route_handler env rq r")
      case None
      then show ?thesis using routed p0 by (simp add: handle_route_def)
    next
      case (Some h)
      then have e: "gt_ops g' = snd (h ?s)" using routed by (simp add: handle_route_def)
      from Some have "P (snd (h ?s))"
      proof (cases rule: route_handler_kinds)
        case reads
        show ?thesis by (rule pg [OF still_grows [OF reads]])
      next
        case creates
        show ?thesis unfolding creates
          by (rule w(2), rule w(3)) (use create_sandbox_cap [OF assms] in \<open>simp add: P_def held_def\<close>)
      next
        case (deletes raw)
        show ?thesis unfolding deletes by (rule w(1), rule w(2), rule pg, rule lifted_grows)
      next
        case (renews raw)
        show ?thesis unfolding renews by (rule w(1), rule w(2), rule w(3), rule pg, rule lifted_grows)
      qed
      then show ?thesis unfolding e .
    qed
  qed
  then show ?thesis using sv by (simp add: P_def held_def)
qed

text \<open>The gateway's state after a sequence of requests.\<close>

definition serve_all :: "'b gateway_env \<Rightarrow> http_request list \<Rightarrow> 'b gateway \<Rightarrow> 'b gateway" where
  "serve_all env rqs g = foldl (\<lambda>g rq. snd (serve_request env rq g)) g rqs"

lemma serve_all_cap:
  assumes "in_place (op_state_dir (gv_ops env)) (gate_fs g)" and "held env g \<le> gw_max_sandboxes (gv_config env)"
  shows "held env (serve_all env rqs g) \<le> gw_max_sandboxes (gv_config env)"
  using assms
proof (induction rqs arbitrary: g)
  case (Cons rq rqs)
  have "in_place (op_state_dir (gv_ops env)) (gate_fs (snd (serve_request env rq g)))"
    "held env (snd (serve_request env rq g)) \<le> gw_max_sandboxes (gv_config env)"
    using serve_cap [OF Cons.prems(1), of rq] Cons.prems(2) by auto
  then show ?case using Cons.IH by (simp add: serve_all_def)
qed (simp add: serve_all_def)

subsection \<open>The audit log\<close>

lemma still_view: "still op m \<Longrightarrow> ops_view op (snd (m s)) = ops_view op s"
  by (rule sandbox_view_cong) (simp add: still_def same_files_def)

lemma serve_audited:
  assumes "serve_request env rq g = (resp, g')"
  shows "ops_view (gv_ops env) (gt_ops g') = ops_view (gv_ops env) (gt_ops g) \<or>
    (from_request_parts (gv_config env) (hq_headers rq) \<in> range Inr \<and> method_is_mutating (hq_method rq) \<and>
     gt_audit g' = gt_audit g @ [audit_of (gv_lib env) rq])"
proof (cases "from_request_parts (gv_config env) (hq_headers rq) \<in> range Inr")
  case False
  then show ?thesis using serve_unauthenticated [OF _ assms] by simp
next
  case auth: True
  from assms show ?thesis
  proof (cases rule: serve_cases)
    case (stream r x)
    then have "gt_ops g' = snd (stream_handle (gv_lib env) (gv_addr env) (gv_ops env) rq r (gt_ops g)) \<or> gt_ops g' = gt_ops g"
      by (auto simp: auth_agree split: if_splits)
    then show ?thesis by (auto simp: still_view [OF still_stream])
  next
    case stopped
    then show ?thesis by simp
  next
    case (routed r x)
    show ?thesis
    proof (cases "route_handler env rq r")
      case None
      then show ?thesis using routed by (simp add: handle_route_def)
    next
      case (Some h)
      then have e: "gt_ops g' = snd (h (gt_ops g))" using routed by (simp add: handle_route_def)
      from Some show ?thesis
        by (cases rule: route_handler_kinds) (use auth routed(5) e in \<open>auto simp: method_is_mutating_def still_view\<close>)
    qed
  qed
qed

end
