(* ===== verification/Lsbx_Golden.thy ===== *)
theory Lsbx_Golden
  imports Lsbx_Ops
begin

text \<open>
  Building and verifying golden images (\<open>build.rs\<close> and \<open>verify.rs\<close> of \<open>lsbx-golden\<close>), and the two
  operations of the facade that call them. A flattener is a function on the world, as the crate takes
  any implementation of its trait; the facade hands over none.
\<close>

record golden_build_request =
  gb_name :: string
  gb_from :: string
  gb_script :: string
  gb_flavor :: golden_flavor
  gb_cpu :: nat
  gb_memory :: string
  gb_streaming :: streaming_mode
  gb_register :: bool
  gb_cleanup :: bool
  gb_dry_run :: bool
  gb_pubkey :: string
  gb_key_path :: "string option"

record golden_build_outcome =
  go_config :: golden_config
  go_build_vm_tag :: "string option"

type_synonym 'b flattener = "string \<Rightarrow> ('b, manifest_path) act"

definition no_flatten :: "'b flattener" where
  "no_flatten tag =
     failE (ContractViolated (''no GoldenFlattener is available to flatten the build disk for VM '' @ quoted tag @ '' '' @ em_dash
       @ '' qcow2 flatten is Unit 19'' @ apostrophe @ ''s (lsbx-bootstrap) responsibility per this unit'' @ apostrophe
       @ ''s Boundaries and has not landed yet; pass a real GoldenFlattener impl once it does''))"

definition build_script_timeout :: nat where
  "build_script_timeout = 1800 * 1000000000"

definition remote_script_path :: string where
  "remote_script_path = ''/tmp/lsbx-golden-build-script.sh''"

definition built_config :: "golden_build_request \<Rightarrow> string \<Rightarrow> string \<Rightarrow> string \<Rightarrow> golden_config" where
  "built_config rq key hash description =
     \<lparr>gc_key = key, gc_flavor = gb_flavor rq, gc_os = ''linux'', gc_base = gb_from rq, gc_mode = Copy,
      gc_cpu = gb_cpu rq, gc_memory = gb_memory rq, gc_disk = None, gc_streaming = gb_streaming rq,
      gc_capabilities = [], gc_healthcheck = [], gc_repo = None, gc_content_hash = Some hash,
      gc_description = description\<rparr>"

definition script_failed :: "string \<Rightarrow> string \<Rightarrow> command_output \<Rightarrow> lsbx_error" where
  "script_failed script tag out =
     ContractViolated (''provisioning script '' @ script @ '' exited with status ''
       @ show_int (co_exit_code out) @ '' on build VM '' @ quoted tag @ '': stderr: '' @ co_stderr out)"

definition no_flattener :: "string \<Rightarrow> lsbx_error" where
  "no_flattener tag =
     ContractViolated (''no GoldenFlattener supplied for build VM '' @ quoted tag @ '' '' @ em_dash
       @ '' flatten is Unit 19'' @ apostrophe @ ''s responsibility and no implementation has landed yet'')"

definition run_build_steps ::
  "(fcontent \<Rightarrow> string) \<Rightarrow> 'b backend \<Rightarrow> string \<Rightarrow> string \<Rightarrow> string option \<Rightarrow> 'b flattener option \<Rightarrow> ('b, string) act" where
  "run_build_steps sha be tag script key flat =
     bindE (on_bk (bk_put_file be tag script remote_script_path key)) (\<lambda>_.
     bindE (run_guest be tag [''sh'', remote_script_path] build_script_timeout key) (\<lambda>out.
     if co_exit_code out \<noteq> 0 then failE (script_failed script tag out)
     else case flat of
            None \<Rightarrow> failE (no_flattener tag)
          | Some f \<Rightarrow> bindE (f tag) (\<lambda>p. on_fs (content_hash sha p))))"

definition build_request :: "golden_build_request \<Rightarrow> create_from_golden_request" where
  "build_request rq =
     \<lparr>cg_golden = gb_from rq, cg_name = gb_name rq, cg_pubkey = gb_pubkey rq, cg_cpu = gb_cpu rq,
      cg_memory = gb_memory rq, cg_os = ''linux''\<rparr>"

definition destroy_build_vm :: "'b backend \<Rightarrow> golden_build_request \<Rightarrow> string \<Rightarrow> ('b, unit) act" where
  "destroy_build_vm be rq tag =
     on_bk (if gb_key_path rq \<noteq> None then bk_destroy_with_key be tag (gb_pubkey rq) else bk_destroy be tag)"

definition cleanup_failed :: "golden_build_request \<Rightarrow> string \<Rightarrow> lsbx_error \<Rightarrow> lsbx_error" where
  "cleanup_failed rq tag e =
     ContractViolated (''golden build for '' @ quoted (gb_name rq) @ '' succeeded but cleanup of build VM ''
       @ quoted tag @ '' failed: '' @ err_display e)"

text \<open>The teardown after the steps: its own failure is reported only when the steps succeeded.\<close>

definition finish_build ::
  "'b backend \<Rightarrow> golden_build_request \<Rightarrow> string \<Rightarrow> (lsbx_error + string) \<Rightarrow> ('b, string) act" where
  "finish_build be rq tag result w =
     (if gb_cleanup rq
      then case destroy_build_vm be rq tag w of
             (Inl e, w') \<Rightarrow> (case result of Inr _ \<Rightarrow> Inl (cleanup_failed rq tag e) | Inl r \<Rightarrow> Inl r, w')
           | (Inr _, w') \<Rightarrow> (result, w')
      else (result, w))"

definition build_on ::
  "(fcontent \<Rightarrow> string) \<Rightarrow> 'b backend \<Rightarrow> golden_build_request \<Rightarrow> 'b flattener option \<Rightarrow> string \<Rightarrow> ('b, string) act" where
  "build_on sha be rq flat tag =
     bindE (catchE (run_build_steps sha be tag (gb_script rq) (gb_key_path rq) flat)) (finish_build be rq tag)"

definition golden_build ::
  "(fcontent \<Rightarrow> string) \<Rightarrow> 'b backend \<Rightarrow> golden_build_request \<Rightarrow> 'b flattener option \<Rightarrow> ('b, golden_build_outcome) act" where
  "golden_build sha be rq flat =
     (if gb_dry_run rq
      then retE \<lparr>go_config = built_config rq (gb_name rq) ''lufs-dryrun'' ''Dry run build'', go_build_vm_tag = None\<rparr>
      else bindE (liftE (validate_key (gb_name rq))) (\<lambda>key.
           bindE (liftE (validate_key (gb_from rq))) (\<lambda>_.
           bindE (on_bk (bk_create_from_golden be (build_request rq))) (\<lambda>vm.
           bindE (build_on sha be rq flat (cv_vm_tag vm)) (\<lambda>hash.
           retE \<lparr>go_config = built_config rq key hash (''Built from '' @ gb_from rq),
                 go_build_vm_tag = (if gb_cleanup rq then None else Some (cv_vm_tag vm))\<rparr>)))))"

subsection \<open>Verification\<close>

record healthcheck_result =
  hr_command :: string
  hr_passed :: bool
  hr_output :: string

definition healthcheck_timeout :: nat where
  "healthcheck_timeout = 60 * 1000000000"

definition check_result :: "string \<Rightarrow> command_output \<Rightarrow> healthcheck_result" where
  "check_result command out =
     \<lparr>hr_command = command, hr_passed = (co_exit_code out = 0), hr_output = co_stdout out @ co_stderr out\<rparr>"

text \<open>The checks up to the first that could not be run, whose error ends the loop.\<close>

fun run_checks ::
  "'b backend \<Rightarrow> string \<Rightarrow> string \<Rightarrow> string option \<Rightarrow> string list \<Rightarrow> 'b world \<Rightarrow>
   (lsbx_error option \<times> healthcheck_result list) \<times> 'b world" where
  "run_checks be tag os key [] w = ((None, []), w)"
| "run_checks be tag os key (c # cs) w =
     (case run_guest be tag (shell_check (Some os) c) healthcheck_timeout key w of
        (Inl e, w1) \<Rightarrow> ((Some e, []), w1)
      | (Inr out, w1) \<Rightarrow>
          (case run_checks be tag os key cs w1 of ((e, rs), w2) \<Rightarrow> ((e, check_result c out # rs), w2)))"

definition source_key :: "golden_config \<Rightarrow> string" where
  "source_key g = (if gc_base g = [] then gc_key g else gc_base g)"

definition verify_request :: "golden_config \<Rightarrow> string \<Rightarrow> string \<Rightarrow> create_from_golden_request" where
  "verify_request g name pubkey =
     \<lparr>cg_golden = source_key g, cg_name = name, cg_pubkey = pubkey, cg_cpu = gc_cpu g,
      cg_memory = gc_memory g, cg_os = gc_os g\<rparr>"

definition register_verify_key :: "'b backend \<Rightarrow> string \<Rightarrow> string \<Rightarrow> string option \<Rightarrow> ('b, unit) act" where
  "register_verify_key be tag pubkey key =
     (case key of
        None \<Rightarrow> retE ()
      | Some p \<Rightarrow> on_error (on_bk (bk_register_vm_key be tag p))
                    (\<lambda>w. snd (on_bk (bk_destroy_with_key be tag pubkey) w)))"

definition verify_not_destroyed :: "golden_config \<Rightarrow> string \<Rightarrow> lsbx_error \<Rightarrow> lsbx_error" where
  "verify_not_destroyed g tag e =
     ContractViolated (''golden verify for '' @ quoted (gc_key g) @ '' ran its healthchecks but failed to destroy ''
       @ ''verification VM '' @ quoted tag @ '' afterward: '' @ err_display e)"

text \<open>The checks on the new machine, and its destruction whatever came of them.\<close>

definition verify_on ::
  "'b backend \<Rightarrow> golden_config \<Rightarrow> string \<Rightarrow> string option \<Rightarrow> string \<Rightarrow> ('b, healthcheck_result list) act" where
  "verify_on be g pubkey key tag w =
     (let ((err, results), w1) = run_checks be tag (gc_os g) key (gc_healthcheck g) w;
          (gone, w2) = on_bk (bk_destroy_with_key be tag pubkey) w1
      in (case err of
            Some e \<Rightarrow> Inl e
          | None \<Rightarrow> (case gone of Inl e \<Rightarrow> Inl (verify_not_destroyed g tag e) | Inr _ \<Rightarrow> Inr results), w2))"

definition golden_verify ::
  "'b backend \<Rightarrow> golden_config \<Rightarrow> string \<Rightarrow> string \<Rightarrow> string option \<Rightarrow> ('b, healthcheck_result list) act" where
  "golden_verify be g name pubkey key =
     bindE (liftE (validate_key (gc_key g))) (\<lambda>_.
     bindE (liftE (validate_key (source_key g))) (\<lambda>_.
     bindE (on_bk (bk_create_from_golden be (verify_request g name pubkey))) (\<lambda>vm.
     bindE (register_verify_key be (cv_vm_tag vm) pubkey key) (\<lambda>_.
     verify_on be g pubkey key (cv_vm_tag vm)))))"

subsection \<open>The facade's operations\<close>

definition windows_verify_pubkey :: string where
  "windows_verify_pubkey = ''ssh-ed25519 AAAA lsbx-baked-guest-identity''"

definition ops_golden_build ::
  "(fcontent \<Rightarrow> string) \<Rightarrow> 'b ops \<Rightarrow> golden_build_request \<Rightarrow> ('b, golden_build_outcome) ops_act" where
  "ops_golden_build sha op rq =
     bindE (in_world (golden_build sha (op_backend op) rq None)) (\<lambda>out s.
     if gb_register rq
     then bindE (persist_registry op) (\<lambda>_. retE out)
            (s\<lparr>ow_registry := (ow_registry s)\<lparr>ir_goldens := ir_goldens (ow_registry s) @ [go_config out]\<rparr>\<rparr>)
     else (Inr out, s))"

definition ops_golden_verify ::
  "'b ops \<Rightarrow> string \<Rightarrow> string \<Rightarrow> string \<Rightarrow> string option \<Rightarrow> ('b, healthcheck_result list) ops_act" where
  "ops_golden_verify op name verify_name pubkey key s =
     (case find_golden (ow_registry s) name of
        None \<Rightarrow> (Inl (no_golden name), s)
      | Some g \<Rightarrow>
          (let (pk, kp) = (if gc_os g = ''windows'' then (windows_verify_pubkey, None) else (pubkey, key))
           in in_world (golden_verify (op_backend op) g verify_name pk kp) s))"

subsection \<open>What a build does to the live machines\<close>

lemma run_guest_iff:
  "run_guest be t c tmo i w = (r, w') \<longleftrightarrow>
     (\<exists>b. bk_run be t c tmo i (w_bk w) = (r, b) \<and>
       w' = w\<lparr>w_bk := b, w_now := w_now w + bk_run_time be t c tmo i (w_bk w)\<rparr>)"
  by (auto simp: run_guest_def on_bk_def Let_def split: prod.splits)

lemma build_on_iff:
  "build_on sha be rq flat tag w = (r, w') \<longleftrightarrow>
     (\<exists>result w2. run_build_steps sha be tag (gb_script rq) (gb_key_path rq) flat w = (result, w2) \<and>
        finish_build be rq tag result w2 = (r, w'))"
  by (cases "run_build_steps sha be tag (gb_script rq) (gb_key_path rq) flat w")
    (simp add: build_on_def bindE_run)

definition keeps_live :: "('b \<Rightarrow> string set) \<Rightarrow> ('b, 'a) act \<Rightarrow> bool" where
  "keeps_live live m \<longleftrightarrow> (\<forall>w. live (w_bk (snd (m w))) = live (w_bk w))"

lemma keeps_liveD: "keeps_live live m \<Longrightarrow> m w = (r, w') \<Longrightarrow> live (w_bk w') = live (w_bk w)"
  unfolding keeps_live_def by (metis snd_conv)

lemma keeps_live_bindE: "keeps_live live m \<Longrightarrow> (\<And>x. keeps_live live (k x)) \<Longrightarrow> keeps_live live (bindE m k)"
  unfolding keeps_live_def by (auto simp: bindE_run split: sum.split)

lemma keeps_live_simple: "keeps_live live (retE x)" "keeps_live live (failE e)" "keeps_live live (on_fs m)"
  by (auto simp: keeps_live_def on_fs_def split: prod.split)

context backend_contract begin

lemma keeps_live_backend: "keeps_live live (on_bk (bk_put_file be t p d i))" "keeps_live live (run_guest be t c tmo i)"
  "keeps_live live (on_bk (bk_register_vm_key be t p))"
  by (auto simp: keeps_live_def put_live run_live register_live run_guest_def Let_def split_beta)

lemmas keeps_live_intros = keeps_live_bindE keeps_live_simple keeps_live_backend

lemma build_steps_live:
  "(\<And>f t. flat = Some f \<Longrightarrow> keeps_live live (f t)) \<Longrightarrow> keeps_live live (run_build_steps sha be tag script key flat)"
  unfolding run_build_steps_def
  by (intro keeps_live_intros) (auto split: option.split intro!: keeps_live_intros)

lemma created_live:
  "on_bk (bk_create_from_golden be r) w = (x, w1) \<Longrightarrow>
     live (w_bk w1) = (case x of Inr vm \<Rightarrow> insert (cv_vm_tag vm) (live (w_bk w)) | Inl _ \<Rightarrow> live (w_bk w))"
  by (auto simp: on_bk_iff split: sum.splits dest: create_ok create_err)

lemma destroy_build_vm_live:
  assumes "destroy_build_vm be rq tag w = (r, w')"
  shows "live (w_bk w') = (case r of Inr _ \<Rightarrow> live (w_bk w) - {tag} | Inl _ \<Rightarrow> live (w_bk w))"
proof (cases r)
  case (Inl e)
  with assms show ?thesis
    by (auto simp: destroy_build_vm_def on_bk_iff split: if_splits dest: destroy_err destroy_with_key_err)
next
  case (Inr u)
  with assms show ?thesis
    by (auto simp: destroy_build_vm_def on_bk_iff split: if_splits dest: destroy_ok destroy_with_key_ok)
qed

lemma finish_build_Inr:
  assumes "finish_build be rq tag result w = (Inr h, w')"
  shows "result = Inr h \<and> live (w_bk w') = (if gb_cleanup rq then live (w_bk w) - {tag} else live (w_bk w))"
proof (cases "gb_cleanup rq")
  case True
  then obtain u where "destroy_build_vm be rq tag w = (Inr u, w')" "result = Inr h"
    using assms unfolding finish_build_def by (auto split: prod.splits sum.splits simp del: cleanup_failed_def)
  with True show ?thesis using destroy_build_vm_live by fastforce
next
  case False
  with assms show ?thesis by (simp add: finish_build_def)
qed

lemma finish_build_Inl:
  assumes "finish_build be rq tag result w = (Inl e, w')"
  shows "(gb_cleanup rq \<and> live (w_bk w') = live (w_bk w) - {tag}) \<or>
    live (w_bk w') = live (w_bk w) \<and> (\<not> gb_cleanup rq \<or> (\<exists>e. destroy_build_vm be rq tag w = (Inl e, w')))"
proof (cases "gb_cleanup rq")
  case True
  obtain x w1 where d: "destroy_build_vm be rq tag w = (x, w1)" by fastforce
  then have "w1 = w'" using assms True unfolding finish_build_def by (auto split: sum.splits)
  with True d show ?thesis using destroy_build_vm_live [OF d] by (cases x) auto
next
  case False
  with assms show ?thesis by (simp add: finish_build_def)
qed

text \<open>A build that succeeded: its script ran and exited 0, and the machine is gone unless it was asked for.\<close>

lemma golden_build_Inr:
  assumes "golden_build sha be rq flat w = (Inr out, w')" and "\<not> gb_dry_run rq"
    and flat: "\<And>f t. flat = Some f \<Longrightarrow> keeps_live live (f t)"
  shows "\<exists>tag hash. gc_key (go_config out) = gb_name rq \<and> matches_key golden_key_char (gb_name rq) \<and>
    gc_content_hash (go_config out) = Some hash \<and>
    (\<exists>b o' b'. bk_run be tag [''sh'', remote_script_path] build_script_timeout (gb_key_path rq) b = (Inr o', b') \<and>
       co_exit_code o' = 0) \<and>
    go_build_vm_tag out = (if gb_cleanup rq then None else Some tag) \<and>
    live (w_bk w') = (if gb_cleanup rq then live (w_bk w) - {tag} else insert tag (live (w_bk w)))"
proof -
  obtain vm w1 h d where k: "matches_key golden_key_char (gb_name rq)"
    and c: "on_bk (bk_create_from_golden be (build_request rq)) w = (Inr vm, w1)"
    and s: "build_on sha be rq flat (cv_vm_tag vm) w1 = (Inr h, w')"
    and out: "out = \<lparr>go_config = built_config rq (gb_name rq) h d,
       go_build_vm_tag = (if gb_cleanup rq then None else Some (cv_vm_tag vm))\<rparr>"
    using assms(1,2) unfolding golden_build_def
    by (auto simp only: if_False bindE_Inr_iff liftE_run retE_run validate_key_Inr prod.inject sum.inject)
  obtain result w2 where steps: "run_build_steps sha be (cv_vm_tag vm) (gb_script rq) (gb_key_path rq) flat w1 = (result, w2)"
    and f: "finish_build be rq (cv_vm_tag vm) result w2 = (Inr h, w')"
    using s unfolding build_on_iff by blast
  note fin = finish_build_Inr [OF f]
  have st: "keeps_live live (run_build_steps sha be (cv_vm_tag vm) (gb_script rq) (gb_key_path rq) flat)"
    by (rule build_steps_live) (rule flat)
  have l2: "live (w_bk w2) = insert (cv_vm_tag vm) (live (w_bk w))"
    using keeps_liveD [OF st steps] created_live [OF c] by simp
  have "run_build_steps sha be (cv_vm_tag vm) (gb_script rq) (gb_key_path rq) flat w1 = (Inr h, w2)"
    using steps fin by simp
  then have e: "\<exists>b o' b'. bk_run be (cv_vm_tag vm) [''sh'', remote_script_path] build_script_timeout (gb_key_path rq) b
      = (Inr o', b') \<and> co_exit_code o' = 0"
    unfolding run_build_steps_def bindE_Inr_iff run_guest_iff by (fastforce split: if_splits)
  show ?thesis
    by (rule exI [of _ "cv_vm_tag vm"], rule exI [of _ h], intro conjI)
      (use fin l2 e k in \<open>auto simp: out built_config_def\<close>)
qed

lemma golden_build_Inl:
  assumes "golden_build sha be rq flat w = (Inl e, w')"
    and flat: "\<And>f t. flat = Some f \<Longrightarrow> keeps_live live (f t)"
  shows "live (w_bk w') \<subseteq> live (w_bk w) \<or>
    (\<exists>tag. live (w_bk w') = insert tag (live (w_bk w)) \<and>
       (\<not> gb_cleanup rq \<or> (\<exists>v e. destroy_build_vm be rq tag v = (Inl e, w'))))"
proof -
  consider "w' = w" | e' where "on_bk (bk_create_from_golden be (build_request rq)) w = (Inl e', w')"
    | vm w1 where "on_bk (bk_create_from_golden be (build_request rq)) w = (Inr vm, w1)"
      "build_on sha be rq flat (cv_vm_tag vm) w1 = (Inl e, w')"
    using assms(1) unfolding golden_build_def
    by (auto simp only: bindE_Inl_iff liftE_run retE_run prod.inject split: if_splits)
  then show ?thesis
  proof cases
    case 3
    obtain result w2 where s: "run_build_steps sha be (cv_vm_tag vm) (gb_script rq) (gb_key_path rq) flat w1 = (result, w2)"
      and f: "finish_build be rq (cv_vm_tag vm) result w2 = (Inl e, w')"
      using 3(2) unfolding build_on_iff by blast
    have st: "keeps_live live (run_build_steps sha be (cv_vm_tag vm) (gb_script rq) (gb_key_path rq) flat)"
      by (rule build_steps_live) (rule flat)
    have "live (w_bk w2) = insert (cv_vm_tag vm) (live (w_bk w))"
      using keeps_liveD [OF st s] created_live [OF 3(1)] by simp
    then show ?thesis using finish_build_Inl [OF f] by auto
  next
    case 2
    then show ?thesis using created_live [OF 2] by simp
  qed simp
qed

subsection \<open>What a verification does\<close>

text \<open>One result per check that was run, which passed if its exit code was 0.\<close>

lemma run_checks_result:
  assumes "run_checks be tag os key cs w = ((err, rs), w')"
  shows "live (w_bk w') = live (w_bk w) \<and> map hr_command rs = take (length rs) cs \<and>
    (err = None \<longrightarrow> length rs = length cs) \<and>
    (\<forall>r \<in> set rs. \<exists>b out b'. bk_run be tag (shell_check (Some os) (hr_command r)) healthcheck_timeout key b = (Inr out, b') \<and>
       (hr_passed r \<longleftrightarrow> co_exit_code out = 0))"
  using assms
proof (induction cs arbitrary: w rs err w')
  case Nil
  then show ?case by simp
next
  case (Cons c cs)
  obtain x w1 where r: "run_guest be tag (shell_check (Some os) c) healthcheck_timeout key w = (x, w1)" by fastforce
  have l: "live (w_bk w1) = live (w_bk w)" by (rule keeps_liveD [OF keeps_live_backend(2) r])
  show ?case
  proof (cases x)
    case (Inl e)
    then show ?thesis using Cons.prems r l by auto
  next
    case (Inr out)
    obtain e' rs' w2 where s: "run_checks be tag os key cs w1 = ((e', rs'), w2)" by (metis prod.collapse)
    have e: "err = e'" "rs = check_result c out # rs'" "w' = w2" using Cons.prems r s Inr by auto
    have b: "bk_run be tag (shell_check (Some os) c) healthcheck_timeout key (w_bk w) = (Inr out, w_bk w1)"
      using r Inr by (auto simp: run_guest_iff)
    show ?thesis using Cons.IH [OF s] l b by (auto simp: e check_result_def)
  qed
qed

lemma verify_on_result:
  assumes "verify_on be g pubkey key tag w = (r, w')"
  shows "(case r of
      Inr rs \<Rightarrow> live (w_bk w') = live (w_bk w) - {tag} \<and> map hr_command rs = gc_healthcheck g \<and>
        (\<forall>r \<in> set rs. \<exists>b out b'. bk_run be tag (shell_check (Some (gc_os g)) (hr_command r)) healthcheck_timeout key b
            = (Inr out, b') \<and> (hr_passed r \<longleftrightarrow> co_exit_code out = 0))
    | Inl _ \<Rightarrow> live (w_bk w') = live (w_bk w) - {tag} \<or>
        live (w_bk w') = live (w_bk w) \<and> (\<exists>b e. bk_destroy_with_key be tag pubkey b = (Inl e, w_bk w')))"
proof -
  obtain err results w1 where c: "run_checks be tag (gc_os g) key (gc_healthcheck g) w = ((err, results), w1)"
    by (metis prod.collapse)
  obtain gone w2 where d: "on_bk (bk_destroy_with_key be tag pubkey) w1 = (gone, w2)" by fastforce
  have r: "r = (case err of Some e \<Rightarrow> Inl e
      | None \<Rightarrow> (case gone of Inl e \<Rightarrow> Inl (verify_not_destroyed g tag e) | Inr _ \<Rightarrow> Inr results))" and w: "w' = w2"
    using assms c d by (simp_all add: verify_on_def)
  note cr = run_checks_result [OF c]
  obtain b where b: "bk_destroy_with_key be tag pubkey (w_bk w1) = (gone, b)" "w_bk w' = b"
    using d w by (auto simp: on_bk_iff)
  have l: "live (w_bk w') = (case gone of Inr _ \<Rightarrow> live (w_bk w) - {tag} | Inl _ \<Rightarrow> live (w_bk w))"
    using destroy_with_key_result [of tag pubkey "w_bk w1"] by (simp add: b conjunct1 [OF cr] cong: sum.case_cong)
  have f: "\<exists>b e. bk_destroy_with_key be tag pubkey b = (Inl e, w_bk w')" if "gone = Inl e" for e
    using b that by blast
  show ?thesis
  proof (cases gone)
    case (Inl e)
    with r l f show ?thesis by (cases err) auto
  next
    case (Inr u)
    with r l cr show ?thesis by (cases err) auto
  qed
qed

lemma register_verify_key_result:
  assumes "register_verify_key be tag pubkey key w = (x, w')"
  shows "(case x of
      Inr _ \<Rightarrow> live (w_bk w') = live (w_bk w)
    | Inl _ \<Rightarrow> live (w_bk w') = live (w_bk w) - {tag} \<or>
        live (w_bk w') = live (w_bk w) \<and> (\<exists>b e. bk_destroy_with_key be tag pubkey b = (Inl e, w_bk w')))"
proof (cases key)
  case None
  then show ?thesis using assms by (auto simp: register_verify_key_def)
next
  case (Some p)
  obtain y v where y: "on_bk (bk_register_vm_key be tag p) w = (y, v)" by fastforce
  have v: "live (w_bk v) = live (w_bk w)" by (rule keeps_liveD [OF keeps_live_backend(3) y])
  note d = destroy_with_key_result [of tag pubkey "w_bk v"]
  show ?thesis
  proof (cases y)
    case (Inr u)
    then show ?thesis using assms Some y v by (auto simp: register_verify_key_def on_error_def)
  next
    case (Inl e)
    then have "x = Inl e" "w' = snd (on_bk (bk_destroy_with_key be tag pubkey) v)"
      using assms Some y by (auto simp: register_verify_key_def on_error_def)
    moreover obtain g b where "bk_destroy_with_key be tag pubkey (w_bk v) = (g, b)" by fastforce
    ultimately show ?thesis using d v by (cases g) auto
  qed
qed

lemma golden_verify_result:
  assumes "golden_verify be g name pubkey key w = (r, w')"
  shows "(case r of
      Inr rs \<Rightarrow> map hr_command rs = gc_healthcheck g \<and>
        (\<exists>tag. live (w_bk w') = live (w_bk w) - {tag} \<and>
          (\<forall>r \<in> set rs. \<exists>b out b'. bk_run be tag (shell_check (Some (gc_os g)) (hr_command r)) healthcheck_timeout key b
            = (Inr out, b') \<and> (hr_passed r \<longleftrightarrow> co_exit_code out = 0)))
    | Inl _ \<Rightarrow> live (w_bk w') \<subseteq> live (w_bk w) \<or>
        (\<exists>tag. live (w_bk w') = insert tag (live (w_bk w)) \<and> (\<exists>b e. bk_destroy_with_key be tag pubkey b = (Inl e, w_bk w'))))"
proof -
  consider (early) e where "r = Inl e" "w' = w"
    | (create) e where "r = Inl e" "on_bk (bk_create_from_golden be (verify_request g name pubkey)) w = (Inl e, w')"
    | (register) vm w1 e where "on_bk (bk_create_from_golden be (verify_request g name pubkey)) w = (Inr vm, w1)"
      "register_verify_key be (cv_vm_tag vm) pubkey key w1 = (Inl e, w')" "r = Inl e"
    | (ran) vm w1 u w2 where "on_bk (bk_create_from_golden be (verify_request g name pubkey)) w = (Inr vm, w1)"
      "register_verify_key be (cv_vm_tag vm) pubkey key w1 = (Inr u, w2)"
      "verify_on be g pubkey key (cv_vm_tag vm) w2 = (r, w')"
    using assms unfolding golden_verify_def bindE_def
    by (auto simp only: liftE_run split: prod.splits sum.splits)
  then show ?thesis
  proof cases
    case create
    then show ?thesis using created_live [OF create(2)] by simp
  next
    case register
    show ?thesis using register_verify_key_result [OF register(2)] created_live [OF register(1)]
      by (auto simp: register(3))
  next
    case ran
    have l: "live (w_bk w2) = insert (cv_vm_tag vm) (live (w_bk w))"
      using register_verify_key_result [OF ran(2)] created_live [OF ran(1)] by simp
    show ?thesis using verify_on_result [OF ran(3)] l by (cases r) auto
  qed simp
qed

end

subsection \<open>The facade\<close>

text \<open>
  Without a flattener only a dry run can succeed; and a dry run that asks to be registered puts its
  placeholder into the registry, whatever is registered under that key already.
\<close>

lemma run_build_steps_None: "isl (fst (run_build_steps sha be tag script key None w))"
  by (simp add: run_build_steps_def bindE_run split: sum.split)

lemma golden_build_None:
  assumes "\<not> gb_dry_run rq"
  shows "isl (fst (golden_build sha be rq None w))"
proof -
  have f: "isl (fst (finish_build be rq tag r v))" if "isl r" for tag r v
    using that unfolding finish_build_def by (auto split: sum.split prod.split)
  have o: "isl (fst (build_on sha be rq None tag v))" for tag v
    using f [OF run_build_steps_None] by (simp add: build_on_def bindE_run)
  show ?thesis
  proof (rule ccontr)
    assume "\<not> ?thesis"
    then obtain out w' where "golden_build sha be rq None w = (Inr out, w')" using runs_ok by blast
    then have "\<exists>tag v h v'. build_on sha be rq None tag v = (Inr h, v')"
      using assms unfolding golden_build_def by (simp only: if_False bindE_Inr_iff liftE_run) blast
    then show False using o by (metis fst_conv isl_def Inl_Inr_False)
  qed
qed

lemma golden_build_dry:
  "gb_dry_run rq \<Longrightarrow> golden_build sha be rq flat w =
     (Inr \<lparr>go_config = built_config rq (gb_name rq) ''lufs-dryrun'' ''Dry run build'', go_build_vm_tag = None\<rparr>, w)"
  by (simp only: golden_build_def if_True retE_run)

lemma ops_golden_build_Inr:
  assumes "ops_golden_build sha op rq s = (Inr out, s')"
  shows "gb_dry_run rq \<and> go_build_vm_tag out = None \<and> gc_key (go_config out) = gb_name rq \<and>
    w_bk (ow_world s') = w_bk (ow_world s) \<and>
    ow_registry s' = (if gb_register rq
      then (ow_registry s)\<lparr>ir_goldens := ir_goldens (ow_registry s) @ [go_config out]\<rparr> else ow_registry s)"
proof -
  let ?add = "\<lambda>o' v. v\<lparr>ow_registry := (ow_registry v)\<lparr>ir_goldens := ir_goldens (ow_registry v) @ [go_config o']\<rparr>\<rparr>"
  obtain o' v where i: "in_world (golden_build sha (op_backend op) rq None) s = (Inr o', v)"
    and k: "(if gb_register rq then bindE (persist_registry op) (\<lambda>_. retE o') (?add o' v) else (Inr o', v)) = (Inr out, s')"
    using assms unfolding ops_golden_build_def bindE_Inr_iff by blast
  from k have "o' = out" by (auto simp: bindE_Inr_iff split: if_splits)
  with i k obtain w where b: "golden_build sha (op_backend op) rq None (ow_world s) = (Inr out, w)"
    and v: "v = s\<lparr>ow_world := w\<rparr>"
    and r: "(if gb_register rq then bindE (persist_registry op) (\<lambda>_. retE out) (?add out v) else (Inr out, v)) = (Inr out, s')"
    unfolding in_world_iff by blast
  have d: "gb_dry_run rq"
    using golden_build_None [of rq sha "op_backend op" "ow_world s"] b by fastforce
  have o: "go_build_vm_tag out = None" "gc_key (go_config out) = gb_name rq" "w = ow_world s"
    using b unfolding golden_build_dry [OF d] by (auto simp only: prod.inject sum.inject golden_build_outcome.simps
      golden_config.simps built_config_def)
  show ?thesis
  proof (cases "gb_register rq")
    case True
    then have "s' = snd (persist_registry op (?add out v))" using r by (auto simp: bindE_Inr_iff)
    then show ?thesis using d o v True by (simp add: persist_registry_frame)
  next
    case False
    then show ?thesis using r d o v by simp
  qed
qed

end
