(* ===== verification/Lsbx_Mcp.thy ===== *)
theory Lsbx_Mcp
  imports Lsbx_Admission Lsbx_Golden
begin

text \<open>
  The door for agents (\<open>lsbx-mcp\<close>): one tool per operation of the facade, with its parameters, the
  checks this crate makes itself, the envelope as the result (\<open>tools.rs\<close>) and the mapping of errors to
  codes of the protocol (\<open>error_map.rs\<close>). The protocol is the framework's: it looks a tool up by its
  name and turns arguments that do not decode into an error of its own, whose text is left out.
\<close>

datatype mcp_reply =
    McpResult json
  | McpError "32 word" string
  | McpInvalidParams
  | McpUnknownTool

type_synonym 'b tool = "(string \<times> json) list \<Rightarrow> 'b ops_world \<Rightarrow> mcp_reply \<times> 'b ops_world"

record 'b mcp_server =
  mc_ops :: "'b ops"
  mc_sha :: "fcontent \<Rightarrow> string"

subsection \<open>Results and errors\<close>

definition lsbx_error_to_mcp_error :: "lsbx_error \<Rightarrow> mcp_reply" where
  "lsbx_error_to_mcp_error e = McpError (exit_code_i32 (exit_code e)) (err_display e)"

definition envelope_result :: "('a \<Rightarrow> json) \<Rightarrow> lsbx_error + 'a \<Rightarrow> mcp_reply" where
  "envelope_result enc r = McpResult (envelope_json enc (from_result r))"

definition require_non_empty :: "string \<Rightarrow> string \<Rightarrow> mcp_reply + unit" where
  "require_non_empty field v =
     (if trim v = [] then Inl (lsbx_error_to_mcp_error (Usage (quoted field @ '' must not be empty''))) else Inr ())"

text \<open>A tool's body: its checks in their order, then one call of the facade.\<close>

fun require_all :: "(string \<times> string) list \<Rightarrow> mcp_reply + unit" where
  "require_all [] = Inr ()"
| "require_all ((n, v) # fs) = bindS (require_non_empty n v) (\<lambda>_. require_all fs)"

definition run_tool ::
  "mcp_reply + unit \<Rightarrow> ('b, 'a) ops_act \<Rightarrow> ('a \<Rightarrow> json) \<Rightarrow> 'b ops_world \<Rightarrow> mcp_reply \<times> 'b ops_world" where
  "run_tool checks m enc s =
     (case checks of
        Inl e \<Rightarrow> (e, s)
      | Inr _ \<Rightarrow> (case m s of (r, s') \<Rightarrow> (envelope_result enc r, s')))"

definition with_params :: "((string \<times> json) list \<Rightarrow> 'p option) \<Rightarrow> ('p \<Rightarrow> 'b ops_world \<Rightarrow> mcp_reply \<times> 'b ops_world) \<Rightarrow> 'b tool" where
  "with_params dec k fs s = (case dec fs of None \<Rightarrow> (McpInvalidParams, s) | Some p \<Rightarrow> k p s)"

definition unit_json :: "unit \<Rightarrow> json" where
  "unit_json u = JNull"

subsection \<open>Parameters\<close>

definition create_params :: "(string \<times> json) list \<Rightarrow> create_body option" where
  "create_params fs =
     Option.bind (fld_req fs ''profile'' dec_str) (\<lambda>p.
     Option.bind (fld_opt fs ''name'' dec_str) (\<lambda>n.
     Option.bind (fld_opt fs ''task_id'' dec_str) (\<lambda>t.
     Option.bind (fld_req fs ''lease_secs'' dec_u64) (\<lambda>l.
     Option.bind (fld_req fs ''ready_timeout_secs'' dec_u64) (\<lambda>r.
     Option.bind (fld_default fs ''verify'' True dec_bool) (\<lambda>vf.
     Option.bind (fld_default fs ''healthchecks'' [] (dec_arr (dec_arr dec_str))) (\<lambda>h.
       Some \<lparr>cb_profile = p, cb_name = n, cb_task_id = t, cb_lease_secs = l, cb_ready_timeout_secs = r,
             cb_verify = vf, cb_healthchecks = h\<rparr>)))))))"

definition id_params :: "(string \<times> json) list \<Rightarrow> string option" where
  "id_params fs = fld_req fs ''id'' dec_str"

definition renew_params :: "(string \<times> json) list \<Rightarrow> (string \<times> nat) option" where
  "renew_params fs =
     Option.bind (fld_req fs ''id'' dec_str) (\<lambda>i.
     Option.bind (fld_req fs ''duration_secs'' dec_u64) (\<lambda>d. Some (i, d)))"

definition reap_params :: "(string \<times> json) list \<Rightarrow> (nat \<times> bool) option" where
  "reap_params fs =
     Option.bind (fld_default fs ''ttl_secs'' 0 dec_u64) (\<lambda>t.
     Option.bind (fld_default fs ''dry_run'' False dec_bool) (\<lambda>d. Some (t, d)))"

definition exec_params :: "(string \<times> json) list \<Rightarrow> (string \<times> string list \<times> nat) option" where
  "exec_params fs =
     Option.bind (fld_req fs ''id'' dec_str) (\<lambda>i.
     Option.bind (fld_req fs ''command'' (dec_arr dec_str)) (\<lambda>c.
     Option.bind (fld_req fs ''timeout_secs'' dec_u64) (\<lambda>t. Some (i, c, t))))"

definition copy_params :: "(string \<times> json) list \<Rightarrow> (string \<times> string \<times> string) option" where
  "copy_params fs =
     Option.bind (fld_req fs ''id'' dec_str) (\<lambda>i.
     Option.bind (fld_req fs ''source'' dec_str) (\<lambda>a.
     Option.bind (fld_req fs ''destination'' dec_str) (\<lambda>b. Some (i, a, b))))"

definition golden_build_params :: "(string \<times> json) list \<Rightarrow> golden_build_request option" where
  "golden_build_params fs =
     Option.bind (fld_req fs ''name'' dec_str) (\<lambda>n.
     Option.bind (fld_req fs ''from'' dec_str) (\<lambda>f.
     Option.bind (fld_req fs ''script'' dec_str) (\<lambda>sc.
     Option.bind (fld_req fs ''flavor'' (dec_variant flavor_of_name)) (\<lambda>fl.
     Option.bind (fld_req fs ''cpu'' dec_u32) (\<lambda>c.
     Option.bind (fld_req fs ''memory'' dec_str) (\<lambda>m.
     Option.bind (fld_req fs ''streaming'' (dec_variant streaming_of_name)) (\<lambda>st.
     Option.bind (fld_req fs ''register'' dec_bool) (\<lambda>rg.
     Option.bind (fld_req fs ''cleanup'' dec_bool) (\<lambda>cl.
     Option.bind (fld_default fs ''dry_run'' False dec_bool) (\<lambda>dr.
     Option.bind (fld_req fs ''pubkey'' dec_str) (\<lambda>pk.
       Some \<lparr>gb_name = n, gb_from = f, gb_script = sc, gb_flavor = fl, gb_cpu = c, gb_memory = m, gb_streaming = st,
             gb_register = rg, gb_cleanup = cl, gb_dry_run = dr, gb_pubkey = pk, gb_key_path = None\<rparr>)))))))))))"

definition golden_verify_params :: "(string \<times> json) list \<Rightarrow> (string \<times> string \<times> string) option" where
  "golden_verify_params fs =
     Option.bind (fld_req fs ''name'' dec_str) (\<lambda>n.
     Option.bind (fld_req fs ''verify_name'' dec_str) (\<lambda>v.
     Option.bind (fld_req fs ''pubkey'' dec_str) (\<lambda>p. Some (n, v, p))))"

definition golden_register_params :: "(string \<times> json) list \<Rightarrow> golden_config option" where
  "golden_register_params fs =
     Option.bind (fld_req fs ''key'' dec_str) (\<lambda>k.
     Option.bind (fld_req fs ''flavor'' (dec_variant flavor_of_name)) (\<lambda>f.
     Option.bind (fld_req fs ''os'' dec_str) (\<lambda>os.
     Option.bind (fld_req fs ''base'' dec_str) (\<lambda>b.
     Option.bind (fld_req fs ''mode'' (dec_variant mode_of_name)) (\<lambda>m.
     Option.bind (fld_req fs ''cpu'' dec_u32) (\<lambda>c.
     Option.bind (fld_req fs ''memory'' dec_str) (\<lambda>mem.
     Option.bind (fld_opt fs ''disk'' dec_str) (\<lambda>dk.
     Option.bind (fld_req fs ''streaming'' (dec_variant streaming_of_name)) (\<lambda>st.
     Option.bind (fld_default fs ''capabilities'' [] (dec_arr dec_str)) (\<lambda>cap.
     Option.bind (fld_default fs ''healthcheck'' [] (dec_arr dec_str)) (\<lambda>hc.
     Option.bind (fld_opt fs ''repo'' dec_str) (\<lambda>rp.
     Option.bind (fld_opt fs ''content_hash'' dec_str) (\<lambda>ch.
     Option.bind (fld_req fs ''description'' dec_str) (\<lambda>d.
       Some \<lparr>gc_key = k, gc_flavor = f, gc_os = os, gc_base = b, gc_mode = m, gc_cpu = c,
             gc_memory = mem, gc_disk = dk, gc_streaming = st, gc_capabilities = cap,
             gc_healthcheck = hc, gc_repo = rp, gc_content_hash = ch, gc_description = d\<rparr>))))))))))))))"

definition golden_delete_params :: "(string \<times> json) list \<Rightarrow> (string \<times> bool) option" where
  "golden_delete_params fs =
     Option.bind (fld_req fs ''name'' dec_str) (\<lambda>n.
     Option.bind (fld_default fs ''keep_snapshot'' False dec_bool) (\<lambda>k. Some (n, k)))"

definition logs_params :: "(string \<times> json) list \<Rightarrow> (string option \<times> nat) option" where
  "logs_params fs =
     Option.bind (fld_opt fs ''since'' dec_str) (\<lambda>s.
     Option.bind (fld_default fs ''limit'' 0 dec_u64) (\<lambda>l. Some (s, l)))"

subsection \<open>Results as JSON\<close>

definition reap_json :: "reap_report \<Rightarrow> json" where
  "reap_json r =
     JObj [(''destroyed'', jstrs (rr_destroyed r)), (''would_destroy'', jstrs (rr_would_destroy r)),
           (''keys_reconciled'', JNum (int (rr_keys_reconciled r)))]"

definition status_json :: "status_report \<Rightarrow> json" where
  "status_json r =
     JObj [(''backend_name'', JStr (st_backend_name r)), (''backend_available'', JBool (st_backend_available r)),
           (''sandbox_count'', JNum (int (st_sandbox_count r)))]"

definition build_json :: "golden_build_outcome \<Rightarrow> json" where
  "build_json out = JObj [(''config'', golden_to_json (go_config out)), (''build_vm_tag'', jstr_opt (go_build_vm_tag out))]"

definition check_json :: "healthcheck_result \<Rightarrow> json" where
  "check_json r =
     JObj [(''command'', JStr (hr_command r)), (''passed'', JBool (hr_passed r)), (''output'', JStr (hr_output r))]"

definition reconcile_item_json :: "golden_reconcile_item \<Rightarrow> json" where
  "reconcile_item_json i = JObj [(''key'', JStr (gi_key i)), (''base'', JStr (gi_base i)), (''status'', JStr (gi_status i))]"

definition reconcile_json :: "golden_reconcile_report \<Rightarrow> json" where
  "reconcile_json r =
     JObj [(''items'', JArr (map reconcile_item_json (gr_items r))), (''unregistered_vms'', jstrs (gr_unregistered_vms r))]"

subsection \<open>The tools\<close>

definition mcp_create :: "'b mcp_server \<Rightarrow> 'b tool" where
  "mcp_create mc = with_params create_params (\<lambda>p. run_tool (Inr ()) (ops_create (mc_ops mc) (create_request_of p)) public_json)"

definition mcp_destroy :: "'b mcp_server \<Rightarrow> 'b tool" where
  "mcp_destroy mc = with_params id_params (\<lambda>i. run_tool (require_non_empty ''id'' i) (ops_destroy (mc_ops mc) i) unit_json)"

definition mcp_renew :: "'b mcp_server \<Rightarrow> 'b tool" where
  "mcp_renew mc = with_params renew_params (\<lambda>(i, d).
     run_tool (require_non_empty ''id'' i) (ops_renew (mc_ops mc) i (secs d)) public_json)"

definition mcp_reap :: "'b mcp_server \<Rightarrow> 'b tool" where
  "mcp_reap mc = with_params reap_params (\<lambda>(t, d). run_tool (Inr ()) (ops_reap (mc_ops mc) (secs t) d) reap_json)"

definition mcp_list :: "'b mcp_server \<Rightarrow> 'b tool" where
  "mcp_list mc fs = run_tool (Inr ()) (ops_list (mc_ops mc)) (\<lambda>ps. JArr (map public_json ps))"

definition mcp_info :: "'b mcp_server \<Rightarrow> 'b tool" where
  "mcp_info mc = with_params id_params (\<lambda>i. run_tool (require_non_empty ''id'' i) (ops_info (mc_ops mc) i) public_json)"

definition mcp_console_url :: "'b mcp_server \<Rightarrow> 'b tool" where
  "mcp_console_url mc = with_params id_params (\<lambda>i.
     run_tool (require_non_empty ''id'' i) (ops_console_url (mc_ops mc) i) jstr_opt)"

definition require_command :: "string list \<Rightarrow> mcp_reply + unit" where
  "require_command c =
     (if c = [] then Inl (lsbx_error_to_mcp_error (Usage (quoted ''command'' @ '' must not be empty''))) else Inr ())"

definition mcp_exec :: "'b mcp_server \<Rightarrow> 'b tool" where
  "mcp_exec mc = with_params exec_params (\<lambda>(i, c, t).
     run_tool (bindS (require_non_empty ''id'' i) (\<lambda>_. require_command c)) (ops_exec (mc_ops mc) i c (secs t)) exec_json)"

definition copy_checks :: "string \<Rightarrow> string \<Rightarrow> string \<Rightarrow> mcp_reply + unit" where
  "copy_checks i a b = require_all [(''id'', i), (''source'', a), (''destination'', b)]"

definition mcp_put :: "'b mcp_server \<Rightarrow> 'b tool" where
  "mcp_put mc = with_params copy_params (\<lambda>(i, a, b). run_tool (copy_checks i a b) (ops_put (mc_ops mc) i a b) unit_json)"

definition mcp_get :: "'b mcp_server \<Rightarrow> 'b tool" where
  "mcp_get mc = with_params copy_params (\<lambda>(i, a, b). run_tool (copy_checks i a b) (ops_get (mc_ops mc) i a b) unit_json)"

definition mcp_status :: "'b mcp_server \<Rightarrow> 'b tool" where
  "mcp_status mc fs = run_tool (Inr ()) (ops_status (mc_ops mc)) status_json"

definition mcp_golden_build :: "'b mcp_server \<Rightarrow> 'b tool" where
  "mcp_golden_build mc = with_params golden_build_params (\<lambda>rq.
     run_tool (require_all [(''name'', gb_name rq), (''from'', gb_from rq), (''script'', gb_script rq), (''pubkey'', gb_pubkey rq)])
       (ops_golden_build (mc_sha mc) (mc_ops mc) rq) build_json)"

definition mcp_golden_verify :: "'b mcp_server \<Rightarrow> 'b tool" where
  "mcp_golden_verify mc = with_params golden_verify_params (\<lambda>(n, v, p).
     run_tool (require_all [(''name'', n), (''verify_name'', v), (''pubkey'', p)])
       (ops_golden_verify (mc_ops mc) n v p None) (\<lambda>rs. JArr (map check_json rs)))"

definition mcp_golden_register :: "'b mcp_server \<Rightarrow> 'b tool" where
  "mcp_golden_register mc = with_params golden_register_params (\<lambda>c.
     run_tool (require_non_empty ''key'' (gc_key c)) (golden_register (mc_ops mc) c) unit_json)"

definition mcp_golden_delete :: "'b mcp_server \<Rightarrow> 'b tool" where
  "mcp_golden_delete mc = with_params golden_delete_params (\<lambda>(n, k).
     run_tool (require_non_empty ''name'' n) (golden_delete (mc_ops mc) n k) unit_json)"

definition mcp_golden_list :: "'b tool" where
  "mcp_golden_list fs = run_tool (Inr ()) golden_list (\<lambda>gs. JArr (map golden_to_json gs))"

definition mcp_golden_reconcile :: "'b mcp_server \<Rightarrow> 'b tool" where
  "mcp_golden_reconcile mc fs = run_tool (Inr ()) (golden_reconcile (mc_ops mc)) reconcile_json"

definition mcp_config_show :: "'b mcp_server \<Rightarrow> 'b tool" where
  "mcp_config_show mc fs = run_tool (Inr ()) (config_show (mc_ops mc)) (\<lambda>c. c)"

definition mcp_logs_query :: "'b tool" where
  "mcp_logs_query = with_params logs_params (\<lambda>(since, limit). run_tool (Inr ()) (logs_query since limit) jstrs)"

text \<open>The table the framework derives from the methods, by their names.\<close>

definition tool_table :: "'b mcp_server \<Rightarrow> (string \<times> 'b tool) list" where
  "tool_table mc =
     [(''create'', mcp_create mc), (''destroy'', mcp_destroy mc), (''renew'', mcp_renew mc), (''reap'', mcp_reap mc),
      (''list'', mcp_list mc), (''info'', mcp_info mc), (''console_url'', mcp_console_url mc), (''exec'', mcp_exec mc),
      (''put'', mcp_put mc), (''get'', mcp_get mc), (''status'', mcp_status mc), (''golden_build'', mcp_golden_build mc),
      (''golden_verify'', mcp_golden_verify mc), (''golden_register'', mcp_golden_register mc),
      (''golden_delete'', mcp_golden_delete mc), (''golden_list'', mcp_golden_list),
      (''golden_reconcile'', mcp_golden_reconcile mc), (''config_show'', mcp_config_show mc),
      (''logs_query'', mcp_logs_query)]"

definition registered_tool_names :: "'b mcp_server \<Rightarrow> string list" where
  "registered_tool_names mc = map fst (tool_table mc)"

definition call_tool :: "'b mcp_server \<Rightarrow> string \<Rightarrow> 'b tool" where
  "call_tool mc name fs s =
     (case map_of (tool_table mc) name of None \<Rightarrow> (McpUnknownTool, s) | Some t \<Rightarrow> t fs s)"

subsection \<open>A call that is refused does nothing\<close>

definition guarded :: "'b tool \<Rightarrow> bool" where
  "guarded t \<longleftrightarrow> (\<forall>fs s. fst (t fs s) \<in> range McpResult \<or> snd (t fs s) = s)"

lemma guarded_run: "fst (run_tool c m e s) \<in> range McpResult \<or> snd (run_tool c m e s) = s"
  by (auto simp: run_tool_def envelope_result_def split: sum.split prod.split)

lemma guarded_intros:
  "guarded (\<lambda>fs. run_tool c m e)"
  "(\<And>p s. fst (k p s) \<in> range McpResult \<or> snd (k p s) = s) \<Longrightarrow> guarded (with_params dec k)"
  by (auto simp: guarded_def with_params_def guarded_run split: option.split)

lemma tools_guarded: "t \<in> snd ` set (tool_table mc) \<Longrightarrow> guarded t"
  unfolding tool_table_def
  by (auto simp: mcp_create_def mcp_destroy_def mcp_renew_def mcp_reap_def mcp_list_def [abs_def] mcp_info_def mcp_console_url_def
      mcp_exec_def mcp_put_def mcp_get_def mcp_status_def [abs_def] mcp_golden_build_def mcp_golden_verify_def
      mcp_golden_register_def mcp_golden_delete_def mcp_golden_list_def [abs_def] mcp_golden_reconcile_def [abs_def]
      mcp_config_show_def [abs_def] mcp_logs_query_def simp del: split_paired_All
      intro!: guarded_intros guarded_run split: prod.split)

lemma call_tool_refused:
  assumes "call_tool mc n fs s = (r, s')" and "r \<notin> range McpResult"
  shows "s' = s"
proof (cases "map_of (tool_table mc) n")
  case None
  then show ?thesis using assms(1) by (simp add: call_tool_def)
next
  case (Some t)
  then have "guarded t" using tools_guarded map_of_SomeD by (metis image_eqI snd_conv)
  moreover have "t fs s = (r, s')" using assms(1) Some by (simp add: call_tool_def)
  ultimately show ?thesis using assms(2) unfolding guarded_def by (metis fst_conv snd_conv)
qed

subsection \<open>The doors agree\<close>

text \<open>The envelope in the body of an HTTP response, as the result of a tool.\<close>

definition as_result :: "http_response \<times> 'b ops_world \<Rightarrow> mcp_reply \<times> 'b ops_world" where
  "as_result a = (case hs_body (fst a) of JsonBody v \<Rightarrow> McpResult v | _ \<Rightarrow> McpInvalidParams, snd a)"

lemma as_result_answer: "as_result (answer m f s) = run_tool (Inr ()) m f s"
  by (auto simp: as_result_def reply_def run_tool_def envelope_result_def from_result_def envelope_json_def error_response_def
      success_response_def respond_def split: prod.split sum.split)

lemma tool_names:
  "call_tool mc ''renew'' = mcp_renew mc" "call_tool mc ''list'' = mcp_list mc" "call_tool mc ''info'' = mcp_info mc"
  "call_tool mc ''exec'' = mcp_exec mc" "call_tool mc ''status'' = mcp_status mc" "call_tool mc ''config_show'' = mcp_config_show mc"
  by (simp_all add: call_tool_def tool_table_def fun_eq_iff)

lemma params_read:
  "id_params [(''id'', JStr i)] = Some i"
  "d < 2 ^ 64 \<Longrightarrow> renew_params [(''id'', JStr i), (''duration_secs'', JNum (int d))] = Some (i, d)"
  "t < 2 ^ 64 \<Longrightarrow> exec_params [(''id'', JStr i), (''command'', jstrs c), (''timeout_secs'', JNum (int t))] = Some (i, c, t)"
  by (simp_all add: id_params_def renew_params_def exec_params_def fld_req_def dec_u64_def)

lemma doors:
  assumes "trim i \<noteq> []" and "d < 2 ^ 64"
  shows "call_tool mc ''renew'' [(''id'', JStr i), (''duration_secs'', JNum (int d))] s = as_result (renew_sandbox (mc_ops mc) i d s)"
    and "call_tool mc ''info'' [(''id'', JStr i)] s = as_result (info_sandbox (mc_ops mc) i s)"
    and "call_tool mc ''list'' [] s = as_result (list_sandboxes (mc_ops mc) s)"
    and "c \<noteq> [] \<Longrightarrow> call_tool mc ''exec'' [(''id'', JStr i), (''command'', jstrs c), (''timeout_secs'', JNum (int d))] s =
      as_result (exec_in_sandbox (mc_ops mc) i (c, d) s)"
    and "call_tool mc ''status'' [] s = as_result (health (mc_ops mc) s)"
    and "call_tool mc ''config_show'' [] s = as_result (capabilities (mc_ops mc) s)"
proof -
  have r: "require_non_empty ''id'' i = Inr ()" using assms(1) by (simp add: require_non_empty_def)
  show "call_tool mc ''renew'' [(''id'', JStr i), (''duration_secs'', JNum (int d))] s = as_result (renew_sandbox (mc_ops mc) i d s)"
    unfolding tool_names mcp_renew_def with_params_def params_read(2) [OF assms(2)] renew_sandbox_def as_result_answer
    by (simp add: r)
  show "call_tool mc ''info'' [(''id'', JStr i)] s = as_result (info_sandbox (mc_ops mc) i s)"
    unfolding tool_names mcp_info_def with_params_def params_read(1) info_sandbox_def as_result_answer by (simp add: r)
  show "call_tool mc ''list'' [] s = as_result (list_sandboxes (mc_ops mc) s)"
    unfolding tool_names mcp_list_def list_sandboxes_def as_result_answer ..
  show "call_tool mc ''exec'' [(''id'', JStr i), (''command'', jstrs c), (''timeout_secs'', JNum (int d))] s =
      as_result (exec_in_sandbox (mc_ops mc) i (c, d) s)" if "c \<noteq> []"
  proof -
    have "require_command c = Inr ()" using that by (simp add: require_command_def)
    then show ?thesis using that
      unfolding tool_names mcp_exec_def with_params_def params_read(3) [OF assms(2)] exec_in_sandbox_def
      by (simp add: r as_result_answer)
  qed
  show "call_tool mc ''status'' [] s = as_result (health (mc_ops mc) s)"
    unfolding tool_names mcp_status_def health_def as_result_answer by (simp add: status_json_def [abs_def])
  show "call_tool mc ''config_show'' [] s = as_result (capabilities (mc_ops mc) s)"
    unfolding tool_names mcp_config_show_def capabilities_def as_result_answer ..
qed

end
