(* ===== verification/Lsbx_Github.thy ===== *)
theory Lsbx_Github
  imports Lsbx_Lifecycle
begin

text \<open>
  The GitHub side of \<open>lsbx-broker\<close>: the mapping of errors (\<open>error_map.rs\<close>), the client with its
  two ways of authenticating (\<open>github_client.rs\<close>) and the caches of the GitHub App's tokens
  (\<open>auth.rs\<close>). The HTTP client \<open>octocrab\<close> with its response types, the command \<open>gh\<close>, the
  signing of a JWT and the messages of \<open>serde_json\<close> are parameters. A listing asks for one page
  after another until the announced number of items is there; whether it ends depends on the
  answers, so such a computation may return nothing at all, and is an option.
\<close>

subsection \<open>Computations that may not return\<close>

type_synonym ('s, 'e, 'a) dcomp = "'s \<Rightarrow> (('e + 'a) \<times> 's) option"

definition totalD :: "('s, 'e, 'a) comp \<Rightarrow> ('s, 'e, 'a) dcomp" where
  "totalD m s = Some (m s)"

definition retD :: "'a \<Rightarrow> ('s, 'e, 'a) dcomp" where
  "retD x s = Some (Inr x, s)"

definition bindD :: "('s, 'e, 'a) dcomp \<Rightarrow> ('a \<Rightarrow> ('s, 'e, 'b) dcomp) \<Rightarrow> ('s, 'e, 'b) dcomp" where
  "bindD m k s =
     (case m s of
        None \<Rightarrow> None
      | Some (Inl e, s') \<Rightarrow> Some (Inl e, s')
      | Some (Inr x, s') \<Rightarrow> k x s')"

lemma bindD_simps [simp]:
  "m s = None \<Longrightarrow> bindD m k s = None"
  "m s = Some (Inl e, s') \<Longrightarrow> bindD m k s = Some (Inl e, s')"
  "m s = Some (Inr x, s') \<Longrightarrow> bindD m k s = k x s'"
  by (simp_all add: bindD_def)

lemma totalD_run [simp]: "totalD m s = Some (m s)"
  by (simp add: totalD_def)

lemma retD_run [simp]: "retD x s = Some (Inr x, s)"
  by (simp add: retD_def)

lemma bindD_Inr_iff:
  "bindD m k s = Some (Inr y, s'') \<longleftrightarrow> (\<exists>x s'. m s = Some (Inr x, s') \<and> k x s' = Some (Inr y, s''))"
  by (auto simp: bindD_def split: option.splits prod.splits sum.splits)

lemma bindD_Inl_iff:
  "bindD m k s = Some (Inl e, s'') \<longleftrightarrow> m s = Some (Inl e, s'') \<or>
     (\<exists>x s'. m s = Some (Inr x, s') \<and> k x s' = Some (Inl e, s''))"
  by (auto simp: bindD_def split: option.splits prod.splits sum.splits)

lemma bindD_total [simp]: "bindD (totalD m) (\<lambda>x. totalD (k x)) s = Some (bindE m k s)"
  by (auto simp: bindD_def bindE_def split: prod.splits sum.splits)

subsection \<open>Errors\<close>

text \<open>The variants of \<open>octocrab::Error\<close> the program tells apart; the texts are those of their
  \<open>Display\<close>, the code and text of a status those of the crate \<open>http\<close>.\<close>

datatype octo_error =
    OGitHub nat string string
  | OHttp string
  | OHyper string
  | OService string
  | OJson string
  | OSerde string
  | OSerdeUrlEncoded string
  | OOther string

definition rate_limit_phrase :: string where
  "rate_limit_phrase = ''rate limit''"

definition map_github_http_error :: "nat \<Rightarrow> string \<Rightarrow> string \<Rightarrow> string \<Rightarrow> lsbx_error" where
  "map_github_http_error status status_text message route =
     (if status = 403 \<and> contains_str rate_limit_phrase (map ascii_lower message)
      then BackendUnavailable (''GitHub API rate limited for '' @ route @ '': '' @ status_text @ '' '' @ message)
      else if status = 401 \<or> status = 403
      then AuthFailed (''GitHub rejected credentials for '' @ route @ '': '' @ status_text @ '' '' @ message)
      else BackendUnavailable (''GitHub API error for '' @ route @ '': '' @ status_text @ '' '' @ message))"

definition unreachable_error :: "string \<Rightarrow> string \<Rightarrow> lsbx_error" where
  "unreachable_error route t = BackendUnavailable (''GitHub API unreachable for '' @ route @ '': '' @ t)"

definition shape_error :: "string \<Rightarrow> string \<Rightarrow> lsbx_error" where
  "shape_error route t = ContractViolated (''unexpected response shape from '' @ route @ '': '' @ t)"

definition map_octocrab_error :: "string \<Rightarrow> octo_error \<Rightarrow> lsbx_error" where
  "map_octocrab_error route e =
     (case e of
        OGitHub c st m \<Rightarrow> map_github_http_error c st m route
      | OHttp t \<Rightarrow> unreachable_error route t
      | OHyper t \<Rightarrow> unreachable_error route t
      | OService t \<Rightarrow> unreachable_error route t
      | OJson t \<Rightarrow> shape_error route t
      | OSerde t \<Rightarrow> shape_error route t
      | OSerdeUrlEncoded t \<Rightarrow> shape_error route t
      | OOther t \<Rightarrow> BackendUnavailable (''GitHub API call to '' @ route @ '' failed: '' @ t))"

subsection \<open>The outside\<close>

record gh_output =
  gh_success :: bool
  gh_status :: string
  gh_stdout :: string
  gh_stderr :: string

text \<open>
  \<open>gx_get\<close> and \<open>gx_post\<close> are requests of \<open>octocrab\<close> for a JSON body; \<open>gx_page\<close>, \<open>gx_repos\<close>,
  \<open>gx_installation\<close> and \<open>gx_token\<close> are its response types \<open>Page\<close> (the items and the total
  count), \<open>InstallationRepositories\<close> (full names, names and the total count), \<open>Installation\<close>
  (its id) and \<open>InstallationToken\<close> (the token and its expiry). \<open>gx_exec\<close> runs \<open>gh api\<close>; it may
  fail to start with the text of the error.
\<close>

record 'g transport =
  gx_get :: "string \<Rightarrow> (string \<times> string) list \<Rightarrow> ('g, octo_error, json) comp"
  gx_post :: "string \<Rightarrow> ('g, octo_error, json) comp"
  gx_page :: "json \<Rightarrow> octo_error + (json list \<times> nat option)"
  gx_repos :: "json \<Rightarrow> octo_error + ((string option \<times> string) list \<times> int)"
  gx_installation :: "json \<Rightarrow> octo_error + nat"
  gx_token :: "json \<Rightarrow> octo_error + (string \<times> string option)"
  gx_exec :: "string \<Rightarrow> ('g, string, gh_output) comp"
  gx_parse :: "string \<Rightarrow> string + json"
  gx_serde_text :: "json \<Rightarrow> string"

datatype backing = Installation | GhCli

definition gh_api :: "'g transport \<Rightarrow> string \<Rightarrow> ('g, lsbx_error, json) comp" where
  "gh_api tr path =
     bindE (mapErr (\<lambda>t. BackendUnavailable (''failed to execute `gh api '' @ path
              @ ''` (is the gh CLI installed and on PATH?): '' @ t)) (gx_exec tr path)) (\<lambda>out.
     if \<not> gh_success out
     then failE (AuthFailed (''`gh api '' @ path @ ''` failed ('' @ gh_status out @ ''): '' @ gh_stderr out))
     else liftE (case gx_parse tr (gh_stdout out) of
            Inl t \<Rightarrow> Inl (ContractViolated (''`gh api '' @ path @ ''` returned non-JSON output: '' @ t))
          | Inr v \<Rightarrow> Inr v))"

subsection \<open>Response items\<close>

definition as_u64 :: "json \<Rightarrow> nat option" where
  "as_u64 v = (case v of JNum n \<Rightarrow> if 0 \<le> n \<and> n < 2 ^ 64 then Some (nat n) else None | _ \<Rightarrow> None)"

record job_summary =
  js_id :: nat
  js_run_id :: nat
  js_status :: string
  js_name :: "string option"
  js_conclusion :: "string option"
  js_labels :: "string list"
  js_created_at :: "string option"
  js_runner_name :: "string option"

definition run_summary_of_json :: "json \<Rightarrow> nat option" where
  "run_summary_of_json v = Option.bind (struct_fields [''id''] 0 v) (\<lambda>fs. fld_req fs ''id'' as_u64)"

definition job_summary_field_names :: "string list" where
  "job_summary_field_names = [''id'', ''run_id'', ''status'', ''name'', ''conclusion'', ''labels'',
     ''created_at'', ''runner_name'']"

definition job_summary_of_json :: "json \<Rightarrow> job_summary option" where
  "job_summary_of_json v =
     Option.bind (struct_fields job_summary_field_names 5 v) (\<lambda>fs.
     Option.bind (fld_req fs ''id'' as_u64) (\<lambda>i.
     Option.bind (fld_req fs ''run_id'' as_u64) (\<lambda>r.
     Option.bind (fld_req fs ''status'' dec_str) (\<lambda>st.
     Option.bind (fld_default fs ''name'' None (dec_opt dec_str)) (\<lambda>n.
     Option.bind (fld_default fs ''conclusion'' None (dec_opt dec_str)) (\<lambda>c.
     Option.bind (fld_default fs ''labels'' [] (dec_arr dec_str)) (\<lambda>ls.
     Option.bind (fld_default fs ''created_at'' None (dec_opt dec_str)) (\<lambda>ca.
     Option.bind (fld_default fs ''runner_name'' None (dec_opt dec_str)) (\<lambda>rn.
       Some \<lparr>js_id = i, js_run_id = r, js_status = st, js_name = n, js_conclusion = c,
             js_labels = ls, js_created_at = ca, js_runner_name = rn\<rparr>)))))))))"

text \<open>Every item of a page is decoded, or the page is refused at the first that does not decode.\<close>

fun decode_items :: "(json \<Rightarrow> 'a option) \<Rightarrow> (json \<Rightarrow> 'e) \<Rightarrow> json list \<Rightarrow> 'e + 'a list" where
  "decode_items d err [] = Inr []"
| "decode_items d err (v # vs) =
     (case d v of
        None \<Rightarrow> Inl (err v)
      | Some x \<Rightarrow> bindS (decode_items d err vs) (\<lambda>xs. Inr (x # xs)))"

subsection \<open>Pages\<close>

type_synonym ('g, 'x) fetch = "32 word \<Rightarrow> ('g, lsbx_error, 'x list \<times> nat) comp"

text \<open>The loop of every listing: \<open>fetch page\<close> gives the items of a page and the total it announces.\<close>

partial_function (option) paginate ::
  "('g, 'x) fetch \<Rightarrow> 32 word \<Rightarrow> 'x list \<Rightarrow> 'g \<Rightarrow> ((lsbx_error + 'x list) \<times> 'g) option" where
  "paginate fetch page acc s =
     (case fetch page s of
        (Inl e, s') \<Rightarrow> Some (Inl e, s')
      | (Inr (items, tcount), s') \<Rightarrow>
          (let acc' = acc @ items
           in if tcount \<le> length acc' \<or> items = [] then Some (Inr acc', s')
              else paginate fetch (page + 1) acc' s'))"

declare paginate.simps [code]

definition list_pages :: "('g, 'x) fetch \<Rightarrow> ('g, lsbx_error, 'x list) dcomp" where
  "list_pages fetch = paginate fetch 1 []"

definition show_page :: "32 word \<Rightarrow> string" where
  "show_page p = show_nat (unat p)"

definition octo_page_items ::
  "'g transport \<Rightarrow> (json \<Rightarrow> 'a option) \<Rightarrow> json \<Rightarrow> octo_error + ('a list \<times> nat)" where
  "octo_page_items tr d v =
     bindS (gx_page tr v) (\<lambda>(items, tcount).
     bindS (decode_items d (\<lambda>i. OJson (gx_serde_text tr i)) items) (\<lambda>xs.
     Inr (xs, unwrap_or (length xs) tcount)))"

definition octo_fetch ::
  "'g transport \<Rightarrow> (json \<Rightarrow> 'a option) \<Rightarrow> string \<Rightarrow> (string \<times> string) list \<Rightarrow> ('g, 'a) fetch" where
  "octo_fetch tr d route params page =
     mapErr (map_octocrab_error route)
       (bindE (gx_get tr route (params @ [(''per_page'', ''100''), (''page'', show_page page)])) (\<lambda>v.
        liftE (octo_page_items tr d v)))"

definition cli_items ::
  "(json \<Rightarrow> string) \<Rightarrow> string \<Rightarrow> string \<Rightarrow> (json \<Rightarrow> 'a option) \<Rightarrow> json \<Rightarrow> lsbx_error + ('a list \<times> nat)" where
  "cli_items text what key d v =
     (case Option.bind (json_get v key) as_array of
        None \<Rightarrow> Inl (ContractViolated (''gh api '' @ what @ '' response had no `'' @ key @ ''` array''))
      | Some items \<Rightarrow>
          bindS (decode_items d (\<lambda>i. ContractViolated (''gh api '' @ what
                   @ '' entry had unexpected shape: '' @ text i)) items) (\<lambda>xs.
          Inr (xs, unwrap_or (length items) (Option.bind (json_get v ''total_count'') as_u64))))"

definition cli_fetch ::
  "'g transport \<Rightarrow> string \<Rightarrow> string \<Rightarrow> (json \<Rightarrow> 'a option) \<Rightarrow> string \<Rightarrow> ('g, 'a) fetch" where
  "cli_fetch tr what key d query page =
     bindE (gh_api tr (query @ ''per_page=100&page='' @ show_page page)) (\<lambda>v.
     liftE (cli_items (gx_serde_text tr) what key d v))"

subsection \<open>The client\<close>

definition installation_repositories_route :: string where
  "installation_repositories_route = ''/installation/repositories''"

definition octo_repos_fetch :: "'g transport \<Rightarrow> ('g, string) fetch" where
  "octo_repos_fetch tr page =
     bindE (mapErr (map_octocrab_error installation_repositories_route)
              (bindE (gx_get tr installation_repositories_route
                        [(''per_page'', ''100''), (''page'', show_page page)]) (\<lambda>v.
               liftE (gx_repos tr v)))) (\<lambda>(repos, tcount).
     if tcount < 0
     then failE (ContractViolated (''installation/repositories returned a negative total_count: -''
                   @ show_nat (nat (- tcount))))
     else retE (map (\<lambda>(full, name). unwrap_or name full) repos, nat tcount))"

definition cli_repo_name :: "json \<Rightarrow> string option" where
  "cli_repo_name v = Option.bind (json_get v ''full_name'') dec_str"

definition cli_repos :: "json \<Rightarrow> lsbx_error + (string list \<times> nat)" where
  "cli_repos v =
     (case Option.bind (json_get v ''repositories'') as_array of
        None \<Rightarrow> Inl (ContractViolated ''gh api installation/repositories response had no `repositories` array'')
      | Some repos \<Rightarrow>
          (case Option.bind (json_get v ''total_count'') as_u64 of
             None \<Rightarrow> Inl (ContractViolated ''gh api installation/repositories response had no `total_count`'')
           | Some tcount \<Rightarrow>
               bindS (decode_items cli_repo_name
                        (\<lambda>_. ContractViolated ''gh api installation/repositories entry had no `full_name`'')
                        repos) (\<lambda>names.
               Inr (names, tcount))))"

definition cli_repos_fetch :: "'g transport \<Rightarrow> ('g, string) fetch" where
  "cli_repos_fetch tr page =
     bindE (gh_api tr (installation_repositories_route @ ''?per_page=100&page='' @ show_page page)) (\<lambda>v.
     liftE (cli_repos v))"

definition installation_repositories :: "'g transport \<Rightarrow> backing \<Rightarrow> ('g, lsbx_error, string list) dcomp" where
  "installation_repositories tr bk =
     list_pages (case bk of Installation \<Rightarrow> octo_repos_fetch tr | GhCli \<Rightarrow> cli_repos_fetch tr)"

definition runs_route :: "string \<Rightarrow> string" where
  "runs_route repo = ''/repos/'' @ repo @ ''/actions/runs''"

definition workflow_runs :: "'g transport \<Rightarrow> backing \<Rightarrow> string \<Rightarrow> string \<Rightarrow> ('g, lsbx_error, nat list) dcomp" where
  "workflow_runs tr bk repo status =
     list_pages (case bk of
        Installation \<Rightarrow> octo_fetch tr run_summary_of_json (runs_route repo) [(''status'', status)]
      | GhCli \<Rightarrow> cli_fetch tr ''actions/runs'' ''workflow_runs'' run_summary_of_json
                 (runs_route repo @ ''?status='' @ status @ ''&''))"

definition run_jobs_route :: "string \<Rightarrow> nat \<Rightarrow> string" where
  "run_jobs_route repo run_id = runs_route repo @ ''/'' @ show_nat run_id @ ''/jobs''"

definition run_jobs :: "'g transport \<Rightarrow> backing \<Rightarrow> string \<Rightarrow> nat \<Rightarrow> ('g, lsbx_error, job_summary list) dcomp" where
  "run_jobs tr bk repo run_id =
     list_pages (case bk of
        Installation \<Rightarrow> octo_fetch tr job_summary_of_json (run_jobs_route repo run_id) []
      | GhCli \<Rightarrow> cli_fetch tr ''actions/runs/.../jobs'' ''jobs'' job_summary_of_json
                 (run_jobs_route repo run_id @ ''?''))"

definition job_route :: "string \<Rightarrow> nat \<Rightarrow> string" where
  "job_route repo job_id = ''/repos/'' @ repo @ ''/actions/jobs/'' @ show_nat job_id"

definition job :: "'g transport \<Rightarrow> backing \<Rightarrow> string \<Rightarrow> nat \<Rightarrow> ('g, lsbx_error, job_summary) comp" where
  "job tr bk repo job_id =
     (case bk of
        Installation \<Rightarrow>
          mapErr (map_octocrab_error (job_route repo job_id))
            (bindE (gx_get tr (job_route repo job_id) []) (\<lambda>v.
             liftE (case job_summary_of_json v of
                      None \<Rightarrow> Inl (OJson (gx_serde_text tr v)) | Some j \<Rightarrow> Inr j)))
      | GhCli \<Rightarrow>
          bindE (gh_api tr (job_route repo job_id)) (\<lambda>v.
          liftE (case job_summary_of_json v of
                   None \<Rightarrow> Inl (ContractViolated (''GitHub job response had unexpected shape: '' @ gx_serde_text tr v))
                 | Some j \<Rightarrow> Inr j)))"

definition scan_statuses :: "string list" where
  "scan_statuses = [''queued'', ''in_progress'']"

fun scan_runs :: "'g transport \<Rightarrow> backing \<Rightarrow> string \<Rightarrow> string \<Rightarrow> nat list \<Rightarrow> ('g, lsbx_error, nat option) dcomp" where
  "scan_runs tr bk repo runner [] = retD None"
| "scan_runs tr bk repo runner (run # runs) =
     bindD (run_jobs tr bk repo run) (\<lambda>jobs.
     case find (\<lambda>j. js_runner_name j = Some runner) jobs of
       Some j \<Rightarrow> retD (Some (js_id j))
     | None \<Rightarrow> scan_runs tr bk repo runner runs)"

fun scan_by_status :: "'g transport \<Rightarrow> backing \<Rightarrow> string \<Rightarrow> string \<Rightarrow> string list \<Rightarrow> ('g, lsbx_error, nat option) dcomp" where
  "scan_by_status tr bk repo runner [] = retD None"
| "scan_by_status tr bk repo runner (st # sts) =
     bindD (workflow_runs tr bk repo st) (\<lambda>runs.
     bindD (scan_runs tr bk repo runner runs) (\<lambda>found.
     case found of Some i \<Rightarrow> retD (Some i) | None \<Rightarrow> scan_by_status tr bk repo runner sts))"

definition job_for_runner :: "'g transport \<Rightarrow> backing \<Rightarrow> string \<Rightarrow> string \<Rightarrow> ('g, lsbx_error, nat option) dcomp" where
  "job_for_runner tr bk repo runner = scan_by_status tr bk repo runner scan_statuses"

subsection \<open>The GitHub App's tokens\<close>

text \<open>
  The state of \<open>GitHubAppAuth\<close> with the outside: the cached tokens carry their expiry in seconds
  since the epoch, the clock is \<open>aw_now\<close>. \<open>ax_key_error\<close> is what parsing a private key answers,
  \<open>ax_sign\<close> the signing of the claims, \<open>ax_build\<close> the building of the App's client,
  \<open>ax_debug_str\<close> the quoted text of a string.
\<close>

record 'g auth_state =
  as_jwt :: "(string \<times> nat) option"
  as_token :: "(string \<times> nat) option"
  as_installation_id :: "nat option"
  as_client :: bool
  as_now :: nat
  as_gh :: 'g

record jwt_claims =
  jc_iss :: nat
  jc_iat :: nat
  jc_exp :: nat

record app_config =
  ac_app_id :: nat
  ac_private_key_pem :: string
  ac_installation_id :: "nat option"

record auth_lib =
  ax_key_error :: "string \<Rightarrow> string option"
  ax_sign :: "string \<Rightarrow> jwt_claims \<Rightarrow> string + string"
  ax_build :: "nat \<Rightarrow> string option"
  ax_parse_rfc3339 :: "string \<Rightarrow> string + int"
  ax_debug_str :: "string \<Rightarrow> string"

definition jwt_backdate_secs :: nat where "jwt_backdate_secs = 60"
definition jwt_lifetime_secs :: nat where "jwt_lifetime_secs = 9 * 60"
definition installation_token_refresh_margin_secs :: nat where
  "installation_token_refresh_margin_secs = 300"

definition auth_new :: "app_config \<Rightarrow> nat \<Rightarrow> 'g \<Rightarrow> 'g auth_state" where
  "auth_new cfg now g =
     \<lparr>as_jwt = None, as_token = None, as_installation_id = ac_installation_id cfg, as_client = False,
      as_now = now, as_gh = g\<rparr>"

definition encoding_key :: "auth_lib \<Rightarrow> string \<Rightarrow> lsbx_error + unit" where
  "encoding_key ax pem =
     (case ax_key_error ax pem of
        Some t \<Rightarrow> Inl (AuthFailed (''invalid GitHub App private key (RSA PEM): '' @ t))
      | None \<Rightarrow> Inr ())"

definition app_client :: "auth_lib \<Rightarrow> app_config \<Rightarrow> ('g auth_state, lsbx_error, unit) comp" where
  "app_client ax cfg s =
     (if as_client s then (Inr (), s)
      else case encoding_key ax (ac_private_key_pem cfg) of
        Inl e \<Rightarrow> (Inl e, s)
      | Inr _ \<Rightarrow>
          (case ax_build ax (ac_app_id cfg) of
             Some t \<Rightarrow> (Inl (AuthFailed (''failed to build GitHub App client: '' @ t)), s)
           | None \<Rightarrow> (Inr (), s\<lparr>as_client := True\<rparr>)))"

definition jwt_fresh :: "auth_lib \<Rightarrow> app_config \<Rightarrow> ('g auth_state, lsbx_error, string) comp" where
  "jwt_fresh ax cfg s =
     (let claims = \<lparr>jc_iss = ac_app_id cfg, jc_iat = as_now s - jwt_backdate_secs,
                    jc_exp = as_now s + jwt_lifetime_secs\<rparr>
      in case encoding_key ax (ac_private_key_pem cfg) of
           Inl e \<Rightarrow> (Inl e, s)
         | Inr _ \<Rightarrow>
             (case ax_sign ax (ac_private_key_pem cfg) claims of
                Inl t \<Rightarrow> (Inl (AuthFailed (''failed to sign GitHub App JWT: '' @ t)), s)
              | Inr t \<Rightarrow> (Inr t, s\<lparr>as_jwt := Some (t, jc_exp claims)\<rparr>)))"

definition jwt :: "auth_lib \<Rightarrow> app_config \<Rightarrow> ('g auth_state, lsbx_error, string) comp" where
  "jwt ax cfg s =
     (case as_jwt s of
        Some (t, expires) \<Rightarrow> if as_now s < expires then (Inr t, s) else jwt_fresh ax cfg s
      | None \<Rightarrow> jwt_fresh ax cfg s)"

definition on_gh :: "('g, octo_error, 'a) comp \<Rightarrow> ('g auth_state, octo_error, 'a) comp" where
  "on_gh m s = (case m (as_gh s) of (r, g) \<Rightarrow> (r, s\<lparr>as_gh := g\<rparr>))"

definition org_route :: "string \<Rightarrow> string" where
  "org_route owner = ''/orgs/'' @ owner @ ''/installation''"

definition resolve_installation_id ::
  "'g transport \<Rightarrow> auth_lib \<Rightarrow> app_config \<Rightarrow> string \<Rightarrow> ('g auth_state, lsbx_error, nat) comp" where
  "resolve_installation_id tr ax cfg owner s =
     (case as_installation_id s of
        Some i \<Rightarrow> (Inr i, s)
      | None \<Rightarrow>
          bindE (app_client ax cfg) (\<lambda>_.
          bindE (mapErr (map_octocrab_error (org_route owner))
                   (bindE (on_gh (gx_get tr (org_route owner) [])) (\<lambda>v. liftE (gx_installation tr v)))) (\<lambda>i s.
          (Inr i, s\<lparr>as_installation_id := Some i\<rparr>))) s)"

definition token_expiry :: "auth_lib \<Rightarrow> string option \<Rightarrow> lsbx_error + nat" where
  "token_expiry ax expires_at =
     (case expires_at of
        None \<Rightarrow> Inl (ContractViolated ''installation token response had no expires_at'')
      | Some raw \<Rightarrow>
          (case ax_parse_rfc3339 ax raw of
             Inl t \<Rightarrow> Inl (ContractViolated (''installation token response had an unparsable expires_at (''
               @ ax_debug_str ax raw @ ''): '' @ t))
           | Inr stamp \<Rightarrow> Inr (nat (max stamp 0))))"

definition access_tokens_route :: "nat \<Rightarrow> string" where
  "access_tokens_route i = ''/app/installations/'' @ show_nat i @ ''/access_tokens''"

definition fresh_token ::
  "'g transport \<Rightarrow> auth_lib \<Rightarrow> app_config \<Rightarrow> string \<Rightarrow> ('g auth_state, lsbx_error, string) comp" where
  "fresh_token tr ax cfg owner =
     bindE (resolve_installation_id tr ax cfg owner) (\<lambda>i.
     bindE (jwt ax cfg) (\<lambda>_.
     bindE (app_client ax cfg) (\<lambda>_.
     bindE (mapErr (map_octocrab_error (access_tokens_route i))
              (bindE (on_gh (gx_post tr (access_tokens_route i))) (\<lambda>v. liftE (gx_token tr v)))) (\<lambda>(token, expires_at).
     bindE (liftE (token_expiry ax expires_at)) (\<lambda>expiry s.
     (Inr token, s\<lparr>as_token := Some (token, expiry)\<rparr>))))))"

definition installation_token ::
  "'g transport \<Rightarrow> auth_lib \<Rightarrow> app_config \<Rightarrow> string \<Rightarrow> ('g auth_state, lsbx_error, string) comp" where
  "installation_token tr ax cfg owner s =
     (case as_token s of
        Some (t, expires) \<Rightarrow>
          if as_now s + installation_token_refresh_margin_secs < expires then (Inr t, s)
          else fresh_token tr ax cfg owner s
      | None \<Rightarrow> fresh_token tr ax cfg owner s)"

subsection \<open>Listings end and are complete\<close>

lemma paginate_terminates:
  assumes "\<And>p s xs n s'. fetch p s = (Inr (xs, n), s') \<Longrightarrow> n \<le> T"
  shows "paginate fetch p acc s \<noteq> None"
proof (induction "T - length acc" arbitrary: p acc s rule: less_induct)
  case less
  show ?case
  proof (cases "fetch p s")
    case (Pair r s')
    show ?thesis
    proof (cases r)
      case (Inl e)
      then show ?thesis by (subst paginate.simps) (simp add: Pair)
    next
      case (Inr q)
      obtain xs n where q: "q = (xs, n)" by (cases q)
      show ?thesis
      proof (cases "n \<le> length (acc @ xs) \<or> xs = []")
        case True
        then show ?thesis by (subst paginate.simps) (auto simp: Pair Inr q Let_def)
      next
        case False
        then have "T - length (acc @ xs) < T - length acc"
          using assms [of p s xs n s'] Pair Inr q by (cases xs) auto
        then have "paginate fetch (p + 1) (acc @ xs) s' \<noteq> None" by (rule less)
        then show ?thesis using False by (subst paginate.simps) (simp add: Pair Inr q Let_def)
      qed
    qed
  qed
qed

lemma list_pages_terminates:
  assumes "\<And>p s xs n s'. fetch p s = (Inr (xs, n), s') \<Longrightarrow> n \<le> T"
  shows "list_pages fetch s \<noteq> None"
  unfolding list_pages_def by (rule paginate_terminates [OF assms])

text \<open>A server that holds a list and answers with its pages of a hundred: the listing is the list.\<close>

definition page_of :: "'x list \<Rightarrow> 32 word \<Rightarrow> 'x list" where
  "page_of xs p = take 100 (drop ((unat p - 1) * 100) xs)"

lemma paginate_complete_from:
  assumes f: "\<And>p s. fetch p s = (Inr (page_of xs p, length xs), h p s)"
    and "length xs < 100 * (2 ^ 32 - 1)"
  shows "unat p = Suc k \<Longrightarrow> k * 100 \<le> length xs \<Longrightarrow> acc = take (k * 100) xs \<Longrightarrow>
    \<exists>s'. paginate fetch p acc s = Some (Inr xs, s')"
proof (induction "length xs - length acc" arbitrary: p acc s k rule: less_induct)
  case less
  have acc': "acc @ page_of xs p = take (Suc k * 100) xs"
    using less.prems by (simp add: page_of_def take_add [symmetric] add.commute)
  show ?case
  proof (cases "length xs \<le> Suc k * 100")
    case True
    then have "acc @ page_of xs p = xs" using acc' by simp
    moreover from this have "length xs \<le> length acc + length (page_of xs p)"
      by (metis length_append order_refl)
    ultimately show ?thesis by (subst paginate.simps) (simp add: f Let_def)
  next
    case False
    then have ne: "page_of xs p \<noteq> []" and l: "length (acc @ page_of xs p) = Suc k * 100"
      using less.prems acc' by (simp_all add: page_of_def)
    have "Suc k < 2 ^ 32 - 1" using False assms(2) by simp
    then have p: "unat (p + 1) = Suc (Suc k)"
      using less.prems(1) by (simp add: unat_word_ariths unat_add_lem [symmetric] mod_less)
    have "\<exists>s'. paginate fetch (p + 1) (acc @ page_of xs p) (h p s) = Some (Inr xs, s')"
      using less.prems False l p acc' by (intro less.hyps [where k = "Suc k"]) simp_all
    then show ?thesis using False l ne by (subst paginate.simps) (simp add: f Let_def)
  qed
qed

lemma list_pages_complete:
  assumes "\<And>p s. fetch p s = (Inr (page_of xs p, length xs), h p s)" and "length xs < 100 * (2 ^ 32 - 1)"
  shows "\<exists>s'. list_pages fetch s = Some (Inr xs, s')"
  unfolding list_pages_def by (rule paginate_complete_from [OF assms, of 1 0]) simp_all

subsection \<open>Errors\<close>

lemma map_github_http_error_auth:
  "(\<exists>t. map_github_http_error c st m r = AuthFailed t) \<longleftrightarrow>
     c = 401 \<or> c = 403 \<and> \<not> contains_str rate_limit_phrase (map ascii_lower m)"
  by (simp add: map_github_http_error_def)

lemma map_octocrab_error_cases:
  "(\<exists>t. map_octocrab_error r e = AuthFailed t) \<or> (\<exists>t. map_octocrab_error r e = BackendUnavailable t) \<or>
   (\<exists>t. map_octocrab_error r e = ContractViolated t)"
  by (cases e) (simp_all add: map_octocrab_error_def map_github_http_error_def unreachable_error_def shape_error_def)

subsection \<open>The runner of a job\<close>

lemma scan_runs_static:
  assumes "\<And>run. run \<in> set runs \<Longrightarrow> run_jobs tr bk repo run s = Some (Inr (jobs_of run), s)"
  shows "scan_runs tr bk repo runner runs s =
    Some (Inr (map_option js_id (find (\<lambda>j. js_runner_name j = Some runner) (concat (map jobs_of runs)))), s)"
  using assms
proof (induction runs)
  case Nil
  then show ?case by simp
next
  case (Cons run runs)
  have f: "find P (xs @ ys) = (case find P xs of None \<Rightarrow> find P ys | Some x \<Rightarrow> Some x)" for P and xs ys :: "job_summary list"
    by (induction xs) auto
  show ?case using Cons by (auto simp: f split: option.splits)
qed

lemma scan_by_status_static:
  assumes "\<And>st. st \<in> set sts \<Longrightarrow> workflow_runs tr bk repo st s = Some (Inr (runs_of st), s)"
    and "\<And>st run. st \<in> set sts \<Longrightarrow> run \<in> set (runs_of st) \<Longrightarrow>
      run_jobs tr bk repo run s = Some (Inr (jobs_of run), s)"
  shows "scan_by_status tr bk repo runner sts s =
    Some (Inr (map_option js_id (find (\<lambda>j. js_runner_name j = Some runner)
      (concat (map jobs_of (concat (map runs_of sts)))))), s)"
  using assms
proof (induction sts)
  case Nil
  then show ?case by simp
next
  case (Cons st sts)
  have f: "find P (xs @ ys) = (case find P xs of None \<Rightarrow> find P ys | Some x \<Rightarrow> Some x)" for P and xs ys :: "job_summary list"
    by (induction xs) auto
  have "scan_runs tr bk repo runner (runs_of st) s =
      Some (Inr (map_option js_id (find (\<lambda>j. js_runner_name j = Some runner) (concat (map jobs_of (runs_of st))))), s)"
    using Cons.prems(2) [of st] by (intro scan_runs_static) simp
  then show ?case using Cons by (auto simp: f split: option.splits)
qed

subsection \<open>The caches\<close>

lemma jwt_fresh_Inr:
  "jwt_fresh ax cfg s = (Inr t, s') \<longleftrightarrow>
     ax_key_error ax (ac_private_key_pem cfg) = None \<and>
     ax_sign ax (ac_private_key_pem cfg)
       \<lparr>jc_iss = ac_app_id cfg, jc_iat = as_now s - jwt_backdate_secs, jc_exp = as_now s + jwt_lifetime_secs\<rparr> = Inr t \<and>
     s' = s\<lparr>as_jwt := Some (t, as_now s + jwt_lifetime_secs)\<rparr>"
  by (auto simp: jwt_fresh_def encoding_key_def Let_def split: option.splits sum.splits)

lemma jwt_valid:
  assumes "jwt ax cfg s = (Inr t, s')"
  shows "\<exists>e. as_jwt s' = Some (t, e) \<and> as_now s' = as_now s \<and> as_now s < e"
  using assms
  by (auto simp: jwt_def jwt_fresh_Inr jwt_lifetime_secs_def split: option.splits prod.splits if_splits)

lemma jwt_reused:
  assumes "jwt ax cfg s = (Inr t, s')" and "as_jwt s' = Some (t, e)" and "n < e"
  shows "jwt ax cfg (s'\<lparr>as_now := n\<rparr>) = (Inr t, s'\<lparr>as_now := n\<rparr>)"
  using assms(2,3) by (simp add: jwt_def)

lemma jwt_fresh_frame:
  "as_token (snd (jwt_fresh ax cfg s)) = as_token s \<and> as_gh (snd (jwt_fresh ax cfg s)) = as_gh s \<and>
   as_now (snd (jwt_fresh ax cfg s)) = as_now s"
  by (auto simp: jwt_fresh_def Let_def split: sum.splits)

lemma jwt_frame:
  "as_token (snd (jwt ax cfg s)) = as_token s \<and> as_now (snd (jwt ax cfg s)) = as_now s"
  using jwt_fresh_frame [of ax cfg s] by (auto simp: jwt_def split: option.splits)

lemma app_client_frame:
  "as_token (snd (app_client ax cfg s)) = as_token s \<and> as_now (snd (app_client ax cfg s)) = as_now s"
  by (auto simp: app_client_def split: sum.splits option.splits)

lemma on_gh_frame: "as_token (snd (on_gh m s)) = as_token s \<and> as_now (snd (on_gh m s)) = as_now s"
  by (simp add: on_gh_def split: prod.splits)

lemma resolve_frame:
  "as_token (snd (resolve_installation_id tr ax cfg owner s)) = as_token s \<and>
   as_now (snd (resolve_installation_id tr ax cfg owner s)) = as_now s"
proof (cases "as_installation_id s")
  case None
  have "as_token (snd (resolve_installation_id tr ax cfg owner s)) = as_token s \<and>
    as_now (snd (resolve_installation_id tr ax cfg owner s)) = as_now s"
    unfolding resolve_installation_id_def
    by (simp only: None option.case,
        (rule bindE_keep [where P = "\<lambda>v. as_token v = as_token s \<and> as_now v = as_now s"]
         | simp add: app_client_frame on_gh_frame)+)
  then show ?thesis .
qed (simp add: resolve_installation_id_def)


lemma fresh_token_Inl:
  assumes "fresh_token tr ax cfg owner s = (Inl e, s')"
  shows "as_token s' = as_token s"
proof -
  have m: "mapErr h (bindE (on_gh m) (\<lambda>v. liftE (d v))) v = (x, v') \<Longrightarrow> as_token v' = as_token v" for h m d v x v'
    using bindE_keep [where P = "\<lambda>u. as_token u = as_token v" and m = "on_gh m" and k = "\<lambda>v. liftE (d v)" and s = v]
      snd_mapErr [of h "bindE (on_gh m) (\<lambda>v. liftE (d v))" v]
    by (simp add: on_gh_frame)
  have r: "resolve_installation_id tr ax cfg owner v = (x, v') \<Longrightarrow> as_token v' = as_token v" for v x v'
    using resolve_frame [of tr ax cfg owner v] by simp
  have j: "jwt ax cfg v = (x, v') \<Longrightarrow> as_token v' = as_token v" for v x v'
    using jwt_frame [of ax cfg v] by simp
  have a: "app_client ax cfg v = (x, v') \<Longrightarrow> as_token v' = as_token v" for v x v'
    using app_client_frame [of ax cfg v] by simp
  from assms consider "resolve_installation_id tr ax cfg owner s = (Inl e, s')"
    | i s1 where "resolve_installation_id tr ax cfg owner s = (Inr i, s1)" "jwt ax cfg s1 = (Inl e, s')"
    | i s1 t s2 where "resolve_installation_id tr ax cfg owner s = (Inr i, s1)" "jwt ax cfg s1 = (Inr t, s2)"
        "app_client ax cfg s2 = (Inl e, s')"
    | i s1 t s2 u s3 s4 where "resolve_installation_id tr ax cfg owner s = (Inr i, s1)" "jwt ax cfg s1 = (Inr t, s2)"
        "app_client ax cfg s2 = (Inr u, s3)"
        "mapErr (map_octocrab_error (access_tokens_route i))
              (bindE (on_gh (gx_post tr (access_tokens_route i))) (\<lambda>v. liftE (gx_token tr v))) s3 = (Inl e, s')"
    | i s1 t s2 u s3 x s4 where "resolve_installation_id tr ax cfg owner s = (Inr i, s1)" "jwt ax cfg s1 = (Inr t, s2)"
        "app_client ax cfg s2 = (Inr u, s3)"
        "mapErr (map_octocrab_error (access_tokens_route i))
              (bindE (on_gh (gx_post tr (access_tokens_route i))) (\<lambda>v. liftE (gx_token tr v))) s3 = (Inr x, s')"
    unfolding fresh_token_def bindE_Inl_iff by (auto simp: bindE_Inl_iff simp del: snd_mapErr mapErr_Inr_iff)
  then show ?thesis
    by cases (auto dest!: r j a m simp del: mapErr_Inr_iff)
qed

lemma fresh_token_Inr:
  assumes "fresh_token tr ax cfg owner s = (Inr t, s')"
  shows "\<exists>e. as_token s' = Some (t, e)"
  using assms by (auto simp: fresh_token_def bindE_Inr_iff)

lemma installation_token_cached:
  assumes "as_token s = Some (t, e)" and "as_now s + installation_token_refresh_margin_secs < e"
  shows "installation_token tr ax cfg owner s = (Inr t, s)"
  using assms by (simp add: installation_token_def)

lemma installation_token_Inr:
  assumes "installation_token tr ax cfg owner s = (Inr t, s')"
  shows "\<exists>e. as_token s' = Some (t, e)"
  using assms fresh_token_Inr by (auto simp: installation_token_def split: option.splits prod.splits if_splits)

lemma installation_token_Inl:
  assumes "installation_token tr ax cfg owner s = (Inl e, s')"
  shows "as_token s' = as_token s"
  using assms by (auto simp: installation_token_def dest: fresh_token_Inl split: option.splits prod.splits if_splits)

end
