(* ===== verification/Lsbx_Poll.thy ===== *)
theory Lsbx_Poll
  imports Lsbx_Github
begin

text \<open>
  Which queued jobs the broker claims (\<open>labels.rs\<close>), how it finds them (\<open>poll.rs\<close>) and the marks
  it reads in a runner's log (\<open>job_record.rs\<close>). Times and durations are in nanoseconds, times
  since the epoch. The environment is a map from variables to values. The regular expressions are
  matched the way the crate \<open>regex\<close> does: leftmost, then greedily.
\<close>

subsection \<open>Configuration\<close>

definition as_secs :: "nat \<Rightarrow> nat" where
  "as_secs d = d div 1000000000"

type_synonym env = "string \<Rightarrow> string option"

definition fallback_queue_label :: string where
  "fallback_queue_label = ''lsbx-default''"

record poll_config =
  pc_poll_interval :: nat
  pc_repo_refresh_interval :: nat
  pc_fallback_delay :: nat
  pc_queue_labels :: "string list"
  pc_repos :: "string list option"

definition poll_config_default :: poll_config where
  "poll_config_default =
     \<lparr>pc_poll_interval = secs 15, pc_repo_refresh_interval = secs 300, pc_fallback_delay = secs 60,
      pc_queue_labels = [fallback_queue_label], pc_repos = None\<rparr>"

definition parse_repo_csv :: "string \<Rightarrow> string list" where
  "parse_repo_csv raw = filter (\<lambda>s. s \<noteq> []) (map trim (split_on (CHR '','') raw))"

definition repos_from_env :: "env \<Rightarrow> string list option" where
  "repos_from_env ev =
     (case map_option parse_repo_csv (ev ''LSBX_CI_REPOS'') of
        Some (r # rs) \<Rightarrow> Some (r # rs)
      | _ \<Rightarrow>
          (case (ev ''GITHUB_OWNER'', ev ''GITHUB_REPO'') of
             (Some ow, Some r) \<Rightarrow> if ow \<noteq> [] \<and> r \<noteq> [] then Some [ow @ ''/'' @ r] else None
           | _ \<Rightarrow> None))"

definition duration_from_env_secs :: "env \<Rightarrow> string \<Rightarrow> nat option" where
  "duration_from_env_secs ev var = map_option secs (Option.bind (ev var) (\<lambda>s. parse_u64 (trim s)))"

definition from_queue_label_and_env :: "string \<Rightarrow> env \<Rightarrow> poll_config" where
  "from_queue_label_and_env queue_label ev =
     (let labels = parse_repo_csv queue_label
      in \<lparr>pc_poll_interval = unwrap_or (pc_poll_interval poll_config_default)
                               (duration_from_env_secs ev ''LSBX_CI_POLL_INTERVAL''),
          pc_repo_refresh_interval = pc_repo_refresh_interval poll_config_default,
          pc_fallback_delay = unwrap_or (pc_fallback_delay poll_config_default)
                               (duration_from_env_secs ev ''LSBX_CI_FALLBACK_DELAY''),
          pc_queue_labels = (if labels = [] then pc_queue_labels poll_config_default else labels),
          pc_repos = repos_from_env ev\<rparr>)"

subsection \<open>Eligibility\<close>

record queued_job =
  qj_job_id :: nat
  qj_run_id :: nat
  qj_repository :: string
  qj_labels :: "string list"
  qj_name :: "string option"
  qj_created_at :: "string option"

definition queued_age_seconds :: "lib \<Rightarrow> queued_job \<Rightarrow> nat \<Rightarrow> nat option" where
  "queued_age_seconds lb j now =
     Option.bind (qj_created_at j) (\<lambda>s.
     Option.bind (lb_parse_rfc3339 lb s) (\<lambda>t.
     if t \<le> int now then Some (as_secs (nat (int now - t))) else None))"

fun label_matches :: "string list \<Rightarrow> string list \<Rightarrow> bool \<times> bool \<Rightarrow> bool \<times> bool" where
  "label_matches queue [] m = m"
| "label_matches queue (l # ls) (dedicated, fallback) =
     label_matches queue ls
       (if l \<in> set queue
        then if l = fallback_queue_label then (dedicated, True) else (True, fallback)
        else (dedicated, fallback))"

definition is_eligible :: "lib \<Rightarrow> queued_job \<Rightarrow> poll_config \<Rightarrow> nat \<Rightarrow> bool" where
  "is_eligible lb j cfg now =
     (case label_matches (pc_queue_labels cfg) (qj_labels j) (False, False) of
        (dedicated, fallback) \<Rightarrow>
          if dedicated then True
          else if fallback then
            (case queued_age_seconds lb j now of
               Some age \<Rightarrow> as_secs (pc_fallback_delay cfg) \<le> age
             | None \<Rightarrow> False)
          else False)"

subsection \<open>The queue\<close>

definition run_statuses :: "string list" where
  "run_statuses = [''queued'', ''in_progress'']"

definition to_queued_job :: "string \<Rightarrow> job_summary \<Rightarrow> queued_job" where
  "to_queued_job repo j =
     \<lparr>qj_job_id = js_id j, qj_run_id = js_run_id j, qj_repository = repo, qj_labels = js_labels j,
      qj_name = js_name j, qj_created_at = js_created_at j\<rparr>"

definition wanted_job :: "string \<Rightarrow> job_summary \<Rightarrow> bool" where
  "wanted_job label j \<longleftrightarrow> js_status j = ''queued'' \<and> label \<in> set (js_labels j)"

fun queued_in_runs ::
  "'g transport \<Rightarrow> backing \<Rightarrow> string \<Rightarrow> string \<Rightarrow> nat list \<Rightarrow> ('g, lsbx_error, queued_job list) dcomp" where
  "queued_in_runs tr bk label repo [] = retD []"
| "queued_in_runs tr bk label repo (run # runs) =
     bindD (run_jobs tr bk repo run) (\<lambda>jobs.
     bindD (queued_in_runs tr bk label repo runs) (\<lambda>rest.
     retD (map (to_queued_job repo) (filter (wanted_job label) jobs) @ rest)))"

fun queued_by_status ::
  "'g transport \<Rightarrow> backing \<Rightarrow> string \<Rightarrow> string \<Rightarrow> string list \<Rightarrow> ('g, lsbx_error, queued_job list) dcomp" where
  "queued_by_status tr bk label repo [] = retD []"
| "queued_by_status tr bk label repo (st # sts) =
     bindD (workflow_runs tr bk repo st) (\<lambda>runs.
     bindD (queued_in_runs tr bk label repo runs) (\<lambda>jobs.
     bindD (queued_by_status tr bk label repo sts) (\<lambda>rest. retD (jobs @ rest))))"

definition queued_jobs ::
  "'g transport \<Rightarrow> backing \<Rightarrow> string \<Rightarrow> string \<Rightarrow> ('g, lsbx_error, queued_job list) dcomp" where
  "queued_jobs tr bk label repo = queued_by_status tr bk label repo run_statuses"

subsection \<open>The poller\<close>

record poller =
  po_config :: poll_config
  po_repos :: "string list"
  po_last_repo_refresh :: "nat option"

definition poller_new :: "poll_config \<Rightarrow> poller" where
  "poller_new cfg = \<lparr>po_config = cfg, po_repos = unwrap_or [] (pc_repos cfg), po_last_repo_refresh = None\<rparr>"

definition repo_refresh_due :: "nat option \<Rightarrow> nat \<Rightarrow> nat \<Rightarrow> bool" where
  "repo_refresh_due last_refresh interval now =
     (case last_refresh of
        None \<Rightarrow> True
      | Some l \<Rightarrow> if l \<le> now then interval \<le> now - l else False)"

definition should_refresh_repos :: "poller \<Rightarrow> nat \<Rightarrow> bool" where
  "should_refresh_repos p now =
     repo_refresh_due (po_last_repo_refresh p) (pc_repo_refresh_interval (po_config p)) now"

fun tick_labels ::
  "'g transport \<Rightarrow> backing \<Rightarrow> lib \<Rightarrow> poll_config \<Rightarrow> nat \<Rightarrow> string \<Rightarrow> string list \<Rightarrow>
   ('g, lsbx_error, queued_job list) dcomp" where
  "tick_labels tr bk lb cfg now repo [] = retD []"
| "tick_labels tr bk lb cfg now repo (l # ls) =
     bindD (queued_jobs tr bk l repo) (\<lambda>jobs.
     bindD (tick_labels tr bk lb cfg now repo ls) (\<lambda>rest.
     retD (filter (\<lambda>j. is_eligible lb j cfg now) jobs @ rest)))"

fun tick_repos ::
  "'g transport \<Rightarrow> backing \<Rightarrow> lib \<Rightarrow> poll_config \<Rightarrow> nat \<Rightarrow> string list \<Rightarrow>
   ('g, lsbx_error, queued_job list) dcomp" where
  "tick_repos tr bk lb cfg now [] = retD []"
| "tick_repos tr bk lb cfg now (r # rs) =
     bindD (tick_labels tr bk lb cfg now r (pc_queue_labels cfg)) (\<lambda>jobs.
     bindD (tick_repos tr bk lb cfg now rs) (\<lambda>rest. retD (jobs @ rest)))"

definition on_remote :: "('g, lsbx_error, 'a) dcomp \<Rightarrow> (poller \<times> 'g, lsbx_error, 'a) dcomp" where
  "on_remote m s = map_option (\<lambda>(r, g). (r, (fst s, g))) (m (snd s))"

definition refresh_repos :: "'g transport \<Rightarrow> backing \<Rightarrow> nat \<Rightarrow> (poller \<times> 'g, lsbx_error, unit) dcomp" where
  "refresh_repos tr bk now s =
     (if pc_repos (po_config (fst s)) = None \<and> should_refresh_repos (fst s) now
      then bindD (on_remote (installation_repositories tr bk)) (\<lambda>repos (p, g).
             Some (Inr (), (p\<lparr>po_repos := repos, po_last_repo_refresh := Some now\<rparr>, g))) s
      else Some (Inr (), s))"

definition tick :: "'g transport \<Rightarrow> backing \<Rightarrow> lib \<Rightarrow> nat \<Rightarrow> (poller \<times> 'g, lsbx_error, queued_job list) dcomp" where
  "tick tr bk lb now =
     bindD (refresh_repos tr bk now) (\<lambda>_ s.
     on_remote (tick_repos tr bk lb (po_config (fst s)) now (po_repos (fst s))) s)"

subsection \<open>Marks in a runner's log\<close>

fun find_match :: "(string \<Rightarrow> 'a option) \<Rightarrow> string \<Rightarrow> 'a option" where
  "find_match m [] = m []"
| "find_match m (c # s) = (case m (c # s) of Some r \<Rightarrow> Some r | None \<Rightarrow> find_match m s)"

definition match_word :: "string \<Rightarrow> string option" where
  "match_word s = (let w = takeWhile (\<lambda>c. \<not> is_space c) s in if w = [] then None else Some w)"

definition match_line :: "string \<Rightarrow> string option" where
  "match_line s = (let w = takeWhile (\<lambda>c. c \<noteq> CHR 0x0A) s in if w = [] then None else Some w)"

definition match_after :: "string \<Rightarrow> (string \<Rightarrow> 'a option) \<Rightarrow> string \<Rightarrow> 'a option" where
  "match_after p m s = Option.bind (strip_prefix p s) m"

text \<open>\<open>(.*)\<close> followed by \<open>k\<close>: the longest run of characters first.\<close>

fun match_greedy :: "(string \<Rightarrow> 'a option) \<Rightarrow> string \<Rightarrow> (string \<times> 'a) option" where
  "match_greedy k [] = map_option (Pair []) (k [])"
| "match_greedy k (c # s) =
     (case (if c = CHR 0x0A then None else match_greedy k s) of
        Some (a, r) \<Rightarrow> Some (c # a, r)
      | None \<Rightarrow> map_option (Pair []) (k (c # s)))"

definition match_greedy1 :: "(string \<Rightarrow> 'a option) \<Rightarrow> string \<Rightarrow> (string \<times> 'a) option" where
  "match_greedy1 k s =
     (case s of
        [] \<Rightarrow> None
      | c # s' \<Rightarrow> if c = CHR 0x0A then None else map_option (\<lambda>(a, r). (c # a, r)) (match_greedy k s'))"

definition registered_mark :: string where "registered_mark = ''Runner registered: ''"
definition listening_mark :: string where "listening_mark = ''Listening for Jobs''"
definition running_mark :: string where "running_mark = ''Running job: ''"
definition job_mark :: string where "job_mark = ''Job ''"
definition completed_mark :: string where "completed_mark = '' completed with result: ''"

definition parse_runner_registered :: "string \<Rightarrow> string option" where
  "parse_runner_registered = find_match (match_after registered_mark match_word)"

definition is_listening_for_jobs :: "string \<Rightarrow> bool" where
  "is_listening_for_jobs line = contains_str listening_mark line"

definition is_running_job :: "string \<Rightarrow> bool" where
  "is_running_job line = contains_str running_mark line"

definition parse_running_job :: "string \<Rightarrow> string option" where
  "parse_running_job line = map_option trim (find_match (match_after running_mark match_line) line)"

definition is_exited :: "string \<Rightarrow> bool" where
  "is_exited line \<longleftrightarrow> contains_str ''Exiting runner...'' line \<or>
     contains_str ''Runner listener exit with'' line \<or> contains_str ''Runner listener exit'' line"

definition parse_job_completed :: "string \<Rightarrow> (string \<times> string) option" where
  "parse_job_completed =
     find_match (match_after job_mark (match_greedy1 (match_after completed_mark match_word)))"

subsection \<open>What is eligible\<close>

lemma label_matches_eq:
  "label_matches q ls (d, f) =
     (d \<or> (\<exists>l\<in>set ls. l \<in> set q \<and> l \<noteq> fallback_queue_label),
      f \<or> (fallback_queue_label \<in> set ls \<and> fallback_queue_label \<in> set q))"
  by (induction q ls "(d, f)" arbitrary: d f rule: label_matches.induct) auto

lemma is_eligible_iff:
  "is_eligible lb j cfg now \<longleftrightarrow>
     (\<exists>l\<in>set (qj_labels j). l \<in> set (pc_queue_labels cfg) \<and> l \<noteq> fallback_queue_label) \<or>
     fallback_queue_label \<in> set (qj_labels j) \<and> fallback_queue_label \<in> set (pc_queue_labels cfg) \<and>
     (\<exists>age. queued_age_seconds lb j now = Some age \<and> as_secs (pc_fallback_delay cfg) \<le> age)"
  by (auto simp: is_eligible_def label_matches_eq split: option.splits)

lemma queued_age_mono:
  assumes "queued_age_seconds lb j now = Some a" and "now \<le> later"
  shows "\<exists>b. queued_age_seconds lb j later = Some b \<and> a \<le> b"
proof -
  from assms(1) obtain s t where t: "qj_created_at j = Some s" "lb_parse_rfc3339 lb s = Some t"
    "t \<le> int now" "a = as_secs (nat (int now - t))"
    by (auto simp: queued_age_seconds_def bind_eq_Some_conv split: if_splits)
  then have "queued_age_seconds lb j later = Some (as_secs (nat (int later - t)))"
    using assms(2) by (simp add: queued_age_seconds_def)
  moreover have "a \<le> as_secs (nat (int later - t))"
    unfolding t(4) as_secs_def using assms(2) by (intro div_le_mono) simp
  ultimately show ?thesis by blast
qed

lemma is_eligible_mono:
  assumes "is_eligible lb j cfg now" and "now \<le> later"
  shows "is_eligible lb j cfg later"
  using assms(1) queued_age_mono [OF _ assms(2), of lb j] le_trans unfolding is_eligible_iff by blast

subsection \<open>What a tick claims\<close>

text \<open>A remote that answers the same to every request of the tick.\<close>

lemma queued_in_runs_static:
  assumes "\<And>run. run \<in> set runs \<Longrightarrow> run_jobs tr bk repo run s = Some (Inr (jobs_of run), s)"
  shows "queued_in_runs tr bk label repo runs s =
    Some (Inr (map (to_queued_job repo) (filter (wanted_job label) (concat (map jobs_of runs)))), s)"
  using assms by (induction runs) simp_all

lemma queued_by_status_static:
  assumes "\<And>st. st \<in> set sts \<Longrightarrow> workflow_runs tr bk repo st s = Some (Inr (runs_of st), s)"
    and "\<And>st run. st \<in> set sts \<Longrightarrow> run \<in> set (runs_of st) \<Longrightarrow>
      run_jobs tr bk repo run s = Some (Inr (jobs_of run), s)"
  shows "queued_by_status tr bk label repo sts s =
    Some (Inr (map (to_queued_job repo) (filter (wanted_job label)
      (concat (map jobs_of (concat (map runs_of sts)))))), s)"
  using assms
proof (induction sts)
  case Nil
  then show ?case by simp
next
  case (Cons st sts)
  have "queued_in_runs tr bk label repo (runs_of st) s =
      Some (Inr (map (to_queued_job repo) (filter (wanted_job label) (concat (map jobs_of (runs_of st))))), s)"
    using Cons.prems(2) [of st] by (intro queued_in_runs_static) simp
  moreover have "queued_by_status tr bk label repo sts s =
      Some (Inr (map (to_queued_job repo) (filter (wanted_job label)
        (concat (map jobs_of (concat (map runs_of sts)))))), s)"
    using Cons.prems(1) Cons.prems(2) by (intro Cons.IH) (meson list.set_intros(2))+
  ultimately show ?case using Cons.prems(1) [of st] by simp
qed

lemma queued_in_runs_sound:
  "queued_in_runs tr bk label repo runs s = Some (Inr js, s') \<Longrightarrow> q \<in> set js \<Longrightarrow>
   qj_repository q = repo \<and> label \<in> set (qj_labels q)"
  by (induction runs arbitrary: js s) (auto simp: bindD_Inr_iff wanted_job_def to_queued_job_def)

lemma queued_by_status_sound:
  "queued_by_status tr bk label repo sts s = Some (Inr js, s') \<Longrightarrow> q \<in> set js \<Longrightarrow>
   qj_repository q = repo \<and> label \<in> set (qj_labels q)"
  by (induction sts arbitrary: js s) (auto simp: bindD_Inr_iff dest: queued_in_runs_sound)

lemma tick_labels_sound:
  "tick_labels tr bk lb cfg now repo ls s = Some (Inr js, s') \<Longrightarrow> q \<in> set js \<Longrightarrow>
   qj_repository q = repo \<and> is_eligible lb q cfg now \<and> (\<exists>l\<in>set ls. l \<in> set (qj_labels q))"
proof (induction ls arbitrary: js s)
  case Nil
  then show ?case by simp
next
  case (Cons l ls)
  then obtain a s1 b where st: "queued_by_status tr bk l repo run_statuses s = Some (Inr a, s1)"
    "tick_labels tr bk lb cfg now repo ls s1 = Some (Inr b, s')"
    "js = filter (\<lambda>j. is_eligible lb j cfg now) a @ b"
    by (auto simp: bindD_Inr_iff queued_jobs_def)
  then show ?case using Cons.prems(2) Cons.IH [OF st(2)] queued_by_status_sound [OF st(1)] by auto
qed

lemma tick_repos_sound:
  "tick_repos tr bk lb cfg now rs s = Some (Inr js, s') \<Longrightarrow> q \<in> set js \<Longrightarrow>
   qj_repository q \<in> set rs \<and> is_eligible lb q cfg now \<and>
   (\<exists>l\<in>set (pc_queue_labels cfg). l \<in> set (qj_labels q))"
proof (induction rs arbitrary: js s)
  case Nil
  then show ?case by simp
next
  case (Cons r rs)
  then obtain a s1 b where st: "tick_labels tr bk lb cfg now r (pc_queue_labels cfg) s = Some (Inr a, s1)"
    "tick_repos tr bk lb cfg now rs s1 = Some (Inr b, s')" "js = a @ b"
    by (auto simp: bindD_Inr_iff)
  then show ?case using Cons.prems(2) Cons.IH [OF st(2)] tick_labels_sound [OF st(1)] by auto
qed

lemma refresh_repos_cases:
  assumes "refresh_repos tr bk now (p, g) = Some (r, (p', g'))"
  shows "p' = p \<or> (\<exists>rs. pc_repos (po_config p) = None \<and> should_refresh_repos p now \<and> r = Inr () \<and>
      installation_repositories tr bk g = Some (Inr rs, g') \<and>
      p' = p\<lparr>po_repos := rs, po_last_repo_refresh := Some now\<rparr>)"
  using assms
  by (auto simp: refresh_repos_def bindD_def on_remote_def split: if_splits option.splits sum.splits prod.splits)

lemma tick_cases:
  assumes "tick tr bk lb now (p, g) = Some (r, (p', g'))"
  obtains (stopped) e where "refresh_repos tr bk now (p, g) = Some (Inl e, (p', g'))" "r = Inl e"
  | (polled) g1 where "refresh_repos tr bk now (p, g) = Some (Inr (), (p', g1))"
      "tick_repos tr bk lb (po_config p') now (po_repos p') g1 = Some (r, g')"
  using assms
  by (auto simp: tick_def bindD_def on_remote_def split: option.splits sum.splits)

lemma tick_sound:
  assumes "tick tr bk lb now (p, g) = Some (Inr js, (p', g'))" and "q \<in> set js"
  shows "qj_repository q \<in> set (po_repos p') \<and> is_eligible lb q (po_config p) now \<and>
    (\<exists>l\<in>set (pc_queue_labels (po_config p)). l \<in> set (qj_labels q))"
  using assms(1)
proof (cases rule: tick_cases)
  case (stopped e)
  then show ?thesis by simp
next
  case (polled g1)
  have "po_config p' = po_config p" using refresh_repos_cases [OF polled(1)] by auto
  then show ?thesis using tick_repos_sound [OF polled(2) assms(2)] by simp
qed

lemma tick_refresh:
  assumes "tick tr bk lb now (p, g) = Some (r, (p', g'))"
  shows "p' = p \<or> pc_repos (po_config p) = None \<and> should_refresh_repos p now \<and>
    po_last_repo_refresh p' = Some now \<and> po_config p' = po_config p"
  using assms
proof (cases rule: tick_cases)
  case (stopped e)
  then show ?thesis using refresh_repos_cases by fastforce
next
  case (polled g1)
  then show ?thesis using refresh_repos_cases by fastforce
qed

text \<open>Ticks in a row: the times at which the list of repositories was fetched.\<close>

fun ticks :: "'g transport \<Rightarrow> backing \<Rightarrow> lib \<Rightarrow> nat list \<Rightarrow> poller \<times> 'g \<Rightarrow> (nat list \<times> poller \<times> 'g) option" where
  "ticks tr bk lb [] s = Some ([], s)"
| "ticks tr bk lb (n # ns) s =
     (case tick tr bk lb n s of
        None \<Rightarrow> None
      | Some (_, s') \<Rightarrow>
          map_option (\<lambda>(ts, s''). (if po_last_repo_refresh (fst s') \<noteq> po_last_repo_refresh (fst s)
                                   then n # ts else ts, s''))
            (ticks tr bk lb ns s'))"

lemma ticks_spaced:
  "ticks tr bk lb ns (p, g) = Some (ts, s') \<Longrightarrow>
   sorted_wrt (\<lambda>a b. a + pc_repo_refresh_interval (po_config p) \<le> b) 
     ((case po_last_repo_refresh p of None \<Rightarrow> [] | Some l \<Rightarrow> [l]) @ ts)"
proof (induction ns arbitrary: p g ts)
  case Nil
  then show ?case by (simp split: option.splits)
next
  case (Cons n ns)
  from Cons.prems obtain r p1 g1 ts1 where t: "tick tr bk lb n (p, g) = Some (r, (p1, g1))"
    "ticks tr bk lb ns (p1, g1) = Some (ts1, s')"
    "ts = (if po_last_repo_refresh p1 \<noteq> po_last_repo_refresh p then n # ts1 else ts1)"
    by (auto split: option.splits prod.splits)
  note ih = Cons.IH [OF t(2)] and rf = tick_refresh [OF t(1)]
  show ?case
  proof (cases "po_last_repo_refresh p1 = po_last_repo_refresh p")
    case True
    then show ?thesis using ih rf t(3) by (auto simp: )
  next
    case False
    then have l: "po_last_repo_refresh p1 = Some n" "po_config p1 = po_config p" "should_refresh_repos p n"
      using rf by auto
    have s: "l + pc_repo_refresh_interval (po_config p) \<le> n" if "po_last_repo_refresh p = Some l" for l
      using l(3) that by (auto simp: should_refresh_repos_def repo_refresh_due_def split: if_splits)
    show ?thesis using ih l t(3) False s by (force split: option.splits)
  qed
qed

subsection \<open>What the marks match\<close>

lemma find_match_Some: "find_match m s = Some r \<Longrightarrow> \<exists>a b. s = a @ b \<and> m b = Some r"
proof (induction m s rule: find_match.induct)
  case (1 m)
  then show ?case by auto
next
  case (2 m c s)
  show ?case
  proof (cases "m (c # s)")
    case None
    with 2 obtain a b where "s = a @ b" "m b = Some r" by auto
    then show ?thesis by (intro exI [of _ "c # a"] exI [of _ b]) simp
  next
    case (Some x)
    with 2 show ?thesis by (intro exI [of _ "[]"] exI [of _ "c # s"]) simp
  qed
qed

lemma find_match_None: "find_match m s = None \<Longrightarrow> m (drop n s) = None"
proof (induction m s arbitrary: n rule: find_match.induct)
  case (1 m)
  then show ?case by simp
next
  case (2 m c s)
  then show ?case by (cases n) (auto split: option.splits)
qed

lemma find_match_iff: "find_match m s = None \<longleftrightarrow> (\<forall>a b. s = a @ b \<longrightarrow> m b = None)"
  using find_match_None [of m s] find_match_Some [of m s]
  by (metis append_eq_conv_conj append_take_drop_id not_None_eq)

definition word :: "string \<Rightarrow> bool" where
  "word w \<longleftrightarrow> w \<noteq> [] \<and> (\<forall>c\<in>set w. \<not> is_space c)"

lemma match_word_Some: "match_word s = Some w \<Longrightarrow> word w \<and> (\<exists>t. s = w @ t)"
  by (auto simp: match_word_def word_def Let_def dest: set_takeWhileD split: if_splits)
    (metis takeWhile_dropWhile_id)

lemma match_word_None: "match_word s = None \<Longrightarrow> \<not> (word w \<and> s = w @ t)"
  by (cases w) (auto simp: match_word_def word_def Let_def split: if_splits)

lemma match_after_Some: "match_after p m s = Some r \<longleftrightarrow> (\<exists>t. s = p @ t \<and> m t = Some r)"
  by (auto simp: match_after_def bind_eq_Some_conv strip_prefix_Some)

lemma match_after_None: "match_after p m s = None \<longleftrightarrow> (\<forall>t. s = p @ t \<longrightarrow> m t = None)"
  using match_after_Some [of p m s] by (metis not_None_eq)

lemma match_greedy_Some:
  "match_greedy k s = Some (a, r) \<Longrightarrow> (\<exists>t. s = a @ t \<and> k t = Some r) \<and> CHR 0x0A \<notin> set a"
proof (induction k s arbitrary: a r rule: match_greedy.induct)
  case (1 k)
  then show ?case by auto
next
  case (2 k c s)
  then show ?case by (auto split: option.splits if_splits)
qed

lemma match_greedy_None:
  "match_greedy k s = None \<Longrightarrow> s = a @ t \<Longrightarrow> CHR 0x0A \<notin> set a \<Longrightarrow> k t = None"
proof (induction k s arbitrary: a rule: match_greedy.induct)
  case (1 k)
  then show ?case by auto
next
  case (2 k c s)
  then show ?case by (cases a) (auto split: option.splits if_splits prod.splits)
qed

lemma match_greedy1_Some:
  "match_greedy1 k s = Some (a, r) \<Longrightarrow> (\<exists>t. s = a @ t \<and> k t = Some r) \<and> CHR 0x0A \<notin> set a \<and> a \<noteq> []"
  by (auto simp: match_greedy1_def dest!: match_greedy_Some split: list.splits if_splits)

lemma match_greedy1_None:
  "match_greedy1 k s = None \<Longrightarrow> s = a @ t \<Longrightarrow> CHR 0x0A \<notin> set a \<Longrightarrow> a \<noteq> [] \<Longrightarrow> k t = None"
  by (cases a) (auto simp: match_greedy1_def dest: match_greedy_None split: list.splits if_splits)

lemma parse_job_completed_Some:
  assumes "parse_job_completed line = Some (n, r)"
  shows "n \<noteq> [] \<and> CHR 0x0A \<notin> set n \<and> word r \<and> (\<exists>a b. line = a @ job_mark @ n @ completed_mark @ r @ b)"
proof -
  obtain a b where "line = a @ b"
    "match_after job_mark (match_greedy1 (match_after completed_mark match_word)) b = Some (n, r)"
    using find_match_Some assms unfolding parse_job_completed_def by metis
  then show ?thesis
    by (auto simp: match_after_Some dest!: match_greedy1_Some match_word_Some) blast
qed

lemma parse_job_completed_None:
  assumes "parse_job_completed line = None" and "line = a @ job_mark @ n @ completed_mark @ r @ b"
    and "n \<noteq> []" and "CHR 0x0A \<notin> set n"
  shows "\<not> word r"
proof -
  have "match_after job_mark (match_greedy1 (match_after completed_mark match_word))
      (job_mark @ n @ completed_mark @ r @ b) = None"
    using assms(1,2) unfolding parse_job_completed_def find_match_iff by blast
  then have "match_greedy1 (match_after completed_mark match_word) (n @ completed_mark @ r @ b) = None"
    unfolding match_after_None by blast
  then have "match_after completed_mark match_word (completed_mark @ r @ b) = None"
    by (rule match_greedy1_None [OF _ refl assms(4,3)])
  then have "match_word (r @ b) = None" unfolding match_after_None by blast
  then show ?thesis using match_word_None by blast
qed

lemma parse_runner_registered_Some:
  assumes "parse_runner_registered line = Some n"
  shows "word n \<and> (\<exists>a b. line = a @ registered_mark @ n @ b)"
proof -
  obtain a b where "line = a @ b" "match_after registered_mark match_word b = Some n"
    using find_match_Some assms unfolding parse_runner_registered_def by metis
  then show ?thesis by (auto simp: match_after_Some dest!: match_word_Some)
qed

end
