(* ===== verification/Lsbx_Shell.thy ===== *)
theory Lsbx_Shell
  imports Lsbx_Prelude
begin

text \<open>
  Shell quoting: the function the program quotes values with (the same in \<open>reconcile.rs\<close> and in the
  exe.dev backend), and how a POSIX shell reads words, inside and outside double quotes.
\<close>

definition shell_quote :: "string \<Rightarrow> string" where
  "shell_quote v =
     [CHR 0x27] @ concat (map (\<lambda>c. if c = CHR 0x27 then [CHR 0x27, CHR 0x5C, CHR 0x27, CHR 0x27] else [c]) v)
       @ [CHR 0x27]"

text \<open>
  How a POSIX shell reads a word: single quotes up to the next one, a backslash before a
  character, any other character that is not blank and not special; it stops at the first other
  character. The result is the word and the rest.
\<close>

definition sh_plain :: "char \<Rightarrow> bool" where
  "sh_plain c \<longleftrightarrow> (of_char c :: nat) \<notin> {9, 10, 32, 34, 36, 38, 39, 40, 41, 59, 60, 62, 92, 96, 124}"

fun sh_word :: "bool \<Rightarrow> string \<Rightarrow> (string \<times> string) option" where
  "sh_word True [] = None"
| "sh_word True (c # s) =
     (if c = CHR 0x27 then sh_word False s else map_option (\<lambda>(w, r). (c # w, r)) (sh_word True s))"
| "sh_word False [] = Some ([], [])"
| "sh_word False (c # s) =
     (if c = CHR 0x27 then sh_word True s
      else if c = CHR 0x5C then
        (case s of [] \<Rightarrow> None | d # s' \<Rightarrow> map_option (\<lambda>(w, r). (d # w, r)) (sh_word False s'))
      else if sh_plain c then map_option (\<lambda>(w, r). (c # w, r)) (sh_word False s)
      else Some ([], c # s))"

lemma sh_word_quoted:
  "sh_word True (concat (map (\<lambda>c. if c = CHR 0x27 then [CHR 0x27, CHR 0x5C, CHR 0x27, CHR 0x27] else [c]) v)
      @ CHR 0x27 # s)
    = map_option (\<lambda>(w, r). (v @ w, r)) (sh_word False s)"
proof (induction v)
  case Nil
  show ?case by (cases "sh_word False s") auto
next
  case (Cons c v)
  then show ?case by (cases "sh_word False s") auto
qed

lemma sh_word_shell_quote:
  assumes "s = [] \<or> \<not> sh_plain (hd s) \<and> hd s \<noteq> CHR 0x27 \<and> hd s \<noteq> CHR 0x5C"
  shows "sh_word False (shell_quote v @ s) = Some (v, s)"
proof -
  have "sh_word False s = Some ([], s)" using assms by (cases s) auto
  then show ?thesis using sh_word_quoted [of v s] by (simp add: shell_quote_def)
qed

subsection \<open>Words of a command line\<close>

text \<open>The next \<open>n\<close> words, when nothing is left after them.\<close>

fun sh_argv :: "nat \<Rightarrow> string \<Rightarrow> string list option" where
  "sh_argv 0 s = (if s = [] then Some [] else None)"
| "sh_argv (Suc n) s =
     (case sh_word False (dropWhile (\<lambda>c. c = CHR '' '') s) of
        None \<Rightarrow> None
      | Some (w, r) \<Rightarrow> map_option (Cons w) (sh_argv n r))"

text \<open>
  How a POSIX shell reads what follows an opening double quote: up to the closing one, a backslash
  taken away only before the four characters it protects. A dollar sign or a backquote starts an
  expansion, whose value the model does not give.
\<close>

definition dq_special :: "char \<Rightarrow> bool" where
  "dq_special c \<longleftrightarrow> c \<in> {CHR 0x22, CHR 0x24, CHR 0x5C, CHR 0x60}"

fun sh_dquoted :: "string \<Rightarrow> (string \<times> string) option" where
  "sh_dquoted [] = None"
| "sh_dquoted (c # s) =
     (if c = CHR 0x22 then Some ([], s)
      else if c = CHR 0x5C then
        (case s of
           [] \<Rightarrow> None
         | d # s' \<Rightarrow> map_option (\<lambda>(w, r). (if dq_special d then (d # w, r) else (c # d # w, r))) (sh_dquoted s'))
      else if dq_special c then None
      else map_option (\<lambda>(w, r). (c # w, r)) (sh_dquoted s))"

fun join_spaces :: "string list \<Rightarrow> string" where
  "join_spaces [] = []"
| "join_spaces [w] = w"
| "join_spaces (w # ws) = w @ '' '' @ join_spaces ws"

lemma shell_quote_hd: "\<exists>t. shell_quote v = CHR 0x27 # t"
  by (simp add: shell_quote_def)

lemma sh_argv_join: "sh_argv (length args) (join_spaces (map shell_quote args)) = Some args"
proof (induction args rule: join_spaces.induct)
  case (2 w)
  have "dropWhile (\<lambda>c. c = CHR '' '') (shell_quote w) = shell_quote w" using shell_quote_hd [of w] by auto
  then show ?case using sh_word_shell_quote [of "[]" w] by simp
next
  case (3 w v vs)
  have d: "dropWhile (\<lambda>c. c = CHR '' '') (shell_quote w @ t) = shell_quote w @ t" for t
    using shell_quote_hd [of w] by auto
  have skip: "sh_argv (Suc n) (CHR '' '' # t) = sh_argv (Suc n) t" for n t by simp
  show ?case using 3 sh_word_shell_quote [of "CHR '' '' # join_spaces (map shell_quote (v # vs))" w]
    by (simp add: d sh_plain_def del: sh_argv.simps(2) add: sh_argv.simps(2) [of "Suc (length vs)" "shell_quote w @ t" for t] skip)
qed simp

lemma sh_dquoted_plain:
  assumes "\<not> dq_special c"
  shows "sh_dquoted (c # s) = map_option (\<lambda>(w, r). (c # w, r)) (sh_dquoted s)"
  using assms by (auto simp: dq_special_def)

lemma sh_dquoted_shell_quote:
  assumes "\<And>c. c \<in> set v \<Longrightarrow> \<not> dq_special c"
  shows "sh_dquoted (shell_quote v @ s) = map_option (\<lambda>(w, r). (shell_quote v @ w, r)) (sh_dquoted s)"
proof -
  let ?esc = "\<lambda>v. concat (map (\<lambda>c. if c = CHR 0x27 then [CHR 0x27, CHR 0x5C, CHR 0x27, CHR 0x27] else [c]) v)"
  have q: "\<not> dq_special (CHR 0x27)" by (simp add: dq_special_def)
  have e: "sh_dquoted (?esc v @ t) = map_option (\<lambda>(w, r). (?esc v @ w, r)) (sh_dquoted t)"
    if "\<And>c. c \<in> set v \<Longrightarrow> \<not> dq_special c" for v t using that
  proof (induction v)
    case Nil
    show ?case by (cases "sh_dquoted t") auto
  next
    case (Cons c v)
    then show ?case
      by (cases "c = CHR 0x27") (auto simp: sh_dquoted_plain q option.map_comp comp_def case_prod_unfold
        simp del: sh_dquoted.simps(2) simp: sh_dquoted.simps(2) [of "CHR 0x5C"])
  qed
  show ?thesis unfolding shell_quote_def append_assoc append_Cons append_Nil
    by (simp add: sh_dquoted_plain q e [OF assms] option.map_comp comp_def case_prod_unfold del: sh_dquoted.simps(2))
qed

end
