(* ===== verification/Lsbx_Runner.thy ===== *)
theory Lsbx_Runner
  imports Lsbx_Ops Lsbx_Poll Lsbx_Shell
begin

text \<open>
  The configuration of CI runners and the files uploaded to them (\<open>reconcile.rs\<close>, the type
  \<open>RunnerConfig\<close> and the free functions below it): the environment and its file, the quoting of
  shell values, and the upload directory. A path is split at its last slash into the directory
  and the name the file system of \<open>Lsbx_Fs\<close> knows.
\<close>

subsection \<open>Files by path\<close>

definition path_pair :: "string \<Rightarrow> manifest_path" where
  "path_pair p = (unwrap_or [] (path_parent p), path_file_name p)"

definition is_file :: "string \<Rightarrow> fs \<Rightarrow> bool" where
  "is_file p s \<longleftrightarrow> fs_get s (fst (path_pair p)) (snd (path_pair p)) \<noteq> None"

definition file_mode :: "manifest_path \<Rightarrow> nat io" where
  "file_mode p = io_op (\<lambda>s.
     (case fs_get s (fst p) (snd p) of None \<Rightarrow> Inl os_missing | Some (_, m) \<Rightarrow> Inr m, s))"

definition set_file_mode :: "manifest_path \<Rightarrow> nat \<Rightarrow> unit io" where
  "set_file_mode p m = io_op (\<lambda>s.
     (case fs_get s (fst p) (snd p) of
        None \<Rightarrow> (Inl os_missing, s)
      | Some (c, _) \<Rightarrow> (Inr (), s\<lparr>fs_files := AList.update p (c, m) (fs_files s)\<rparr>)))"

text \<open>The text of a file; \<open>show_json\<close> is the text of a stored JSON value.\<close>

definition text_of :: "(json \<Rightarrow> string) \<Rightarrow> fcontent \<Rightarrow> string" where
  "text_of show_json c = (case c of FText t \<Rightarrow> t | FJson v \<Rightarrow> show_json v)"

subsection \<open>The environment file\<close>

definition is_quote :: "char \<Rightarrow> bool" where
  "is_quote c \<longleftrightarrow> of_char c \<in> {34, 39 :: nat}"

definition export_word :: string where
  "export_word = ''export ''"

definition env_line :: "string \<Rightarrow> (string \<times> string) option" where
  "env_line raw =
     (let line = trim raw
      in if line = [] \<or> hd line = CHR ''#'' then None
         else map_option (\<lambda>(k, v). (trim k, trim_if is_quote (trim v)))
                (split_once (CHR ''='') (unwrap_or line (strip_prefix export_word line))))"

fun env_lines :: "string list \<Rightarrow> env \<Rightarrow> env" where
  "env_lines [] m = m"
| "env_lines (l # ls) m =
     env_lines ls (case env_line l of None \<Rightarrow> m | Some (k, v) \<Rightarrow> m(k \<mapsto> v))"

definition load_simple_env_file :: "(json \<Rightarrow> string) \<Rightarrow> string \<Rightarrow> env store_op" where
  "load_simple_env_file show_json p =
     bindE (mapErr (\<lambda>e. BackendUnavailable (''failed to read runner env file '' @ quoted p @ '': '' @ io_text e))
              (read_file (fst (path_pair p)) (snd (path_pair p)))) (\<lambda>c.
     retE (env_lines (str_lines (text_of show_json c)) Map.empty))"

subsection \<open>The configuration\<close>

record runner_config =
  rg_app_id :: nat
  rg_app_key_path :: string
  rg_owner :: string
  rg_scope :: string
  rg_labels :: string
  rg_group :: "string option"
  rg_runner_user :: string
  rg_runner_dir :: string
  rg_host_prefix :: string
  rg_provision_script :: string
  rg_runner_wait_timeout :: nat
  rg_job_timeout :: nat

definition or_else :: "'a option \<Rightarrow> 'a option \<Rightarrow> 'a option" where
  "or_else a b = (case a of None \<Rightarrow> b | Some x \<Rightarrow> Some x)"

definition config_value :: "env \<Rightarrow> env \<Rightarrow> string \<Rightarrow> string \<Rightarrow> string option \<Rightarrow> string option" where
  "config_value ev file new_name old_name dflt =
     or_else (ev new_name) (or_else (ev old_name) (or_else (file new_name) (or_else (file old_name) dflt)))"

definition duration_env :: "env \<Rightarrow> string \<Rightarrow> nat \<Rightarrow> nat" where
  "duration_env ev name default_seconds =
     unwrap_or (secs default_seconds) (map_option secs (Option.bind (ev name) parse_u64))"

fun show_oct :: "nat \<Rightarrow> string" where
  "show_oct n = (if n < 8 then [digit_char n] else show_oct (n div 8) @ [digit_char (n mod 8)])"

declare show_oct.simps [simp del]

definition key_file_ok :: "string \<Rightarrow> unit store_op" where
  "key_file_ok p s =
     (if \<not> is_file p s
      then (Inl (AuthFailed (''GitHub App private key does not exist: '' @ p)), s)
      else bindE (mapErr (\<lambda>e. AuthFailed (''cannot stat GitHub App private key: '' @ io_text e))
                    (file_mode (path_pair p))) (\<lambda>m.
           if m mod 512 \<noteq> mode_0600
           then failE (AuthFailed (''GitHub App private key must be mode 0600: '' @ p @ '' (mode ''
                  @ show_oct (m mod 512) @ '')''))
           else retE ()) s)"

definition config_rest :: "env \<Rightarrow> env \<Rightarrow> string \<Rightarrow> string \<Rightarrow> nat \<Rightarrow> string \<Rightarrow> lsbx_error + runner_config" where
  "config_rest ev file backend_name queue_label app_id key_path =
     (let value = config_value ev file; libvirt = (backend_name = ''libvirt'');
          scope = unwrap_or ''org'' (value ''LSBX_CI_RUNNER_SCOPE'' ''GITHUB_SCOPE'' (Some ''org''))
      in case value ''LSBX_GITHUB_APP_OWNER'' ''GITHUB_OWNER'' None of
           None \<Rightarrow> Inl (Usage ''GitHub App owner is not configured'')
         | Some ow \<Rightarrow>
             if scope \<noteq> ''org'' \<and> scope \<noteq> ''repo''
             then Inl (Usage (''runner scope must be '' @ quoted ''org'' @ '' or '' @ quoted ''repo''))
             else Inr
               \<lparr>rg_app_id = app_id, rg_app_key_path = key_path, rg_owner = ow, rg_scope = scope,
                rg_labels = unwrap_or queue_label
                  (value ''LSBX_CI_RUNNER_LABELS'' ''RUNNER_LABELS'' (Some queue_label)),
                rg_group = value ''LSBX_CI_RUNNER_GROUP'' ''RUNNER_GROUP''
                  (Some (if libvirt then ''continuo'' else ''exe'')),
                rg_runner_user = unwrap_or ''exedev'' (value ''LSBX_CI_RUNNER_USER'' ''RUNNER_USER'' (Some ''exedev'')),
                rg_runner_dir = unwrap_or ''/opt/actions-runner''
                  (value ''LSBX_CI_RUNNER_DIR'' ''RUNNER_DIR'' (Some ''/opt/actions-runner'')),
                rg_host_prefix = trim_end_if (\<lambda>c. c = CHR ''-'') (trim_prefixes ''lsbx-''
                  (unwrap_or [] (value ''LSBX_CI_RUNNER_HOST_PREFIX'' ''LUFSS_VM_PREFIX''
                     (Some (if libvirt then ''lsbx-carnyx-'' else ''lsbx-molimo-''))))),
                rg_provision_script = unwrap_or ''scripts/provision-ci-runner.sh''
                  (or_else (ev ''LSBX_CI_PROVISION_SCRIPT'') (ev ''RUNNER_SCRIPT'')),
                rg_runner_wait_timeout = duration_env ev ''LSBX_CI_RUNNER_WAIT'' 240,
                rg_job_timeout = duration_env ev ''LSBX_CI_JOB_TIMEOUT'' 3600\<rparr>)"

definition config_app_id :: "env \<Rightarrow> env \<Rightarrow> lsbx_error + nat" where
  "config_app_id ev file =
     (case config_value ev file ''LSBX_GITHUB_APP_ID'' ''GITHUB_APP_ID'' None of
        None \<Rightarrow> Inl (AuthFailed ''GitHub App id is not configured'')
      | Some v \<Rightarrow>
          (case parse_u64 v of
             None \<Rightarrow> Inl (Usage (''GitHub App id '' @ quoted v @ '' is not a valid u64''))
           | Some n \<Rightarrow> Inr n))"

definition config_key_path :: "env \<Rightarrow> env \<Rightarrow> lsbx_error + string" where
  "config_key_path ev file =
     (case config_value ev file ''LSBX_GITHUB_APP_PRIVATE_KEY_PATH'' ''GITHUB_APP_KEY'' None of
        None \<Rightarrow> Inl (AuthFailed ''GitHub App private key path is not configured'')
      | Some p \<Rightarrow> Inr p)"

definition runner_config_from_env ::
  "(json \<Rightarrow> string) \<Rightarrow> env \<Rightarrow> string \<Rightarrow> string \<Rightarrow> runner_config store_op" where
  "runner_config_from_env show_json ev backend_name queue_label =
     bindE (case or_else (ev ''LSBX_CI_RUNNER_ENV_FILE'') (ev ''RUNNER_ENV_FILE'') of
              None \<Rightarrow> retE Map.empty
            | Some p \<Rightarrow> load_simple_env_file show_json p) (\<lambda>file.
     bindE (liftE (config_app_id ev file)) (\<lambda>app_id.
     bindE (liftE (config_key_path ev file)) (\<lambda>key_path.
     bindE (key_file_ok key_path) (\<lambda>_.
     liftE (config_rest ev file backend_name queue_label app_id key_path)))))"

subsection \<open>The upload\<close>

definition shell_assignment :: "string \<Rightarrow> string \<Rightarrow> string" where
  "shell_assignment key v = key @ ''='' @ shell_quote v @ [CHR 0x0A]"

definition repo_name :: "string \<Rightarrow> string" where
  "repo_name repository = last (split_on (CHR ''/'') repository)"

definition runner_env_entries :: "runner_config \<Rightarrow> string \<Rightarrow> (string \<times> string) list" where
  "runner_env_entries cfg repository =
     [(''GITHUB_APP_ID'', show_nat (rg_app_id cfg)),
      (''GITHUB_APP_KEY'', ''/tmp/lsbx-ci-broker/lsbx-runner-app.pem''),
      (''GITHUB_SCOPE'', rg_scope cfg), (''GITHUB_OWNER'', rg_owner cfg),
      (''GITHUB_REPO'', repo_name repository), (''RUNNER_LABELS'', rg_labels cfg),
      (''RUNNER_USER'', rg_runner_user cfg), (''RUNNER_DIR'', rg_runner_dir cfg)] @
     (case rg_group cfg of None \<Rightarrow> [] | Some g \<Rightarrow> [(''RUNNER_GROUP'', g)])"

definition runner_env_text :: "runner_config \<Rightarrow> string \<Rightarrow> string" where
  "runner_env_text cfg repository =
     concat (map (\<lambda>(k, v). shell_assignment k v) (runner_env_entries cfg repository))"

definition upload_prefix :: string where
  "upload_prefix = ''lsbx-ci-broker-''"

definition copy_file :: "manifest_path \<Rightarrow> manifest_path \<Rightarrow> unit io" where
  "copy_file src dst = bindE (read_file (fst src) (snd src)) (std_fs_write dst)"

text \<open>On an error the temporary directory is dropped, and with it removed.\<close>

definition fill_upload :: "runner_config \<Rightarrow> string \<Rightarrow> string \<Rightarrow> unit store_op" where
  "fill_upload cfg repository dir =
     (let key = path_pair (rg_app_key_path cfg); script = path_pair (rg_provision_script cfg);
          env_path = (dir, ''lsbx-runner.env''); key_path = (dir, ''lsbx-runner-app.pem'');
          script_path = (dir, ''provision-ci-runner.sh'')
      in bindE (mapErr (\<lambda>e. AuthFailed (''failed to read GitHub App private key ''
                  @ quoted (rg_app_key_path cfg) @ '': '' @ io_text e)) (read_file (fst key) (snd key))) (\<lambda>key_bytes.
         bindE (mapErr (cviol ''failed to write runner env'')
                  (std_fs_write env_path (FText (runner_env_text cfg repository)))) (\<lambda>_.
         bindE (mapErr (cviol ''failed to write runner key'') (std_fs_write key_path key_bytes)) (\<lambda>_.
         bindE (mapErr (cviol (''failed to copy runner provision script '' @ quoted (rg_provision_script cfg)))
                  (copy_file script script_path)) (\<lambda>_.
         bindE (mapErr (cviol ''failed to chmod runner env'') (set_file_mode env_path mode_0600)) (\<lambda>_.
         bindE (mapErr (cviol ''failed to chmod runner key'') (set_file_mode key_path mode_0600)) (\<lambda>_.
         mapErr (cviol ''failed to chmod runner script'') (set_file_mode script_path mode_0700))))))))"

definition prepare_runner_upload :: "lib \<Rightarrow> runner_config \<Rightarrow> string \<Rightarrow> string store_op" where
  "prepare_runner_upload lb cfg repository =
     bindE (mapErr (cviol ''failed to create runner upload directory'')
              (temp_dir_in (kl_temp_dir (lb_keys lb)) upload_prefix)) (\<lambda>dir.
     bindE (on_error (fill_upload cfg repository dir) (\<lambda>s. snd (remove_dir_all dir s))) (\<lambda>_.
     retE dir))"

subsection \<open>The configuration\<close>

lemma config_value_env: "ev n = Some v \<Longrightarrow> config_value ev file n m d = Some v"
  by (simp add: config_value_def or_else_def)

lemma config_value_order:
  "config_value ev file n m d = hd ([x. x \<leftarrow> [ev n, ev m, file n, file m], x \<noteq> None] @ [d])"
  by (simp add: config_value_def or_else_def split: option.splits)

lemma key_file_ok_Inr:
  assumes "key_file_ok p s = (Inr u, s')"
  shows "\<exists>c m. fs_get s (fst (path_pair p)) (snd (path_pair p)) = Some (c, m) \<and> m mod 512 = mode_0600"
proof -
  from assms obtain m s1 where "file_mode (path_pair p) s = (Inr m, s1)" "m mod 512 = mode_0600"
    by (auto simp: key_file_ok_def bindE_Inr_iff split: if_splits)
  then show ?thesis
    by (auto simp: file_mode_def io_op_def Let_def fs_get_def split: option.splits)
qed

lemma runner_config_Inr:
  assumes "runner_config_from_env sj ev backend_name ql s = (Inr cfg, s')"
  shows "(rg_scope cfg = ''org'' \<or> rg_scope cfg = ''repo'') \<and>
    (\<exists>s1. fst (key_file_ok (rg_app_key_path cfg) s1) = Inr ())"
proof -
  from assms obtain fv i p s1 s2 where k: "key_file_ok p s1 = (Inr (), s2)"
    and c: "config_rest ev fv backend_name ql i p = Inr cfg"
    by (auto simp: runner_config_from_env_def bindE_Inr_iff)
  from c have "rg_app_key_path cfg = p" "rg_scope cfg = ''org'' \<or> rg_scope cfg = ''repo''"
    by (auto simp: config_rest_def Let_def split: option.splits if_splits)
  with k show ?thesis by (metis fst_conv)
qed

subsection \<open>The upload\<close>

lemma prepare_runner_upload_Inr:
  assumes "prepare_runner_upload lb cfg repo s = (Inr dir, s')"
  shows "\<exists>x. dir = kl_temp_dir (lb_keys lb) @ ''/'' @ upload_prefix @ x"
proof -
  from assms obtain s1 where "temp_dir_in (kl_temp_dir (lb_keys lb)) upload_prefix s = (Inr dir, s1)"
    by (auto simp: prepare_runner_upload_def bindE_Inr_iff)
  then show ?thesis by (rule temp_dir_in_Inr)
qed


lemma set_file_mode_Inr:
  "set_file_mode p m s = (Inr u, s') \<Longrightarrow>
   \<exists>c k. fs_get s (fst p) (snd p) = Some (c, k) \<and>
     (\<forall>d n. fs_get s' d n = (if (d, n) = p then Some (c, m) else fs_get s d n))"
  by (auto simp: set_file_mode_def io_op_def Let_def fs_get_def update_conv' split: option.splits)

definition mode_of :: "fs \<Rightarrow> string \<Rightarrow> string \<Rightarrow> nat option" where
  "mode_of s d n = map_option snd (fs_get s d n)"

text \<open>The uploaded secrets are readable by their owner alone.\<close>

lemma fill_upload_modes:
  assumes "fill_upload cfg repo dir s = (Inr u, s')"
  shows "mode_of s' dir ''lsbx-runner.env'' = Some mode_0600 \<and> mode_of s' dir ''lsbx-runner-app.pem'' = Some mode_0600 \<and>
    mode_of s' dir ''provision-ci-runner.sh'' = Some mode_0700"
proof -
  from assms obtain s1 s2 s3 where
    a: "set_file_mode (dir, ''lsbx-runner.env'') mode_0600 s1 = (Inr (), s2)" and
    b: "set_file_mode (dir, ''lsbx-runner-app.pem'') mode_0600 s2 = (Inr (), s3)" and
    c: "set_file_mode (dir, ''provision-ci-runner.sh'') mode_0700 s3 = (Inr (), s')"
    unfolding fill_upload_def Let_def bindE_Inr_iff mapErr_Inr_iff by auto
  show ?thesis
    using set_file_mode_Inr [OF a] set_file_mode_Inr [OF b] set_file_mode_Inr [OF c]
    by (auto simp: mode_of_def)
qed

end
