(* ===== verification/Lsbx_Bootstrap.thy ===== *)
theory Lsbx_Bootstrap
  imports Lsbx_Runner
begin

text \<open>
  Setting up a host (\<open>lsbx-bootstrap\<close>): the state directories, the checks of the host
  (\<open>verify_host.rs\<close>), the systemd units of the two brokers and the orchestration with its marker
  (\<open>systemd.rs\<close>), and the flattening of a disk (\<open>flatten.rs\<close>). The socket of libvirt and the program
  \<open>qemu-img\<close> are the host's: parameters. A path is a text; a file in a directory is known to the file
  system by the two. Values of the environment are texts.
\<close>

subsection \<open>Paths\<close>

definition path_join :: "string \<Rightarrow> string \<Rightarrow> string" where
  "path_join a b =
     (if starts_with ''/'' b then b else if a = [] then b else if last a = CHR ''/'' then a @ b else a @ ''/'' @ b)"

text \<open>The directories on the way to a path, and the path itself.\<close>

fun path_prefixes :: "string \<Rightarrow> string list \<Rightarrow> string list" where
  "path_prefixes at [] = []"
| "path_prefixes at (w # ws) =
     (if w = [] then path_prefixes (at @ ''/'') ws else (at @ w) # path_prefixes (at @ w @ ''/'') ws)"

definition add_dir :: "string \<Rightarrow> (string \<times> nat) list \<Rightarrow> (string \<times> nat) list" where
  "add_dir d ds = (if map_of ds d = None then AList.update d 493 ds else ds)"

definition create_path :: "string \<Rightarrow> unit io" where
  "create_path p = io_op (\<lambda>s.
     (Inr (), s\<lparr>fs_dirs := fold add_dir (path_prefixes [] (split_on (CHR ''/'') p) @ [p]) (fs_dirs s)\<rparr>))"

definition path_exists :: "string \<Rightarrow> fs \<Rightarrow> bool" where
  "path_exists p s \<longleftrightarrow> dir_exists p s \<or> is_file p s"

text \<open>The first components of a path: repeated slashes and inner dots are none.\<close>

definition path_components :: "string \<Rightarrow> string list" where
  "path_components p =
     (let ws = split_on (CHR ''/'') p; keep = filter (\<lambda>w. w \<noteq> [] \<and> w \<noteq> ''.'')
      in if starts_with ''/'' p then ''/'' # keep ws
         else if hd ws = ''.'' then ''.'' # keep ws else keep ws)"

subsection \<open>Checks of the host\<close>

record host_check =
  hc_name :: string
  hc_passed :: bool
  hc_detail :: "string option"

text \<open>The socket at a path: none, or what connecting to it gives.\<close>

record host_lib =
  ho_socket :: "string \<Rightarrow> (string + unit) option"
  ho_show_json :: "json \<Rightarrow> string"

definition default_libvirt_socket :: string where
  "default_libvirt_socket = ''/var/run/libvirt/libvirt-sock''"

definition default_state :: string where
  "default_state = ''.local/share/lsbx''"

definition state_base :: "env \<Rightarrow> string option \<Rightarrow> string" where
  "state_base ev target =
     (case target of Some t \<Rightarrow> t | None \<Rightarrow> path_join (unwrap_or ''/tmp'' (ev ''HOME'')) default_state)"

definition state_directories :: "env \<Rightarrow> string option \<Rightarrow> string list" where
  "state_directories ev target = [path_join (state_base ev target) ''sandboxes'', path_join (state_base ev target) ''ci-jobs'']"

definition check_libvirt_socket :: "host_lib \<Rightarrow> env \<Rightarrow> host_check" where
  "check_libvirt_socket ho ev =
     (let p = unwrap_or default_libvirt_socket (ev ''LSBX_LIBVIRT_SOCKET'');
          res = (\<lambda>ok t. \<lparr>hc_name = ''libvirt_socket_reachable'', hc_passed = ok, hc_detail = Some t\<rparr>)
      in case ho_socket ho p of
           None \<Rightarrow> res False (''socket not found at '' @ p)
         | Some (Inr _) \<Rightarrow> res True (''connected to '' @ p)
         | Some (Inl e) \<Rightarrow> res False (p @ '' exists but refused connection: '' @ e))"

definition check_qemu_img_present :: "env \<Rightarrow> fs \<Rightarrow> host_check" where
  "check_qemu_img_present ev s =
     (case find (\<lambda>p. is_file p s) (map (\<lambda>d. path_join d ''qemu-img'') (split_on (CHR '':'') (unwrap_or [] (ev ''PATH'')))) of
        Some p \<Rightarrow> \<lparr>hc_name = ''qemu_img_present'', hc_passed = True, hc_detail = Some p\<rparr>
      | None \<Rightarrow> \<lparr>hc_name = ''qemu_img_present'', hc_passed = False, hc_detail = Some ''qemu-img not found on PATH''\<rparr>)"

fun join_with :: "string \<Rightarrow> string list \<Rightarrow> string" where
  "join_with sep [] = []"
| "join_with sep [x] = x"
| "join_with sep (x # y # xs) = x @ sep @ join_with sep (y # xs)"

fun dir_problems :: "string list \<Rightarrow> fs \<Rightarrow> string list \<times> fs" where
  "dir_problems [] s = ([], s)"
| "dir_problems (d # ds) s =
     (case dir_metadata d s of
        (r, s') \<Rightarrow>
          (case dir_problems ds s' of
             (ps, s'') \<Rightarrow>
               (case r of
                  Inr m \<Rightarrow>
                    (if m mod 512 \<noteq> mode_0700 then (d @ '' has mode '' @ show_oct (m mod 512) @ '', expected 0700'') # ps else ps)
                | Inl e \<Rightarrow> (d @ '' does not exist ('' @ io_text e @ '')'') # ps, s'')))"

definition check_state_directories :: "env \<Rightarrow> string option \<Rightarrow> fs \<Rightarrow> host_check \<times> fs" where
  "check_state_directories ev target s =
     (let ds = state_directories ev target
      in case dir_problems ds s of
           (ps, s') \<Rightarrow>
             (\<lparr>hc_name = ''state_directories_present_and_0700'', hc_passed = (ps = []),
               hc_detail = Some (if ps = [] then join_with '', '' ds else join_with ''; '' ps)\<rparr>, s'))"

definition verify_host :: "host_lib \<Rightarrow> env \<Rightarrow> string option \<Rightarrow> fs \<Rightarrow> host_check list \<times> fs" where
  "verify_host ho ev target s =
     (case check_state_directories ev target s of
        (c, s') \<Rightarrow>
          ((if target = None then [check_libvirt_socket ho ev] else []) @ [check_qemu_img_present ev s, c], s'))"

subsection \<open>Units\<close>

record bootstrap_config =
  bo_target :: "string option"
  bo_install_services :: bool
  bo_verify :: bool
  bo_force :: bool
  bo_dry_run :: bool

definition non_empty :: "string option \<Rightarrow> string option" where
  "non_empty v = (case v of Some t \<Rightarrow> if t = [] then None else Some t | None \<Rightarrow> None)"

definition service_user :: "env \<Rightarrow> string \<Rightarrow> string" where
  "service_user ev base =
     (case non_empty (ev ''LSBX_SERVICE_USER'') of
        Some u \<Rightarrow> u
      | None \<Rightarrow>
          (case path_components base of
             _ # h # u # _ \<Rightarrow> if h = ''home'' then u else unwrap_or ''lsbx'' (ev ''USER'')
           | _ \<Rightarrow> unwrap_or ''lsbx'' (ev ''USER'')))"

definition unlines :: "string list \<Rightarrow> string" where
  "unlines ls = concat (map (\<lambda>l. l @ [CHR 0x0A]) ls)"

definition render_unit :: "env \<Rightarrow> bootstrap_config \<Rightarrow> string \<Rightarrow> string \<Rightarrow> string" where
  "render_unit ev cfg description backend =
     (let base = state_base ev (bo_target cfg); user = service_user ev base; home = ''/home/'' @ user;
          work = unwrap_or (home @ ''/repos/lsbx'') (non_empty (ev ''LSBX_WORKING_DIRECTORY''));
          binary = unwrap_or ''/usr/local/bin/lsbx'' (non_empty (ev ''LSBX_BIN''));
          images = unwrap_or (work @ ''/images.json'') (non_empty (ev ''LSBX_IMAGES_PATH''));
          env_file = unwrap_or (path_join base ''broker.env'') (non_empty (ev ''LSBX_BROKER_ENV_FILE''))
      in unlines
           [''[Unit]'', ''Description='' @ description, ''After=network-online.target'', ''Wants=network-online.target'', [],
            ''[Service]'', ''Type=simple'', ''User='' @ user, ''Group='' @ user, ''WorkingDirectory='' @ work,
            ''Environment=HOME='' @ home, ''Environment=PATH='' @ home @ ''/.local/bin:/usr/local/bin:/usr/bin:/bin'',
            ''Environment=LSBX_STATE_DIR='' @ base, ''EnvironmentFile=-'' @ env_file,
            ''ExecStart='' @ binary @ '' --images='' @ images @ '' --state-dir='' @ base @ '' ci-broker run --backend='' @ backend,
            ''Restart=on-failure'', ''RestartSec=5'', ''NoNewPrivileges=true'', ''PrivateTmp=true'', ''ProtectSystem=full'',
            ''ReadWritePaths='' @ base, [], ''[Install]'', ''WantedBy=multi-user.target''])"

record unit_spec =
  un_name :: string
  un_content :: string

definition generate_broker_units :: "env \<Rightarrow> bootstrap_config \<Rightarrow> unit_spec list" where
  "generate_broker_units ev cfg =
     [\<lparr>un_name = ''lsbx-ci-broker'',
       un_content = render_unit ev cfg ''lsbx CI broker (Carnyx / local+remote libvirt backend)'' ''libvirt''\<rparr>,
      \<lparr>un_name = ''lsbx-ci-broker-exe'',
       un_content = render_unit ev cfg ''lsbx CI broker (Molimo / exedev backend)'' ''exedev''\<rparr>]"

definition systemd_unit_dir :: "env \<Rightarrow> string" where
  "systemd_unit_dir ev = unwrap_or ''/etc/systemd/system'' (ev ''LSBX_SYSTEMD_UNIT_DIR'')"

definition unit_file :: "string \<Rightarrow> string" where
  "unit_file n = n @ ''.service''"

subsection \<open>The orchestration\<close>

record bootstrap_report =
  bt_taken :: "string list"
  bt_would :: "string list"

definition took :: "string \<Rightarrow> bootstrap_report \<Rightarrow> bootstrap_report" where
  "took a r = r\<lparr>bt_taken := bt_taken r @ [a]\<rparr>"

definition would :: "string \<Rightarrow> bootstrap_report \<Rightarrow> bootstrap_report" where
  "would a r = r\<lparr>bt_would := bt_would r @ [a]\<rparr>"

definition bootstrap_marker_filename :: string where
  "bootstrap_marker_filename = ''.lsbx-bootstrapped''"

definition create_dir_0700 :: "string \<Rightarrow> unit store_op" where
  "create_dir_0700 d =
     bindE (mapErr (cviol (''failed to create '' @ d)) (create_path d)) (\<lambda>_.
     mapErr (cviol (''failed to set 0700 permissions on '' @ d)) (set_dir_mode d mode_0700))"

definition write_unit_file :: "string \<Rightarrow> string \<Rightarrow> string \<Rightarrow> unit store_op" where
  "write_unit_file dir n content =
     bindE (mapErr (cviol (''failed to create unit directory '' @ dir)) (create_path dir)) (\<lambda>_.
     mapErr (cviol (''failed to write unit file '' @ path_join dir n)) (write_file dir n (FText content)))"

definition directory_step :: "bootstrap_config \<Rightarrow> string \<Rightarrow> bootstrap_report \<Rightarrow> bootstrap_report store_op" where
  "directory_step cfg d r s =
     (if path_exists d s
      then (Inr (if bo_dry_run cfg then would (''verify permissions on '' @ d) r
                 else took (''directory already exists: '' @ d) r), s)
      else if bo_dry_run cfg then (Inr (would (''create directory '' @ d @ '' (mode 0700)'') r), s)
      else bindE (create_dir_0700 d) (\<lambda>_. retE (took (''created directory '' @ d @ '' (mode 0700)'') r)) s)"

definition verification_failed :: "host_check list \<Rightarrow> lsbx_error" where
  "verification_failed cs =
     ContractViolated (''host verification failed: '' @ join_with '', '' (map hc_name (filter (\<lambda>c. \<not> hc_passed c) cs)))"

definition verify_step :: "host_lib \<Rightarrow> env \<Rightarrow> bootstrap_config \<Rightarrow> bootstrap_report \<Rightarrow> bootstrap_report store_op" where
  "verify_step ho ev cfg r s =
     (if \<not> bo_verify cfg then (Inr r, s)
      else if bo_dry_run cfg
      then (Inr (would ''verify host capability (libvirt socket, qemu-img, state dir permissions)'' r), s)
      else case verify_host ho ev (bo_target cfg) s of
             (cs, s') \<Rightarrow>
               if list_all hc_passed cs
               then (Inr (took (''host verification passed ('' @ show_nat (length cs) @ '' checks)'') r), s')
               else (Inl (verification_failed cs), s'))"

definition unit_step :: "host_lib \<Rightarrow> env \<Rightarrow> bootstrap_config \<Rightarrow> unit_spec \<Rightarrow> bootstrap_report \<Rightarrow> bootstrap_report store_op" where
  "unit_step ho ev cfg u r s =
     (let dir = systemd_unit_dir ev; n = unit_file (un_name u); p = path_join dir n
      in if bo_dry_run cfg then (Inr (would (''write systemd unit file '' @ p) r), s)
         else case read_file dir n s of
                (Inr c, s') \<Rightarrow>
                  if text_of (ho_show_json ho) c = un_content u
                  then (Inr (took (''unit file already exists (unchanged): '' @ p) r), s')
                  else bindE (write_unit_file dir n (un_content u)) (\<lambda>_. retE (took (''overwrote unit file: '' @ p) r)) s'
              | (Inl _, s') \<Rightarrow>
                  bindE (write_unit_file dir n (un_content u)) (\<lambda>_. retE (took (''wrote unit file: '' @ p) r)) s')"

fun each_step :: "('x \<Rightarrow> bootstrap_report \<Rightarrow> bootstrap_report store_op) \<Rightarrow> 'x list \<Rightarrow> bootstrap_report \<Rightarrow> bootstrap_report store_op" where
  "each_step f [] r = retE r"
| "each_step f (x # xs) r = bindE (f x r) (each_step f xs)"

definition services_step :: "host_lib \<Rightarrow> env \<Rightarrow> bootstrap_config \<Rightarrow> bootstrap_report \<Rightarrow> bootstrap_report store_op" where
  "services_step ho ev cfg r =
     (if bo_install_services cfg then each_step (unit_step ho ev cfg) (generate_broker_units ev cfg) r else retE r)"

definition marker_step :: "env \<Rightarrow> bootstrap_config \<Rightarrow> bootstrap_report \<Rightarrow> bootstrap_report store_op" where
  "marker_step ev cfg r =
     (let base = state_base ev (bo_target cfg); p = path_join base bootstrap_marker_filename
      in if bo_dry_run cfg then retE (would (''write bootstrap marker '' @ p) r)
         else bindE (mapErr (cviol (''failed to write bootstrap marker '' @ p))
                       (write_file base bootstrap_marker_filename (FText []))) (\<lambda>_.
              retE (took (''wrote bootstrap marker '' @ p) r)))"

definition already_bootstrapped :: "string \<Rightarrow> lsbx_error" where
  "already_bootstrapped base =
     ContractViolated (''host at '' @ base @ '' is already bootstrapped; pass --force to re-run idempotently'')"

definition bootstrap :: "host_lib \<Rightarrow> env \<Rightarrow> bootstrap_config \<Rightarrow> bootstrap_report store_op" where
  "bootstrap ho ev cfg s =
     (let base = state_base ev (bo_target cfg)
      in if fs_get s base bootstrap_marker_filename \<noteq> None \<and> \<not> bo_force cfg \<and> \<not> bo_dry_run cfg
         then (Inl (already_bootstrapped base), s)
         else bindE (each_step (directory_step cfg) (state_directories ev (bo_target cfg)) \<lparr>bt_taken = [], bt_would = []\<rparr>) (\<lambda>r.
              bindE (verify_step ho ev cfg r) (\<lambda>r.
              bindE (services_step ho ev cfg r) (marker_step ev cfg))) s)"

subsection \<open>Flattening a disk\<close>

text \<open>\<open>qemu-img\<close> on its arguments: it cannot be started, or its exit code, if it has one, and its errors.\<close>

type_synonym qemu_img = "string list \<Rightarrow> (fs, string, int option \<times> string) comp"

definition show_exit :: "int option \<Rightarrow> string" where
  "show_exit c = (case c of None \<Rightarrow> ''None'' | Some n \<Rightarrow> ''Some('' @ show_int n @ '')'')"

definition flatten :: "qemu_img \<Rightarrow> string \<Rightarrow> string \<Rightarrow> unit store_op" where
  "flatten qi source dest s =
     (if \<not> path_exists source s then (Inl (NotFound (''flatten source not found: '' @ source)), s)
      else bindE (mapErr (\<lambda>e. BackendUnavailable (''failed to spawn qemu-img (not on PATH?): '' @ e))
                    (qi [''convert'', ''-O'', ''qcow2'', source, dest])) (\<lambda>(code, err).
           if code = Some 0 then retE ()
           else failE (ContractViolated (''qemu-img convert failed (exit '' @ show_exit code @ ''): '' @ err))) s)"

subsection \<open>A dry run, and a second run\<close>

lemma each_step_dry:
  assumes "\<And>x r s. x \<in> set xs \<Longrightarrow> \<exists>r'. f x r s = (Inr r', s) \<and> bt_taken r' = bt_taken r"
  shows "\<exists>r'. each_step f xs r s = (Inr r', s) \<and> bt_taken r' = bt_taken r"
  using assms
proof (induction xs arbitrary: r)
  case (Cons x xs)
  obtain r1 where 1: "f x r s = (Inr r1, s)" "bt_taken r1 = bt_taken r" using Cons.prems [of x r s] by auto
  obtain r2 where "each_step f xs r1 s = (Inr r2, s)" "bt_taken r2 = bt_taken r1"
    using Cons.IH [of r1] Cons.prems by auto
  then show ?case using 1 by (simp add: bindE_run)
qed simp

lemma bootstrap_dry:
  assumes "bo_dry_run cfg"
  shows "\<exists>r. bootstrap ho ev cfg s = (Inr r, s) \<and> bt_taken r = []"
proof -
  have d: "\<exists>r'. directory_step cfg x r s = (Inr r', s) \<and> bt_taken r' = bt_taken r" for x r s
    using assms by (simp add: directory_step_def would_def)
  have u: "\<exists>r'. unit_step ho ev cfg x r s = (Inr r', s) \<and> bt_taken r' = bt_taken r" for x r s
    using assms by (simp add: unit_step_def Let_def would_def)
  obtain r1 where 1: "each_step (directory_step cfg) (state_directories ev (bo_target cfg)) \<lparr>bt_taken = [], bt_would = []\<rparr> s
      = (Inr r1, s)" "bt_taken r1 = []"
    using each_step_dry [of _ "directory_step cfg", OF d] by fastforce
  obtain r2 where 2: "verify_step ho ev cfg r1 s = (Inr r2, s)" "bt_taken r2 = []"
    using assms 1(2) that by (cases "bo_verify cfg") (simp_all add: verify_step_def would_def)
  obtain r3 where 3: "services_step ho ev cfg r2 s = (Inr r3, s)" "bt_taken r3 = []"
  proof (cases "bo_install_services cfg")
    case True
    then show thesis using each_step_dry [of "generate_broker_units ev cfg" "unit_step ho ev cfg" r2 s, OF u] 2(2) that
      by (auto simp: services_step_def)
  qed (use 2(2) that in \<open>simp add: services_step_def\<close>)
  show ?thesis using assms 1 2 3 by (simp add: bootstrap_def Let_def bindE_run marker_step_def would_def)
qed

lemma bootstrap_refused:
  assumes "fs_get s (state_base ev (bo_target cfg)) bootstrap_marker_filename \<noteq> None" and "\<not> bo_force cfg" and "\<not> bo_dry_run cfg"
  shows "bootstrap ho ev cfg s = (Inl (already_bootstrapped (state_base ev (bo_target cfg))), s)"
  using assms by (simp add: bootstrap_def Let_def)

text \<open>A step keeps every directory with its mode, every file's name, and the host's plan.\<close>

definition grown :: "fs \<Rightarrow> fs \<Rightarrow> bool" where
  "grown f f' \<longleftrightarrow> (\<forall>d m. dir_mode f d = Some m \<longrightarrow> dir_mode f' d = Some m) \<and>
     (\<forall>d n. fs_get f d n \<noteq> None \<longrightarrow> fs_get f' d n \<noteq> None) \<and> fs_plan f' = fs_plan f"

lemma grown_refl [simp]: "grown f f"
  by (simp add: grown_def)

lemma grown_trans: "grown f g \<Longrightarrow> grown g h \<Longrightarrow> grown f h"
  by (simp add: grown_def)

lemma grown_io: "(\<And>s. grown s (snd (m s))) \<Longrightarrow> grown s (snd (io_op m s))"
proof -
  assume m: "\<And>s. grown s (snd (m s))"
  let ?t = "s\<lparr>fs_tick := Suc (fs_tick s)\<rparr>"
  have t: "grown s ?t" by (simp add: grown_def dir_mode_def fs_get_def)
  then show ?thesis using grown_trans [OF t m] by (simp add: io_op_def Let_def split: option.split)
qed

lemma grown_bindE: "grown s (snd (m s)) \<Longrightarrow> (\<And>x s. grown s (snd (k x s))) \<Longrightarrow> grown s (snd (bindE m k s))"
  by (simp add: bindE_run split: sum.split) (blast intro: grown_trans)

lemma map_of_add_dir [simp]: "map_of (add_dir a ds) d = (if d = a \<and> map_of ds a = None then Some 493 else map_of ds d)"
  by (simp add: add_dir_def update_conv')

lemma fold_dirs: "map_of ds d = Some m \<Longrightarrow> map_of (fold add_dir ps ds) d = Some m"
proof (induction ps arbitrary: ds)
  case (Cons p ps)
  then have "map_of (add_dir p ds) d = Some m" by auto
  then show ?case using Cons.IH by simp
qed simp

lemma grown_ops:
  "grown s (snd (create_path p s))" "grown s (snd (write_file d n c s))" "grown s (snd (read_file d n s))"
  "grown s (snd (dir_metadata d s))"
  unfolding create_path_def write_file_def read_file_def dir_metadata_def
  by (rule grown_io; auto simp: grown_def dir_mode_def fs_get_def fold_dirs update_conv' split: option.split)+

lemma create_path_there: "create_path p s = (Inr u, s') \<Longrightarrow> dir_mode s' p \<noteq> None"
  by (auto simp: create_path_def io_op_def Let_def dir_mode_def split: option.splits if_splits)

lemma set_dir_mode_rest:
  "d \<noteq> e \<Longrightarrow> dir_mode (snd (set_dir_mode e k s)) d = dir_mode s d"
  "fs_get (snd (set_dir_mode e k s)) = fs_get s" "fs_plan (snd (set_dir_mode e k s)) = fs_plan s"
  by (auto simp: set_dir_mode_def io_op_def Let_def dir_mode_def fs_get_def fun_eq_iff update_conv' split: option.split)

lemma grown_directory: "grown s (snd (directory_step cfg d r s))"
proof (cases "path_exists d s \<or> bo_dry_run cfg")
  case True
  then show ?thesis by (auto simp: directory_step_def)
next
  case False
  then have n: "dir_mode s d = None" by (auto simp: path_exists_def dir_exists_def)
  obtain x s1 where c: "create_path d s = (x, s1)" by fastforce
  have g: "grown s s1" using grown_ops(1) [of s d] c by simp
  have "grown s (snd (set_dir_mode d mode_0700 s1))"
    using g n set_dir_mode_rest [where e = d and k = mode_0700 and s = s1] unfolding grown_def by (metis option.distinct(1))
  then show ?thesis using False g c
    by (auto simp: directory_step_def create_dir_0700_def bindE_run split: sum.split)
qed

lemma directory_step_there:
  assumes "directory_step cfg d r s = (Inr r', s')" and "\<not> bo_dry_run cfg"
  shows "path_exists d s'"
proof (cases "path_exists d s")
  case True
  then show ?thesis using assms by (simp add: directory_step_def)
next
  case False
  then obtain s1 s2 where "create_path d s = (Inr (), s1)" "set_dir_mode d mode_0700 s1 = (Inr (), s')"
    using assms by (auto simp: directory_step_def create_dir_0700_def bindE_Inr_iff)
  then have "dir_mode s' d \<noteq> None"
    by (auto simp: set_dir_mode_def io_op_def Let_def dir_mode_def update_conv' split: option.splits)
  then show ?thesis by (simp add: path_exists_def dir_exists_def)
qed

lemma path_exists_grown: "path_exists p s \<Longrightarrow> grown s s' \<Longrightarrow> path_exists p s'"
  by (auto simp: path_exists_def dir_exists_def is_file_def grown_def)

lemma grown_each: "(\<And>x r s. grown s (snd (f x r s))) \<Longrightarrow> grown s (snd (each_step f xs r s))"
  by (induction xs arbitrary: r s) (simp_all add: grown_bindE)

lemma grown_problems: "grown s (snd (dir_problems ds s))"
proof (induction ds arbitrary: s)
  case (Cons d ds)
  show ?case using grown_trans [OF grown_ops(4) [of s d] Cons] by (simp split: prod.split) (metis snd_conv)
qed simp

lemma grown_verify: "grown s (snd (verify_step ho ev cfg r s))"
proof -
  have "snd (verify_host ho ev t s) = snd (dir_problems (state_directories ev t) s)" for t
    by (simp add: verify_host_def check_state_directories_def Let_def split: prod.split)
  then show ?thesis using grown_problems by (auto simp: verify_step_def split: prod.split) (metis snd_conv)+
qed

lemma grown_unit: "grown s (snd (unit_step ho ev cfg u r s))"
proof -
  let ?d = "systemd_unit_dir ev" and ?n = "unit_file (un_name u)"
  have w: "grown v (snd (bindE (write_unit_file ?d ?n (un_content u)) (\<lambda>_. retE q) v))" for v and q :: bootstrap_report
    unfolding write_unit_file_def by (intro grown_bindE) (simp_all add: grown_ops)
  obtain x s1 where r: "read_file ?d ?n s = (x, s1)" by fastforce
  have g: "grown s s1" using grown_ops(3) [of s ?d ?n] r by simp
  have "grown s (snd (bindE (write_unit_file ?d ?n (un_content u)) (\<lambda>_. retE q) s1))" for q :: bootstrap_report
    by (rule grown_trans [OF g w])
  then show ?thesis using g r by (simp add: unit_step_def Let_def split: sum.split)
qed

lemma grown_marker: "grown s (snd (marker_step ev cfg r s))"
  unfolding marker_step_def Let_def by (auto intro!: grown_bindE simp: grown_ops)


subsection \<open>What a bootstrap leaves\<close>

lemma each_step_there:
  assumes "each_step f xs r s = (Inr r', s')" and "x \<in> set xs"
    and "\<And>x r s. grown s (snd (f x r s))"
    and "\<And>x r s r' s'. f x r s = (Inr r', s') \<Longrightarrow> P x s'"
    and "\<And>s s'. P x s \<Longrightarrow> grown s s' \<Longrightarrow> P x s'"
  shows "P x s'"
  using assms(1,2)
proof (induction xs arbitrary: r s)
  case (Cons y ys)
  obtain r1 s1 where f: "f y r s = (Inr r1, s1)" and e: "each_step f ys r1 s1 = (Inr r', s')"
    using Cons.prems(1) by (auto simp: bindE_Inr_iff)
  show ?case
  proof (cases "x \<in> set ys")
    case True
    then show ?thesis using Cons.IH [OF e] by simp
  next
    case False
    then have "P x s1" using f assms(4) Cons.prems(2) by simp
    moreover have "grown s1 s'" using grown_each [where f = f, OF assms(3), of s1 ys r1] e by simp
    ultimately show ?thesis by (rule assms(5))
  qed
qed simp

text \<open>The modes of the state directories, as the check of the host read them.\<close>

lemma dir_problems_none:
  "dir_problems ds s = ([], s') \<Longrightarrow> d \<in> set ds \<Longrightarrow> \<exists>m. dir_mode s d = Some m \<and> m mod 512 = mode_0700"
proof (induction ds arbitrary: s)
  case (Cons e ds)
  obtain r s1 ps s2 where m: "dir_metadata e s = (r, s1)" and p: "dir_problems ds s1 = (ps, s2)" by fastforce
  have g: "dir_mode s1 = dir_mode s" using m
    by (auto simp: dir_metadata_def io_op_def Let_def dir_mode_def fun_eq_iff split: option.splits)
  have n: "ps = []" "s2 = s'" "\<exists>k. r = Inr k \<and> k mod 512 = mode_0700"
    using Cons.prems(1) m p by (auto split: sum.splits if_splits)
  then have "\<exists>k. dir_mode s e = Some k \<and> k mod 512 = mode_0700"
    using m by (auto simp: dir_metadata_def io_op_def Let_def dir_mode_def split: option.splits)
  then show ?case using Cons.IH [of s1] p n(1,2) Cons.prems(2) g by auto
qed simp

lemma verify_step_done:
  assumes "verify_step ho ev cfg r s = (Inr r', s')" and "bo_verify cfg" and "\<not> bo_dry_run cfg"
  shows "(\<forall>d \<in> set (state_directories ev (bo_target cfg)). \<exists>m. dir_mode s d = Some m \<and> m mod 512 = mode_0700) \<and>
    hc_passed (check_qemu_img_present ev s) \<and> (bo_target cfg = None \<longrightarrow> hc_passed (check_libvirt_socket ho ev))"
proof -
  obtain ps s1 where p: "dir_problems (state_directories ev (bo_target cfg)) s = (ps, s1)" by fastforce
  have "ps = [] \<and> hc_passed (check_qemu_img_present ev s) \<and> (bo_target cfg = None \<longrightarrow> hc_passed (check_libvirt_socket ho ev))"
    using assms p by (auto simp: verify_step_def verify_host_def check_state_directories_def Let_def list_all_iff split: prod.splits if_splits)
  then show ?thesis using dir_problems_none [of "state_directories ev (bo_target cfg)" s s1] p by blast
qed

text \<open>The unit files hold what is generated.\<close>

definition unit_there :: "host_lib \<Rightarrow> env \<Rightarrow> unit_spec \<Rightarrow> fs \<Rightarrow> bool" where
  "unit_there ho ev u s \<longleftrightarrow>
     map_option (text_of (ho_show_json ho) \<circ> fst) (fs_get s (systemd_unit_dir ev) (unit_file (un_name u))) = Some (un_content u)"

lemma unit_there_iff:
  "unit_there ho ev u s \<longleftrightarrow>
   (\<exists>c m. fs_get s (systemd_unit_dir ev) (unit_file (un_name u)) = Some (c, m) \<and> text_of (ho_show_json ho) c = un_content u)"
  by (cases "fs_get s (systemd_unit_dir ev) (unit_file (un_name u))") (auto simp: unit_there_def)

lemma write_file_get:
  "write_file d n c s = (Inr u, s') \<Longrightarrow> \<exists>m. fs_get s' d n = Some (c, m)"
  by (auto simp: write_file_def io_op_def Let_def fs_get_def update_conv' split: option.splits)

lemma fs_get_other:
  "n \<noteq> n' \<Longrightarrow> fs_get (snd (write_file d n c s)) d' n' = fs_get s d' n'"
  "fs_get (snd (create_path p s)) d' n' = fs_get s d' n'"
  "fs_get (snd (read_file d n s)) d' n' = fs_get s d' n'"
  by (auto simp: write_file_def create_path_def read_file_def io_op_def Let_def fs_get_def update_conv' split: option.splits)

lemma unit_step_there:
  assumes "unit_step ho ev cfg u r s = (Inr r', s')" and "\<not> bo_dry_run cfg"
  shows "unit_there ho ev u s'"
proof -
  let ?d = "systemd_unit_dir ev" and ?n = "unit_file (un_name u)"
  have w: "bindE (write_unit_file ?d ?n (un_content u)) (\<lambda>_. retE q) v = (Inr r', s') \<Longrightarrow> unit_there ho ev u s'"
    for v and q :: bootstrap_report
    by (auto simp: write_unit_file_def bindE_Inr_iff mapErr_Inr_iff unit_there_iff text_of_def dest!: write_file_get)
  obtain x s1 where r: "read_file ?d ?n s = (x, s1)" by fastforce
  show ?thesis
  proof (cases "\<exists>c. x = Inr c \<and> text_of (ho_show_json ho) c = un_content u")
    case True
    then obtain c m where c: "x = Inr c" "text_of (ho_show_json ho) c = un_content u" "fs_get s ?d ?n = Some (c, m)"
      using r read_file_Inr by blast
    then have "s' = s1" using assms r by (simp add: unit_step_def Let_def)
    then show ?thesis using c fs_get_other(3) [of ?d ?n s ?d ?n] r by (simp add: unit_there_iff)
  next
    case False
    then show ?thesis using assms r w by (auto simp: unit_step_def Let_def split: sum.splits if_splits)
  qed
qed

lemma unit_there_other:
  "(\<forall>d. fs_get s' d (unit_file (un_name u)) = fs_get s d (unit_file (un_name u))) \<Longrightarrow> unit_there ho ev u s \<Longrightarrow>
   unit_there ho ev u s'"
  by (simp add: unit_there_iff)

lemma unit_step_other:
  assumes "unit_file (un_name v) \<noteq> n"
  shows "fs_get (snd (unit_step ho ev cfg v r s)) d n = fs_get s d n"
proof -
  let ?d = "systemd_unit_dir ev" and ?n = "unit_file (un_name v)"
  have w: "fs_get (snd (bindE (write_unit_file ?d ?n (un_content v)) (\<lambda>_. retE q) t)) d n = fs_get t d n"
    for t and q :: bootstrap_report
    using assms by (simp add: write_unit_file_def bindE_run fs_get_other split: sum.split prod.split)
  obtain x s1 where r: "read_file ?d ?n s = (x, s1)" by fastforce
  then have "fs_get s1 d n = fs_get s d n" using fs_get_other(3) [of ?d ?n s d n] by simp
  then show ?thesis using r w by (simp add: unit_step_def Let_def split: sum.split)
qed


lemma qemu_passed:
  "hc_passed (check_qemu_img_present ev s) \<longleftrightarrow>
   (\<exists>d \<in> set (split_on (CHR '':'') (unwrap_or [] (ev ''PATH''))). is_file (path_join d ''qemu-img'') s)"
  by (auto simp: check_qemu_img_present_def find_None_iff find_Some_iff split: option.split)

lemma qemu_grown: "hc_passed (check_qemu_img_present ev s) \<Longrightarrow> grown s s' \<Longrightarrow> hc_passed (check_qemu_img_present ev s')"
  unfolding qemu_passed is_file_def grown_def by blast

lemma marker_other:
  assumes "n \<noteq> bootstrap_marker_filename"
  shows "fs_get (snd (marker_step ev cfg r s)) d n = fs_get s d n"
  using assms fs_get_other(1) [of bootstrap_marker_filename n]
  by (auto simp: marker_step_def Let_def bindE_run split: sum.split)

lemma marker_there:
  "marker_step ev cfg r s = (Inr r', s') \<Longrightarrow> \<not> bo_dry_run cfg \<Longrightarrow>
   \<exists>m. fs_get s' (state_base ev (bo_target cfg)) bootstrap_marker_filename = Some (FText [], m)"
  by (auto simp: marker_step_def Let_def bindE_Inr_iff dest!: write_file_get)

lemma unit_names:
  "unit_file ''lsbx-ci-broker'' \<noteq> unit_file ''lsbx-ci-broker-exe''"
  "unit_file ''lsbx-ci-broker'' \<noteq> bootstrap_marker_filename"
  "unit_file ''lsbx-ci-broker-exe'' \<noteq> bootstrap_marker_filename"
  by (simp_all add: unit_file_def bootstrap_marker_filename_def)

lemma services_there:
  assumes "services_step ho ev cfg r s = (Inr r', s')" and "bo_install_services cfg" and "\<not> bo_dry_run cfg"
    and "u \<in> set (generate_broker_units ev cfg)"
  shows "unit_there ho ev u s' \<and> unit_file (un_name u) \<noteq> bootstrap_marker_filename"
proof -
  obtain u1 u2 where us: "generate_broker_units ev cfg = [u1, u2]"
    and n: "un_name u1 = ''lsbx-ci-broker''" "un_name u2 = ''lsbx-ci-broker-exe''"
    by (simp add: generate_broker_units_def)
  obtain r1 s1 where 1: "unit_step ho ev cfg u1 r s = (Inr r1, s1)" and 2: "unit_step ho ev cfg u2 r1 s1 = (Inr r', s')"
    using assms(1,2) us by (auto simp: services_step_def bindE_Inr_iff)
  have "unit_there ho ev u2 s'" using unit_step_there [OF 2 assms(3)] .
  moreover have "unit_there ho ev u1 s'"
    using unit_there_other [OF _ unit_step_there [OF 1 assms(3)], of s'] unit_step_other [of u2 _ ho ev cfg r1 s1] 2 unit_names(1) n
    by simp
  ultimately show ?thesis using assms(4) us unit_names n by auto
qed

lemma bootstrap_done:
  assumes "bootstrap ho ev cfg s = (Inr r, s')" and "\<not> bo_dry_run cfg"
  shows "\<exists>m. fs_get s' (state_base ev (bo_target cfg)) bootstrap_marker_filename = Some (FText [], m)"
    and "d \<in> set (state_directories ev (bo_target cfg)) \<Longrightarrow> path_exists d s'"
    and "bo_verify cfg \<Longrightarrow> d \<in> set (state_directories ev (bo_target cfg)) \<Longrightarrow>
      \<exists>m. dir_mode s' d = Some m \<and> m mod 512 = mode_0700"
    and "bo_verify cfg \<Longrightarrow> hc_passed (check_qemu_img_present ev s')"
    and "bo_verify cfg \<Longrightarrow> bo_target cfg = None \<Longrightarrow> hc_passed (check_libvirt_socket ho ev)"
    and "bo_install_services cfg \<Longrightarrow> u \<in> set (generate_broker_units ev cfg) \<Longrightarrow> unit_there ho ev u s'"
proof -
  obtain r1 s1 r2 s2 r3 s3 where
    1: "each_step (directory_step cfg) (state_directories ev (bo_target cfg)) \<lparr>bt_taken = [], bt_would = []\<rparr> s = (Inr r1, s1)" and
    2: "verify_step ho ev cfg r1 s1 = (Inr r2, s2)" and 3: "services_step ho ev cfg r2 s2 = (Inr r3, s3)" and
    4: "marker_step ev cfg r3 s3 = (Inr r, s')"
    using assms by (auto simp: bootstrap_def Let_def bindE_Inr_iff split: if_splits)
  have g4: "grown s3 s'" using grown_marker [of s3 ev cfg r3] 4 by simp
  have g3: "grown s2 s3" using grown_each [where f = "unit_step ho ev cfg", OF grown_unit, of s2 "generate_broker_units ev cfg" r2] 3
    by (auto simp: services_step_def split: if_splits)
  have g1: "grown s1 s'"
    using grown_verify [of s1 ho ev cfg r1] 2 grown_trans [OF g3 g4] by (auto intro: grown_trans)
  show "\<exists>m. fs_get s' (state_base ev (bo_target cfg)) bootstrap_marker_filename = Some (FText [], m)"
    by (rule marker_there [OF 4 assms(2)])
  show "path_exists d s'" if "d \<in> set (state_directories ev (bo_target cfg))"
  proof -
    have "path_exists d s1"
      by (rule each_step_there [where P = path_exists, OF 1 that grown_directory])
        (auto intro: directory_step_there [OF _ assms(2)] path_exists_grown)
    then show ?thesis by (rule path_exists_grown [OF _ g1])
  qed
  show "\<exists>m. dir_mode s' d = Some m \<and> m mod 512 = mode_0700" if "bo_verify cfg" "d \<in> set (state_directories ev (bo_target cfg))"
    using verify_step_done [OF 2 that(1) assms(2)] that(2) g1 unfolding grown_def by blast
  show "hc_passed (check_qemu_img_present ev s')" if "bo_verify cfg"
    using verify_step_done [OF 2 that assms(2)] qemu_grown g1 by blast
  show "hc_passed (check_libvirt_socket ho ev)" if "bo_verify cfg" "bo_target cfg = None"
    using verify_step_done [OF 2 that(1) assms(2)] that(2) by blast
  show "unit_there ho ev u s'" if "bo_install_services cfg" "u \<in> set (generate_broker_units ev cfg)"
    using services_there [OF 3 that(1) assms(2) that(2)] marker_other [of "unit_file (un_name u)" ev cfg r3 s3] 4
    by (metis snd_conv unit_there_other)
qed

end
