(* ===== verification/Lsbx_Format.thy ===== *)
theory Lsbx_Format
  imports Lsbx_Mcp Lsbx_Bootstrap
begin

text \<open>
  What the command line prints (\<open>lsbx-cli/src/format.rs\<close> and the types at the end of \<open>lib.rs\<close>): one
  way to render every result, as the envelope's JSON or as a table. The texts of JSON values are
  serde's: parameters. A table pads with the number of characters of a cell, and measures it in bytes.
\<close>

record json_lib =
  jl_show :: "json \<Rightarrow> string"
  jl_pretty :: "json \<Rightarrow> string"

text \<open>The two traits a type that is printed implements.\<close>

record 'a formattable =
  fm_json :: "'a \<Rightarrow> json"
  fm_table :: "'a \<Rightarrow> string"

definition render :: "json_lib \<Rightarrow> 'a formattable \<Rightarrow> 'a \<Rightarrow> bool \<Rightarrow> string" where
  "render jl f v as_json = (if as_json then jl_show jl (envelope_json (fm_json f) (Success v)) else fm_table f v)"

definition render_error :: "json_lib \<Rightarrow> lsbx_error \<Rightarrow> bool \<Rightarrow> string" where
  "render_error jl e as_json =
     (if as_json then jl_show jl (envelope_json unit_json (EError (exit_code_i32 (exit_code e)) (err_display e)))
      else ''Error: '' @ err_display e)"

definition render_result :: "json_lib \<Rightarrow> 'a formattable \<Rightarrow> lsbx_error + 'a \<Rightarrow> bool \<Rightarrow> string" where
  "render_result jl f r as_json = (case r of Inr v \<Rightarrow> render jl f v as_json | Inl e \<Rightarrow> render_error jl e as_json)"

subsection \<open>Tables\<close>

text \<open>The number of characters of a text in UTF-8: its bytes that continue none.\<close>

definition char_count :: "string \<Rightarrow> nat" where
  "char_count s = length (filter (\<lambda>c. (of_char c :: nat) \<notin> {128..<192}) s)"

definition pad_right :: "nat \<Rightarrow> string \<Rightarrow> string" where
  "pad_right w s = s @ replicate (w - char_count s) (CHR 0x20)"

definition newline :: string where
  "newline = [CHR 0x0A]"

definition two_spaces :: string where
  "two_spaces = [CHR 0x20, CHR 0x20]"

definition kv_table :: "(string \<times> string) list \<Rightarrow> string" where
  "kv_table rows =
     (let width = fold max (map (\<lambda>(k, v). length k) rows) 0
      in join_with newline (map (\<lambda>(k, v). pad_right width k @ two_spaces @ v) rows))"

text \<open>The widths of the columns; a cell without a column widens none.\<close>

fun widen :: "nat list \<Rightarrow> string list \<Rightarrow> nat list" where
  "widen (w # ws) (c # cs) = max w (length c) # widen ws cs"
| "widen ws _ = ws"

fun pad_cells :: "nat list \<Rightarrow> string list \<Rightarrow> string list" where
  "pad_cells _ [] = []"
| "pad_cells [] (c # cs) = pad_right (length c) c # pad_cells [] cs"
| "pad_cells (w # ws) (c # cs) = pad_right w c # pad_cells ws cs"

definition table_line :: "nat list \<Rightarrow> string list \<Rightarrow> string" where
  "table_line ws cells = join_with two_spaces (pad_cells ws cells) @ newline"

definition row_table :: "string list \<Rightarrow> string list list \<Rightarrow> string" where
  "row_table headers rows =
     (if rows = [] then ''(none)''
      else let widths = fold (\<lambda>row ws. widen ws row) rows (map length headers)
           in trim_end_if is_space (table_line widths headers @ concat (map (table_line widths) rows)))"

subsection \<open>What is printed\<close>

definition show_bool :: "bool \<Rightarrow> string" where
  "show_bool b = (if b then ''true'' else ''false'')"

abbreviation or_empty :: "string option \<Rightarrow> string" where
  "or_empty v \<equiv> unwrap_or [] v"

definition public_format :: "public_sandbox formattable" where
  "public_format =
     \<lparr>fm_json = public_json,
      fm_table = (\<lambda>p. kv_table
        [(''id'', ps_id p), (''name'', ps_name p), (''host'', ps_host p), (''profile'', ps_profile p),
         (''flavor'', ps_flavor p), (''streaming'', ps_streaming p), (''task_id'', or_empty (ps_task_id p)),
         (''created_at'', or_empty (ps_created_at p)), (''lease_expires_at'', or_empty (ps_lease_expires_at p)),
         (''console_url'', or_empty (ps_console_url p)), (''cleanup_failed'', show_bool (ps_cleanup_failed p)),
         (''repository'', or_empty (ps_repository p))])\<rparr>"

definition sandbox_list_format :: "public_sandbox list formattable" where
  "sandbox_list_format =
     \<lparr>fm_json = (\<lambda>ps. JArr (map public_json ps)),
      fm_table = (\<lambda>ps. row_table [''ID'', ''NAME'', ''PROFILE'', ''STREAMING'', ''LEASE_EXPIRES_AT'']
        (map (\<lambda>p. [ps_id p, ps_name p, ps_profile p, ps_streaming p, or_empty (ps_lease_expires_at p)]) ps))\<rparr>"

definition status_format :: "status_report formattable" where
  "status_format =
     \<lparr>fm_json = status_json,
      fm_table = (\<lambda>r. kv_table
        [(''backend'', st_backend_name r), (''backend_available'', show_bool (st_backend_available r)),
         (''sandbox_count'', show_nat (st_sandbox_count r))])\<rparr>"

text \<open>The output of a command, as it was decoded from UTF-8.\<close>

definition output_format :: "command_output formattable" where
  "output_format =
     \<lparr>fm_json = exec_json,
      fm_table = (\<lambda>out. co_stdout out
        @ (if co_stderr out = [] then [] else (if co_stdout out = [] then [] else newline) @ co_stderr out))\<rparr>"

definition reap_format :: "reap_report formattable" where
  "reap_format =
     \<lparr>fm_json = reap_json,
      fm_table = (\<lambda>r. kv_table
        [(''destroyed'', join_with '', '' (rr_destroyed r)), (''would_destroy'', join_with '', '' (rr_would_destroy r)),
         (''keys_reconciled'', show_nat (rr_keys_reconciled r))])\<rparr>"

definition bootstrap_lines :: "bootstrap_report \<Rightarrow> string list" where
  "bootstrap_lines r =
     (let item = (\<lambda>a. ''  - '' @ a);
          ls = (if bt_taken r = [] then [] else ''actions taken:'' # map item (bt_taken r))
             @ (if bt_would r = [] then [] else ''actions that would be taken (--dry-run):'' # map item (bt_would r))
      in if ls = [] then [''(no actions)''] else ls)"

definition bootstrap_format :: "bootstrap_report formattable" where
  "bootstrap_format =
     \<lparr>fm_json = (\<lambda>r. JObj [(''actions_taken'', jstrs (bt_taken r)), (''actions_would_take'', jstrs (bt_would r))]),
      fm_table = (\<lambda>r. join_with newline (bootstrap_lines r))\<rparr>"

definition golden_format :: "golden_config formattable" where
  "golden_format =
     \<lparr>fm_json = golden_to_json,
      fm_table = (\<lambda>g. kv_table
        [(''key'', gc_key g), (''base'', gc_base g), (''cpu'', show_nat (gc_cpu g)), (''memory'', gc_memory g),
         (''content_hash'', or_empty (gc_content_hash g)), (''description'', gc_description g)])\<rparr>"

definition golden_list_format :: "golden_config list formattable" where
  "golden_list_format =
     \<lparr>fm_json = (\<lambda>gs. JArr (map golden_to_json gs)),
      fm_table = (\<lambda>gs. row_table [''KEY'', ''BASE'', ''CONTENT_HASH'', ''DESCRIPTION'']
        (map (\<lambda>g. [gc_key g, gc_base g, or_empty (gc_content_hash g), gc_description g]) gs))\<rparr>"

definition reconcile_lines :: "golden_reconcile_report \<Rightarrow> string list" where
  "reconcile_lines r =
     (let ls =
        (if gr_items r = [] then []
         else [row_table [''KEY'', ''BASE'', ''STATUS''] (map (\<lambda>i. [gi_key i, gi_base i, gi_status i]) (gr_items r))])
        @ (if gr_unregistered_vms r = [] then []
           else ''unregistered golden-shaped VMs (candidates for `golden register`):'' #
                map (\<lambda>vm. two_spaces @ vm) (gr_unregistered_vms r))
      in if ls = [] then [''(no goldens in the manifest and no golden-shaped VMs on the backend)''] else ls)"

definition reconcile_format :: "golden_reconcile_report formattable" where
  "reconcile_format = \<lparr>fm_json = reconcile_json, fm_table = (\<lambda>r. join_with newline (reconcile_lines r))\<rparr>"

definition build_format :: "golden_build_outcome formattable" where
  "build_format =
     \<lparr>fm_json = (\<lambda>out. JObj
        [(''key'', JStr (gc_key (go_config out))), (''content_hash'', jstr_opt (gc_content_hash (go_config out))),
         (''build_vm_tag'', jstr_opt (go_build_vm_tag out))]),
      fm_table = (\<lambda>out. kv_table
        [(''key'', gc_key (go_config out)), (''content_hash'', or_empty (gc_content_hash (go_config out))),
         (''build_vm_tag'', or_empty (go_build_vm_tag out))])\<rparr>"

definition checks_format :: "healthcheck_result list formattable" where
  "checks_format =
     \<lparr>fm_json = (\<lambda>rs. JArr (map check_json rs)),
      fm_table = (\<lambda>rs. row_table [''COMMAND'', ''RESULT'']
        (map (\<lambda>r. [hr_command r, if hr_passed r then ''pass'' else ''fail'']) rs))\<rparr>"

definition console_url_format :: "string option formattable" where
  "console_url_format = \<lparr>fm_json = jstr_opt, fm_table = unwrap_or ''(no console available)''\<rparr>"

definition no_matching :: string where
  "no_matching = ''no matching sandboxes''"

definition empty_list_format :: "unit formattable" where
  "empty_list_format =
     \<lparr>fm_json = (\<lambda>_. JObj [(''message'', JStr no_matching)]), fm_table = (\<lambda>_. ''('' @ no_matching @ '')'')\<rparr>"

definition destroyed_format :: "string formattable" where
  "destroyed_format = \<lparr>fm_json = JStr, fm_table = (\<lambda>i. ''destroyed '' @ i)\<rparr>"

definition put_get_format :: "string formattable" where
  "put_get_format = \<lparr>fm_json = (\<lambda>i. JObj [(''id'', JStr i)]), fm_table = (\<lambda>i. ''ok ('' @ i @ '')'')\<rparr>"

text \<open>The strings of an array, a line each; none of anything that is no array.\<close>

definition string_lines :: "json \<Rightarrow> string" where
  "string_lines v = (case as_array v of None \<Rightarrow> [] | Some vs \<Rightarrow> join_with newline (List.map_filter dec_str vs))"

definition profiles_format :: "(json \<times> bool) formattable" where
  "profiles_format =
     \<lparr>fm_json = (\<lambda>(ps, full). JObj [(''profiles'', ps), (''full'', JBool full)]),
      fm_table = (\<lambda>(ps, full).
        if string_lines ps = [] then ''(no profiles registered)''
        else if full
        then string_lines ps @ newline @ ''(--full has no additional detail beyond what this registry currently holds)''
        else string_lines ps)\<rparr>"

definition images_format :: "json formattable" where
  "images_format =
     \<lparr>fm_json = (\<lambda>v. v), fm_table = (\<lambda>v. if string_lines v = [] then ''(no images registered)'' else string_lines v)\<rparr>"

definition registered_format :: "string formattable" where
  "registered_format = \<lparr>fm_json = JStr, fm_table = (\<lambda>n. ''registered golden '' @ quoted n)\<rparr>"

definition deleted_format :: "string formattable" where
  "deleted_format = \<lparr>fm_json = JStr, fm_table = (\<lambda>n. ''deleted golden '' @ quoted n)\<rparr>"

definition log_lines_format :: "string list formattable" where
  "log_lines_format =
     \<lparr>fm_json = jstrs, fm_table = (\<lambda>ls. if ls = [] then ''(no log lines)'' else join_with newline ls)\<rparr>"

definition config_show_format :: "json_lib \<Rightarrow> json formattable" where
  "config_show_format jl = \<lparr>fm_json = (\<lambda>v. v), fm_table = jl_pretty jl\<rparr>"

definition config_path_format :: "unit formattable" where
  "config_path_format =
     \<lparr>fm_json = (\<lambda>_. JNull), fm_table = (\<lambda>_. ''no merged crate owns a writable config file path yet'')\<rparr>"

end
