(* ===== verification/Lsbx_Reconcile.thy ===== *)
theory Lsbx_Reconcile
  imports Lsbx_Runner
begin

text \<open>
  The CI broker's loop of \<open>reconcile.rs\<close>: dispatching a queued job onto a sandbox, following the
  runner's log, noticing divergence, provisioning, monitoring and cleaning up a runner, and the
  two drivers over the poller. The job record a method borrows mutably is part of the state, so
  what a method changed before it failed is visible afterwards. Log lines and warnings are left
  out. A driver without a number of iterations runs until an error stops it.
\<close>

record ('b, 'g) broker =
  br_ops :: "'b ops_world"
  br_gh :: 'g

record 'g reconciler =
  rc_lib :: lib
  rc_job_dir :: string
  rc_transport :: "'g transport"
  rc_backing :: backing

record ('b, 'g) job_state =
  jb_rec :: ci_job_record
  jb_sys :: "('b, 'g) broker"

type_synonym ('b, 'g, 'a) jact = "(('b, 'g) job_state, lsbx_error, 'a) comp"
type_synonym ('b, 'g, 'a) djact = "(('b, 'g) job_state, lsbx_error, 'a) dcomp"

subsection \<open>Reaching the parts of the state\<close>

definition br_world :: "('b, 'g) broker \<Rightarrow> 'b world" where
  "br_world s = ow_world (br_ops s)"

definition by_ops :: "('b, 'a) ops_act \<Rightarrow> (('b, 'g) broker, lsbx_error, 'a) comp" where
  "by_ops m s = (case m (br_ops s) of (r, os) \<Rightarrow> (r, s\<lparr>br_ops := os\<rparr>))"

definition by_gh :: "('g, lsbx_error, 'a) dcomp \<Rightarrow> (('b, 'g) broker, lsbx_error, 'a) dcomp" where
  "by_gh m s = map_option (\<lambda>(r, g). (r, s\<lparr>br_gh := g\<rparr>)) (m (br_gh s))"

definition save_job :: "'g reconciler \<Rightarrow> ci_job_record \<Rightarrow> (('b, 'g) broker, lsbx_error, unit) comp" where
  "save_job rc r = by_ops (in_world (on_fs (ci_save (rc_job_dir rc) r)))"

definition in_sys :: "(('b, 'g) broker, lsbx_error, 'a) comp \<Rightarrow> ('b, 'g, 'a) jact" where
  "in_sys m s = (case m (jb_sys s) of (r, b) \<Rightarrow> (r, s\<lparr>jb_sys := b\<rparr>))"

definition in_gh :: "('g, lsbx_error, 'a) dcomp \<Rightarrow> ('b, 'g, 'a) djact" where
  "in_gh m s = map_option (\<lambda>(r, b). (r, s\<lparr>jb_sys := b\<rparr>)) (by_gh m (jb_sys s))"

definition change :: "(ci_job_record \<Rightarrow> ci_job_record) \<Rightarrow> ('b, 'g, unit) jact" where
  "change f s = (Inr (), s\<lparr>jb_rec := f (jb_rec s)\<rparr>)"

definition save_rec :: "'g reconciler \<Rightarrow> ('b, 'g, unit) jact" where
  "save_rec rc s = in_sys (save_job rc (jb_rec s)) s"

definition now_text :: "'g reconciler \<Rightarrow> ('b, 'g) broker \<Rightarrow> string" where
  "now_text rc b = rfc3339_now (rc_lib rc) (br_world b)"

text \<open>\<open>updated_at\<close> is set and the record saved.\<close>

definition touch_and_save :: "'g reconciler \<Rightarrow> ('b, 'g, unit) jact" where
  "touch_and_save rc s =
     bindE (change (\<lambda>r. r\<lparr>cj_updated_at := now_text rc (jb_sys s)\<rparr>)) (\<lambda>_. save_rec rc) s"

definition br_now :: "('b, 'g) job_state \<Rightarrow> nat" where
  "br_now s = w_now (br_world (jb_sys s))"

definition sleep :: "nat \<Rightarrow> ('b, 'g) broker \<Rightarrow> ('b, 'g) broker" where
  "sleep d b = b\<lparr>br_ops := (br_ops b)\<lparr>ow_world := (br_world b)\<lparr>w_now := w_now (br_world b) + d\<rparr>\<rparr>\<rparr>"

definition sleep_j :: "nat \<Rightarrow> ('b, 'g) job_state \<Rightarrow> ('b, 'g) job_state" where
  "sleep_j d s = s\<lparr>jb_sys := sleep d (jb_sys s)\<rparr>"

subsection \<open>Dispatch\<close>

definition dispatch_request :: "queued_job \<Rightarrow> nat \<Rightarrow> create_request" where
  "dispatch_request j lease =
     \<lparr>rq_profile = ''ci'', rq_golden = None, rq_name = None, rq_task_id = Some (show_nat (qj_job_id j)),
      rq_lease = lease, rq_ready_timeout = secs 120, rq_verify = True, rq_cpu = None, rq_memory = None,
      rq_flavor = None, rq_streaming = None, rq_healthchecks = [], rq_os = None\<rparr>"

definition phase_dispatched :: string where "phase_dispatched = ''dispatched''"
definition phase_registered :: string where "phase_registered = ''registered''"
definition phase_listening :: string where "phase_listening = ''listening''"
definition phase_running :: string where "phase_running = ''running''"
definition phase_completed :: string where "phase_completed = ''completed''"
definition phase_failed :: string where "phase_failed = ''failed''"
definition phase_provisioning :: string where "phase_provisioning = ''provisioning''"
definition phase_waiting :: string where "phase_waiting = ''waiting_runner''"
definition phase_cleaning :: string where "phase_cleaning = ''cleaning''"

definition new_job_record :: "queued_job \<Rightarrow> public_sandbox \<Rightarrow> string \<Rightarrow> string \<Rightarrow> ci_job_record" where
  "new_job_record j ps now expires =
     \<lparr>cj_job_id = show_nat (qj_job_id j),
      cj_queue_label = (case qj_labels j of [] \<Rightarrow> [] | l # _ \<Rightarrow> l),
      cj_runner_group = None, cj_host_prefix = None, cj_phase = phase_dispatched,
      cj_sandbox_id = Some (ps_id ps), cj_runner_name = None, cj_dispatched_job_name = qj_name j,
      cj_actual_job_id = None, cj_actual_job_name = None, cj_diverged = False,
      cj_repository = qj_repository j, cj_created_at = now, cj_updated_at = now,
      cj_lease_expires_at = Some expires, cj_last_error = None\<rparr>"

definition dispatch ::
  "'g reconciler \<Rightarrow> 'b ops \<Rightarrow> queued_job \<Rightarrow> nat \<Rightarrow> (('b, 'g) broker, lsbx_error, ci_job_record) comp" where
  "dispatch rc op j lease =
     bindE (by_ops (ops_create op (dispatch_request j lease))) (\<lambda>ps b.
     let r = new_job_record j ps (now_text rc b) (rfc3339_now_plus (rc_lib rc) (br_world b) lease)
     in bindE (save_job rc r) (\<lambda>_. retE r) b)"

subsection \<open>Following the log\<close>

definition runner_log_path :: string where
  "runner_log_path = ''/tmp/lsbx-ci-broker-runner.log''"

definition tail_exec_timeout :: nat where
  "tail_exec_timeout = secs 10"

definition no_sandbox :: "string \<Rightarrow> lsbx_error" where
  "no_sandbox job_id = ContractViolated (''ci job '' @ job_id @ '' has no sandbox_id to tail (never fully dispatched)'')"

definition log_read_failed :: "string \<Rightarrow> lsbx_error" where
  "log_read_failed stderr = BackendUnavailable (''runner log read failed: '' @ trim stderr)"

definition read_runner_log :: "'b ops \<Rightarrow> string \<Rightarrow> (('b, 'g) broker, lsbx_error, string) comp" where
  "read_runner_log op sandbox =
     bindE (by_ops (ops_exec op sandbox [''cat'', runner_log_path] tail_exec_timeout)) (\<lambda>out.
     if co_exit_code out \<noteq> 0 then failE (log_read_failed (co_stderr out)) else retE (co_stdout out))"

definition terminal :: "string \<Rightarrow> bool" where
  "terminal p \<longleftrightarrow> p = phase_completed \<or> p = phase_failed"

text \<open>The effect of one line on the record, and whether anything changed, mark by mark.\<close>

type_synonym progress = "ci_job_record \<times> bool"

definition set_phase :: "string \<Rightarrow> progress \<Rightarrow> progress" where
  "set_phase p x = ((fst x)\<lparr>cj_phase := p\<rparr>, True)"

definition line_registered :: "string \<Rightarrow> progress \<Rightarrow> progress" where
  "line_registered line x =
     (case parse_runner_registered line of
        None \<Rightarrow> x
      | Some n \<Rightarrow>
          let x1 = (if cj_runner_name (fst x) \<noteq> Some n then ((fst x)\<lparr>cj_runner_name := Some n\<rparr>, True) else x)
          in if cj_phase (fst x1) \<noteq> phase_running \<and> \<not> terminal (cj_phase (fst x1))
             then set_phase phase_registered x1 else x1)"

definition line_listening :: "string \<Rightarrow> progress \<Rightarrow> progress" where
  "line_listening line x =
     (if is_listening_for_jobs line \<and> \<not> terminal (cj_phase (fst x)) \<and> cj_phase (fst x) \<noteq> phase_listening
      then set_phase phase_listening x else x)"

definition line_running :: "string \<Rightarrow> progress \<Rightarrow> progress" where
  "line_running line x =
     (if is_running_job line \<and> \<not> terminal (cj_phase (fst x)) \<and> cj_phase (fst x) \<noteq> phase_running
      then set_phase phase_running x else x)"

definition line_job_name :: "string \<Rightarrow> progress \<Rightarrow> progress" where
  "line_job_name line x =
     (case parse_running_job line of
        None \<Rightarrow> x
      | Some n \<Rightarrow>
          let x1 = (if cj_actual_job_name (fst x) \<noteq> Some n
                    then ((fst x)\<lparr>cj_actual_job_name := Some n\<rparr>, True) else x)
          in if \<not> terminal (cj_phase (fst x1)) \<and> cj_phase (fst x1) \<noteq> phase_running
             then set_phase phase_running x1 else x1)"

definition terminal_phase_of :: "string \<Rightarrow> string" where
  "terminal_phase_of result =
     (if eq_ignore_case result ''succeeded'' then phase_completed else phase_failed)"

definition line_completed :: "string \<Rightarrow> progress \<Rightarrow> progress" where
  "line_completed line x =
     (case parse_job_completed line of
        None \<Rightarrow> x
      | Some (n, result) \<Rightarrow>
          let p = terminal_phase_of result;
              x1 = (if cj_actual_job_name (fst x) \<noteq> Some n
                    then ((fst x)\<lparr>cj_actual_job_name := Some n\<rparr>, True) else x);
              x2 = (if cj_phase (fst x1) \<noteq> p then set_phase p x1 else x1)
          in if cj_last_error (fst x2) = None \<and> p = phase_failed
             then ((fst x2)\<lparr>cj_last_error := Some (''job '' @ n @ completed_mark @ result)\<rparr>, True)
             else x2)"

definition apply_line :: "string \<Rightarrow> progress \<Rightarrow> progress" where
  "apply_line line x =
     line_completed line (line_job_name line (line_running line (line_listening line (line_registered line x))))"

definition apply_log :: "string \<Rightarrow> ci_job_record \<Rightarrow> progress" where
  "apply_log log r = fold apply_line (str_lines log) (r, False)"

definition tail_and_update :: "'g reconciler \<Rightarrow> 'b ops \<Rightarrow> ('b, 'g, unit) jact" where
  "tail_and_update rc op s =
     (case cj_sandbox_id (jb_rec s) of
        None \<Rightarrow> (Inl (no_sandbox (cj_job_id (jb_rec s))), s)
      | Some sandbox \<Rightarrow>
          bindE (in_sys (read_runner_log op sandbox)) (\<lambda>log s'.
          let (r, changed) = apply_log log (jb_rec s'); s'' = s'\<lparr>jb_rec := r\<rparr>
          in if changed then touch_and_save rc s'' else (Inr (), s'')) s)"

subsection \<open>Divergence\<close>

definition diverges :: "string \<Rightarrow> nat option \<Rightarrow> bool" where
  "diverges job_id actual =
     (case (actual, parse_u64 job_id) of (Some a, Some d) \<Rightarrow> a \<noteq> d | _ \<Rightarrow> False)"

definition check_divergence :: "'g reconciler \<Rightarrow> ('b, 'g, unit) djact" where
  "check_divergence rc s =
     (case cj_runner_name (jb_rec s) of
        None \<Rightarrow> Some (Inr (), s)
      | Some runner \<Rightarrow>
          bindD (in_gh (job_for_runner (rc_transport rc) (rc_backing rc) (cj_repository (jb_rec s)) runner)) (\<lambda>actual s'.
          let d = diverges (cj_job_id (jb_rec s')) actual; a = map_option show_nat actual
          in if cj_diverged (jb_rec s') \<noteq> d \<or> cj_actual_job_id (jb_rec s') \<noteq> a
             then Some (touch_and_save rc (s'\<lparr>jb_rec := (jb_rec s')\<lparr>cj_diverged := d, cj_actual_job_id := a\<rparr>\<rparr>))
             else Some (Inr (), s')) s)"

subsection \<open>Startup\<close>

definition resume_failed :: "lsbx_error \<Rightarrow> string" where
  "resume_failed e = ''resume-tail failed during startup recovery: '' @ err_display e"

definition resume_one :: "'g reconciler \<Rightarrow> 'b ops \<Rightarrow> ('b, 'g) job_state \<Rightarrow> ('b, 'g) job_state" where
  "resume_one rc op s =
     (case tail_and_update rc op s of
        (Inr _, s') \<Rightarrow> s'
      | (Inl e, s') \<Rightarrow>
          snd (touch_and_save rc (s'\<lparr>jb_rec := (jb_rec s')\<lparr>cj_last_error := Some (resume_failed e)\<rparr>\<rparr>)))"

fun resume_all ::
  "'g reconciler \<Rightarrow> 'b ops \<Rightarrow> ci_job_record list \<Rightarrow> ('b, 'g) broker \<Rightarrow> ci_job_record list \<times> ('b, 'g) broker" where
  "resume_all rc op [] b = ([], b)"
| "resume_all rc op (r # rs) b =
     (let s = resume_one rc op \<lparr>jb_rec = r, jb_sys = b\<rparr>; (rs', b') = resume_all rc op rs (jb_sys s)
      in (jb_rec s # rs', b'))"

definition list_in_flight :: "'g reconciler \<Rightarrow> (('b, 'g) broker, lsbx_error, ci_job_record list) comp" where
  "list_in_flight rc = by_ops (in_world (on_fs (ci_list_in_flight (lb_serde (rc_lib rc)) (rc_job_dir rc))))"

definition reconcile_on_startup ::
  "'g reconciler \<Rightarrow> 'b ops \<Rightarrow> (('b, 'g) broker, lsbx_error, ci_job_record list) comp" where
  "reconcile_on_startup rc op =
     bindE (list_in_flight rc) (\<lambda>rs b. let (rs', b') = resume_all rc op rs b in (Inr rs', b'))"

subsection \<open>Provisioning a runner\<close>

definition runner_command_failed :: "string \<Rightarrow> lsbx_error" where
  "runner_command_failed stderr = BackendUnavailable (''runner command failed: '' @ trim stderr)"

definition exec_runner_command :: "'b ops \<Rightarrow> string \<Rightarrow> string \<Rightarrow> (('b, 'g) broker, lsbx_error, command_output) comp" where
  "exec_runner_command op sandbox command =
     bindE (by_ops (ops_exec op sandbox [''sh'', ''-c'', command] (secs 300))) (\<lambda>out.
     if co_exit_code out \<noteq> 0 then failE (runner_command_failed (co_stderr out)) else retE out)"

definition install_commands :: "string list" where
  "install_commands =
     [''sudo install -m 0600 /tmp/lsbx-ci-broker/lsbx-runner.env /etc/lsbx-runner.env'',
      ''sudo install -m 0600 /tmp/lsbx-ci-broker/lsbx-runner-app.pem /etc/lsbx-runner-app.pem'',
      ''sudo install -m 0755 /tmp/lsbx-ci-broker/provision-ci-runner.sh /usr/local/sbin/lsbx-provision-ci-runner'']"

fun exec_all :: "'b ops \<Rightarrow> string \<Rightarrow> string list \<Rightarrow> (('b, 'g) broker, lsbx_error, unit) comp" where
  "exec_all op sandbox [] = retE ()"
| "exec_all op sandbox (c # cs) = bindE (exec_runner_command op sandbox c) (\<lambda>_. exec_all op sandbox cs)"

definition provision_command :: "runner_config \<Rightarrow> string" where
  "provision_command cfg =
     ''sudo env RUNNER_HOST_PREFIX='' @ shell_quote (rg_host_prefix cfg)
       @ '' LUFSS_RUNNER_ENV=/etc/lsbx-runner.env bash /usr/local/sbin/lsbx-provision-ci-runner''"

definition start_command :: "runner_config \<Rightarrow> string" where
  "start_command cfg =
     ''sudo -u '' @ shell_quote (rg_runner_user cfg) @ '' nohup '' @ shell_quote (rg_runner_dir cfg)
       @ ''/run.sh </dev/null >/tmp/lsbx-ci-broker-runner.log 2>&1 &''"

definition no_runner_name :: lsbx_error where
  "no_runner_name = BackendUnavailable ''runner provisioning did not report a runner name''"

definition registered_name :: "string \<Rightarrow> string option" where
  "registered_name out = List.find (\<lambda>_. True) (List.map_filter parse_runner_registered (str_lines out))"

definition scrub_old :: "'b ops \<Rightarrow> string \<Rightarrow> (('b, 'g) broker, lsbx_error, unit) comp" where
  "scrub_old op sandbox b =
     (Inr (), snd (exec_runner_command op sandbox ''sudo rm -rf /tmp/lsbx-ci-broker'' b))"

text \<open>What is uploaded and run; the result is the name the runner registered under.\<close>

definition upload_and_install ::
  "'g reconciler \<Rightarrow> 'b ops \<Rightarrow> runner_config \<Rightarrow> string \<Rightarrow> string \<Rightarrow> (('b, 'g) broker, lsbx_error, string) comp" where
  "upload_and_install rc op cfg sandbox dir =
     bindE (scrub_old op sandbox) (\<lambda>_.
     bindE (by_ops (ops_put op sandbox dir ''/tmp/lsbx-ci-broker'')) (\<lambda>_.
     bindE (exec_all op sandbox install_commands) (\<lambda>_.
     bindE (exec_runner_command op sandbox (provision_command cfg)) (\<lambda>out.
     case registered_name (co_stdout out) of
       None \<Rightarrow> failE no_runner_name
     | Some n \<Rightarrow> retE n))))"

definition drop_upload :: "string \<Rightarrow> ('b, 'g) job_state \<Rightarrow> ('b, 'g) job_state" where
  "drop_upload dir s = snd (in_sys (by_ops (in_world (on_fs (\<lambda>f. (Inr (), snd (remove_dir_all dir f)))))) s)"

definition provision_uploaded ::
  "'g reconciler \<Rightarrow> 'b ops \<Rightarrow> runner_config \<Rightarrow> string \<Rightarrow> string \<Rightarrow> ('b, 'g, unit) jact" where
  "provision_uploaded rc op cfg sandbox dir =
     bindE (in_sys (upload_and_install rc op cfg sandbox dir)) (\<lambda>n.
     bindE (change (\<lambda>r. r\<lparr>cj_runner_name := Some n\<rparr>)) (\<lambda>_.
     bindE (touch_and_save rc) (\<lambda>_.
     bindE (in_sys (exec_runner_command op sandbox (start_command cfg))) (\<lambda>_. retE ()))))"

definition provision_runner :: "'g reconciler \<Rightarrow> 'b ops \<Rightarrow> runner_config \<Rightarrow> ('b, 'g, unit) jact" where
  "provision_runner rc op cfg s =
     (case cj_sandbox_id (jb_rec s) of
        None \<Rightarrow> (Inl (ContractViolated (''CI job '' @ cj_job_id (jb_rec s) @ '' has no sandbox to provision'')), s)
      | Some sandbox \<Rightarrow>
          bindE (change (\<lambda>r. r\<lparr>cj_phase := phase_provisioning\<rparr>)) (\<lambda>_.
          bindE (touch_and_save rc) (\<lambda>_ s1.
          bindE (in_sys (by_ops (in_world (on_fs
                   (prepare_runner_upload (rc_lib rc) cfg (cj_repository (jb_rec s1))))))) (\<lambda>dir s2.
          case provision_uploaded rc op cfg sandbox dir s2 of (r, s3) \<Rightarrow> (r, drop_upload dir s3)) s1)) s)"

subsection \<open>Monitoring a runner\<close>

definition poll_pause :: nat where
  "poll_pause = secs 3"

text \<open>The registered name, and whether the log says listening or exited.\<close>

definition scan_wait :: "string \<Rightarrow> ci_job_record \<times> bool \<times> bool \<Rightarrow> ci_job_record \<times> bool \<times> bool" where
  "scan_wait line x =
     (case x of (r, listening, exited) \<Rightarrow>
        (case parse_runner_registered line of None \<Rightarrow> r | Some n \<Rightarrow> r\<lparr>cj_runner_name := Some n\<rparr>,
         listening \<or> is_listening_for_jobs line, exited \<or> is_exited line))"

text \<open>A divergence check whose failure is only a warning.\<close>

definition divergence_noted :: "'g reconciler \<Rightarrow> ('b, 'g, unit) djact" where
  "divergence_noted rc s =
     (if cj_runner_name (jb_rec s) = None then Some (Inr (), s)
      else map_option (\<lambda>(_, s'). (Inr (), s')) (check_divergence rc s))"

definition exited_early :: "ci_job_record \<Rightarrow> lsbx_error" where
  "exited_early r = BackendUnavailable (''runner '' @ unwrap_or ''unknown'' (cj_runner_name r)
     @ '' exited before listening for jobs'')"

definition wait_step :: "'g reconciler \<Rightarrow> string \<Rightarrow> ('b, 'g, bool) djact" where
  "wait_step rc log s =
     (case fold scan_wait (str_lines log) (jb_rec s, False, False) of (r, listening, exited) \<Rightarrow>
        bindD (divergence_noted rc) (\<lambda>_.
        bindD (totalD (touch_and_save rc)) (\<lambda>_.
        if listening
        then totalD (bindE (change (\<lambda>r. r\<lparr>cj_phase := phase_running\<rparr>)) (\<lambda>_.
                     bindE (touch_and_save rc) (\<lambda>_. retE True)))
        else (\<lambda>s'. if exited then Some (Inl (exited_early (jb_rec s')), s') else Some (Inr False, s'))))
          (s\<lparr>jb_rec := r\<rparr>))"

definition not_listening :: "string \<Rightarrow> lsbx_error" where
  "not_listening job_id = Interrupted (''runner for Actions job '' @ job_id @ '' did not reach Listening for Jobs'')"

partial_function (option) wait_loop ::
  "'g reconciler \<Rightarrow> 'b ops \<Rightarrow> string \<Rightarrow> nat \<Rightarrow> ('b, 'g) job_state \<Rightarrow>
   ((lsbx_error + unit) \<times> ('b, 'g) job_state) option" where
  "wait_loop rc op sandbox deadline s =
     (if deadline \<le> br_now s then Some (Inl (not_listening (cj_job_id (jb_rec s))), s)
      else case in_sys (read_runner_log op sandbox) s of
        (Inl _, s1) \<Rightarrow> wait_loop rc op sandbox deadline (sleep_j poll_pause s1)
      | (Inr log, s1) \<Rightarrow>
          Option.bind (wait_step rc log s1) (\<lambda>(r, s2).
          case r of
            Inl e \<Rightarrow> Some (Inl e, s2)
          | Inr listening \<Rightarrow>
              if listening then Some (Inr (), s2)
              else wait_loop rc op sandbox deadline (sleep_j poll_pause s2)))"

text \<open>The record, the first completion and whether the log says exited.\<close>

definition scan_job ::
  "string \<Rightarrow> ci_job_record \<times> (string \<times> string) option \<times> bool \<Rightarrow> ci_job_record \<times> (string \<times> string) option \<times> bool" where
  "scan_job line x =
     (case x of (r, completion, exited) \<Rightarrow>
        let r1 = (case parse_runner_registered line of None \<Rightarrow> r | Some n \<Rightarrow> r\<lparr>cj_runner_name := Some n\<rparr>);
            r2 = (if is_listening_for_jobs line \<and> cj_phase r1 = phase_waiting
                  then r1\<lparr>cj_phase := phase_running\<rparr> else r1);
            r3 = (case parse_running_job line of
                    None \<Rightarrow> r2
                  | Some n \<Rightarrow> r2\<lparr>cj_actual_job_name := Some n,
                               cj_diverged := cj_diverged r2 \<or>
                                 (cj_dispatched_job_name r2 \<noteq> None \<and> cj_dispatched_job_name r2 \<noteq> Some n)\<rparr>)
        in (r3, if completion = None then parse_job_completed line else completion, exited \<or> is_exited line))"

definition succeeded :: "string \<Rightarrow> bool" where
  "succeeded result \<longleftrightarrow> eq_ignore_case result ''success'' \<or> eq_ignore_case result ''succeeded''"

definition bad_result :: "string \<Rightarrow> lsbx_error" where
  "bad_result result = BackendUnavailable (''runner reported job result '' @ result)"

definition exited_before_done :: "ci_job_record \<Rightarrow> lsbx_error" where
  "exited_before_done r = BackendUnavailable (''runner '' @ unwrap_or ''unknown'' (cj_runner_name r)
     @ '' exited before completing job '' @ cj_job_id r)"

definition bad_conclusion :: "ci_job_record \<Rightarrow> job_summary \<Rightarrow> lsbx_error" where
  "bad_conclusion r j = BackendUnavailable (''Actions job '' @ cj_job_id r @ '' concluded ''
     @ unwrap_or ''without a conclusion'' (js_conclusion j))"

text \<open>What the job's own status says: \<open>Some ()\<close> to stop.\<close>

definition judge_job :: "job_summary \<Rightarrow> ('b, 'g, bool) jact" where
  "judge_job j s =
     (let r = jb_rec s;
          r' = (if js_runner_name j \<noteq> None \<and> cj_runner_name r \<noteq> None \<and> js_runner_name j \<noteq> cj_runner_name r
                then r\<lparr>cj_diverged := True\<rparr> else r);
          s' = s\<lparr>jb_rec := r'\<rparr>
      in if js_status j = ''completed''
         then if cj_diverged r' then (Inr True, s')
              else if js_conclusion j \<noteq> Some ''success'' then (Inl (bad_conclusion r' j), s')
              else (Inr True, s')
         else (Inr False, s'))"

definition job_status_step :: "'g reconciler \<Rightarrow> ('b, 'g, bool) jact" where
  "job_status_step rc s =
     (case parse_u64 (cj_job_id (jb_rec s)) of
        None \<Rightarrow> (Inl (ContractViolated (''invalid Actions job id '' @ cj_job_id (jb_rec s))), s)
      | Some i \<Rightarrow>
          (case job (rc_transport rc) (rc_backing rc) (cj_repository (jb_rec s)) i (br_gh (jb_sys s)) of
             (Inr j, g) \<Rightarrow> judge_job j (s\<lparr>jb_sys := (jb_sys s)\<lparr>br_gh := g\<rparr>\<rparr>)
           | (Inl _, g) \<Rightarrow> (Inr False, s\<lparr>jb_sys := (jb_sys s)\<lparr>br_gh := g\<rparr>\<rparr>)))"

text \<open>Renewal is due at \<open>next_renew\<close>; the result is when it is due again.\<close>

definition renew_step :: "'g reconciler \<Rightarrow> 'b ops \<Rightarrow> string \<Rightarrow> nat \<Rightarrow> nat \<Rightarrow> ('b, 'g, nat) jact" where
  "renew_step rc op sandbox lease next_renew s =
     (if next_renew \<le> br_now s
      then bindE (in_sys (by_ops (ops_renew op sandbox lease))) (\<lambda>ps.
           bindE (change (\<lambda>r. r\<lparr>cj_lease_expires_at := ps_lease_expires_at ps\<rparr>)) (\<lambda>_.
           bindE (touch_and_save rc) (\<lambda>_ s'.
           (Inr (br_now s' + max (lease div 3) (secs 30)), s')))) s
      else (Inr next_renew, s))"

text \<open>One look at the log: \<open>None\<close> to stop the loop, otherwise when the next renewal is due.\<close>

definition watch_step ::
  "'g reconciler \<Rightarrow> 'b ops \<Rightarrow> string \<Rightarrow> nat \<Rightarrow> nat \<Rightarrow> string \<Rightarrow> ('b, 'g, nat option) djact" where
  "watch_step rc op sandbox lease next_renew log s =
     (case fold scan_job (str_lines log) (jb_rec s, None, False) of (r, completion, exited) \<Rightarrow>
        bindD (divergence_noted rc) (\<lambda>_.
        bindD (totalD (touch_and_save rc)) (\<lambda>_ s'.
        case completion of
          Some (n, result) \<Rightarrow>
            let s'' = s'\<lparr>jb_rec := (jb_rec s')\<lparr>cj_actual_job_name := Some n\<rparr>\<rparr>
            in if \<not> cj_diverged (jb_rec s'') \<and> \<not> succeeded result then Some (Inl (bad_result result), s'')
               else Some (Inr None, s'')
        | None \<Rightarrow>
            if exited
            then if cj_diverged (jb_rec s') then Some (Inr None, s')
                 else Some (Inl (exited_before_done (jb_rec s')), s')
            else Some (bindE (job_status_step rc) (\<lambda>stop.
                   if stop then retE None
                   else bindE (renew_step rc op sandbox lease next_renew) (\<lambda>n. retE (Some n))) s')))
          (s\<lparr>jb_rec := r\<rparr>))"

partial_function (option) watch_loop ::
  "'g reconciler \<Rightarrow> 'b ops \<Rightarrow> string \<Rightarrow> nat \<Rightarrow> nat \<Rightarrow> nat \<Rightarrow> ('b, 'g) job_state \<Rightarrow>
   ((lsbx_error + unit) \<times> ('b, 'g) job_state) option" where
  "watch_loop rc op sandbox lease deadline next_renew s =
     (if deadline \<le> br_now s then Some (Inr (), s)
      else case in_sys (read_runner_log op sandbox) s of
        (Inl _, s1) \<Rightarrow> watch_loop rc op sandbox lease deadline next_renew (sleep_j poll_pause s1)
      | (Inr log, s1) \<Rightarrow>
          Option.bind (watch_step rc op sandbox lease next_renew log s1) (\<lambda>(r, s2).
          case r of
            Inl e \<Rightarrow> Some (Inl e, s2)
          | Inr None \<Rightarrow> Some (Inr (), s2)
          | Inr (Some n) \<Rightarrow> watch_loop rc op sandbox lease deadline n (sleep_j poll_pause s2)))"

definition timed_out :: "string \<Rightarrow> lsbx_error" where
  "timed_out job_id = Interrupted (''timed out waiting for Actions job '' @ job_id)"

definition watch_job ::
  "'g reconciler \<Rightarrow> 'b ops \<Rightarrow> runner_config \<Rightarrow> string \<Rightarrow> nat \<Rightarrow> ('b, 'g, unit) djact" where
  "watch_job rc op cfg sandbox lease s =
     (let deadline = br_now s + rg_job_timeout cfg
      in bindD (watch_loop rc op sandbox lease deadline (br_now s)) (\<lambda>_ s'.
         if deadline \<le> br_now s' then Some (Inl (timed_out (cj_job_id (jb_rec s'))), s')
         else Some (Inr (), s')) s)"

definition monitor_runner :: "'g reconciler \<Rightarrow> 'b ops \<Rightarrow> runner_config \<Rightarrow> nat \<Rightarrow> ('b, 'g, unit) djact" where
  "monitor_runner rc op cfg lease s =
     (case cj_sandbox_id (jb_rec s) of
        None \<Rightarrow> Some (Inl (ContractViolated (''CI job '' @ cj_job_id (jb_rec s) @ '' has no sandbox to monitor'')), s)
      | Some sandbox \<Rightarrow>
          let wait_deadline = br_now s + rg_runner_wait_timeout cfg
          in bindD (totalD (bindE (change (\<lambda>r. r\<lparr>cj_phase := phase_waiting\<rparr>)) (\<lambda>_. touch_and_save rc))) (\<lambda>_.
             bindD (wait_loop rc op sandbox wait_deadline) (\<lambda>_.
             watch_job rc op cfg sandbox lease)) s)"

subsection \<open>What a log does to a record\<close>

lemma terminal_simps [simp]: "terminal phase_completed" "terminal phase_failed"
  "\<not> terminal phase_registered" "\<not> terminal phase_listening" "\<not> terminal phase_running" "\<not> terminal phase_dispatched"
  by (simp_all add: terminal_def phase_completed_def phase_failed_def phase_registered_def
      phase_listening_def phase_running_def phase_dispatched_def)

lemma terminal_ci: "terminal = ci_terminal"
  by (simp add: fun_eq_iff terminal_def ci_terminal_def phase_completed_def phase_failed_def)

lemma terminal_phase_of_terminal [simp]: "terminal (terminal_phase_of r)"
  by (simp add: terminal_phase_of_def)

lemmas line_defs = line_registered_def line_listening_def line_running_def line_job_name_def set_phase_def

text \<open>The fields that name the job never change.\<close>

definition same_job :: "ci_job_record \<Rightarrow> ci_job_record \<Rightarrow> bool" where
  "same_job a b \<longleftrightarrow> cj_job_id a = cj_job_id b \<and> cj_sandbox_id a = cj_sandbox_id b \<and>
     cj_repository a = cj_repository b \<and> cj_dispatched_job_name a = cj_dispatched_job_name b \<and>
     cj_created_at a = cj_created_at b \<and> cj_lease_expires_at a = cj_lease_expires_at b \<and>
     cj_diverged a = cj_diverged b"

lemma line_steps_same:
  "same_job (fst (line_registered l x)) (fst x)" "same_job (fst (line_listening l x)) (fst x)"
  "same_job (fst (line_running l x)) (fst x)" "same_job (fst (line_job_name l x)) (fst x)"
  "same_job (fst (line_completed l x)) (fst x)"
  by (auto simp: line_defs line_completed_def same_job_def Let_def split: option.splits)

lemma same_job_trans: "same_job a b \<Longrightarrow> same_job b c \<Longrightarrow> same_job a c"
  by (simp add: same_job_def)

lemma apply_line_same: "same_job (fst (apply_line l x)) (fst x)"
  unfolding apply_line_def
  by (rule same_job_trans [OF line_steps_same(5)], rule same_job_trans [OF line_steps_same(4)],
      rule same_job_trans [OF line_steps_same(3)], rule same_job_trans [OF line_steps_same(2)],
      rule line_steps_same(1))

lemma line_steps_terminal:
  "terminal (cj_phase (fst x)) \<Longrightarrow> cj_phase (fst (line_registered l x)) = cj_phase (fst x)"
  "terminal (cj_phase (fst x)) \<Longrightarrow> cj_phase (fst (line_listening l x)) = cj_phase (fst x)"
  "terminal (cj_phase (fst x)) \<Longrightarrow> cj_phase (fst (line_running l x)) = cj_phase (fst x)"
  "terminal (cj_phase (fst x)) \<Longrightarrow> cj_phase (fst (line_job_name l x)) = cj_phase (fst x)"
  by (auto simp: line_defs Let_def split: option.splits)

lemma line_steps_running:
  "\<not> terminal (cj_phase (fst x)) \<Longrightarrow> \<not> terminal (cj_phase (fst (line_registered l x)))"
  "\<not> terminal (cj_phase (fst x)) \<Longrightarrow> \<not> terminal (cj_phase (fst (line_listening l x)))"
  "\<not> terminal (cj_phase (fst x)) \<Longrightarrow> \<not> terminal (cj_phase (fst (line_running l x)))"
  "\<not> terminal (cj_phase (fst x)) \<Longrightarrow> \<not> terminal (cj_phase (fst (line_job_name l x)))"
  by (auto simp: line_defs Let_def split: option.splits)

lemma line_completed_phase:
  "cj_phase (fst (line_completed l x)) =
    (case parse_job_completed l of None \<Rightarrow> cj_phase (fst x) | Some (n, r) \<Rightarrow> terminal_phase_of r)"
  by (auto simp: line_completed_def set_phase_def Let_def split: option.splits)

text \<open>The phase after a line: a completion decides it, and otherwise a terminal phase stays.\<close>

lemma apply_line_phase:
  "case parse_job_completed l of
     Some (n, r) \<Rightarrow> cj_phase (fst (apply_line l x)) = terminal_phase_of r
   | None \<Rightarrow> (terminal (cj_phase (fst x)) \<longrightarrow> cj_phase (fst (apply_line l x)) = cj_phase (fst x)) \<and>
             (\<not> terminal (cj_phase (fst x)) \<longrightarrow> \<not> terminal (cj_phase (fst (apply_line l x))))"
  by (auto simp: apply_line_def line_completed_phase line_steps_terminal line_steps_running split: option.splits)

text \<open>The last completion of a log.\<close>

definition last_completion :: "string list \<Rightarrow> (string \<times> string) option" where
  "last_completion ls = fold (\<lambda>l c. case parse_job_completed l of None \<Rightarrow> c | Some d \<Rightarrow> Some d) ls None"

lemma last_completion_snoc:
  "last_completion (ls @ [l]) =
     (case parse_job_completed l of Some c \<Rightarrow> Some c | None \<Rightarrow> last_completion ls)"
  by (simp add: last_completion_def split: option.split)

lemma fold_apply_line_phase:
  "case last_completion ls of
     Some (n, r) \<Rightarrow> cj_phase (fst (fold apply_line ls x)) = terminal_phase_of r
   | None \<Rightarrow> (terminal (cj_phase (fst x)) \<longrightarrow> cj_phase (fst (fold apply_line ls x)) = cj_phase (fst x)) \<and>
             (\<not> terminal (cj_phase (fst x)) \<longrightarrow> \<not> terminal (cj_phase (fst (fold apply_line ls x))))"
proof (induction ls rule: rev_induct)
  case Nil
  then show ?case by (simp add: last_completion_def)
next
  case (snoc l ls)
  show ?case
  proof (cases "parse_job_completed l")
    case None
    then show ?thesis using snoc apply_line_phase [where l = l and x = "fold apply_line ls x"]
      by (auto simp: last_completion_snoc split: option.splits)
  next
    case (Some c)
    then show ?thesis using apply_line_phase [where l = l and x = "fold apply_line ls x"]
      by (auto simp: last_completion_snoc split: option.splits)
  qed
qed

lemma fold_apply_line_same: "same_job (fst (fold apply_line ls x)) (fst x)"
proof (induction ls arbitrary: x)
  case Nil
  then show ?case by (simp add: same_job_def)
next
  case (Cons l ls)
  then show ?case using same_job_trans [OF Cons.IH apply_line_same] by simp
qed

text \<open>Without a change the record is what it was.\<close>

definition honest :: "progress \<Rightarrow> progress \<Rightarrow> bool" where
  "honest x y \<longleftrightarrow> (snd x \<longrightarrow> snd y) \<and> (snd y \<or> y = x)"

lemma line_steps_honest:
  "honest x (line_registered l x)" "honest x (line_listening l x)" "honest x (line_running l x)"
  "honest x (line_job_name l x)" "honest x (line_completed l x)"
  by (auto simp: line_defs line_completed_def honest_def Let_def prod_eq_iff split: option.splits)

lemma honest_trans: "honest x y \<Longrightarrow> honest y z \<Longrightarrow> honest x z"
  by (auto simp: honest_def)

lemma apply_line_honest: "honest x (apply_line l x)"
  unfolding apply_line_def
  by (rule honest_trans [OF _ line_steps_honest(5)], rule honest_trans [OF _ line_steps_honest(4)],
      rule honest_trans [OF _ line_steps_honest(3)], rule honest_trans [OF _ line_steps_honest(2)],
      rule line_steps_honest(1))

lemma fold_apply_line_honest: "honest x (fold apply_line ls x)"
proof (induction ls arbitrary: x)
  case Nil
  then show ?case by (simp add: honest_def)
next
  case (Cons l ls)
  then show ?case using honest_trans [OF apply_line_honest Cons.IH] by simp
qed

lemma apply_log_unchanged: "apply_log log r = (r', False) \<Longrightarrow> r' = r"
  using fold_apply_line_honest [of "(r, False)" "str_lines log"] by (simp add: apply_log_def honest_def)


subsection \<open>Lifting, and what stays\<close>

lemma by_ops_simps [simp]:
  "fst (by_ops m b) = fst (m (br_ops b))" "br_ops (snd (by_ops m b)) = snd (m (br_ops b))"
  "br_gh (snd (by_ops m b)) = br_gh b"
  by (simp_all add: by_ops_def split: prod.splits)

lemma in_sys_simps [simp]:
  "fst (in_sys m s) = fst (m (jb_sys s))" "jb_sys (snd (in_sys m s)) = snd (m (jb_sys s))"
  "jb_rec (snd (in_sys m s)) = jb_rec s"
  by (simp_all add: in_sys_def split: prod.splits)

lemma by_ops_iff: "by_ops m b = (r, b') \<longleftrightarrow> (\<exists>os. m (br_ops b) = (r, os) \<and> b' = b\<lparr>br_ops := os\<rparr>)"
  by (auto simp: by_ops_def split: prod.splits)

lemma in_sys_iff: "in_sys m s = (r, s') \<longleftrightarrow> (\<exists>b. m (jb_sys s) = (r, b) \<and> s' = s\<lparr>jb_sys := b\<rparr>)"
  by (auto simp: in_sys_def split: prod.splits)

lemma change_iff [simp]: "change f s = (r, s') \<longleftrightarrow> r = Inr () \<and> s' = s\<lparr>jb_rec := f (jb_rec s)\<rparr>"
  by (auto simp: change_def)

abbreviation job_view :: "'g reconciler \<Rightarrow> ('b, 'g) broker \<Rightarrow> string \<Rightarrow> ci_job_record option" where
  "job_view rc b \<equiv> ci_view (rc_job_dir rc) (w_fs (br_world b))"

abbreviation box_view :: "'b ops \<Rightarrow> ('b, 'g) broker \<Rightarrow> string \<Rightarrow> sandbox_record option" where
  "box_view op b \<equiv> sandbox_view (op_state_dir op) (w_fs (br_world b))"

abbreviation br_bk :: "('b, 'g) broker \<Rightarrow> 'b" where
  "br_bk b \<equiv> w_bk (br_world b)"

abbreviation br_calm :: "('b, 'g) broker \<Rightarrow> bool" where
  "br_calm b \<equiv> calm (w_fs (br_world b))"

lemma dirs_differ: "store_dir sd \<noteq> ci_store_dir jd"
proof
  assume "store_dir sd = ci_store_dir jd"
  then have "rev (store_dir sd) = rev (ci_store_dir jd)" by simp
  then show False by (simp add: store_dir_def ci_store_dir_def)
qed

lemma ci_save_frame:
  "sandbox_view sd (snd (ci_save jd r s)) = sandbox_view sd s"
  "calm (snd (ci_save jd r s)) = calm s"
proof -
  show "calm (snd (ci_save jd r s)) = calm s" by (rule ci_jobs.calm_put)
  obtain x s' where a: "ci_save jd r s = (x, s')" by fastforce
  have g: "fs_get s' (store_dir sd) n = fs_get s (store_dir sd) n" for n
  proof (cases x)
    case (Inl e)
    have "fs_files s' = fs_files s" using a [unfolded ci_save_def Inl] by (rule atomic_write_Inl)
    then show ?thesis by (rule fs_get_frame)
  next
    case (Inr u)
    have "fs_files s' = AList.update (ci_store_dir jd, record_file (cj_job_id r)) (FJson (ci_envelope_to_json r), 384) (fs_files s)"
      using a [unfolded ci_save_def Inr] by (rule atomic_write_Inr)
    then show ?thesis using dirs_differ [of sd jd] by (simp add: fs_get_def update_conv')
  qed
  have "sandbox_view sd s' = sandbox_view sd s" by (rule sandbox_view_get [OF g])
  then show "sandbox_view sd (snd (ci_save jd r s)) = sandbox_view sd s" using a by simp
qed

text \<open>Saving a job record touches nothing but that record.\<close>

lemma save_job_result:
  assumes "save_job rc r b = (x, b')"
  shows "job_view rc b' = (case x of Inr _ \<Rightarrow> (job_view rc b)(cj_job_id r \<mapsto> r) | Inl _ \<Rightarrow> job_view rc b)"
    and "box_view op b' = box_view op b" and "br_bk b' = br_bk b" and "br_calm b' = br_calm b"
    and "w_now (br_world b') = w_now (br_world b)" and "br_gh b' = br_gh b"
    and "br_calm b \<Longrightarrow> x = Inr ()" and "ow_registry (br_ops b') = ow_registry (br_ops b)"
proof -
  obtain f where f: "ci_save (rc_job_dir rc) r (w_fs (br_world b)) = (x, f)"
    and b': "b' = b\<lparr>br_ops := (br_ops b)\<lparr>ow_world := (br_world b)\<lparr>w_fs := f\<rparr>\<rparr>\<rparr>"
    using assms by (auto simp: save_job_def by_ops_iff in_world_iff on_fs_iff br_world_def)
  have w: "br_world b' = (br_world b)\<lparr>w_fs := f\<rparr>" by (simp add: b' br_world_def)
  show "job_view rc b' = (case x of Inr _ \<Rightarrow> (job_view rc b)(cj_job_id r \<mapsto> r) | Inl _ \<Rightarrow> job_view rc b)"
    using ci_jobs.put_result [of "rc_job_dir rc" r "w_fs (br_world b)"] f by (simp add: w)
  show "box_view op b' = box_view op b" "br_calm b' = br_calm b"
    using ci_save_frame(1) [of "op_state_dir op" "rc_job_dir rc" r "w_fs (br_world b)"]
      ci_save_frame(2) [of "rc_job_dir rc" r "w_fs (br_world b)"] f by (simp_all add: w)
  show "br_calm b \<Longrightarrow> x = Inr ()" using ci_jobs.put_calm [of "w_fs (br_world b)" "rc_job_dir rc" r] f by simp
qed (use assms in \<open>auto simp: save_job_def by_ops_iff in_world_iff on_fs_iff br_world_def\<close>)

lemma touch_and_save_result:
  assumes "touch_and_save rc s = (x, s')"
  shows "jb_rec s' = (jb_rec s)\<lparr>cj_updated_at := now_text rc (jb_sys s)\<rparr>"
    and "save_job rc (jb_rec s') (jb_sys s) = (x, jb_sys s')"
  using assms by (auto simp: touch_and_save_def save_rec_def change_def in_sys_iff bindE_def)

subsection \<open>Following\<close>

lemma ops_exec_frame:
  assumes "ops_exec op i c t s = (x, s')"
  shows "fs_files (w_fs (ow_world s')) = fs_files (w_fs (ow_world s))" "calm (w_fs (ow_world s')) = calm (w_fs (ow_world s))"
    "w_now (ow_world s) \<le> w_now (ow_world s')" "ow_registry s' = ow_registry s"
proof -
  define P where "P v \<longleftrightarrow> fs_files (w_fs (ow_world v)) = fs_files (w_fs (ow_world s)) \<and>
      (calm (w_fs (ow_world v)) \<longleftrightarrow> calm (w_fs (ow_world s))) \<and> w_now (ow_world s) \<le> w_now (ow_world v) \<and>
      ow_registry v = ow_registry s" for v :: "'a ops_world"
  have l: "P (snd (load_record op i v))" if "P v" for v
    using that by (simp add: P_def load_record_def sandbox_load_snd sandboxes.calm_get)
  have g: "P (snd (guest_of op i v))" if "P v" for v
    unfolding guest_of_def by (rule bindE_keep [where P = P, OF that l]) (auto split: option.splits)
  have r: "P (snd (in_world (run_guest be t c tmo k) v))" if "P v" for be t c tmo k v
    using that by (auto simp: P_def run_guest_def Let_def on_bk_def split: prod.splits)
  have "P (snd (ops_exec op i c t s))"
    unfolding ops_exec_def by (rule bindE_keep [where P = P, OF _ g]) (auto simp: P_def [of s] r split: prod.splits)
  then show "fs_files (w_fs (ow_world s')) = fs_files (w_fs (ow_world s))" "calm (w_fs (ow_world s')) = calm (w_fs (ow_world s))"
    "w_now (ow_world s) \<le> w_now (ow_world s')" "ow_registry s' = ow_registry s"
    using assms by (auto simp: P_def)
qed

lemma read_runner_log_frame:
  assumes "read_runner_log op i b = (x, b')"
  shows "fs_files (w_fs (br_world b')) = fs_files (w_fs (br_world b))" "br_calm b' = br_calm b"
    "w_now (br_world b) \<le> w_now (br_world b')" "br_gh b' = br_gh b"
proof -
  obtain y os where e: "ops_exec op i [''cat'', runner_log_path] tail_exec_timeout (br_ops b) = (y, os)" by fastforce
  then have b': "b' = b\<lparr>br_ops := os\<rparr>"
    using assms by (auto simp: read_runner_log_def bindE_def by_ops_def split: sum.splits if_splits)
  show "fs_files (w_fs (br_world b')) = fs_files (w_fs (br_world b))" "br_calm b' = br_calm b"
    "w_now (br_world b) \<le> w_now (br_world b')" "br_gh b' = br_gh b"
    using ops_exec_frame [OF e] by (simp_all add: b' br_world_def)
qed

text \<open>After a successful pass the record in memory is what the log makes of it, and it is the
  stored one whenever anything changed.\<close>

lemma tail_and_update_Inr:
  assumes "tail_and_update rc op s = (Inr u, s')"
  shows "\<exists>log changed. apply_log log (jb_rec s) = (jb_rec s'\<lparr>cj_updated_at := cj_updated_at (fst (apply_log log (jb_rec s)))\<rparr>, changed) \<and>
    (if changed then job_view rc (jb_sys s') = (job_view rc (jb_sys s))(cj_job_id (jb_rec s') \<mapsto> jb_rec s')
     else jb_rec s' = jb_rec s \<and> job_view rc (jb_sys s') = job_view rc (jb_sys s)) \<and>
    box_view op (jb_sys s') = box_view op (jb_sys s)"
proof -
  from assms obtain i where i: "cj_sandbox_id (jb_rec s) = Some i"
    by (auto simp: tail_and_update_def split: option.splits)
  with assms obtain log s1 where l: "in_sys (read_runner_log op i) s = (Inr log, s1)"
    and k: "(let (r, changed) = apply_log log (jb_rec s1); s'' = s1\<lparr>jb_rec := r\<rparr>
             in if changed then touch_and_save rc s'' else (Inr (), s'')) = (Inr u, s')"
    by (auto simp: tail_and_update_def bindE_Inr_iff)
  obtain b where b: "read_runner_log op i (jb_sys s) = (Inr log, b)" "s1 = s\<lparr>jb_sys := b\<rparr>"
    using l by (auto simp: in_sys_iff)
  have v: "job_view rc b = job_view rc (jb_sys s)" "box_view op b = box_view op (jb_sys s)"
    using read_runner_log_frame(1) [OF b(1)] by (auto intro: ci_view_cong sandbox_view_cong)
  obtain r ch where a: "apply_log log (jb_rec s) = (r, ch)" by fastforce
  show ?thesis
  proof (cases ch)
    case False
    then have "jb_rec s' = r" "jb_sys s' = b" using k a b by auto
    then show ?thesis using a v apply_log_unchanged [of log "jb_rec s" r] False
      by (intro exI [of _ log] exI [of _ ch]) auto
  next
    case True
    then have t: "touch_and_save rc (s1\<lparr>jb_rec := r\<rparr>) = (Inr u, s')" using k a b by auto
    note tr = touch_and_save_result [OF t]
    have "job_view rc (jb_sys s') = (job_view rc b)(cj_job_id (jb_rec s') \<mapsto> jb_rec s')"
      "box_view op (jb_sys s') = box_view op b"
      using save_job_result(1,2) [OF tr(2)] b(2) by simp_all
    then show ?thesis using a v tr(1) True by (intro exI [of _ log] exI [of _ ch]) auto
  qed
qed

subsection \<open>Divergence and dispatch\<close>

lemma in_gh_Some:
  "in_gh m s = Some (x, s') \<longleftrightarrow> (\<exists>g. m (br_gh (jb_sys s)) = Some (x, g) \<and> s' = s\<lparr>jb_sys := (jb_sys s)\<lparr>br_gh := g\<rparr>\<rparr>)"
  by (auto simp: in_gh_def by_gh_def)

lemma in_gh_None: "in_gh m s = None \<longleftrightarrow> m (br_gh (jb_sys s)) = None"
  by (simp add: in_gh_def by_gh_def)

lemma check_divergence_Inr:
  assumes "check_divergence rc s = Some (Inr u, s')" and "cj_runner_name (jb_rec s) = Some runner"
  shows "\<exists>actual g. job_for_runner (rc_transport rc) (rc_backing rc) (cj_repository (jb_rec s)) runner (br_gh (jb_sys s))
      = Some (Inr actual, g) \<and>
    cj_diverged (jb_rec s') = diverges (cj_job_id (jb_rec s)) actual \<and>
    cj_actual_job_id (jb_rec s') = map_option show_nat actual \<and>
    cj_job_id (jb_rec s') = cj_job_id (jb_rec s) \<and> cj_phase (jb_rec s') = cj_phase (jb_rec s) \<and>
    box_view op (jb_sys s') = box_view op (jb_sys s) \<and> br_bk (jb_sys s') = br_bk (jb_sys s)"
proof -
  from assms obtain actual g where g: "job_for_runner (rc_transport rc) (rc_backing rc) (cj_repository (jb_rec s)) runner (br_gh (jb_sys s)) = Some (Inr actual, g)"
    and k: "(let s1 = s\<lparr>jb_sys := (jb_sys s)\<lparr>br_gh := g\<rparr>\<rparr>; d = diverges (cj_job_id (jb_rec s1)) actual; a = map_option show_nat actual
          in if cj_diverged (jb_rec s1) \<noteq> d \<or> cj_actual_job_id (jb_rec s1) \<noteq> a
             then Some (touch_and_save rc (s1\<lparr>jb_rec := (jb_rec s1)\<lparr>cj_diverged := d, cj_actual_job_id := a\<rparr>\<rparr>))
             else Some (Inr (), s1)) = Some (Inr u, s')"
    by (auto simp: check_divergence_def bindD_Inr_iff in_gh_Some Let_def)
  let ?s1 = "s\<lparr>jb_sys := (jb_sys s)\<lparr>br_gh := g\<rparr>\<rparr>"
  let ?d = "diverges (cj_job_id (jb_rec s)) actual" and ?a = "map_option show_nat actual"
  have w: "br_world ((jb_sys s)\<lparr>br_gh := g\<rparr>) = br_world (jb_sys s)" by (simp add: br_world_def)
  show ?thesis
  proof (cases "cj_diverged (jb_rec s) \<noteq> ?d \<or> cj_actual_job_id (jb_rec s) \<noteq> ?a")
    case False
    then have "s' = ?s1" using k by (auto simp: Let_def)
    then show ?thesis using g False by (simp add: w)
  next
    case True
    then have t: "touch_and_save rc (?s1\<lparr>jb_rec := (jb_rec ?s1)\<lparr>cj_diverged := ?d, cj_actual_job_id := ?a\<rparr>\<rparr>) = (Inr u, s')"
      using k by (simp add: Let_def)
    note tr = touch_and_save_result [OF t]
    show ?thesis using g tr(1) save_job_result(2,3) [OF tr(2)] by (simp add: w)
  qed
qed

lemma diverges_iff:
  "n < 2 ^ 64 \<Longrightarrow> diverges (show_nat n) actual \<longleftrightarrow> (\<exists>a. actual = Some a \<and> a \<noteq> n)"
  by (auto simp: diverges_def parse_show_nat split: option.splits)

text \<open>A dispatched job has a durable record, and its sandbox a durable record and a guest.\<close>

lemma ops_create_Inr:
  assumes "ops_create op rq s = (Inr ps, s')"
  shows "\<exists>v w. resolve_request (ow_registry s) (rq_profile rq) = Inr v \<and>
    create (op_lib op) (op_backend op) (op_state_dir op) (resolved_request rq v) (ow_world s) = (Inr ps, w) \<and>
    s' = s\<lparr>ow_world := w\<rparr>"
  using assms by (auto simp: ops_create_def in_world_iff split: sum.splits)

lemma public_id: "ps_id (public r) = sr_id r" "ps_lease_expires_at (public r) = sr_lease_expires_at r"
  by (simp_all add: public_def)

lemma dispatch_ok:
  assumes c: "backend_contract (op_backend op) live" and "dispatch rc op j lease b = (Inr r, b')"
  shows "job_view rc b' (cj_job_id r) = Some r \<and> cj_job_id r = show_nat (qj_job_id j) \<and>
    cj_phase r = phase_dispatched \<and> cj_repository r = qj_repository j \<and>
    (\<exists>i box t. cj_sandbox_id r = Some i \<and> box_view op b' i = Some box \<and> sr_vm_tag box = Some t \<and>
       live (br_bk b') = insert t (live (br_bk b)))"
proof -
  from assms(2) obtain ps b1 where d: "by_ops (ops_create op (dispatch_request j lease)) b = (Inr ps, b1)"
    and r: "r = new_job_record j ps (now_text rc b1) (rfc3339_now_plus (rc_lib rc) (br_world b1) lease)"
    and sv: "save_job rc r b1 = (Inr (), b')"
    by (auto simp: dispatch_def bindE_Inr_iff Let_def)
  from d obtain os where os: "ops_create op (dispatch_request j lease) (br_ops b) = (Inr ps, os)" "b1 = b\<lparr>br_ops := os\<rparr>"
    by (auto simp: by_ops_iff)
  from ops_create_Inr [OF os(1)] obtain v w where
    w: "create (op_lib op) (op_backend op) (op_state_dir op) (resolved_request (dispatch_request j lease) v) (br_world b) = (Inr ps, w)"
      "br_world b1 = w"
    by (auto simp: os(2) br_world_def)
  obtain box t where box: "ps = public box" "sr_vm_tag box = Some t"
    "sandbox_view (op_state_dir op) (w_fs w) = (sandbox_view (op_state_dir op) (w_fs (br_world b)))(sr_id box \<mapsto> box)"
    "live (w_bk w) = insert t (live (br_bk b))"
    using backend_contract.create_ok_durable [OF c w(1)] by auto
  note s = save_job_result [OF sv]
  have "box_view op b' (sr_id box) = Some box" using s(2) [of op] box(3) w(2) by simp
  moreover have "live (br_bk b') = insert t (live (br_bk b))" using s(3) box(4) w(2) by simp
  moreover have "job_view rc b' (cj_job_id r) = Some r" using s(1) by simp
  moreover have "cj_sandbox_id r = Some (sr_id box)" by (simp add: r new_job_record_def box(1) public_id)
  ultimately show ?thesis using box(2) by (auto simp: r new_job_record_def)
qed

subsection \<open>Monitoring returns, and in time\<close>

text \<open>GitHub's listings all return.\<close>

definition listings_return :: "'g reconciler \<Rightarrow> bool" where
  "listings_return rc \<longleftrightarrow>
     (\<forall>repo status g. workflow_runs (rc_transport rc) (rc_backing rc) repo status g \<noteq> None) \<and>
     (\<forall>repo run g. run_jobs (rc_transport rc) (rc_backing rc) repo run g \<noteq> None) \<and>
     (\<forall>g. installation_repositories (rc_transport rc) (rc_backing rc) g \<noteq> None)"

lemma bindD_returns:
  assumes "m s \<noteq> None" and "\<And>x s'. m s = Some (Inr x, s') \<Longrightarrow> k x s' \<noteq> None"
  shows "bindD m k s \<noteq> None"
  using assms by (auto simp: bindD_def split: sum.splits)

lemma scan_runs_returns:
  assumes "listings_return rc"
  shows "scan_runs (rc_transport rc) (rc_backing rc) repo runner runs g \<noteq> None"
proof (induction runs arbitrary: g)
  case Nil
  then show ?case by simp
next
  case (Cons run runs)
  show ?case unfolding scan_runs.simps
    by (rule bindD_returns) (use assms Cons.IH in \<open>auto simp: listings_return_def split: option.splits\<close>)
qed

lemma job_for_runner_returns:
  assumes "listings_return rc"
  shows "job_for_runner (rc_transport rc) (rc_backing rc) repo runner g \<noteq> None"
proof -
  have "scan_by_status (rc_transport rc) (rc_backing rc) repo runner sts g \<noteq> None" for sts g
  proof (induction sts arbitrary: g)
    case Nil
    then show ?case by simp
  next
    case (Cons st sts)
    have i: "bindD (scan_runs (rc_transport rc) (rc_backing rc) repo runner runs)
        (\<lambda>found. case found of Some i \<Rightarrow> retD (Some i)
           | None \<Rightarrow> scan_by_status (rc_transport rc) (rc_backing rc) repo runner sts) g' \<noteq> None" for runs g'
      by (rule bindD_returns) (use scan_runs_returns [OF assms] Cons.IH in \<open>auto split: option.splits\<close>)
    show ?case unfolding scan_by_status.simps
      by (rule bindD_returns) (use assms i in \<open>auto simp: listings_return_def\<close>)
  qed
  then show ?thesis by (simp add: job_for_runner_def)
qed

lemma check_divergence_returns:
  assumes "listings_return rc"
  shows "check_divergence rc s \<noteq> None"
proof (cases "cj_runner_name (jb_rec s)")
  case None
  then show ?thesis by (simp add: check_divergence_def)
next
  case (Some n)
  show ?thesis unfolding check_divergence_def Some option.case
    by (rule bindD_returns) (use job_for_runner_returns [OF assms] in \<open>auto simp: in_gh_None Let_def\<close>)
qed

lemma divergence_noted_returns: "listings_return rc \<Longrightarrow> divergence_noted rc s \<noteq> None"
  using check_divergence_returns [of rc s] by (auto simp: divergence_noted_def)

lemma wait_step_returns:
  assumes "listings_return rc"
  shows "wait_step rc log s \<noteq> None"
proof -
  obtain r a e where f: "fold scan_wait (str_lines log) (jb_rec s, False, False) = (r, a, e)" by (metis prod_cases3)
  show ?thesis unfolding wait_step_def f prod.case
    by (intro bindD_returns divergence_noted_returns [OF assms]) auto
qed

lemma watch_step_returns:
  assumes "listings_return rc"
  shows "watch_step rc op i lease n log s \<noteq> None"
proof -
  obtain r a e where f: "fold scan_job (str_lines log) (jb_rec s, None, False) = (r, a, e)" by (metis prod_cases3)
  show ?thesis unfolding watch_step_def f prod.case
    by (intro bindD_returns divergence_noted_returns [OF assms])
      (auto simp: Let_def split: option.splits prod.splits)
qed


text \<open>Only running a command and sleeping take time.\<close>

lemma bindD_keepD:
  assumes "bindD m k s = Some (y, s'')" and "\<And>x s'. m s = Some (x, s') \<Longrightarrow> P s'"
    and "\<And>x s'. P s' \<Longrightarrow> k x s' = Some (y, s'') \<Longrightarrow> P s''"
  shows "P s''"
  using assms by (auto simp: bindD_def split: option.splits sum.splits)

lemma touch_and_save_now: "touch_and_save rc s = (x, s') \<Longrightarrow> br_now s' = br_now s"
  using save_job_result(5) touch_and_save_result(2) by (metis br_now_def)

lemma check_divergence_now:
  assumes "check_divergence rc s = Some (x, s')"
  shows "br_now s' = br_now s"
proof (cases "cj_runner_name (jb_rec s)")
  case None
  then show ?thesis using assms by (simp add: check_divergence_def)
next
  case (Some n)
  show ?thesis
    using assms unfolding check_divergence_def Some option.case
    by (rule bindD_keepD [where P = "\<lambda>v. br_now v = br_now s"])
      (auto simp: in_gh_Some br_now_def br_world_def Let_def split: if_splits dest!: touch_and_save_now)
qed

lemma divergence_noted_now: "divergence_noted rc s = Some (x, s') \<Longrightarrow> br_now s' = br_now s"
  by (auto simp: divergence_noted_def split: if_splits dest: check_divergence_now)

lemma wait_step_now:
  fixes s :: "('b, 'g) job_state"
  assumes "wait_step rc log s = Some (x, s')"
  shows "br_now s' = br_now s"
proof -
  obtain r a e where f: "fold scan_wait (str_lines log) (jb_rec s, False, False) = (r, a, e)" by (metis prod_cases3)
  have n: "br_now (v\<lparr>jb_rec := q\<rparr>) = br_now v" for v :: "('b, 'g) job_state" and q by (simp add: br_now_def)
  have l: "bindE (touch_and_save rc) (\<lambda>_. retE True) v = (y, v') \<Longrightarrow> br_now v' = br_now v" for v v' y
    by (auto simp: bindE_def split: prod.splits sum.splits dest!: touch_and_save_now)
  show ?thesis
    using assms unfolding wait_step_def f prod.case
    by (elim bindD_keepD [where P = "\<lambda>v. br_now v = br_now s"])
      (auto simp: n split: if_splits dest!: divergence_noted_now touch_and_save_now l)
qed

lemma renew_now: "renew lb sd i d w = (x, w') \<Longrightarrow> w_now w' = w_now w"
  by (auto simp: renew_def bindE_def on_fs_def Let_def split: prod.splits sum.splits if_splits)

lemma renew_step_now:
  assumes "renew_step rc op i lease n s = (x, s')"
  shows "br_now s' = br_now s"
proof -
  have r: "in_sys (by_ops (ops_renew op i lease)) v = (y, v') \<Longrightarrow> br_now v' = br_now v" for v v' y
    by (auto simp: in_sys_iff by_ops_iff ops_renew_def in_world_iff br_now_def br_world_def dest!: renew_now)
  have "P (snd (renew_step rc op i lease n s))" if "P = (\<lambda>v. br_now v = br_now s)" for P
    unfolding renew_step_def that
    by (auto simp: bindE_def change_def br_now_def br_world_def split: prod.splits sum.splits
        dest!: touch_and_save_now r)
  then show ?thesis using assms by simp
qed

lemma job_status_step_now:
  assumes "job_status_step rc s = (x, s')"
  shows "br_now s' = br_now s"
  using assms
  by (auto simp: job_status_step_def judge_job_def Let_def br_now_def br_world_def
      split: option.splits prod.splits sum.splits if_splits)

lemma watch_step_now:
  fixes s :: "('b, 'g) job_state"
  assumes "watch_step rc op i lease n log s = Some (x, s')"
  shows "br_now s' = br_now s"
proof -
  obtain r c e where f: "fold scan_job (str_lines log) (jb_rec s, None, False) = (r, c, e)" by (metis prod_cases3)
  have n: "br_now (v\<lparr>jb_rec := q\<rparr>) = br_now v" for v :: "('b, 'g) job_state" and q by (simp add: br_now_def)
  have l: "bindE (job_status_step rc) (\<lambda>stop. if stop then retE None
      else bindE (renew_step rc op i lease n) (\<lambda>n. retE (Some n))) v = (y, v') \<Longrightarrow> br_now v' = br_now v" for v v' y
    by (auto simp: bindE_def split: prod.splits sum.splits if_splits
        dest!: job_status_step_now renew_step_now)
  show ?thesis
    using assms unfolding watch_step_def f prod.case
    by (elim bindD_keepD [where P = "\<lambda>v. br_now v = br_now s"])
      (auto simp: n Let_def split: if_splits option.splits prod.splits
        dest!: divergence_noted_now touch_and_save_now l)
qed

lemma sleep_now [simp]: "br_now (sleep_j d s) = br_now s + d"
  by (simp add: sleep_j_def sleep_def br_now_def br_world_def)

lemma read_log_now: "in_sys (read_runner_log op i) s = (x, s') \<Longrightarrow> br_now s \<le> br_now s'"
  by (auto simp: in_sys_iff br_now_def dest!: read_runner_log_frame(3))

lemma wait_loop_returns:
  assumes "listings_return rc"
  shows "wait_loop rc op i deadline s \<noteq> None"
proof (induction "deadline - br_now s" arbitrary: s rule: less_induct)
  case less
  show ?case
  proof (cases "deadline \<le> br_now s")
    case True
    then show ?thesis by (subst wait_loop.simps) simp
  next
    case False
    obtain x s1 where r: "in_sys (read_runner_log op i) s = (x, s1)" by fastforce
    have n: "wait_loop rc op i deadline (sleep_j poll_pause v) \<noteq> None" if "br_now v = br_now s1" for v
      using False read_log_now [OF r] that by (intro less) (simp add: poll_pause_def secs_def)
    show ?thesis
    proof (cases x)
      case (Inl e)
      then show ?thesis using False r n by (subst wait_loop.simps) simp
    next
      case (Inr log)
      obtain y s2 where w: "wait_step rc log s1 = Some (y, s2)" using wait_step_returns [OF assms] by fastforce
      then show ?thesis using False r Inr n [OF wait_step_now [OF w]]
        by (subst wait_loop.simps) (auto split: sum.splits)
    qed
  qed
qed

lemma watch_loop_returns:
  assumes "listings_return rc"
  shows "watch_loop rc op i lease deadline n s \<noteq> None"
proof (induction "deadline - br_now s" arbitrary: n s rule: less_induct)
  case less
  show ?case
  proof (cases "deadline \<le> br_now s")
    case True
    then show ?thesis by (subst watch_loop.simps) simp
  next
    case False
    obtain x s1 where r: "in_sys (read_runner_log op i) s = (x, s1)" by fastforce
    have k: "watch_loop rc op i lease deadline m (sleep_j poll_pause v) \<noteq> None" if "br_now v = br_now s1" for v m
      using False read_log_now [OF r] that by (intro less) (simp add: poll_pause_def secs_def)
    show ?thesis
    proof (cases x)
      case (Inl e)
      then show ?thesis using False r k by (subst watch_loop.simps) simp
    next
      case (Inr log)
      obtain y s2 where w: "watch_step rc op i lease n log s1 = Some (y, s2)" using watch_step_returns [OF assms] by fastforce
      then show ?thesis using False r Inr k [OF watch_step_now [OF w]]
        by (subst watch_loop.simps) (auto split: sum.splits option.splits)
    qed
  qed
qed

lemma monitor_runner_returns:
  assumes "listings_return rc"
  shows "monitor_runner rc op cfg lease s \<noteq> None"
proof -
  have w: "watch_job rc op cfg i lease v \<noteq> None" for i v
    unfolding watch_job_def Let_def by (rule bindD_returns) (auto simp: watch_loop_returns [OF assms])
  have l: "bindD (wait_loop rc op i d) (\<lambda>_. watch_job rc op cfg i lease) v \<noteq> None" for i d v
    by (rule bindD_returns) (simp_all add: w wait_loop_returns [OF assms])
  have "bindD (totalD m) (\<lambda>_. bindD (wait_loop rc op i d) (\<lambda>_. watch_job rc op cfg i lease)) v \<noteq> None"
    for m :: "('b, 'a, unit) jact" and i d v
    by (rule bindD_returns) (simp, rule l)
  then show ?thesis
    unfolding monitor_runner_def Let_def by (cases "cj_sandbox_id (jb_rec s)") (simp, simp only: option.case not_False_eq_True)
qed

text \<open>A backend whose commands end within the timeout they are given.\<close>

definition timely :: "'b backend \<Rightarrow> bool" where
  "timely be \<longleftrightarrow> (\<forall>tag c tmo k b. bk_run_time be tag c tmo k b \<le> tmo)"

lemma ops_exec_time:
  assumes "timely (op_backend op)" and "ops_exec op i c t s = (x, s')"
  shows "w_now (ow_world s') \<le> w_now (ow_world s) + t"
proof -
  have l: "w_now (ow_world (snd (load_record op i s))) = w_now (ow_world s)" by (simp add: load_record_def)
  have g: "w_now (ow_world (snd (guest_of op i s))) = w_now (ow_world s)"
    unfolding guest_of_def by (rule bindE_inv) (auto simp: l split: option.splits)
  obtain y s1 where gs: "guest_of op i s = (y, s1)" by fastforce
  have "w_now (ow_world (snd (in_world (run_guest (op_backend op) tag c t k) s1))) \<le> w_now (ow_world s1) + t" for tag k
    using assms(1) by (auto simp: run_guest_def on_bk_def Let_def timely_def split: prod.splits)
  then have r: "in_world (run_guest (op_backend op) tag c t k) s1 = (x, s') \<Longrightarrow>
      w_now (ow_world s') \<le> w_now (ow_world s1) + t" for tag k
    by (metis snd_conv)
  then show ?thesis using assms(2) g gs
    by (auto simp: ops_exec_def bindE_def split: sum.splits dest!: r)
qed

lemma read_log_time:
  assumes "timely (op_backend op)" and "in_sys (read_runner_log op i) s = (x, s')"
  shows "br_now s' \<le> br_now s + tail_exec_timeout"
proof -
  obtain y os where e: "ops_exec op i [''cat'', runner_log_path] tail_exec_timeout (br_ops (jb_sys s)) = (y, os)" by fastforce
  have "jb_sys s' = (jb_sys s)\<lparr>br_ops := os\<rparr>"
    using assms(2) e by (auto simp: in_sys_iff read_runner_log_def bindE_def by_ops_def split: sum.splits if_splits)
  then show ?thesis using ops_exec_time [OF assms(1) e] by (simp add: br_now_def br_world_def)
qed

lemma watch_loop_time:
  assumes "listings_return rc" and "timely (op_backend op)"
  shows "watch_loop rc op i lease deadline n s = Some (x, s') \<Longrightarrow>
    br_now s' \<le> max (br_now s) (deadline + tail_exec_timeout + poll_pause)"
proof (induction "deadline - br_now s" arbitrary: n s rule: less_induct)
  case less
  show ?case
  proof (cases "deadline \<le> br_now s")
    case True
    then show ?thesis using less.prems by (subst (asm) watch_loop.simps) auto
  next
    case False
    obtain y s1 where r: "in_sys (read_runner_log op i) s = (y, s1)" by fastforce
    have t: "br_now s1 \<le> br_now s + tail_exec_timeout" by (rule read_log_time [OF assms(2) r])
    have k: "br_now s' \<le> max (br_now (sleep_j poll_pause v)) (deadline + tail_exec_timeout + poll_pause)"
      if "br_now v = br_now s1" "watch_loop rc op i lease deadline m (sleep_j poll_pause v) = Some (x, s')" for v m
      using False read_log_now [OF r] that by (intro less) (simp_all add: poll_pause_def secs_def)
    show ?thesis
    proof (cases y)
      case (Inl e)
      then show ?thesis using False r t k [of s1 n] less.prems by (subst (asm) watch_loop.simps) auto
    next
      case (Inr log)
      obtain z s2 where w: "watch_step rc op i lease n log s1 = Some (z, s2)"
        using watch_step_returns [OF assms(1)] by fastforce
      show ?thesis using False r Inr t w watch_step_now [OF w] k [of s2] less.prems
        by (subst (asm) watch_loop.simps) (fastforce split: sum.splits option.splits)
    qed
  qed
qed

end
