(* ===== verification/Lsbx_Broker.thy ===== *)
theory Lsbx_Broker
  imports Lsbx_Reconcile
begin

text \<open>
  The end of a runner's job and the two drivers of the CI broker (\<open>cleanup_runner\<close>,
  \<open>run_runner_job\<close>, \<open>run_broker\<close> and \<open>run_runner_broker\<close> of \<open>reconcile.rs\<close>).
\<close>

subsection \<open>Cleaning up\<close>

definition delete_job :: "'g reconciler \<Rightarrow> string \<Rightarrow> ('b, 'g, unit) jact" where
  "delete_job rc i = in_sys (by_ops (in_world (on_fs (ci_delete (rc_job_dir rc) i))))"

definition scrub_command :: "string list" where
  "scrub_command = [''sh'', ''-c'', ''sudo rm -rf /tmp/lsbx-ci-broker /tmp/lsbx-ci-broker-runner.log /etc/lsbx-runner.env /etc/lsbx-runner-app.pem'']"

definition scrub_error :: "lsbx_error + command_output \<Rightarrow> string option" where
  "scrub_error r =
     (case r of
        Inr out \<Rightarrow> if co_exit_code out = 0 then None else Some (''scrub failed: '' @ trim (co_stderr out))
      | Inl (NotFound _) \<Rightarrow> None
      | Inl e \<Rightarrow> Some (''scrub failed: '' @ err_display e))"

definition destroy_error :: "lsbx_error + unit \<Rightarrow> string option" where
  "destroy_error r =
     (case r of
        Inr _ \<Rightarrow> None
      | Inl (NotFound _) \<Rightarrow> None
      | Inl e \<Rightarrow> Some (''destroy failed: '' @ err_display e))"

definition join_errors :: "string option \<Rightarrow> string option \<Rightarrow> string" where
  "join_errors a b =
     (case (a, b) of (Some x, Some y) \<Rightarrow> x @ ''; '' @ y | (Some x, None) \<Rightarrow> x | (None, Some y) \<Rightarrow> y | _ \<Rightarrow> [])"

definition cleanup_sandbox :: "'g reconciler \<Rightarrow> 'b ops \<Rightarrow> string \<Rightarrow> ('b, 'g, unit) jact" where
  "cleanup_sandbox rc op sandbox s =
     (let (scrub, s1) = in_sys (by_ops (ops_exec op sandbox scrub_command (secs 60))) s;
          (gone, s2) = in_sys (by_ops (ops_destroy op sandbox)) s1;
          a = scrub_error scrub; b = destroy_error gone
      in if a = None \<and> b = None then delete_job rc (cj_job_id (jb_rec s2)) s2
         else bindE (change (\<lambda>r. r\<lparr>cj_last_error := Some (join_errors a b)\<rparr>)) (\<lambda>_.
              bindE (touch_and_save rc) (\<lambda>_.
              failE (BackendUnavailable (join_errors a b)))) s2)"

definition cleanup_runner :: "'g reconciler \<Rightarrow> 'b ops \<Rightarrow> ('b, 'g, unit) jact" where
  "cleanup_runner rc op s =
     (case cj_sandbox_id (jb_rec s) of
        None \<Rightarrow> delete_job rc (cj_job_id (jb_rec s)) s
      | Some sandbox \<Rightarrow>
          bindE (change (\<lambda>r. r\<lparr>cj_phase := phase_cleaning\<rparr>)) (\<lambda>_.
          bindE (touch_and_save rc) (\<lambda>_.
          cleanup_sandbox rc op sandbox)) s)"

subsection \<open>One job on a runner\<close>

definition already_registered_log :: "string \<Rightarrow> bool" where
  "already_registered_log log \<longleftrightarrow> (\<exists>l\<in>set (str_lines log). parse_runner_registered l \<noteq> None)"

definition existing_log :: "'b ops \<Rightarrow> ('b, 'g, string option) jact" where
  "existing_log op s =
     (case cj_sandbox_id (jb_rec s) of
        None \<Rightarrow> (Inr None, s)
      | Some sandbox \<Rightarrow>
          (case in_sys (read_runner_log op sandbox) s of
             (Inr log, s') \<Rightarrow> (Inr (Some log), s')
           | (Inl _, s') \<Rightarrow> (Inr None, s')))"

definition primary_run :: "'g reconciler \<Rightarrow> 'b ops \<Rightarrow> runner_config \<Rightarrow> nat \<Rightarrow> ('b, 'g, unit) djact" where
  "primary_run rc op cfg lease =
     bindD (totalD (existing_log op)) (\<lambda>log.
     if (case log of None \<Rightarrow> False | Some l \<Rightarrow> already_registered_log l)
     then monitor_runner rc op cfg lease
     else bindD (totalD (provision_runner rc op cfg)) (\<lambda>_. monitor_runner rc op cfg lease))"

definition note_outcome :: "'g reconciler \<Rightarrow> lsbx_error + unit \<Rightarrow> ('b, 'g) job_state \<Rightarrow> ('b, 'g) job_state" where
  "note_outcome rc outcome s =
     snd (bindE (change (\<lambda>r. case outcome of
              Inl e \<Rightarrow> r\<lparr>cj_last_error := Some (err_display e)\<rparr>
            | Inr _ \<Rightarrow> r\<lparr>cj_phase := phase_completed\<rparr>)) (\<lambda>_. touch_and_save rc) s)"

definition both_outcomes :: "lsbx_error + unit \<Rightarrow> lsbx_error + unit \<Rightarrow> lsbx_error + unit" where
  "both_outcomes primary cleanup =
     (case (primary, cleanup) of
        (Inr _, Inr _) \<Rightarrow> Inr ()
      | (Inl e, Inr _) \<Rightarrow> Inl e
      | (Inr _, Inl e) \<Rightarrow> Inl e
      | (Inl e, Inl c) \<Rightarrow> Inl (BackendUnavailable (err_display e @ ''; '' @ err_display c)))"

definition run_runner_job :: "'g reconciler \<Rightarrow> 'b ops \<Rightarrow> runner_config \<Rightarrow> nat \<Rightarrow> ('b, 'g, unit) djact" where
  "run_runner_job rc op cfg lease s =
     map_option (\<lambda>(primary, s1).
       case cleanup_runner rc op (note_outcome rc primary s1) of
         (cleanup, s2) \<Rightarrow> (both_outcomes primary cleanup, s2))
       (primary_run rc op cfg lease s)"

subsection \<open>Polling\<close>

definition is_retryable_poll_error :: "lsbx_error \<Rightarrow> bool" where
  "is_retryable_poll_error e = (case e of BackendUnavailable _ \<Rightarrow> True | _ \<Rightarrow> False)"

text \<open>The state of a driver: the poller, the records in flight and the system.\<close>

record ('b, 'g) driver =
  dr_poller :: poller
  dr_in_flight :: "ci_job_record list"
  dr_sys :: "('b, 'g) broker"

type_synonym ('b, 'g, 'a) dact = "(('b, 'g) driver, lsbx_error, 'a) dcomp"

definition driver_tick :: "'g reconciler \<Rightarrow> ('b, 'g, queued_job list) dact" where
  "driver_tick rc s =
     map_option (\<lambda>(r, (p, g)). (r, s\<lparr>dr_poller := p, dr_sys := (dr_sys s)\<lparr>br_gh := g\<rparr>\<rparr>))
       (tick (rc_transport rc) (rc_backing rc) (rc_lib rc) (w_now (br_world (dr_sys s)))
          (dr_poller s, br_gh (dr_sys s)))"

definition pause_driver :: "nat option \<Rightarrow> ('b, 'g) driver \<Rightarrow> ('b, 'g) driver" where
  "pause_driver iterations s =
     (if iterations = None
      then s\<lparr>dr_sys := sleep (pc_poll_interval (po_config (dr_poller s))) (dr_sys s)\<rparr> else s)"

definition in_flight_already :: "ci_job_record list \<Rightarrow> queued_job \<Rightarrow> bool" where
  "in_flight_already rs j \<longleftrightarrow>
     (\<exists>r\<in>set rs. cj_job_id r = show_nat (qj_job_id j) \<and> \<not> terminal (cj_phase r))"

subsection \<open>The driver without runners\<close>

fun dispatch_all :: "'g reconciler \<Rightarrow> 'b ops \<Rightarrow> nat \<Rightarrow> queued_job list \<Rightarrow> ('b, 'g) driver \<Rightarrow> ('b, 'g) driver" where
  "dispatch_all rc op lease [] s = s"
| "dispatch_all rc op lease (j # js) s =
     dispatch_all rc op lease js
       (if in_flight_already (dr_in_flight s) j then s
        else case dispatch rc op j lease (dr_sys s) of
          (Inr r, b) \<Rightarrow> s\<lparr>dr_in_flight := dr_in_flight s @ [r], dr_sys := b\<rparr>
        | (Inl _, b) \<Rightarrow> s\<lparr>dr_sys := b\<rparr>)"

definition follow_one :: "'g reconciler \<Rightarrow> 'b ops \<Rightarrow> ('b, 'g) job_state \<Rightarrow> ('b, 'g) job_state option" where
  "follow_one rc op s =
     (if terminal (cj_phase (jb_rec s)) then Some s
      else case tail_and_update rc op s of
        (Inl _, s') \<Rightarrow> Some s'
      | (Inr _, s') \<Rightarrow> map_option snd (check_divergence rc s'))"

fun follow_all ::
  "'g reconciler \<Rightarrow> 'b ops \<Rightarrow> ci_job_record list \<Rightarrow> ('b, 'g) broker \<Rightarrow>
   (ci_job_record list \<times> ('b, 'g) broker) option" where
  "follow_all rc op [] b = Some ([], b)"
| "follow_all rc op (r # rs) b =
     Option.bind (follow_one rc op \<lparr>jb_rec = r, jb_sys = b\<rparr>) (\<lambda>s.
     map_option (\<lambda>(rs', b'). (jb_rec s # rs', b')) (follow_all rc op rs (jb_sys s)))"

definition broker_step :: "'g reconciler \<Rightarrow> 'b ops \<Rightarrow> nat \<Rightarrow> nat option \<Rightarrow> ('b, 'g, unit) dact" where
  "broker_step rc op lease iterations s =
     Option.bind (driver_tick rc s) (\<lambda>(q, s1).
     case q of
       Inl e \<Rightarrow> if is_retryable_poll_error e then Some (Inr (), pause_driver iterations s1) else Some (Inl e, s1)
     | Inr queued \<Rightarrow>
         let s2 = dispatch_all rc op lease queued s1
         in map_option (\<lambda>(rs, b). (Inr (), pause_driver iterations (s2\<lparr>dr_in_flight := rs, dr_sys := b\<rparr>)))
              (follow_all rc op (dr_in_flight s2) (dr_sys s2)))"

partial_function (option) drive ::
  "(('b, 'g) driver \<Rightarrow> ((lsbx_error + unit) \<times> ('b, 'g) driver) option) \<Rightarrow> nat option \<Rightarrow> nat \<Rightarrow>
   ('b, 'g) driver \<Rightarrow> ((lsbx_error + unit) \<times> ('b, 'g) driver) option" where
  "drive step iterations n s =
     (if (case iterations of None \<Rightarrow> False | Some m \<Rightarrow> m \<le> n) then Some (Inr (), s)
      else Option.bind (step s) (\<lambda>(r, s').
        case r of
          Inl e \<Rightarrow> Some (Inl e, s')
        | Inr _ \<Rightarrow> drive step iterations (Suc n) s'))"

record broker_config =
  bg_poll :: poll_config
  bg_lease :: nat
  bg_runner :: "runner_config option"

subsection \<open>The driver with runners\<close>

definition as_job :: "ci_job_record \<Rightarrow> ('b, 'g) driver \<Rightarrow> ('b, 'g) job_state" where
  "as_job r s = \<lparr>jb_rec = r, jb_sys = dr_sys s\<rparr>"

text \<open>One job's run; its outcome is only a warning.\<close>

definition run_one :: "'g reconciler \<Rightarrow> 'b ops \<Rightarrow> runner_config \<Rightarrow> nat \<Rightarrow> ci_job_record \<Rightarrow> ('b, 'g) driver \<Rightarrow> ('b, 'g) driver option" where
  "run_one rc op cfg lease r s =
     map_option (\<lambda>(_, js). s\<lparr>dr_sys := jb_sys js\<rparr>) (run_runner_job rc op cfg lease (as_job r s))"

fun resume_runners ::
  "'g reconciler \<Rightarrow> 'b ops \<Rightarrow> runner_config \<Rightarrow> nat \<Rightarrow> ci_job_record list \<Rightarrow> ('b, 'g) driver \<Rightarrow> ('b, 'g) driver option" where
  "resume_runners rc op cfg lease [] s = Some s"
| "resume_runners rc op cfg lease (r # rs) s =
     Option.bind (run_one rc op cfg lease r s) (resume_runners rc op cfg lease rs)"

definition job_known :: "'g reconciler \<Rightarrow> queued_job \<Rightarrow> (('b, 'g) broker, lsbx_error, bool) comp" where
  "job_known rc j b =
     (case by_ops (in_world (on_fs (ci_load (lb_serde (rc_lib rc)) (rc_job_dir rc) (show_nat (qj_job_id j))))) b of
        (Inr _, b') \<Rightarrow> (Inr True, b')
      | (Inl _, b') \<Rightarrow> (Inr False, b'))"

text \<open>The first job without a record that can be dispatched is claimed and run.\<close>

fun claim_one ::
  "'g reconciler \<Rightarrow> 'b ops \<Rightarrow> runner_config \<Rightarrow> nat \<Rightarrow> queued_job list \<Rightarrow> ('b, 'g) driver \<Rightarrow>
   (bool \<times> ('b, 'g) driver) option" where
  "claim_one rc op cfg lease [] s = Some (False, s)"
| "claim_one rc op cfg lease (j # js) s =
     (case job_known rc j (dr_sys s) of
        (known, b) \<Rightarrow>
          let s1 = s\<lparr>dr_sys := b\<rparr>
          in if known = Inr True then claim_one rc op cfg lease js s1
             else case dispatch rc op j lease (dr_sys s1) of
               (Inl _, b') \<Rightarrow> claim_one rc op cfg lease js (s1\<lparr>dr_sys := b'\<rparr>)
             | (Inr r, b') \<Rightarrow> map_option (\<lambda>s2. (True, s2)) (run_one rc op cfg lease r (s1\<lparr>dr_sys := b'\<rparr>)))"

definition runner_step ::
  "'g reconciler \<Rightarrow> 'b ops \<Rightarrow> runner_config \<Rightarrow> nat \<Rightarrow> nat option \<Rightarrow> ('b, 'g, unit) dact" where
  "runner_step rc op cfg lease iterations s =
     Option.bind (driver_tick rc s) (\<lambda>(q, s1).
     case q of
       Inl e \<Rightarrow> if is_retryable_poll_error e then Some (Inr (), pause_driver iterations s1) else Some (Inl e, s1)
     | Inr queued \<Rightarrow>
         map_option (\<lambda>(claimed, s2). (Inr (), if claimed then s2 else pause_driver iterations s2))
           (claim_one rc op cfg lease queued s1))"

definition run_runner_broker ::
  "'g reconciler \<Rightarrow> 'b ops \<Rightarrow> poll_config \<Rightarrow> nat \<Rightarrow> runner_config \<Rightarrow> nat option \<Rightarrow> ('b, 'g) broker \<Rightarrow>
   ((lsbx_error + unit) \<times> ('b, 'g) driver) option" where
  "run_runner_broker rc op poll lease cfg iterations b =
     (case reconcile_on_startup rc op b of
        (Inl e, b1) \<Rightarrow> Some (Inl e, \<lparr>dr_poller = poller_new poll, dr_in_flight = [], dr_sys = b1\<rparr>)
      | (Inr rs, b1) \<Rightarrow>
          Option.bind
            (resume_runners rc op cfg lease rs \<lparr>dr_poller = poller_new poll, dr_in_flight = [], dr_sys = b1\<rparr>)
            (drive (runner_step rc op cfg lease iterations) iterations 0))"

text \<open>\<open>lock\<close> is the outcome of taking the broker's lock, the subject of \<open>Lsbx_Lock\<close>.\<close>

definition run_broker ::
  "'g reconciler \<Rightarrow> 'b ops \<Rightarrow> lsbx_error + unit \<Rightarrow> broker_config \<Rightarrow> nat option \<Rightarrow> ('b, 'g) broker \<Rightarrow>
   ((lsbx_error + unit) \<times> ('b, 'g) driver) option" where
  "run_broker rc op lock cfg iterations b =
     (case lock of
        Inl e \<Rightarrow> Some (Inl e, \<lparr>dr_poller = poller_new (bg_poll cfg), dr_in_flight = [], dr_sys = b\<rparr>)
      | Inr _ \<Rightarrow>
          (case bg_runner cfg of
             Some runner \<Rightarrow> run_runner_broker rc op (bg_poll cfg) (bg_lease cfg) runner iterations b
           | None \<Rightarrow>
               (case reconcile_on_startup rc op b of
                  (Inl e, b1) \<Rightarrow> Some (Inl e, \<lparr>dr_poller = poller_new (bg_poll cfg), dr_in_flight = [], dr_sys = b1\<rparr>)
                | (Inr rs, b1) \<Rightarrow>
                    drive (broker_step rc op (bg_lease cfg) iterations) iterations 0
                      \<lparr>dr_poller = poller_new (bg_poll cfg), dr_in_flight = rs, dr_sys = b1\<rparr>)))"

subsection \<open>The drivers return\<close>

lemma queued_in_runs_returns:
  assumes "listings_return rc"
  shows "queued_in_runs (rc_transport rc) (rc_backing rc) l repo runs g \<noteq> None"
proof (induction runs arbitrary: g)
  case Nil
  then show ?case by simp
next
  case (Cons run runs)
  have k: "bindD (queued_in_runs (rc_transport rc) (rc_backing rc) l repo runs)
      (\<lambda>rest. retD (map (to_queued_job repo) (filter (wanted_job l) jobs) @ rest)) g' \<noteq> None" for jobs g'
    by (rule bindD_returns [OF Cons.IH]) simp
  show ?case unfolding queued_in_runs.simps
    by (rule bindD_returns [OF _ k]) (use assms in \<open>simp add: listings_return_def\<close>)
qed

lemma queued_jobs_returns:
  assumes "listings_return rc"
  shows "queued_jobs (rc_transport rc) (rc_backing rc) l repo g \<noteq> None"
proof -
  have "queued_by_status (rc_transport rc) (rc_backing rc) l repo sts g \<noteq> None" for sts g
  proof (induction sts arbitrary: g)
    case Nil
    then show ?case by simp
  next
    case (Cons st sts)
    have a: "bindD (queued_by_status (rc_transport rc) (rc_backing rc) l repo sts) (\<lambda>rest. retD (jobs @ rest)) g' \<noteq> None"
      for jobs g'
      by (rule bindD_returns [OF Cons.IH]) simp
    have b: "bindD (queued_in_runs (rc_transport rc) (rc_backing rc) l repo runs)
        (\<lambda>jobs. bindD (queued_by_status (rc_transport rc) (rc_backing rc) l repo sts) (\<lambda>rest. retD (jobs @ rest))) g' \<noteq> None"
      for runs g'
      by (rule bindD_returns [OF queued_in_runs_returns [OF assms] a])
    show ?case unfolding queued_by_status.simps
      by (rule bindD_returns [OF _ b]) (use assms in \<open>simp add: listings_return_def\<close>)
  qed
  then show ?thesis by (simp add: queued_jobs_def)
qed

lemma tick_repos_returns:
  assumes "listings_return rc"
  shows "tick_repos (rc_transport rc) (rc_backing rc) lb cfg now repos g \<noteq> None"
proof -
  have l: "tick_labels (rc_transport rc) (rc_backing rc) lb cfg now repo ls g \<noteq> None" for repo ls g
  proof (induction ls arbitrary: g)
    case Nil
    then show ?case by simp
  next
    case (Cons l ls)
    have k: "bindD (tick_labels (rc_transport rc) (rc_backing rc) lb cfg now repo ls)
        (\<lambda>rest. retD (filter (\<lambda>j. is_eligible lb j cfg now) jobs @ rest)) g' \<noteq> None" for jobs g'
      by (rule bindD_returns [OF Cons.IH]) simp
    show ?case unfolding tick_labels.simps by (rule bindD_returns [OF queued_jobs_returns [OF assms] k])
  qed
  show ?thesis
  proof (induction repos arbitrary: g)
    case Nil
    then show ?case by simp
  next
    case (Cons r rs)
    have k: "bindD (tick_repos (rc_transport rc) (rc_backing rc) lb cfg now rs) (\<lambda>rest. retD (jobs @ rest)) g' \<noteq> None"
      for jobs g'
      by (rule bindD_returns [OF Cons.IH]) simp
    show ?case unfolding tick_repos.simps by (rule bindD_returns [OF l k])
  qed
qed

lemma driver_tick_returns:
  assumes "listings_return rc"
  shows "driver_tick rc s \<noteq> None"
proof -
  have r: "refresh_repos (rc_transport rc) (rc_backing rc) now v \<noteq> None" for now v
  proof (cases "pc_repos (po_config (fst v)) = None \<and> should_refresh_repos (fst v) now")
    case True
    have "on_remote (installation_repositories (rc_transport rc) (rc_backing rc)) v \<noteq> None"
      using assms by (simp add: on_remote_def listings_return_def del: not_None_eq)
    then show ?thesis unfolding refresh_repos_def if_P [OF True]
      by (rule bindD_returns) (auto split: prod.splits)
  qed (simp only: refresh_repos_def if_False, simp)
  have "tick (rc_transport rc) (rc_backing rc) lb now v \<noteq> None" for lb now v
    unfolding tick_def
    by (rule bindD_returns [OF r]) (simp add: on_remote_def tick_repos_returns [OF assms] del: not_None_eq)
  then show ?thesis by (simp add: driver_tick_def)
qed

lemma follow_all_returns:
  assumes "listings_return rc"
  shows "follow_all rc op rs b \<noteq> None"
proof (induction rs arbitrary: b)
  case Nil
  then show ?case by simp
next
  case (Cons r rs)
  have "follow_one rc op s \<noteq> None" for s
    by (simp add: follow_one_def check_divergence_returns [OF assms] del: not_None_eq split: prod.split sum.split)
  then obtain s where "follow_one rc op \<lparr>jb_rec = r, jb_sys = b\<rparr> = Some s" by blast
  then show ?case using Cons.IH [of "jb_sys s"] by auto
qed

lemma broker_step_returns:
  assumes "listings_return rc"
  shows "broker_step rc op lease it s \<noteq> None"
proof -
  obtain q s1 where t: "driver_tick rc s = Some (q, s1)" using driver_tick_returns [OF assms] by fastforce
  show ?thesis
    using follow_all_returns [OF assms, of op] t
    by (cases q) (auto simp: broker_step_def Let_def simp del: not_None_eq)
qed

lemma primary_run_returns:
  assumes "listings_return rc"
  shows "primary_run rc op cfg lease s \<noteq> None"
proof -
  have "bindD (totalD (provision_runner rc op cfg)) (\<lambda>_. monitor_runner rc op cfg lease) v \<noteq> None" for v
    by (rule bindD_returns [OF _ monitor_runner_returns [OF assms]]) simp
  then show ?thesis unfolding primary_run_def
    by (intro bindD_returns) (simp_all add: monitor_runner_returns [OF assms] del: not_None_eq)
qed

lemma run_one_returns:
  assumes "listings_return rc"
  shows "run_one rc op cfg lease r s \<noteq> None"
  using primary_run_returns [OF assms] by (simp add: run_one_def run_runner_job_def)

lemma claim_one_returns:
  assumes "listings_return rc"
  shows "claim_one rc op cfg lease js s \<noteq> None"
proof (induction js arbitrary: s)
  case Nil
  then show ?case by simp
next
  case (Cons j js)
  then show ?case
    by (simp add: Let_def run_one_returns [OF assms] split: prod.split sum.split del: not_None_eq)
qed

lemma runner_step_returns:
  assumes "listings_return rc"
  shows "runner_step rc op cfg lease it s \<noteq> None"
proof -
  obtain q s1 where t: "driver_tick rc s = Some (q, s1)" using driver_tick_returns [OF assms] by fastforce
  show ?thesis
    using claim_one_returns [OF assms, of op cfg lease] t
    by (cases q) (auto simp: runner_step_def simp del: not_None_eq)
qed

lemma drive_returns:
  assumes "\<And>s. step s \<noteq> None"
  shows "drive step (Some m) n s \<noteq> None"
proof (induction "m - n" arbitrary: n s)
  case 0
  then show ?case by (subst drive.simps) simp
next
  case (Suc k)
  obtain r s' where st: "step s = Some (r, s')" using assms by fastforce
  have "drive step (Some m) (Suc n) s' \<noteq> None" using Suc by (intro Suc.hyps(1)) simp
  then show ?case using st by (subst drive.simps) (auto split: sum.splits)
qed

lemma resume_runners_returns:
  assumes "listings_return rc"
  shows "resume_runners rc op cfg lease rs s \<noteq> None"
proof (induction rs arbitrary: s)
  case Nil
  then show ?case by simp
next
  case (Cons r rs)
  obtain s1 where "run_one rc op cfg lease r s = Some s1" using run_one_returns [OF assms] by fastforce
  then show ?case using Cons.IH by simp
qed

lemma run_broker_returns:
  assumes "listings_return rc"
  shows "run_broker rc op lock cfg (Some m) b \<noteq> None"
proof (cases "\<exists>u. lock = Inr u")
  case False
  then show ?thesis by (cases lock) (auto simp: run_broker_def)
next
  case True
  have d1: "drive (broker_step rc op l it) (Some m) n v \<noteq> None" for l it n v
    by (rule drive_returns) (rule broker_step_returns [OF assms])
  have d2: "drive (runner_step rc op c l it) (Some m) n v \<noteq> None" for c l it n v
    by (rule drive_returns) (rule runner_step_returns [OF assms])
  obtain q b1 where st: "reconcile_on_startup rc op b = (q, b1)" by fastforce
  show ?thesis
  proof (cases "bg_runner cfg")
    case None
    then show ?thesis using True d1 st by (cases q) (auto simp: run_broker_def simp del: not_None_eq)
  next
    case (Some runner)
    have "run_runner_broker rc op (bg_poll cfg) (bg_lease cfg) runner (Some m) b \<noteq> None"
    proof (cases q)
      case (Inl e)
      then show ?thesis using st by (simp add: run_runner_broker_def)
    next
      case (Inr rs)
      obtain s where s: "resume_runners rc op runner (bg_lease cfg) rs
          \<lparr>dr_poller = poller_new (bg_poll cfg), dr_in_flight = [], dr_sys = b1\<rparr> = Some s"
        using resume_runners_returns [OF assms] by fastforce
      show ?thesis using d2 by (simp add: run_runner_broker_def st Inr s del: not_None_eq)
    qed
    then show ?thesis using True Some by (auto simp: run_broker_def)
  qed
qed

subsection \<open>No job is in flight twice\<close>

definition active_ids :: "ci_job_record list \<Rightarrow> string list" where
  "active_ids rs = map cj_job_id (filter (\<lambda>r. \<not> terminal (cj_phase r)) rs)"

lemma dispatch_job_id:
  "dispatch rc op j lease b = (Inr r, b') \<Longrightarrow> cj_job_id r = show_nat (qj_job_id j)"
  by (auto simp: dispatch_def bindE_Inr_iff Let_def new_job_record_def)

lemma dispatch_all_active:
  "distinct (active_ids (dr_in_flight s)) \<Longrightarrow> distinct (active_ids (dr_in_flight (dispatch_all rc op lease js s)))"
proof (induction js arbitrary: s)
  case Nil
  then show ?case by simp
next
  case (Cons j js)
  show ?case
  proof (cases "in_flight_already (dr_in_flight s) j")
    case True
    then show ?thesis using Cons by simp
  next
    case False
    obtain q b where d: "dispatch rc op j lease (dr_sys s) = (q, b)" by fastforce
    show ?thesis
    proof (cases q)
      case (Inl e)
      then show ?thesis using Cons False d by simp
    next
      case (Inr r)
      have "show_nat (qj_job_id j) \<notin> set (active_ids (dr_in_flight s))"
        using False by (auto simp: in_flight_already_def active_ids_def)
      then have "distinct (active_ids (dr_in_flight s @ [r]))"
        using Cons.prems dispatch_job_id [OF d [unfolded Inr]] by (simp add: active_ids_def)
      then show ?thesis using Cons.IH [of "s\<lparr>dr_in_flight := dr_in_flight s @ [r], dr_sys := b\<rparr>"] False d Inr by simp
    qed
  qed
qed

lemma tail_and_update_same:
  assumes "tail_and_update rc op s = (x, s')"
  shows "cj_job_id (jb_rec s') = cj_job_id (jb_rec s) \<and>
    (terminal (cj_phase (jb_rec s)) \<longrightarrow> terminal (cj_phase (jb_rec s')))"
proof (cases "cj_sandbox_id (jb_rec s)")
  case None
  then show ?thesis using assms by (simp add: tail_and_update_def)
next
  case (Some i)
  obtain y s1 where l: "in_sys (read_runner_log op i) s = (y, s1)" by fastforce
  have r1: "jb_rec s1 = jb_rec s" using l by (auto simp: in_sys_iff)
  show ?thesis
  proof (cases y)
    case (Inl e)
    then show ?thesis using assms Some l r1 by (simp add: tail_and_update_def)
  next
    case (Inr log)
    obtain r ch where a: "apply_log log (jb_rec s) = (r, ch)" by fastforce
    have same: "same_job r (jb_rec s)" and ph: "terminal (cj_phase (jb_rec s)) \<longrightarrow> terminal (cj_phase r)"
      using fold_apply_line_same [where ls = "str_lines log" and x = "(jb_rec s, False)"]
        fold_apply_line_phase [where ls = "str_lines log" and x = "(jb_rec s, False)"] a
      by (auto simp: apply_log_def split: option.splits)
    have "cj_job_id (jb_rec s') = cj_job_id r \<and> cj_phase (jb_rec s') = cj_phase r"
      using assms Some l Inr a r1 touch_and_save_result(1) [of rc "s1\<lparr>jb_rec := r\<rparr>" x s']
      by (auto simp: tail_and_update_def Let_def split: if_splits)
    then show ?thesis using same ph by (simp add: same_job_def)
  qed
qed

lemma check_divergence_same:
  assumes "check_divergence rc s = Some (x, s')"
  shows "cj_job_id (jb_rec s') = cj_job_id (jb_rec s) \<and> cj_phase (jb_rec s') = cj_phase (jb_rec s)"
proof (cases "cj_runner_name (jb_rec s)")
  case None
  then show ?thesis using assms by (simp add: check_divergence_def)
next
  case (Some n)
  show ?thesis
    using assms unfolding check_divergence_def Some option.case
    by (rule bindD_keepD [where P = "\<lambda>v. cj_job_id (jb_rec v) = cj_job_id (jb_rec s) \<and> cj_phase (jb_rec v) = cj_phase (jb_rec s)"])
      (auto simp: in_gh_Some Let_def split: if_splits dest!: touch_and_save_result(1))
qed

lemma follow_one_same:
  assumes "follow_one rc op s = Some s'"
  shows "cj_job_id (jb_rec s') = cj_job_id (jb_rec s) \<and>
    (terminal (cj_phase (jb_rec s)) \<longrightarrow> terminal (cj_phase (jb_rec s')))"
  using assms
  by (auto simp: follow_one_def split: if_splits prod.splits sum.splits
      dest!: tail_and_update_same check_divergence_same)

lemma follow_all_active:
  "follow_all rc op rs b = Some (rs', b') \<Longrightarrow>
   \<exists>ps. active_ids rs' = map fst (filter snd ps) \<and> map fst ps = active_ids rs"
proof (induction rs arbitrary: b rs')
  case Nil
  then show ?case by (intro exI [of _ "[]"]) (simp add: active_ids_def)
next
  case (Cons r rs)
  then obtain s rs1 where f: "follow_one rc op \<lparr>jb_rec = r, jb_sys = b\<rparr> = Some s"
    "follow_all rc op rs (jb_sys s) = Some (rs1, b')" "rs' = jb_rec s # rs1"
    by (auto simp: bind_eq_Some_conv)
  obtain ps where ps: "active_ids rs1 = map fst (filter snd ps)" "map fst ps = active_ids rs"
    using Cons.IH [OF f(2)] by auto
  note o = follow_one_same [OF f(1)]
  show ?case
  proof (cases "terminal (cj_phase r)")
    case True
    then show ?thesis using o ps f(3) by (intro exI [of _ ps]) (simp add: active_ids_def)
  next
    case False
    then show ?thesis using o ps f(3)
      by (intro exI [of _ "(cj_job_id r, \<not> terminal (cj_phase (jb_rec s))) # ps"]) (simp add: active_ids_def)
  qed
qed

lemma follow_all_distinct:
  assumes "follow_all rc op rs b = Some (rs', b')" and "distinct (active_ids rs)"
  shows "distinct (active_ids rs')"
proof -
  obtain ps where ps: "active_ids rs' = map fst (filter snd ps)" "map fst ps = active_ids rs"
    using follow_all_active [OF assms(1)] by auto
  then have "distinct (map fst ps)" using assms(2) by simp
  then show ?thesis using ps(1) by (simp add: distinct_map_filter)
qed

lemma driver_tick_in_flight:
  "driver_tick rc s = Some (q, s') \<Longrightarrow> dr_in_flight s' = dr_in_flight s"
  by (auto simp: driver_tick_def)

lemma broker_step_active:
  assumes "broker_step rc op lease it s = Some (x, s')" and "distinct (active_ids (dr_in_flight s))"
  shows "distinct (active_ids (dr_in_flight s'))"
proof -
  obtain q s1 where t: "driver_tick rc s = Some (q, s1)"
    using assms(1) by (auto simp: broker_step_def bind_eq_Some_conv)
  have d: "distinct (active_ids (dr_in_flight s1))" using driver_tick_in_flight [OF t] assms(2) by simp
  have p: "dr_in_flight (pause_driver it v) = dr_in_flight v" for v :: "('a, 'b) driver" by (simp add: pause_driver_def)
  show ?thesis
  proof (cases q)
    case (Inl e)
    then show ?thesis using assms(1) t d by (auto simp: broker_step_def p split: if_splits)
  next
    case (Inr queued)
    let ?s2 = "dispatch_all rc op lease queued s1"
    obtain rs b where f: "follow_all rc op (dr_in_flight ?s2) (dr_sys ?s2) = Some (rs, b)" "dr_in_flight s' = rs"
      using assms(1) t Inr by (auto simp: broker_step_def Let_def p)
    then show ?thesis using follow_all_distinct [OF f(1)] dispatch_all_active [OF d] by simp
  qed
qed

lemma drive_inv:
  assumes "drive step it n s = Some (x, s')" and "P s"
    and "\<And>s x s'. P s \<Longrightarrow> step s = Some (x, s') \<Longrightarrow> P s'"
  shows "P s'"
proof -
  let ?Q = "\<lambda>step (it :: nat option) (n :: nat) s y. P s \<longrightarrow> (\<forall>s x s'. P s \<longrightarrow> step s = Some (x, s') \<longrightarrow> P s') \<longrightarrow> P (snd y)"
  have "?Q step it n s (x, s')"
  proof (rule drive.raw_induct [where P = ?Q, OF _ assms(1)], intro impI)
    fix drive' :: "_ \<Rightarrow> nat option \<Rightarrow> nat \<Rightarrow> _" and step it n s y
    assume ih: "\<And>step it n s y. drive' step it n s = Some y \<Longrightarrow> ?Q step it n s y"
      and b: "(if (case it of None \<Rightarrow> False | Some m \<Rightarrow> m \<le> n) then Some (Inr (), s)
         else Option.bind (step s) (\<lambda>(r, s'). case r of Inl e \<Rightarrow> Some (Inl e, s') | Inr _ \<Rightarrow> drive' step it (Suc n) s')) = Some y"
      and p: "P s" and k: "\<forall>s x s'. P s \<longrightarrow> step s = Some (x, s') \<longrightarrow> P s'"
    show "P (snd y)"
    proof (cases "case it of None \<Rightarrow> False | Some m \<Rightarrow> m \<le> n")
      case True
      then show ?thesis using b p by auto
    next
      case False
      then obtain r s1 where st: "step s = Some (r, s1)"
        and r: "(case r of Inl e \<Rightarrow> Some (Inl e, s1) | Inr _ \<Rightarrow> drive' step it (Suc n) s1) = Some y"
        using b by (auto simp: bind_eq_Some_conv)
      have p1: "P s1" using k p st by blast
      show ?thesis
      proof (cases r)
        case (Inl e)
        then show ?thesis using r p1 by (cases y) simp
      next
        case (Inr u)
        then have "drive' step it (Suc n) s1 = Some y" using r by simp
        from mp [OF mp [OF ih [OF this] p1] k] show ?thesis .
      qed
    qed
  qed
  then have q: "?Q step it n s (x, s')" .
  have k: "\<forall>s x s'. P s \<longrightarrow> step s = Some (x, s') \<longrightarrow> P s'" using assms(3) by blast
  show ?thesis using mp [OF mp [OF q assms(2)] k] by (simp only: snd_conv)
qed

subsection \<open>Cleaning up\<close>

lemma ci_dir_plain: "\<not> starts_with key_dir_prefix (path_file_name (ci_store_dir jd))"
  using path_file_name_append [of "''ci-broker''" jd]
  by (simp add: ci_store_dir_def key_dir_prefix_def starts_with_def)

lemma ci_view_get: "(\<And>n. fs_get s' (ci_store_dir jd) n = fs_get s (ci_store_dir jd) n) \<Longrightarrow> ci_view jd s' = ci_view jd s"
  by (simp add: ci_view_def fun_eq_iff)

lemma cleanup_record_key_ci: "ci_view jd (snd (cleanup_record_key r s)) = ci_view jd s"
  by (cases "sr_key_path r")
    (simp_all add: cleanup_record_key_def ci_view_get [OF cleanup_other_dir [OF ci_dir_plain]])

lemma sandbox_delete_ci: "ci_view jd (snd (sandbox_delete sd i s)) = ci_view jd s"
proof -
  obtain x s' where d: "sandbox_delete sd i s = (x, s')" by fastforce
  have "fs_get s' (ci_store_dir jd) n = fs_get s (ci_store_dir jd) n" for n
  proof (cases x)
    case (Inl e)
    have "fs_files s' = fs_files s" by (rule delete_Inl(1) [OF d [unfolded Inl]])
    then show ?thesis by (rule fs_get_frame)
  next
    case (Inr u)
    show ?thesis using sandbox_delete_Inr [OF d [unfolded Inr], of "ci_store_dir jd" n] dirs_differ [of sd jd] by auto
  qed
  then have "ci_view jd s' = ci_view jd s" by (rule ci_view_get)
  then show ?thesis using d by simp
qed

lemma sandbox_load_ci: "ci_view jd (snd (sandbox_load sx sd i s)) = ci_view jd s"
  by (rule ci_view_cong) (simp add: frame_simps)

lemma destroy_ci: "ci_view jd (w_fs (snd (destroy lb be sd i w))) = ci_view jd (w_fs w)"
  unfolding destroy_def
  by (rule bindE_keep [where P = "\<lambda>v. ci_view jd (w_fs v) = ci_view jd (w_fs w)"] | assumption | rule refl |
      (simp only: on_fs_simps destroy_vm_fs sandbox_load_ci sandbox_delete_ci cleanup_record_key_ci; fail))+

text \<open>The two steps before the record is decided: the scrub and the destruction.\<close>

lemma exec_step:
  assumes "in_sys (by_ops (ops_exec op i c t)) s = (x, s')"
  shows "job_view rc (jb_sys s') = job_view rc (jb_sys s)" "box_view op (jb_sys s') = box_view op (jb_sys s)"
    "br_calm (jb_sys s') = br_calm (jb_sys s)" "jb_rec s' = jb_rec s"
proof -
  obtain os where os: "ops_exec op i c t (br_ops (jb_sys s)) = (x, os)" "jb_sys s' = (jb_sys s)\<lparr>br_ops := os\<rparr>" "jb_rec s' = jb_rec s"
    using assms by (auto simp: in_sys_iff by_ops_iff)
  note f = ops_exec_frame [OF os(1)]
  show "job_view rc (jb_sys s') = job_view rc (jb_sys s)" "box_view op (jb_sys s') = box_view op (jb_sys s)"
    "br_calm (jb_sys s') = br_calm (jb_sys s)" "jb_rec s' = jb_rec s"
    using f(1,2) os(2,3) by (auto simp: br_world_def intro: ci_view_cong sandbox_view_cong)
qed

lemma destroy_step:
  assumes "in_sys (by_ops (ops_destroy op i)) s = (x, s')"
  shows "job_view rc (jb_sys s') = job_view rc (jb_sys s)" "br_calm (jb_sys s') = br_calm (jb_sys s)"
    "jb_rec s' = jb_rec s"
    "destroy (op_lib op) (op_backend op) (op_state_dir op) i (br_world (jb_sys s)) = (x, br_world (jb_sys s'))"
proof -
  obtain w where w: "destroy (op_lib op) (op_backend op) (op_state_dir op) i (br_world (jb_sys s)) = (x, w)"
    "jb_sys s' = (jb_sys s)\<lparr>br_ops := (br_ops (jb_sys s))\<lparr>ow_world := w\<rparr>\<rparr>" "jb_rec s' = jb_rec s"
    using assms by (auto simp: in_sys_iff by_ops_iff ops_destroy_def in_world_iff br_world_def)
  have "br_world (jb_sys s') = w" by (simp add: w(2) br_world_def)
  then show "job_view rc (jb_sys s') = job_view rc (jb_sys s)" "br_calm (jb_sys s') = br_calm (jb_sys s)"
    "jb_rec s' = jb_rec s"
    "destroy (op_lib op) (op_backend op) (op_state_dir op) i (br_world (jb_sys s)) = (x, br_world (jb_sys s'))"
    using w(1,3) destroy_ci [of "rc_job_dir rc" "op_lib op" "op_backend op" "op_state_dir op" i "br_world (jb_sys s)"]
      destroy_frame [of "op_lib op" "op_backend op" "op_state_dir op" i "br_world (jb_sys s)"] by simp_all
qed

lemma delete_job_result:
  assumes "delete_job rc i s = (x, s')"
  shows "job_view rc (jb_sys s') = (case x of Inr _ \<Rightarrow> (job_view rc (jb_sys s))(i := None) | Inl _ \<Rightarrow> job_view rc (jb_sys s))"
    and "br_calm (jb_sys s) \<Longrightarrow> x = Inr ()" and "jb_rec s' = jb_rec s" and "br_bk (jb_sys s') = br_bk (jb_sys s)"
proof -
  obtain f where f: "ci_delete (rc_job_dir rc) i (w_fs (br_world (jb_sys s))) = (x, f)"
    "jb_sys s' = (jb_sys s)\<lparr>br_ops := (br_ops (jb_sys s))\<lparr>ow_world := (br_world (jb_sys s))\<lparr>w_fs := f\<rparr>\<rparr>\<rparr>" "jb_rec s' = jb_rec s"
    using assms by (auto simp: delete_job_def in_sys_iff by_ops_iff in_world_iff on_fs_iff br_world_def)
  have w: "br_world (jb_sys s') = (br_world (jb_sys s))\<lparr>w_fs := f\<rparr>" by (simp add: f(2) br_world_def)
  show "job_view rc (jb_sys s') = (case x of Inr _ \<Rightarrow> (job_view rc (jb_sys s))(i := None) | Inl _ \<Rightarrow> job_view rc (jb_sys s))"
    using ci_jobs.del_result [of "rc_job_dir rc" i "w_fs (br_world (jb_sys s))"] f(1) by (simp add: w)
  show "br_calm (jb_sys s) \<Longrightarrow> x = Inr ()"
    using ci_jobs.del_calm [of "w_fs (br_world (jb_sys s))" "rc_job_dir rc" i] f(1) by simp
  show "jb_rec s' = jb_rec s" "br_bk (jb_sys s') = br_bk (jb_sys s)" using f(3) by (simp_all add: w)
qed

text \<open>A cleanup either ends with the record gone, or with the record kept and saying why.\<close>

lemma cleanup_sandbox_record:
  assumes "cleanup_sandbox rc op i s = (x, s')" and "br_calm (jb_sys s)"
  shows "case x of
      Inr _ \<Rightarrow> job_view rc (jb_sys s') (cj_job_id (jb_rec s)) = None
    | Inl e \<Rightarrow> job_view rc (jb_sys s') (cj_job_id (jb_rec s)) = Some (jb_rec s') \<and>
        (\<exists>t. e = BackendUnavailable t \<and> cj_last_error (jb_rec s') = Some t)"
proof -
  obtain sc s1 where e: "in_sys (by_ops (ops_exec op i scrub_command (secs 60))) s = (sc, s1)" by fastforce
  obtain gn s2 where d: "in_sys (by_ops (ops_destroy op i)) s1 = (gn, s2)" by fastforce
  have c: "br_calm (jb_sys s2)" "jb_rec s2 = jb_rec s"
    using exec_step(3,4) [OF e] destroy_step(2,3) [OF d] assms(2) by simp_all
  show ?thesis
  proof (cases "scrub_error sc = None \<and> destroy_error gn = None")
    case True
    then have dj: "delete_job rc (cj_job_id (jb_rec s2)) s2 = (x, s')"
      using assms(1) e d by (simp add: cleanup_sandbox_def)
    show ?thesis using delete_job_result(1) [OF dj] delete_job_result(2) [OF dj c(1)] c(2) by simp
  next
    case False
    let ?t = "join_errors (scrub_error sc) (destroy_error gn)"
    let ?s3 = "s2\<lparr>jb_rec := (jb_rec s2)\<lparr>cj_last_error := Some ?t\<rparr>\<rparr>"
    have k: "bindE (touch_and_save rc) (\<lambda>_. failE (BackendUnavailable ?t)) ?s3 = (x, s')"
      using assms(1) e d False by (simp add: cleanup_sandbox_def change_def bindE_def Let_def)
    obtain y s4 where t: "touch_and_save rc ?s3 = (y, s4)" by fastforce
    note tr = touch_and_save_result [OF t]
    have "y = Inr ()" using save_job_result(7) [OF tr(2)] c by simp
    then have "x = Inl (BackendUnavailable ?t)" "s' = s4" using k t by simp_all
    then show ?thesis using save_job_result(1) [OF tr(2)] tr(1) c \<open>y = Inr ()\<close> by simp
  qed
qed

lemma cleanup_runner_record:
  assumes "cleanup_runner rc op s = (x, s')" and "br_calm (jb_sys s)"
  shows "case x of
      Inr _ \<Rightarrow> job_view rc (jb_sys s') (cj_job_id (jb_rec s)) = None
    | Inl e \<Rightarrow> job_view rc (jb_sys s') (cj_job_id (jb_rec s)) = Some (jb_rec s') \<and>
        (\<exists>t. e = BackendUnavailable t \<and> cj_last_error (jb_rec s') = Some t)"
proof (cases "cj_sandbox_id (jb_rec s)")
  case None
  then have dj: "delete_job rc (cj_job_id (jb_rec s)) s = (x, s')" using assms(1) by (simp add: cleanup_runner_def)
  show ?thesis using delete_job_result(1) [OF dj] delete_job_result(2) [OF dj assms(2)] by simp
next
  case (Some i)
  let ?s1 = "s\<lparr>jb_rec := (jb_rec s)\<lparr>cj_phase := phase_cleaning\<rparr>\<rparr>"
  obtain y s2 where t: "touch_and_save rc ?s1 = (y, s2)" by fastforce
  note tr = touch_and_save_result [OF t]
  have y: "y = Inr ()" "br_calm (jb_sys s2)" using save_job_result(4,7) [OF tr(2)] assms(2) by simp_all
  have cl: "cleanup_sandbox rc op i s2 = (x, s')"
    using assms(1) Some t y by (simp add: cleanup_runner_def change_def bindE_def)
  have i: "cj_job_id (jb_rec s2) = cj_job_id (jb_rec s)" using tr(1) by simp
  show ?thesis using cleanup_sandbox_record [OF cl y(2)] unfolding i .
qed

text \<open>A cleanup that succeeds leaves no guest of the job's sandbox behind.\<close>

lemma cleanup_runner_guest:
  assumes c: "backend_contract (op_backend op) live" and "cleanup_runner rc op s = (Inr u, s')" and "br_calm (jb_sys s)"
    and "cj_sandbox_id (jb_rec s) = Some i" and "box_view op (jb_sys s) i = Some box" and "sr_vm_tag box = Some t"
  shows "t \<notin> live (br_bk (jb_sys s'))"
proof -
  let ?s1 = "s\<lparr>jb_rec := (jb_rec s)\<lparr>cj_phase := phase_cleaning\<rparr>\<rparr>"
  obtain y s2 where tt: "touch_and_save rc ?s1 = (y, s2)" by fastforce
  note tr = touch_and_save_result [OF tt]
  have y: "y = Inr ()" "br_calm (jb_sys s2)" "box_view op (jb_sys s2) i = Some box"
    using save_job_result(2,4,7) [OF tr(2)] assms(3,5) by simp_all
  have cl: "cleanup_sandbox rc op i s2 = (Inr u, s')"
    using assms(2,4) tt y by (simp add: cleanup_runner_def change_def bindE_def)
  obtain sc s3 where e: "in_sys (by_ops (ops_exec op i scrub_command (secs 60))) s2 = (sc, s3)" by fastforce
  obtain gn s4 where d: "in_sys (by_ops (ops_destroy op i)) s3 = (gn, s4)" by fastforce
  have ok: "destroy_error gn = None" and del: "delete_job rc (cj_job_id (jb_rec s4)) s4 = (Inr u, s')"
    using cl e d by (auto simp: cleanup_sandbox_def change_def bindE_def Let_def split: if_splits prod.splits sum.splits)
  have v: "box_view op (jb_sys s3) i = Some box" "br_calm (jb_sys s3)"
    using exec_step(2,3) [OF e] y by simp_all
  have "t \<notin> live (br_bk (jb_sys s4))"
  proof (cases gn)
    case (Inr w)
    show ?thesis using backend_contract.destroy_ok_live [OF c destroy_step(4) [OF d, unfolded Inr] v(1) assms(6)] .
  next
    case (Inl e)
    then obtain m where "gn = Inl (NotFound m)" using ok by (cases e) (auto simp: destroy_error_def)
    then show ?thesis
      using backend_contract.destroy_not_found_gone [OF c _ v(2,1) assms(6)] destroy_step(4) [OF d] by simp
  qed
  then show ?thesis using delete_job_result(4) [OF del] by simp
qed

subsection \<open>What a run keeps\<close>

text \<open>A step keeps whether the file system refuses calls, and which job the record is of.\<close>

definition steady :: "('b, 'g) job_state \<Rightarrow> ('b, 'g) job_state \<Rightarrow> bool" where
  "steady s v \<longleftrightarrow> (br_calm (jb_sys v) \<longleftrightarrow> br_calm (jb_sys s)) \<and> cj_job_id (jb_rec v) = cj_job_id (jb_rec s)"

definition steady_act :: "('b, 'g, 'a) jact \<Rightarrow> bool" where
  "steady_act m \<longleftrightarrow> (\<forall>s. steady s (snd (m s)))"

definition steady_dact :: "('b, 'g, 'a) djact \<Rightarrow> bool" where
  "steady_dact m \<longleftrightarrow> (\<forall>s x s'. m s = Some (x, s') \<longrightarrow> steady s s')"

lemma steady_refl [simp]: "steady s s"
  by (simp add: steady_def)

lemma steady_trans: "steady s u \<Longrightarrow> steady u v \<Longrightarrow> steady s v"
  by (simp add: steady_def)

lemma steady_actI: "(\<And>s x s'. m s = (x, s') \<Longrightarrow> steady s s') \<Longrightarrow> steady_act m"
  by (metis prod.collapse steady_act_def)

lemma steady_actD: "steady_act m \<Longrightarrow> m s = (x, s') \<Longrightarrow> steady s s'"
  by (metis snd_conv steady_act_def)

lemma steady_dactI: "(\<And>s x s'. m s = Some (x, s') \<Longrightarrow> steady s s') \<Longrightarrow> steady_dact m"
  by (simp add: steady_dact_def)

lemma steady_dactD: "steady_dact m \<Longrightarrow> m s = Some (x, s') \<Longrightarrow> steady s s'"
  by (simp add: steady_dact_def)

lemma steady_bindE: "steady_act m \<Longrightarrow> (\<And>x. steady_act (k x)) \<Longrightarrow> steady_act (bindE m k)"
  by (rule steady_actI) (auto simp: bindE_def split: prod.splits sum.splits dest!: steady_actD intro: steady_trans)

lemma steady_bindD: "steady_dact m \<Longrightarrow> (\<And>x. steady_dact (k x)) \<Longrightarrow> steady_dact (bindD m k)"
  by (rule steady_dactI) (auto simp: bindD_def split: option.splits prod.splits sum.splits dest!: steady_dactD intro: steady_trans)

lemma steady_totalD: "steady_act m \<Longrightarrow> steady_dact (totalD m)"
  by (rule steady_dactI) (auto dest: steady_actD)

lemma steady_retE: "steady_act (retE x)" "steady_act (failE e)"
  by (simp_all add: steady_act_def)

lemma steady_change: "(\<And>r. cj_job_id (f r) = cj_job_id r) \<Longrightarrow> steady_act (change f)"
  by (simp add: steady_act_def change_def steady_def)

lemma steady_touch: "steady_act (touch_and_save rc)"
proof (rule steady_actI)
  fix s x s' assume t: "touch_and_save rc s = (x, s')"
  note tr = touch_and_save_result [OF t]
  show "steady s s'" using save_job_result(4) [OF tr(2)] tr(1) by (simp add: steady_def)
qed

text \<open>A computation on the system alone.\<close>

lemma steady_in_sys: "(\<And>b x b'. m b = (x, b') \<Longrightarrow> br_calm b' = br_calm b) \<Longrightarrow> steady_act (in_sys m)"
  by (rule steady_actI) (auto simp: in_sys_iff steady_def)

lemma by_ops_calm: "(\<And>s x s'. m s = (x, s') \<Longrightarrow> calm (w_fs (ow_world s')) = calm (w_fs (ow_world s))) \<Longrightarrow>
    by_ops m b = (x, b') \<Longrightarrow> br_calm b' = br_calm b"
  by (auto simp: by_ops_iff br_world_def)

lemma exec_calm: "by_ops (ops_exec op i c t) b = (x, b') \<Longrightarrow> br_calm b' = br_calm b"
  by (rule by_ops_calm [OF ops_exec_frame(2)])

lemma exec_runner_command_calm: "exec_runner_command op i c b = (x, b') \<Longrightarrow> br_calm b' = br_calm b"
  by (auto simp: exec_runner_command_def bindE_def split: prod.splits sum.splits if_splits dest!: exec_calm)

lemma exec_all_calm: "exec_all op i cs b = (x, b') \<Longrightarrow> br_calm b' = br_calm b"
proof (induction cs arbitrary: b)
  case Nil
  then show ?case by simp
next
  case (Cons c cs)
  then show ?case
    by (auto simp: bindE_def split: prod.splits sum.splits dest!: exec_runner_command_calm)
qed

lemma ops_put_world_calm:
  "ops_put op i p q s = (y, s') \<Longrightarrow> calm (w_fs (ow_world s')) = calm (w_fs (ow_world s))"
  for s :: "'b ops_world"
proof -
  assume a: "ops_put op i p q s = (y, s')"
  define P where "P v \<longleftrightarrow> (calm (w_fs (ow_world v)) \<longleftrightarrow> calm (w_fs (ow_world s)))" for v :: "'b ops_world"
  have l: "P (snd (load_record op i v))" if "P v" for v
    using that by (simp add: P_def load_record_def sandboxes.calm_get)
  have g: "P (snd (guest_of op i v))" if "P v" for v
    unfolding guest_of_def by (rule bindE_keep [where P = P, OF that l]) (auto split: option.splits)
  have "P (snd (ops_put op i p q s))"
    unfolding ops_put_def by (rule bindE_keep [where P = P, OF _ g]) (auto simp: P_def split: prod.splits)
  then show ?thesis using a by (simp add: P_def)
qed

lemma ops_put_calm: "by_ops (ops_put op i p q) b = (x, b') \<Longrightarrow> br_calm b' = br_calm b"
  by (rule by_ops_calm [OF ops_put_world_calm])

lemma upload_and_install_calm: "upload_and_install rc op cfg i d b = (x, b') \<Longrightarrow> br_calm b' = br_calm b"
proof -
  assume a: "upload_and_install rc op cfg i d b = (x, b')"
  define P where "P v \<longleftrightarrow> (br_calm v \<longleftrightarrow> br_calm b)" for v :: "('a, 'b) broker"
  have e: "P (snd (exec_runner_command op i c v))" if "P v" for c v
    using exec_runner_command_calm [of op i c v] that by (metis P_def prod.collapse)
  have ea: "P (snd (exec_all op i cs v))" if "P v" for cs v
    using exec_all_calm [of op i cs v] that by (metis P_def prod.collapse)
  have p: "P (snd (by_ops (ops_put op i q r) v))" if "P v" for q r v
    using ops_put_calm [of op i q r v] that by (metis P_def prod.collapse)
  have "P (snd (upload_and_install rc op cfg i d b))"
    unfolding upload_and_install_def
    by (rule bindE_keep [where P = P] e ea p | assumption | simp add: scrub_old_def e P_def [of b] split: option.splits)+
  then show ?thesis using a by (simp add: P_def)
qed


lemma std_fs_write_plan: "fs_plan (snd (std_fs_write p c s)) = fs_plan s"
  by (simp add: std_fs_write_def bindE_run fs_ops_plan split: sum.split)

lemma set_file_mode_plan: "fs_plan (snd (set_file_mode p m s)) = fs_plan s"
  by (auto simp: set_file_mode_def io_op_def Let_def split: option.splits)

lemma copy_file_plan: "fs_plan (snd (copy_file a b s)) = fs_plan s"
  by (simp add: copy_file_def bindE_run fs_ops_plan std_fs_write_plan split: sum.split)

lemma fill_upload_plan: "fs_plan (snd (fill_upload cfg repo d s)) = fs_plan s"
  unfolding fill_upload_def Let_def
  by (rule bindE_keep [where P = "\<lambda>v. fs_plan v = fs_plan s"] | rule refl |
      (simp only: snd_mapErr fs_ops_plan std_fs_write_plan set_file_mode_plan copy_file_plan; fail))+

lemma prepare_runner_upload_plan: "fs_plan (snd (prepare_runner_upload lb cfg repo s)) = fs_plan s"
proof -
  have o: "fs_plan (snd (on_error (fill_upload cfg repo d) (\<lambda>s. snd (remove_dir_all d s)) v)) = fs_plan v" for d v
    by (simp add: snd_on_error fill_upload_plan fs_ops_plan split: sum.split)
  show ?thesis unfolding prepare_runner_upload_def
    by (rule bindE_keep [where P = "\<lambda>v. fs_plan v = fs_plan s"] | rule refl |
        (simp only: snd_mapErr fs_ops_plan o retE_run snd_conv; fail))+
qed

lemma on_fs_calm:
  assumes p: "\<And>s. fs_plan (snd (m s)) = fs_plan s" and "by_ops (in_world (on_fs m)) b = (x, b')"
  shows "br_calm b' = br_calm b"
  using assms(2) p [of "w_fs (br_world b)"] by (auto simp: by_ops_iff in_world_iff on_fs_iff br_world_def calm_def)

lemma steady_on_fs: "(\<And>s. fs_plan (snd (m s)) = fs_plan s) \<Longrightarrow> steady_act (in_sys (by_ops (in_world (on_fs m))))"
  by (rule steady_in_sys) (rule on_fs_calm)

lemma steady_drop: "steady s (drop_upload d s)"
  for s :: "('b, 'g) job_state"
proof -
  have "steady_act (in_sys (by_ops (in_world (on_fs (\<lambda>f. (Inr (), snd (remove_dir_all d f)))))) :: ('b, 'g, unit) jact)"
    by (rule steady_on_fs) (simp add: fs_ops_plan)
  then show ?thesis by (simp add: drop_upload_def steady_act_def)
qed

lemma steady_uploaded: "steady_act (provision_uploaded rc op cfg i d)"
  unfolding provision_uploaded_def
  by (intro steady_bindE steady_in_sys steady_touch steady_retE steady_change)
    (auto dest: upload_and_install_calm exec_runner_command_calm)

lemma steady_provision: "steady_act (provision_runner rc op cfg :: ('b, 'g, unit) jact)"
proof -
  have k: "steady_act ((\<lambda>s2. case provision_uploaded rc op cfg i d s2 of (r, s3) \<Rightarrow> (r, drop_upload d s3)) :: ('b, 'g, unit) jact)" for i d
    by (rule steady_actI) (auto split: prod.splits dest!: steady_actD [OF steady_uploaded] intro: steady_trans [OF _ steady_drop])
  have m: "steady_act ((\<lambda>s1. bindE (in_sys (by_ops (in_world (on_fs
                   (prepare_runner_upload (rc_lib rc) cfg (cj_repository (jb_rec s1))))))) (\<lambda>dir s2.
          case provision_uploaded rc op cfg i dir s2 of (r, s3) \<Rightarrow> (r, drop_upload dir s3)) s1) :: ('b, 'g, unit) jact)" for i
  proof -
    have p: "steady_act (in_sys (by_ops (in_world (on_fs (prepare_runner_upload (rc_lib rc) cfg q)))) :: ('b, 'g, string) jact)" for q
      by (rule steady_on_fs) (rule prepare_runner_upload_plan)
    have "steady_act (bindE (in_sys (by_ops (in_world (on_fs (prepare_runner_upload (rc_lib rc) cfg q))))) (\<lambda>dir s2.
          case provision_uploaded rc op cfg i dir s2 of (r, s3) \<Rightarrow> (r, drop_upload dir s3)) :: ('b, 'g, unit) jact)" for q
      by (rule steady_bindE) (rule p, rule k)
    then show ?thesis unfolding steady_act_def by blast
  qed
  have "steady_act (bindE (change (\<lambda>r. r\<lparr>cj_phase := phase_provisioning\<rparr>)) (\<lambda>_. bindE (touch_and_save rc) (\<lambda>_ s1.
          bindE (in_sys (by_ops (in_world (on_fs
                   (prepare_runner_upload (rc_lib rc) cfg (cj_repository (jb_rec s1))))))) (\<lambda>dir s2.
          case provision_uploaded rc op cfg i dir s2 of (r, s3) \<Rightarrow> (r, drop_upload dir s3)) s1)) :: ('b, 'g, unit) jact)" for i
    by (intro steady_bindE steady_change steady_touch m) simp
  then show ?thesis unfolding steady_act_def provision_runner_def by (auto split: option.splits)
qed


lemma steady_dact_some: "steady_dact (\<lambda>s. Some (m s)) \<longleftrightarrow> steady_act m"
  unfolding steady_dact_def steady_act_def by (metis eq_snd_iff option.inject)

lemma steady_check: "steady_dact (check_divergence rc :: ('b, 'g, unit) djact)"
proof (rule steady_dactI)
  fix s :: "('b, 'g) job_state" and x s'
  assume c: "check_divergence rc s = Some (x, s')"
  have t: "steady v s'" if "touch_and_save rc v = (x, s')" for v
    using that by (rule steady_actD [OF steady_touch])
  show "steady s s'"
    using c by (auto simp: check_divergence_def bindD_def in_gh_Some Let_def
        split: option.splits prod.splits sum.splits if_splits dest!: t) (auto simp: steady_def br_world_def)
qed

lemma steady_noted: "steady_dact (divergence_noted rc)"
  by (rule steady_dactI) (auto simp: divergence_noted_def split: if_splits dest: steady_dactD [OF steady_check])

lemma scan_wait_job: "cj_job_id (fst (fold scan_wait ls x)) = cj_job_id (fst x)"
  by (induction ls arbitrary: x) (auto simp: scan_wait_def split: prod.splits option.splits)

lemma scan_job_job: "cj_job_id (fst (fold scan_job ls x)) = cj_job_id (fst x)"
  by (induction ls arbitrary: x) (auto simp: scan_job_def Let_def split: prod.splits option.splits)

lemma steady_rec: "cj_job_id r = cj_job_id (jb_rec s) \<Longrightarrow> steady (s\<lparr>jb_rec := r\<rparr>) v \<Longrightarrow> steady s v"
  by (simp add: steady_def)

lemma steady_wait: "steady_dact (wait_step rc log :: ('b, 'g, bool) djact)"
proof (rule steady_dactI)
  fix s :: "('b, 'g) job_state" and x s'
  assume w: "wait_step rc log s = Some (x, s')"
  obtain r l e where f: "fold scan_wait (str_lines log) (jb_rec s, False, False) = (r, l, e)" by (metis prod_cases3)
  have j: "cj_job_id r = cj_job_id (jb_rec s)" using scan_wait_job [of "str_lines log" "(jb_rec s, False, False)"] f by simp
  have st: "steady_dact (bindD (divergence_noted rc) (\<lambda>_. bindD (totalD (touch_and_save rc)) (\<lambda>_.
        if l then totalD (bindE (change (\<lambda>r. r\<lparr>cj_phase := phase_running\<rparr>)) (\<lambda>_.
                     bindE (touch_and_save rc) (\<lambda>_. retE True)))
        else (\<lambda>s'. if e then Some (Inl (exited_early (jb_rec s')), s') else Some (Inr False, s')))) :: ('b, 'g, bool) djact)"
  proof (intro steady_bindD steady_noted steady_totalD steady_touch, cases l)
    case True
    then show "steady_dact (if l then totalD (bindE (change (\<lambda>r. r\<lparr>cj_phase := phase_running\<rparr>)) (\<lambda>_.
                     bindE (touch_and_save rc) (\<lambda>_. retE True)))
        else (\<lambda>s'. if e then Some (Inl (exited_early (jb_rec s')), s') else Some (Inr False, s')) :: ('b, 'g, bool) djact)"
      by (simp only: if_True) (intro steady_totalD steady_bindE steady_change steady_touch steady_retE, simp)
  next
    case False
    then show "steady_dact (if l then totalD (bindE (change (\<lambda>r. r\<lparr>cj_phase := phase_running\<rparr>)) (\<lambda>_.
                     bindE (touch_and_save rc) (\<lambda>_. retE True)))
        else (\<lambda>s'. if e then Some (Inl (exited_early (jb_rec s')), s') else Some (Inr False, s')) :: ('b, 'g, bool) djact)"
      by (simp add: steady_dact_def)
  qed
  show "steady s s'" by (rule steady_rec [OF j], rule steady_dactD [OF st]) (use w f in \<open>simp add: wait_step_def\<close>)
qed

lemma steady_read: "steady_act (in_sys (read_runner_log op i))"
  by (rule steady_in_sys) (rule read_runner_log_frame(2))

lemma steady_sleep: "steady s v \<Longrightarrow> steady s (sleep_j d v)"
  by (simp add: steady_def sleep_j_def sleep_def br_world_def)

lemma steady_wait_loop: "steady_dact (wait_loop rc op i deadline :: ('b, 'g, unit) djact)"
proof (rule steady_dactI)
  fix s :: "('b, 'g) job_state" and x s'
  let ?Q = "\<lambda>(rc :: 'g reconciler) (op :: 'b ops) (i :: string) (deadline :: nat) (s :: ('b, 'g) job_state)
     (y :: (lsbx_error + unit) \<times> ('b, 'g) job_state). steady s (snd y)"
  assume a: "wait_loop rc op i deadline s = Some (x, s')"
  have "?Q rc op i deadline s (x, s')"
  proof (rule wait_loop.raw_induct [where P = ?Q, OF _ a])
    fix wl rc op i deadline and s :: "('b, 'g) job_state" and y
    assume ih: "\<And>rc op i deadline s y. wl rc op i deadline s = Some y \<Longrightarrow> ?Q rc op i deadline s y"
      and b: "(if deadline \<le> br_now s then Some (Inl (not_listening (cj_job_id (jb_rec s))), s)
      else case in_sys (read_runner_log op i) s of
        (Inl _, s1) \<Rightarrow> wl rc op i deadline (sleep_j poll_pause s1)
      | (Inr log, s1) \<Rightarrow>
          Option.bind (wait_step rc log s1) (\<lambda>(r, s2).
          case r of
            Inl e \<Rightarrow> Some (Inl e, s2)
          | Inr listening \<Rightarrow>
              if listening then Some (Inr (), s2)
              else wl rc op i deadline (sleep_j poll_pause s2))) = Some y"
    have go: "steady s (snd y)" if "steady s v" "wl rc op i deadline (sleep_j poll_pause v) = Some y" for v
      using steady_trans [OF steady_sleep [OF that(1)]] ih [OF that(2)] by blast
    obtain z s1 where r: "in_sys (read_runner_log op i) s = (z, s1)" by fastforce
    note s1 = steady_actD [OF steady_read r]
    have s2: "steady s s2" if "wait_step rc log s1 = Some (w, s2)" for log w s2
      using steady_trans [OF s1 steady_dactD [OF steady_wait that]] .
    show "steady s (snd y)"
    proof (cases "deadline \<le> br_now s")
      case True
      then show ?thesis using b by auto
    next
      case False
      show ?thesis
      proof (cases z)
        case (Inl e)
        then show ?thesis using b r False go [OF s1] by simp
      next
        case (Inr log)
        then obtain w s2 where w: "wait_step rc log s1 = Some (w, s2)"
          and k: "(case w of Inl e \<Rightarrow> Some (Inl e, s2) | Inr l \<Rightarrow> if l then Some (Inr (), s2)
              else wl rc op i deadline (sleep_j poll_pause s2)) = Some y"
          using b r False by (auto simp: bind_eq_Some_conv)
        show ?thesis using k s2 [OF w] go [OF s2 [OF w]] by (auto split: sum.splits if_splits)
      qed
    qed
  qed
  then show "steady s s'" by simp
qed


lemma renew_calm: "renew lb sd i d w = (x, w') \<Longrightarrow> calm (w_fs w') = calm (w_fs w)"
proof -
  assume a: "renew lb sd i d w = (x, w')"
  have "calm (w_fs (snd (renew lb sd i d w))) = calm (w_fs w)"
    by (simp add: renew_def bindE_run Let_def sandboxes.calm_get sandboxes.calm_put split: sum.split)
  then show ?thesis using a by simp
qed

lemma ops_renew_calm: "by_ops (ops_renew op i d) b = (x, b') \<Longrightarrow> br_calm b' = br_calm b"
  by (auto simp: by_ops_iff ops_renew_def in_world_iff br_world_def dest!: renew_calm)

lemma steady_renew: "steady_act (renew_step rc op i lease n :: ('b, 'g, nat) jact)"
proof (rule steady_actI)
  fix s :: "('b, 'g) job_state" and x s'
  assume a: "renew_step rc op i lease n s = (x, s')"
  have st: "steady_act (bindE (in_sys (by_ops (ops_renew op i lease))) (\<lambda>ps.
           bindE (change (\<lambda>r. r\<lparr>cj_lease_expires_at := ps_lease_expires_at ps\<rparr>)) (\<lambda>_.
           bindE (touch_and_save rc) (\<lambda>_ s'.
           (Inr (br_now s' + max (lease div 3) (secs 30)), s')))) :: ('b, 'g, nat) jact)"
    by (intro steady_bindE steady_in_sys steady_change steady_touch) (auto simp: steady_act_def dest: ops_renew_calm)
  show "steady s s'" using a steady_actD [OF st] by (auto simp: renew_step_def split: if_splits)
qed

lemma steady_status: "steady_act (job_status_step rc)"
  by (rule steady_actI)
    (auto simp: job_status_step_def judge_job_def Let_def steady_def br_world_def split: option.splits prod.splits sum.splits if_splits)

lemma steady_watch: "steady_dact (watch_step rc op i lease n log :: ('b, 'g, nat option) djact)"
proof (rule steady_dactI)
  fix s :: "('b, 'g) job_state" and x s'
  assume w: "watch_step rc op i lease n log s = Some (x, s')"
  obtain r c e where f: "fold scan_job (str_lines log) (jb_rec s, None, False) = (r, c, e)" by (metis prod_cases3)
  have j: "cj_job_id r = cj_job_id (jb_rec s)" using scan_job_job [of "str_lines log" "(jb_rec s, None, False)"] f by simp
  define k where "k s' = (case c of
          Some (n, result) \<Rightarrow>
            let s'' = s'\<lparr>jb_rec := (jb_rec s')\<lparr>cj_actual_job_name := Some n\<rparr>\<rparr>
            in if \<not> cj_diverged (jb_rec s'') \<and> \<not> succeeded result then Some (Inl (bad_result result), s'')
               else Some (Inr None, s'')
        | None \<Rightarrow>
            if e
            then if cj_diverged (jb_rec s') then Some (Inr None, s')
                 else Some (Inl (exited_before_done (jb_rec s')), s')
            else Some (bindE (job_status_step rc) (\<lambda>stop.
                   if stop then retE None
                   else bindE (renew_step rc op i lease n) (\<lambda>n. retE (Some n))) s'))" for s' :: "('b, 'g) job_state"
  have b: "steady_act (bindE (job_status_step rc) (\<lambda>stop. if stop then retE None
                   else bindE (renew_step rc op i lease n) (\<lambda>n. retE (Some n))) :: ('b, 'g, nat option) jact)"
    by (rule steady_bindE [OF steady_status]) (auto intro: steady_retE steady_bindE [OF steady_renew])
  have k: "steady_dact k"
    by (rule steady_dactI)
      (auto simp: k_def Let_def steady_def [of _ "_\<lparr>jb_rec := _\<rparr>"] split: option.splits if_splits dest: steady_actD [OF b])
  have st: "steady_dact (bindD (divergence_noted rc) (\<lambda>_. bindD (totalD (touch_and_save rc)) (\<lambda>_. k)))"
    by (intro steady_bindD steady_noted steady_totalD steady_touch k)
  show "steady s s'"
    by (rule steady_rec [OF j], rule steady_dactD [OF st]) (use w f in \<open>simp add: watch_step_def k_def [abs_def]\<close>)
qed


lemma steady_watch_loop: "steady_dact (watch_loop rc op i lease deadline n :: ('b, 'g, unit) djact)"
proof (rule steady_dactI)
  fix s :: "('b, 'g) job_state" and x s'
  let ?Q = "\<lambda>(rc :: 'g reconciler) (op :: 'b ops) (i :: string) (lease :: nat) (deadline :: nat) (n :: nat) (s :: ('b, 'g) job_state)
     (y :: (lsbx_error + unit) \<times> ('b, 'g) job_state). steady s (snd y)"
  assume a: "watch_loop rc op i lease deadline n s = Some (x, s')"
  have "?Q rc op i lease deadline n s (x, s')"
  proof (rule watch_loop.raw_induct [where P = ?Q, OF _ a])
    fix wl rc op i lease deadline n and s :: "('b, 'g) job_state" and y
    assume ih: "\<And>rc op i lease deadline n s y. wl rc op i lease deadline n s = Some y \<Longrightarrow> ?Q rc op i lease deadline n s y"
      and b: "(if deadline \<le> br_now s then Some (Inr (), s)
      else case in_sys (read_runner_log op i) s of
        (Inl _, s1) \<Rightarrow> wl rc op i lease deadline n (sleep_j poll_pause s1)
      | (Inr log, s1) \<Rightarrow>
          Option.bind (watch_step rc op i lease n log s1) (\<lambda>(r, s2).
          case r of
            Inl e \<Rightarrow> Some (Inl e, s2)
          | Inr None \<Rightarrow> Some (Inr (), s2)
          | Inr (Some n) \<Rightarrow> wl rc op i lease deadline n (sleep_j poll_pause s2))) = Some y"
    have go: "steady s (snd y)" if "steady s v" "wl rc op i lease deadline m (sleep_j poll_pause v) = Some y" for v m
      using steady_trans [OF steady_sleep [OF that(1)]] ih [OF that(2)] by blast
    obtain z s1 where r: "in_sys (read_runner_log op i) s = (z, s1)" by fastforce
    note s1 = steady_actD [OF steady_read r]
    have s2: "steady s s2" if "watch_step rc op i lease n log s1 = Some (w, s2)" for log w s2
      using steady_trans [OF s1 steady_dactD [OF steady_watch that]] .
    show "steady s (snd y)"
    proof (cases "deadline \<le> br_now s")
      case True
      then show ?thesis using b by auto
    next
      case False
      show ?thesis
      proof (cases z)
        case (Inl e)
        then show ?thesis using b r False go [OF s1] by simp
      next
        case (Inr log)
        then obtain w s2 where w: "watch_step rc op i lease n log s1 = Some (w, s2)"
          and k: "(case w of Inl e \<Rightarrow> Some (Inl e, s2) | Inr None \<Rightarrow> Some (Inr (), s2)
              | Inr (Some n) \<Rightarrow> wl rc op i lease deadline n (sleep_j poll_pause s2)) = Some y"
          using b r False by (auto simp: bind_eq_Some_conv)
        show ?thesis using k s2 [OF w] go [OF s2 [OF w]] by (auto split: sum.splits option.splits)
      qed
    qed
  qed
  then show "steady s s'" by simp
qed

lemma steady_watch_job: "steady_dact (watch_job rc op cfg i lease :: ('b, 'g, unit) djact)"
  by (rule steady_dactI)
    (auto simp: watch_job_def Let_def bindD_def split: option.splits prod.splits sum.splits if_splits
      dest: steady_dactD [OF steady_watch_loop])

lemma steady_monitor: "steady_dact (monitor_runner rc op cfg lease :: ('b, 'g, unit) djact)"
proof (rule steady_dactI)
  fix s :: "('b, 'g) job_state" and x s'
  assume a: "monitor_runner rc op cfg lease s = Some (x, s')"
  have st: "steady_dact (bindD (totalD (bindE (change (\<lambda>r. r\<lparr>cj_phase := phase_waiting\<rparr>)) (\<lambda>_. touch_and_save rc)))
      (\<lambda>_. bindD (wait_loop rc op i d) (\<lambda>_. watch_job rc op cfg i lease)) :: ('b, 'g, unit) djact)" for i d
    by (intro steady_bindD steady_totalD steady_bindE steady_change steady_touch steady_wait_loop steady_watch_job) simp
  show "steady s s'" using a steady_dactD [OF st] by (auto simp: monitor_runner_def Let_def split: option.splits)
qed

lemma steady_primary: "steady_dact (primary_run rc op cfg lease :: ('b, 'g, unit) djact)"
proof -
  have l: "steady_act (existing_log op :: ('b, 'g, string option) jact)"
    by (rule steady_actI)
      (auto simp: existing_log_def split: option.splits prod.splits sum.splits dest: steady_actD [OF steady_read])
  have m: "steady_dact (bindD (totalD (provision_runner rc op cfg)) (\<lambda>_. monitor_runner rc op cfg lease) :: ('b, 'g, unit) djact)"
    by (intro steady_bindD steady_totalD steady_provision steady_monitor)
  show ?thesis unfolding primary_run_def
    by (rule steady_bindD [OF steady_totalD [OF l]]) (simp add: m steady_monitor split: option.split)
qed

text \<open>After a job's run its record is gone, or kept with the error of the cleanup.\<close>

lemma run_runner_job_record:
  fixes s :: "('b, 'g) job_state"
  assumes "run_runner_job rc op cfg lease s = Some (x, s')" and "br_calm (jb_sys s)"
  shows "job_view rc (jb_sys s') (cj_job_id (jb_rec s)) = None \<or>
    (\<exists>t. job_view rc (jb_sys s') (cj_job_id (jb_rec s)) = Some (jb_rec s') \<and> cj_last_error (jb_rec s') = Some t \<and>
      (\<exists>e. x = Inl (BackendUnavailable e)))"
proof -
  obtain p s1 y where p: "primary_run rc op cfg lease s = Some (p, s1)"
    and c: "cleanup_runner rc op (note_outcome rc p s1) = (y, s')" and x: "x = both_outcomes p y"
    using assms(1) by (auto simp: run_runner_job_def split: prod.splits) (metis surj_pair)
  let ?v = "note_outcome rc p s1"
  have n: "steady_act (bindE (change (\<lambda>r. case p of Inl e \<Rightarrow> r\<lparr>cj_last_error := Some (err_display e)\<rparr>
            | Inr _ \<Rightarrow> r\<lparr>cj_phase := phase_completed\<rparr>)) (\<lambda>_. touch_and_save rc) :: ('b, 'g, unit) jact)"
    by (intro steady_bindE steady_change steady_touch) (simp split: sum.split)
  have "steady s1 ?v" unfolding note_outcome_def using n by (simp only: steady_act_def)
  then have "steady s ?v" by (rule steady_trans [OF steady_dactD [OF steady_primary p]])
  then have v: "br_calm (jb_sys ?v)" "cj_job_id (jb_rec ?v) = cj_job_id (jb_rec s)"
    using assms(2) by (simp_all add: steady_def)
  show ?thesis using cleanup_runner_record [OF c v(1)] x
    by (auto simp: v(2) both_outcomes_def split: sum.splits)
qed

lemma registry_save_plan: "fs_plan (snd (registry_save r p s)) = fs_plan s"
  by (simp add: registry_save_def std_fs_write_plan)

lemma distinct_filter_keys:
  "distinct (map fst al) \<Longrightarrow> distinct (map (snd \<circ> fst) (filter (\<lambda>e. fst (fst e) = d) al))"
  by (induction al) (auto simp: image_iff)

text \<open>One record per job on disk gives one record per job in flight.\<close>

lemma in_flight_distinct:
  assumes "ci_list_in_flight sx sd s = (Inr rs, s')" and "distinct (map fst (fs_files s))"
    and ids: "\<And>k r. ci_view sd s k = Some r \<Longrightarrow> cj_job_id r = k"
  shows "distinct (map cj_job_id rs)"
proof (cases "dir_exists (ci_store_dir sd) s")
  case False
  then show ?thesis using assms(1) by (simp add: ci_list_in_flight_def)
next
  case True
  let ?js = "filter (\<lambda>n. file_extension n = Some ''json'') (dir_names s (ci_store_dir sd))"
  obtain s1 where f1: "fs_files s1 = fs_files s" and l: "ci_in_flight_entries sx sd (dir_names s (ci_store_dir sd)) s1 = (Inr rs, s')"
    using assms(1) True by (auto simp: ci_list_in_flight_def bindE_Inr_iff dest: read_dir_Inr)
  let ?keep = "\<lambda>v. case v of None \<Rightarrow> True | Some r \<Rightarrow> \<not> ci_terminal (cj_phase r)"
  have m: "map Some rs = map (\<lambda>n. ci_view sd s (file_stem n)) (filter (\<lambda>n. ?keep (ci_view sd s (file_stem n))) ?js)"
    using conjunct1 [OF ci_in_flight_entries_Inr [OF l]] by (simp only: ci_view_cong [OF f1] filter_map comp_def)
  define ns where "ns = filter (\<lambda>n. ?keep (ci_view sd s (file_stem n))) ?js"
  have d: "distinct ns" using distinct_filter_keys [OF assms(2)] unfolding dir_names_def ns_def by (intro distinct_filter)
  have len: "length rs = length ns" using arg_cong [OF m, of length] by (simp only: length_map ns_def)
  have nth: "ci_view sd s (file_stem (ns ! i)) = Some (rs ! i)" if "i < length rs" for i
    using arg_cong [OF m, of "\<lambda>xs. xs ! i"] that len unfolding ns_def [symmetric] by (simp only: nth_map)
  have j: "\<forall>n \<in> set ns. file_extension n = Some ''json''" unfolding ns_def by (simp only: set_filter mem_Collect_eq) blast
  have stem: "record_file (file_stem (ns ! i)) = ns ! i" if "i < length rs" for i
    using j that len nth_mem ignore_other_names by metis
  show ?thesis unfolding distinct_conv_nth length_map
  proof (intro allI impI)
    fix i j assume ij: "i < length rs" "j < length rs" "i \<noteq> j"
    have "ns ! i \<noteq> ns ! j" using nth_eq_iff_index_eq [OF d, of i j] ij len by simp
    then have "file_stem (ns ! i) \<noteq> file_stem (ns ! j)" using stem [OF ij(1)] stem [OF ij(2)] by metis
    then have "cj_job_id (rs ! i) \<noteq> cj_job_id (rs ! j)"
      using ids [OF nth [OF ij(1)]] ids [OF nth [OF ij(2)]] by (simp only: not_False_eq_True)
    then show "map cj_job_id rs ! i \<noteq> map cj_job_id rs ! j" using ij(1,2) by (simp only: nth_map not_False_eq_True)
  qed
qed

lemma resume_one_same:
  "cj_job_id (jb_rec (resume_one rc op s)) = cj_job_id (jb_rec s) \<and>
    (terminal (cj_phase (jb_rec s)) \<longrightarrow> terminal (cj_phase (jb_rec (resume_one rc op s))))"
proof (cases "tail_and_update rc op s")
  case (Pair x s')
  note t = tail_and_update_same [OF Pair]
  show ?thesis
  proof (cases x)
    case (Inr u)
    then show ?thesis using t Pair by (simp add: resume_one_def)
  next
    case (Inl e)
    let ?v = "s'\<lparr>jb_rec := (jb_rec s')\<lparr>cj_last_error := Some (resume_failed e)\<rparr>\<rparr>"
    have "jb_rec (snd (touch_and_save rc ?v)) = (jb_rec ?v)\<lparr>cj_updated_at := now_text rc (jb_sys ?v)\<rparr>"
      using touch_and_save_result(1) [of rc ?v] by (metis prod.collapse)
    then show ?thesis using t Pair Inl by (simp add: resume_one_def)
  qed
qed

lemma resume_all_ids: "map cj_job_id (fst (resume_all rc op rs b)) = map cj_job_id rs"
  by (induction rs arbitrary: b) (simp_all add: Let_def resume_one_same case_prod_unfold)

lemma startup_distinct:
  assumes "reconcile_on_startup rc op b = (Inr rs, b')" and "distinct (map fst (fs_files (w_fs (br_world b))))"
    and "\<And>k r. job_view rc b k = Some r \<Longrightarrow> cj_job_id r = k"
  shows "distinct (active_ids rs)"
proof -
  obtain qs b1 where l: "list_in_flight rc b = (Inr qs, b1)" and r: "rs = fst (resume_all rc op qs b1)"
    using assms(1) by (auto simp: reconcile_on_startup_def bindE_Inr_iff Let_def case_prod_unfold)
  then obtain f where "ci_list_in_flight (lb_serde (rc_lib rc)) (rc_job_dir rc) (w_fs (br_world b)) = (Inr qs, f)"
    by (auto simp: list_in_flight_def by_ops_iff in_world_iff on_fs_iff br_world_def)
  then have "distinct (map cj_job_id qs)" using assms(2,3) by (rule in_flight_distinct)
  then have "distinct (map cj_job_id rs)" by (simp add: r resume_all_ids)
  then show ?thesis unfolding active_ids_def by (rule distinct_map_filter)
qed

text \<open>The driver without runners never has two records of one job in flight.\<close>

lemma run_broker_distinct:
  assumes "run_broker rc op lock cfg it b = Some (x, s')" and "bg_runner cfg = None"
    and "distinct (map fst (fs_files (w_fs (br_world b))))"
    and "\<And>k r. job_view rc b k = Some r \<Longrightarrow> cj_job_id r = k"
  shows "distinct (active_ids (dr_in_flight s'))"
proof (cases lock)
  case (Inl e)
  then show ?thesis using assms(1) by (auto simp: run_broker_def active_ids_def)
next
  case (Inr u)
  show ?thesis
  proof (cases "reconcile_on_startup rc op b")
    case (Pair r b1)
    show ?thesis
    proof (cases r)
      case (Inl e)
      then show ?thesis using assms(1,2) Pair Inr by (auto simp: run_broker_def active_ids_def)
    next
      case r: (Inr rs)
      then have d: "drive (broker_step rc op (bg_lease cfg) it) it 0
          \<lparr>dr_poller = poller_new (bg_poll cfg), dr_in_flight = rs, dr_sys = b1\<rparr> = Some (x, s')"
        using assms(1,2) Pair Inr by (simp add: run_broker_def)
      have "distinct (active_ids rs)" using startup_distinct [OF _ assms(3,4)] Pair r by blast
      then show ?thesis
        using drive_inv [OF d, where P = "\<lambda>s. distinct (active_ids (dr_in_flight s))"] broker_step_active
        by (metis driver.select_convs(2))
    qed
  qed
qed

end
