(* ===== verification/Lsbx_Exe_Transport.thy ===== *)
theory Lsbx_Exe_Transport
  imports Lsbx_Backend Lsbx_Shell
begin

text \<open>
  The three ways of the exe.dev backend to its control plane and its guests: the HTTPS endpoint with the
  exit code in the body (\<open>http_fallback.rs\<close>), sessions of the crate \<open>russh\<close> with trust on first use
  (\<open>ssh.rs\<close>), and the programs \<open>ssh\<close> and \<open>scp\<close> (the functions \<open>run_open_ssh\<close> and \<open>run_scp\<close> of
  \<open>lsbx-backend-exedev/src/lib.rs\<close>). The network and the programs are functions on a state \<open>'x\<close>.
\<close>

text \<open>What became of a process, and of an HTTP request; texts are those of the libraries' errors.\<close>

datatype proc_outcome =
    NotStarted string
  | TimedOut
  | WaitFailed string
  | Exited "int option" string string

datatype http_answer =
    NoAnswer string
  | Answer bool string "string + string"

text \<open>The messages of an SSH channel that the program looks at.\<close>

datatype channel_msg = MsgData string | MsgStderr string | MsgExit "32 word" | MsgOther

text \<open>
  \<open>xr_dial\<close> connects and gives the key the server presents; \<open>xr_check_known\<close> looks a key up in a file of
  known hosts (an error when the host is known with another key); \<open>xr_messages\<close> are the messages of a
  channel until it closes, or \<open>None\<close> when the time ran out.
\<close>

record 'x russh =
  xr_load_key :: "string \<Rightarrow> 'x \<Rightarrow> string option"
  xr_known_hosts :: string
  xr_dial :: "string \<Rightarrow> nat \<Rightarrow> ('x, string, string) comp"
  xr_check_known :: "string \<Rightarrow> nat \<Rightarrow> string \<Rightarrow> string \<Rightarrow> 'x \<Rightarrow> string + bool"
  xr_learn :: "string \<Rightarrow> nat \<Rightarrow> string \<Rightarrow> string \<Rightarrow> 'x \<Rightarrow> 'x"
  xr_rejected :: string
  xr_auth :: "string \<Rightarrow> string \<Rightarrow> ('x, string, bool) comp"
  xr_open :: "('x, string, unit) comp"
  xr_exec :: "string \<Rightarrow> ('x, string, unit) comp"
  xr_messages :: "nat \<Rightarrow> 'x \<Rightarrow> channel_msg list option \<times> 'x"

record 'x exe_lib =
  xl_sha :: "string \<Rightarrow> string"
  xl_post :: "string \<Rightarrow> string \<Rightarrow> string \<Rightarrow> nat \<Rightarrow> 'x \<Rightarrow> http_answer \<times> 'x"
  xl_ssh :: "string list \<Rightarrow> nat \<Rightarrow> 'x \<Rightarrow> proc_outcome \<times> 'x"
  xl_scp :: "string list \<Rightarrow> nat \<Rightarrow> 'x \<Rightarrow> proc_outcome \<times> 'x"
  xl_russh :: "'x russh"
  xl_is_file :: "string \<Rightarrow> 'x \<Rightarrow> bool"
  xl_is_dir :: "string \<Rightarrow> 'x \<Rightarrow> bool"
  xl_parse_json :: "string \<Rightarrow> json option"
  xl_dur_text :: "nat \<Rightarrow> string"
  xl_run_time :: "string \<Rightarrow> string list \<Rightarrow> nat \<Rightarrow> string option \<Rightarrow> 'x \<Rightarrow> nat"
  xl_run_dropped :: "string \<Rightarrow> string list \<Rightarrow> nat \<Rightarrow> 'x \<Rightarrow> 'x"

type_synonym ('x, 'a) exe_op = "('x, lsbx_error, 'a) comp"

subsection \<open>The HTTPS endpoint\<close>

definition exec_url :: string where
  "exec_url = ''https://exe.dev/exec''"

definition exit_sentinel :: string where
  "exit_sentinel = ''__LSBX_'' @ ''EXIT:''"

definition sentinel_code :: "string \<Rightarrow> int option" where
  "sentinel_code tail =
     (case parse_i32 (trim tail) of None \<Rightarrow> None | Some code \<Rightarrow> if code < 0 then None else Some code)"

definition split_exit_sentinel :: "string \<Rightarrow> (string \<times> int) option" where
  "split_exit_sentinel body =
     (let trimmed = trim_end_if is_space body
      in case rsplit_str (CHR 0x0A # exit_sentinel) trimmed of
           Some (before, tail) \<Rightarrow> map_option (Pair before) (sentinel_code tail)
         | None \<Rightarrow>
             (case strip_prefix exit_sentinel trimmed of
                Some tail \<Rightarrow> map_option (Pair []) (sentinel_code tail)
              | None \<Rightarrow> None))"

definition http_output :: "http_answer \<Rightarrow> lsbx_error + command_output" where
  "http_output a =
     (case a of
        NoAnswer e \<Rightarrow> Inl (BackendUnavailable (''http exec failed: '' @ e))
      | Answer ok status body \<Rightarrow>
          if \<not> ok
          then Inr \<lparr>co_exit_code = 255, co_stdout = [],
                 co_stderr = ''http exec returned status '' @ status @ '': '' @
                   (case body of Inl _ \<Rightarrow> [] | Inr t \<Rightarrow> t)\<rparr>
          else (case body of
                  Inl e \<Rightarrow> Inl (BackendUnavailable (''failed to read http exec response body: '' @ e))
                | Inr t \<Rightarrow>
                    (case split_exit_sentinel t of
                       Some (text, code) \<Rightarrow> Inr \<lparr>co_exit_code = code, co_stdout = text, co_stderr = []\<rparr>
                     | None \<Rightarrow> Inr \<lparr>co_exit_code = 0, co_stdout = t, co_stderr = []\<rparr>)))"

definition exec_with_timeout :: "'x exe_lib \<Rightarrow> string \<Rightarrow> string \<Rightarrow> nat \<Rightarrow> ('x, command_output) exe_op" where
  "exec_with_timeout xl token command tmo s =
     (case xl_post xl token exec_url command tmo s of (a, s') \<Rightarrow> (http_output a, s'))"

definition http_exec :: "'x exe_lib \<Rightarrow> string \<Rightarrow> string \<Rightarrow> ('x, command_output) exe_op" where
  "http_exec xl token command = exec_with_timeout xl token command (secs 120)"

definition wrap_guest_command :: "string \<Rightarrow> string \<Rightarrow> string" where
  "wrap_guest_command vm_tag quoted_cmd =
     ''ssh '' @ vm_tag @ '' '' @ [CHR 0x22] @ quoted_cmd @ [CHR 0x22] @ ''; echo '' @ exit_sentinel @ ''$?''"

subsection \<open>Sessions with trust on first use\<close>

text \<open>The decision on the key a server presents, and the state after a new key was learned.\<close>

definition check_server_key :: "'x russh \<Rightarrow> string \<Rightarrow> nat \<Rightarrow> string \<Rightarrow> 'x \<Rightarrow> bool \<times> 'x" where
  "check_server_key xr host port key s =
     (case xr_check_known xr host port key (xr_known_hosts xr) s of
        Inr True \<Rightarrow> (True, s)
      | Inr False \<Rightarrow> (True, xr_learn xr host port key (xr_known_hosts xr) s)
      | Inl _ \<Rightarrow> (False, s))"

definition ssh_connect :: "'x russh \<Rightarrow> string \<Rightarrow> string \<Rightarrow> string \<Rightarrow> nat \<Rightarrow> ('x, unit) exe_op" where
  "ssh_connect xr key_path user host port s0 =
     (case xr_load_key xr key_path s0 of
        Some e \<Rightarrow> (Inl (BackendUnavailable (''failed to load ssh key: '' @ e)), s0)
      | None \<Rightarrow>
          bindE (mapErr (\<lambda>e. BackendUnavailable (''failed to connect via ssh: '' @ e)) (xr_dial xr host port)) (\<lambda>key s.
          case check_server_key xr host port key s of
            (False, s') \<Rightarrow> (Inl (BackendUnavailable (''failed to connect via ssh: '' @ xr_rejected xr)), s')
          | (True, s') \<Rightarrow>
              bindE (mapErr (\<lambda>e. BackendUnavailable (''failed to auth via ssh: '' @ e)) (xr_auth xr user key_path)) (\<lambda>ok.
              if ok then retE () else failE (AuthFailed ''SSH authentication failed'')) s') s0)"

text \<open>The output collected from a channel's messages; the exit status is a \<open>u32\<close> read as an \<open>i32\<close>.\<close>

fun collect_output :: "channel_msg list \<Rightarrow> command_output \<Rightarrow> command_output" where
  "collect_output [] out = out"
| "collect_output (m # ms) out =
     collect_output ms
       (case m of
          MsgData d \<Rightarrow> out\<lparr>co_stdout := co_stdout out @ d\<rparr>
        | MsgStderr d \<Rightarrow> out\<lparr>co_stderr := co_stderr out @ d\<rparr>
        | MsgExit c \<Rightarrow> out\<lparr>co_exit_code := sint c\<rparr>
        | MsgOther \<Rightarrow> out)"

definition ssh_exec :: "'x russh \<Rightarrow> string \<Rightarrow> nat \<Rightarrow> ('x, command_output) exe_op" where
  "ssh_exec xr command tmo =
     bindE (mapErr (\<lambda>e. BackendUnavailable (''failed to open ssh channel: '' @ e)) (xr_open xr)) (\<lambda>_.
     bindE (mapErr (\<lambda>e. BackendUnavailable (''failed to exec via ssh: '' @ e)) (xr_exec xr command)) (\<lambda>_ s.
     case xr_messages xr tmo s of
       (None, s') \<Rightarrow> (Inl (ContractViolated ''ssh exec timed out''), s')
     | (Some ms, s') \<Rightarrow>
         (Inr (collect_output ms \<lparr>co_exit_code = 0, co_stdout = [], co_stderr = []\<rparr>), s')))"

subsection \<open>Programs\<close>

definition proc_output :: "'x exe_lib \<Rightarrow> string \<Rightarrow> nat \<Rightarrow> proc_outcome \<Rightarrow> lsbx_error + command_output" where
  "proc_output xl prog tmo p =
     (case p of
        NotStarted e \<Rightarrow> Inl (BackendUnavailable (''failed to start '' @ prog @ '': '' @ e))
      | TimedOut \<Rightarrow> Inl (ContractViolated (prog @ '' command timed out after '' @ xl_dur_text xl tmo))
      | WaitFailed e \<Rightarrow> Inl (BackendUnavailable (prog @ '' command failed: '' @ e))
      | Exited code out err \<Rightarrow>
          Inr \<lparr>co_exit_code = (case code of None \<Rightarrow> 255 | Some c \<Rightarrow> c), co_stdout = out, co_stderr = err\<rparr>)"

definition run_open_ssh :: "'x exe_lib \<Rightarrow> string list \<Rightarrow> nat \<Rightarrow> ('x, command_output) exe_op" where
  "run_open_ssh xl args tmo s = (case xl_ssh xl args tmo s of (p, s') \<Rightarrow> (proc_output xl ''ssh'' tmo p, s'))"

text \<open>\<open>ExitStatus::success\<close>: the process exited, and with code 0.\<close>

definition scp_result :: "'x exe_lib \<Rightarrow> nat \<Rightarrow> proc_outcome \<Rightarrow> lsbx_error + unit" where
  "scp_result xl tmo p =
     bindS (proc_output xl ''scp'' tmo p) (\<lambda>out.
       if p = Exited (Some 0) (co_stdout out) (co_stderr out) then Inr ()
       else Inl (BackendUnavailable (''scp failed: '' @ trim (co_stderr out))))"

definition run_scp :: "'x exe_lib \<Rightarrow> string list \<Rightarrow> nat \<Rightarrow> ('x, unit) exe_op" where
  "run_scp xl args tmo s = (case xl_scp xl args tmo s of (p, s') \<Rightarrow> (scp_result xl tmo p, s'))"

definition mentions :: "string list \<Rightarrow> string \<Rightarrow> bool" where
  "mentions needles t \<longleftrightarrow> (\<exists>n \<in> set needles. contains_str n (map ascii_lower t))"

definition vm_not_found :: "string \<Rightarrow> lsbx_error" where
  "vm_not_found tag = NotFound (''vm_tag '' @ apostrophe @ tag @ apostrophe @ '' not found'')"

definition normalize_ssh_result :: "string \<Rightarrow> lsbx_error + command_output \<Rightarrow> lsbx_error + command_output" where
  "normalize_ssh_result tag result =
     bindS result (\<lambda>out.
       if co_exit_code out = 255
       then let detail = trim (co_stderr out)
            in if mentions [''could not resolve hostname'', ''name or service not known'', ''not found''] detail
               then Inl (vm_not_found tag)
               else Inl (BackendUnavailable (''ssh connection to vm_tag '' @ apostrophe @ tag @ apostrophe
                      @ '' failed: '' @ detail))
       else Inr out)"

subsection \<open>JSON in the output of a command\<close>

fun first_json :: "(string \<Rightarrow> json option) \<Rightarrow> string list \<Rightarrow> json option" where
  "first_json parse [] = None"
| "first_json parse (c # cs) =
     (if c = [] then first_json parse cs
      else case parse c of Some v \<Rightarrow> Some v | None \<Rightarrow> first_json parse cs)"

definition parse_json_value :: "'x exe_lib \<Rightarrow> string \<Rightarrow> string \<Rightarrow> lsbx_error + json" where
  "parse_json_value xl text operation =
     (case first_json (xl_parse_json xl) (trim text # map trim (rev (str_lines text))) of
        Some v \<Rightarrow> Inr v
      | None \<Rightarrow> Inl (BackendUnavailable (''exe.dev '' @ operation @ '' returned malformed JSON'')))"

definition parse_json_object :: "'x exe_lib \<Rightarrow> string \<Rightarrow> string \<Rightarrow> lsbx_error + (string \<times> json) list" where
  "parse_json_object xl text operation =
     bindS (parse_json_value xl text operation) (\<lambda>v.
       case v of JObj fs \<Rightarrow> Inr fs
       | _ \<Rightarrow> Inl (BackendUnavailable (''exe.dev '' @ operation @ '' returned a non-object JSON payload'')))"

lemma rsplit_str_None: "c \<notin> set s \<Longrightarrow> rsplit_str (c # p) s = None"
  by (induction s) (auto simp: starts_with_def)

lemma rsplit_str_last:
  assumes "c \<notin> set p" and "c \<notin> set b"
  shows "rsplit_str (c # p) (a @ (c # p) @ b) = Some (a, b)"
proof (induction a)
  case Nil
  have "rsplit_str (c # p) (p @ b) = None" by (rule rsplit_str_None) (use assms in auto)
  then show ?case using starts_with_append [of "c # p" b] by simp
qed simp

lemma is_digit_show_nat: "c \<in> set (show_nat n) \<Longrightarrow> is_digit c"
proof (induction n rule: show_nat.induct)
  case (1 n)
  have "is_digit (digit_char d)" if "d < 10" for d
    using that by (auto simp: is_digit_def digit_char_def take_bit_eq_mod)
  with 1 show ?case by (subst (asm) show_nat.simps) (auto split: if_splits)
qed

lemma digit_not_space: "is_digit c \<Longrightarrow> \<not> is_space c"
  by (auto simp: is_digit_def is_space_def)

lemma trim_end_if_last:
  assumes "a \<noteq> []" and "\<not> f (last a)" and "list_all f b"
  shows "trim_end_if f (a @ b) = a"
proof -
  have "dropWhile f (rev b @ rev a) = dropWhile f (rev a)" using assms(3) by (induction b rule: rev_induct) auto
  moreover have "dropWhile f (rev a) = rev a" using assms(1,2) by (cases a rule: rev_cases) auto
  ultimately show ?thesis by (simp add: trim_end_if_def)
qed

lemma trim_no_space: "(\<And>c. c \<in> set s \<Longrightarrow> \<not> is_space c) \<Longrightarrow> trim s = s"
  using trim_end_if_last [of s is_space "[]"]
  by (cases s) (auto simp: trim_def trim_if_def trim_start_if_def trim_end_if_def)

lemma parse_i32_show_nat: "n < 2 ^ 31 \<Longrightarrow> parse_i32 (show_nat n) = Some (int n)"
proof -
  assume n: "n < 2 ^ 31"
  have d: "hd (show_nat n) \<noteq> CHR ''-''" "hd (show_nat n) \<noteq> CHR ''+''"
    using is_digit_show_nat [of "hd (show_nat n)" n] by (auto simp: is_digit_def)
  show ?thesis using n d by (simp add: parse_i32_def digits_val_show_nat Let_def)
qed

lemma sentinel_code_show: "n < 2 ^ 31 \<Longrightarrow> sentinel_code (show_nat n) = Some (int n)"
  using trim_no_space [of "show_nat n"] digit_not_space is_digit_show_nat
  by (auto simp: sentinel_code_def parse_i32_show_nat)

text \<open>What \<open>echo\<close> appends to a guest's output, and how the answer is read again.\<close>

definition guest_body :: "string \<Rightarrow> nat \<Rightarrow> string" where
  "guest_body out n = out @ exit_sentinel @ show_nat n @ [CHR 0x0A]"

lemma trim_guest_body: "trim_end_if is_space (guest_body out n) = out @ exit_sentinel @ show_nat n"
proof -
  have "last (show_nat n) \<in> set (show_nat n)" by simp
  then have "\<not> is_space (last (show_nat n))" using is_digit_show_nat digit_not_space by blast
  then show ?thesis
    using trim_end_if_last [of "out @ exit_sentinel @ show_nat n" is_space "[CHR 0x0A]"]
    by (simp add: guest_body_def is_space_def)
qed

lemma newline_free: "CHR 0x0A \<notin> set exit_sentinel" "CHR 0x0A \<notin> set (show_nat n)"
  using is_digit_show_nat [of "CHR 0x0A" n] by (auto simp: exit_sentinel_def is_digit_def)

lemma split_own_line:
  assumes "n < 2 ^ 31"
  shows "split_exit_sentinel (guest_body (out @ [CHR 0x0A]) n) = Some (out, int n)"
  using rsplit_str_last [of "CHR 0x0A" exit_sentinel "show_nat n" out] newline_free
  by (simp add: split_exit_sentinel_def trim_guest_body sentinel_code_show [OF assms])

lemma split_silent:
  assumes "n < 2 ^ 31"
  shows "split_exit_sentinel (guest_body [] n) = Some ([], int n)"
  using rsplit_str_None [of "CHR 0x0A" "exit_sentinel @ show_nat n" exit_sentinel] newline_free
  by (simp add: split_exit_sentinel_def trim_guest_body sentinel_code_show [OF assms] strip_prefix_append)

lemma split_same_line:
  assumes "out \<noteq> []" and "CHR 0x0A \<notin> set out" and "hd out \<noteq> CHR ''_''"
  shows "split_exit_sentinel (guest_body out n) = None"
proof -
  have "rsplit_str (CHR 0x0A # exit_sentinel) (out @ exit_sentinel @ show_nat n) = None"
    by (rule rsplit_str_None) (use assms newline_free in auto)
  moreover have "strip_prefix exit_sentinel (out @ exit_sentinel @ show_nat n) = None"
    using assms(1,3) by (cases out) (auto simp: strip_prefix_def starts_with_def exit_sentinel_def)
  ultimately show ?thesis by (simp add: split_exit_sentinel_def trim_guest_body)
qed

end
