(* ===== verification/Lsbx_Exedev.thy ===== *)
theory Lsbx_Exedev
  imports Lsbx_Exe_Transport
begin

text \<open>
  The exe.dev backend (\<open>lsbx-backend-exedev/src/lib.rs\<close>): control commands over whichever transport the
  authentication selects, cloning and destroying machines, commands and files for guests, and the
  revocation of orphaned keys. Its state is that of the network and the map from machines to keys.
\<close>

datatype exe_auth =
    AccountToken string
  | VmScopedToken string
  | SshKey string
  | SshAlias string

definition http_token :: "exe_auth \<Rightarrow> string option" where
  "http_token au =
     (case au of AccountToken t \<Rightarrow> Some t | VmScopedToken t \<Rightarrow> Some t | SshKey _ \<Rightarrow> None | SshAlias _ \<Rightarrow> None)"

definition is_vm_scoped :: "exe_auth \<Rightarrow> bool" where
  "is_vm_scoped au = (case au of VmScopedToken _ \<Rightarrow> True | _ \<Rightarrow> False)"

record 'x exe_state =
  xs_net :: 'x
  xs_keys :: "(string \<times> string) list"

type_synonym ('x, 'a) exe_act = "('x exe_state, lsbx_error, 'a) comp"

definition on_net :: "('x, 'a) exe_op \<Rightarrow> ('x, 'a) exe_act" where
  "on_net m s = (case m (xs_net s) of (r, x) \<Rightarrow> (r, s\<lparr>xs_net := x\<rparr>))"

definition golden_stem :: "string \<Rightarrow> string" where
  "golden_stem source =
     (case rsplit_str ''-v'' source of
        Some (pre, version) \<Rightarrow> if version \<noteq> [] \<and> list_all is_digit version then pre else source
      | None \<Rightarrow> source)"

definition golden_vm_tag :: "'x exe_lib \<Rightarrow> string \<Rightarrow> string \<Rightarrow> string" where
  "golden_vm_tag xl golden_base name =
     (let source = trim_suffixes ''.qcow2'' (last (split_on (CHR ''/'') golden_base));
          stem = map (\<lambda>c. if is_alnum c \<or> c = CHR ''-'' then c else CHR ''-'') (golden_stem source);
          pre = (if starts_with ''lsbx-'' stem then stem else ''lsbx-'' @ stem)
      in trim_if (\<lambda>c. c = CHR ''-'') pre @ ''-'' @ take 12 (xl_sha xl (golden_base @ '':'' @ name)))"

subsection \<open>Reaching the control plane\<close>

definition exe_quote :: "string \<Rightarrow> string" where
  "exe_quote v = shell_quote v"

definition control_timeout :: nat where
  "control_timeout = secs 35"

definition run_ssh :: "'x exe_lib \<Rightarrow> string \<Rightarrow> string \<Rightarrow> nat \<Rightarrow> string \<Rightarrow> ('x, command_output) exe_act" where
  "run_ssh xl host cmd tmo key_path s =
     (if \<not> xl_is_file xl key_path (xs_net s)
      then (Inl (BackendUnavailable (''ssh key does not exist: '' @ key_path)), s)
      else on_net (run_open_ssh xl
             [''-n'', ''-i'', key_path, ''-o'', ''BatchMode=yes'', ''-o'', ''StrictHostKeyChecking=accept-new'',
              ''-o'', ''ConnectTimeout=30'', ''-o'', ''ClearAllForwardings=yes'', host, cmd] tmo) s)"

definition run_ssh_alias :: "'x exe_lib \<Rightarrow> string \<Rightarrow> string \<Rightarrow> ('x, command_output) exe_act" where
  "run_ssh_alias xl alias cmd = on_net (run_open_ssh xl [''-n'', ''-o'', ''BatchMode=yes'', alias, cmd] control_timeout)"

definition run_http_account_level :: "'x exe_lib \<Rightarrow> exe_auth \<Rightarrow> string \<Rightarrow> ('x, command_output) exe_act" where
  "run_http_account_level xl au cmd =
     (case http_token au of
        None \<Rightarrow> failE (BackendUnavailable ''no HTTP token configured for this auth mode'')
      | Some token \<Rightarrow> on_net (http_exec xl token cmd))"

definition not_for_scoped :: "string \<Rightarrow> lsbx_error" where
  "not_for_scoped verb =
     BackendUnavailable (''cannot '' @ verb @ '' using a VM-scoped token '' @ em_dash
       @ '' this token is authorized for exactly one VM'' @ apostrophe @ ''s own verbs, not account-level operations'')"

definition require_not_vm_scoped :: "exe_auth \<Rightarrow> string \<Rightarrow> ('x, unit) exe_act" where
  "require_not_vm_scoped au verb = (if is_vm_scoped au then failE (not_for_scoped verb) else retE ())"

text \<open>
  A control command. Its callers have refused a machine-scoped token before, so that case, which is a
  panic in the code, is never reached.
\<close>

definition control :: "'x exe_lib \<Rightarrow> exe_auth \<Rightarrow> string \<Rightarrow> ('x, command_output) exe_act" where
  "control xl au cmd =
     (case au of
        AccountToken _ \<Rightarrow> run_http_account_level xl au cmd
      | VmScopedToken _ \<Rightarrow> failE (not_for_scoped [])
      | SshKey key_path \<Rightarrow> run_ssh xl ''exe.dev'' cmd control_timeout key_path
      | SshAlias alias \<Rightarrow> run_ssh_alias xl alias cmd)"

subsection \<open>The inventory, and destroying a machine\<close>

definition vm_names :: "json list \<Rightarrow> string list" where
  "vm_names entries =
     List.map_filter (\<lambda>e. Option.bind (json_get e ''vm_name'') dec_str) entries"

definition exe_list_vms :: "'x exe_lib \<Rightarrow> exe_auth \<Rightarrow> ('x, string list) exe_act" where
  "exe_list_vms xl au =
     bindE (require_not_vm_scoped au ''list VMs'') (\<lambda>_.
     bindE (control xl au ''ls --json'') (\<lambda>out.
     if co_exit_code out \<noteq> 0 then failE (BackendUnavailable (''failed to list VMs: '' @ co_stderr out))
     else bindE (liftE (parse_json_value xl (co_stdout out) ''ls'')) (\<lambda>v.
          case Option.bind (json_get v ''vms'') as_array of
            None \<Rightarrow> failE (BackendUnavailable ''exe.dev ls response had no vms array'')
          | Some entries \<Rightarrow> retE (vm_names entries))))"

definition rm_command :: "string \<Rightarrow> string" where
  "rm_command tag = ''rm '' @ exe_quote tag"

definition rm_result :: "string \<Rightarrow> command_output \<Rightarrow> lsbx_error + unit" where
  "rm_result tag out =
     (if co_exit_code out = 0 then Inr ()
      else if mentions [''not found'', ''no such''] (co_stderr out) then Inl (vm_not_found tag)
      else Inl (BackendUnavailable (''failed to delete VM: '' @ co_stderr out)))"

definition forget_key :: "string \<Rightarrow> ('x, unit) exe_act" where
  "forget_key tag s = (Inr (), s\<lparr>xs_keys := AList.delete tag (xs_keys s)\<rparr>)"

definition exe_destroy :: "'x exe_lib \<Rightarrow> exe_auth \<Rightarrow> string \<Rightarrow> ('x, unit) exe_act" where
  "exe_destroy xl au tag =
     bindE (require_not_vm_scoped au ''delete a VM'') (\<lambda>_.
     bindE (exe_list_vms xl au) (\<lambda>vms.
     if tag \<notin> set vms then failE (vm_not_found tag)
     else bindE (control xl au (rm_command tag)) (\<lambda>out.
          bindE (liftE (rm_result tag out)) (\<lambda>_. forget_key tag))))"

definition remove_key_command :: "string \<Rightarrow> string" where
  "remove_key_command pubkey = ''ssh-key remove '' @ exe_quote pubkey @ '' --json''"

definition both_streams :: "command_output \<Rightarrow> string" where
  "both_streams out = co_stdout out @ CHR 0x0A # co_stderr out"

text \<open>A removal that failed because there was no such key counts as done.\<close>

definition key_gone :: "command_output \<Rightarrow> bool" where
  "key_gone out \<longleftrightarrow>
     co_exit_code out = 0 \<or> mentions [''not found'', ''no such'', ''no matching''] (both_streams out)"

definition exe_destroy_with_key :: "'x exe_lib \<Rightarrow> exe_auth \<Rightarrow> string \<Rightarrow> string \<Rightarrow> ('x, unit) exe_act" where
  "exe_destroy_with_key xl au tag pubkey =
     bindE (require_not_vm_scoped au ''delete a VM'') (\<lambda>_.
     bindE (control xl au (remove_key_command pubkey)) (\<lambda>out.
     if \<not> key_gone out
     then failE (BackendUnavailable (''failed to revoke ephemeral SSH key: '' @ both_streams out))
     else (\<lambda>s. case exe_destroy xl au tag s of
             (Inl (NotFound _), s') \<Rightarrow> (Inr (), s')
           | (r, s') \<Rightarrow> (r, s'))))"

subsection \<open>Cloning a machine\<close>

definition cp_command :: "create_from_golden_request \<Rightarrow> string" where
  "cp_command rq =
     ''cp '' @ exe_quote (cg_golden rq) @ '' '' @ exe_quote (cg_name rq) @ '' --copy-tags=false --cpu=''
       @ show_nat (cg_cpu rq) @ '' --memory='' @ exe_quote (cg_memory rq) @ '' --json''"

definition tag_command :: "'x exe_lib \<Rightarrow> create_from_golden_request \<Rightarrow> string" where
  "tag_command xl rq =
     ''tag '' @ exe_quote (cg_name rq) @ '' '' @ exe_quote (golden_vm_tag xl (cg_golden rq) (cg_name rq)) @ '' --json''"

definition add_key_command :: "create_from_golden_request \<Rightarrow> string" where
  "add_key_command rq = ''ssh-key add '' @ exe_quote (cg_pubkey rq) @ '' --json''"

text \<open>The first field that is there decides, whatever its type.\<close>

definition ssh_host :: "(string \<times> json) list \<Rightarrow> string option" where
  "ssh_host fs =
     Option.bind (case map_of fs ''ssh_dest'' of Some v \<Rightarrow> Some v
       | None \<Rightarrow> (case map_of fs ''host'' of Some v \<Rightarrow> Some v
       | None \<Rightarrow> (case map_of fs ''ssh_host'' of Some v \<Rightarrow> Some v
       | None \<Rightarrow> (case map_of fs ''ssh'' of Some v \<Rightarrow> Some v
       | None \<Rightarrow> map_of fs ''dns_name'')))) dec_str"

definition without_user :: "string \<Rightarrow> string" where
  "without_user host = (case split_once (CHR ''@'') host of Some (_, h) \<Rightarrow> h | None \<Rightarrow> host)"

text \<open>A clone that cannot be completed is destroyed again, whatever comes of that.\<close>

definition undo_clone :: "'x exe_lib \<Rightarrow> exe_auth \<Rightarrow> string \<Rightarrow> ('x, 'a) exe_act \<Rightarrow> ('x, 'a) exe_act" where
  "undo_clone xl au name m = on_error m (\<lambda>s. snd (exe_destroy xl au name s))"

definition clone_failed :: "create_from_golden_request \<Rightarrow> command_output \<Rightarrow> lsbx_error" where
  "clone_failed rq out =
     BackendUnavailable (''failed to clone VM from golden '' @ apostrophe @ cg_golden rq @ apostrophe @ '': '' @ co_stderr out)"

definition follow_up_failed :: "string \<Rightarrow> command_output \<Rightarrow> lsbx_error" where
  "follow_up_failed name out =
     BackendUnavailable (''exe.dev command failed after cloning '' @ apostrophe @ name @ apostrophe @ '': '' @ co_stderr out)"

definition clone_host :: "'x exe_lib \<Rightarrow> command_output \<Rightarrow> lsbx_error + string" where
  "clone_host xl out =
     bindS (parse_json_object xl (co_stdout out) ''cp'') (\<lambda>metadata.
       case ssh_host metadata of
         None \<Rightarrow> Inl (BackendUnavailable ''exe.dev cp response omitted SSH host metadata'')
       | Some host \<Rightarrow> Inr (without_user host))"

definition follow_up :: "'x exe_lib \<Rightarrow> exe_auth \<Rightarrow> string \<Rightarrow> string \<Rightarrow> ('x, unit) exe_act" where
  "follow_up xl au name cmd =
     bindE (control xl au cmd) (\<lambda>out.
     if co_exit_code out \<noteq> 0 then failE (follow_up_failed name out) else retE ())"

definition complete_clone ::
  "'x exe_lib \<Rightarrow> exe_auth \<Rightarrow> create_from_golden_request \<Rightarrow> command_output \<Rightarrow> ('x, created_vm) exe_act" where
  "complete_clone xl au rq out =
     undo_clone xl au (cg_name rq)
       (bindE (liftE (clone_host xl out)) (\<lambda>host.
        bindE (follow_up xl au (cg_name rq) (tag_command xl rq)) (\<lambda>_.
        bindE (follow_up xl au (cg_name rq) (add_key_command rq)) (\<lambda>_.
        retE \<lparr>cv_vm_tag = cg_name rq, cv_host = host,
              cv_https_url = Some (''https://'' @ trim_end_if (\<lambda>c. c = CHR ''/'') host)\<rparr>))))"

definition exe_create :: "'x exe_lib \<Rightarrow> exe_auth \<Rightarrow> create_from_golden_request \<Rightarrow> ('x, created_vm) exe_act" where
  "exe_create xl au rq =
     bindE (require_not_vm_scoped au ''create a VM'') (\<lambda>_.
     bindE (control xl au (cp_command rq)) (\<lambda>out.
     if co_exit_code out \<noteq> 0 then failE (clone_failed rq out) else complete_clone xl au rq out))"

subsection \<open>Guests\<close>

definition exe_register_vm_key :: "'x exe_lib \<Rightarrow> string \<Rightarrow> string \<Rightarrow> ('x, unit) exe_act" where
  "exe_register_vm_key xl tag key_path s =
     (if \<not> xl_is_file xl key_path (xs_net s)
      then (Inl (BackendUnavailable (''ephemeral SSH key does not exist: '' @ key_path)), s)
      else (Inr (), s\<lparr>xs_keys := AList.update tag key_path (xs_keys s)\<rparr>))"

definition vm_key_path :: "'x exe_state \<Rightarrow> string \<Rightarrow> string option" where
  "vm_key_path s tag = map_of (xs_keys s) tag"

definition first_of :: "'a option \<Rightarrow> 'a option \<Rightarrow> 'a option" where
  "first_of x y = (case x of Some v \<Rightarrow> Some v | None \<Rightarrow> y)"

definition guest_key_path :: "exe_auth \<Rightarrow> 'x exe_state \<Rightarrow> string \<Rightarrow> string option" where
  "guest_key_path au s tag = (case au of SshKey k \<Rightarrow> Some k | _ \<Rightarrow> vm_key_path s tag)"

definition explicit_or_guest_key :: "exe_auth \<Rightarrow> 'x exe_state \<Rightarrow> string \<Rightarrow> string option \<Rightarrow> string option" where
  "explicit_or_guest_key au s tag identity = first_of identity (guest_key_path au s tag)"

text \<open>A nonzero exit of a machine that is not in the inventory any more is reported as its absence.\<close>

definition normalize_vm_ssh_result ::
  "'x exe_lib \<Rightarrow> exe_auth \<Rightarrow> string \<Rightarrow> lsbx_error + command_output \<Rightarrow> ('x, command_output) exe_act" where
  "normalize_vm_ssh_result xl au tag result s =
     (case normalize_ssh_result tag result of
        Inl e \<Rightarrow> (Inl e, s)
      | Inr out \<Rightarrow>
          if co_exit_code out = 0 then (Inr out, s)
          else (case exe_list_vms xl au s of
                  (Inr vms, s') \<Rightarrow> (if tag \<in> set vms then Inr out else Inl (vm_not_found tag), s')
                | (Inl _, s') \<Rightarrow> (Inr out, s')))"

definition normalized :: "'x exe_lib \<Rightarrow> exe_auth \<Rightarrow> string \<Rightarrow> ('x, command_output) exe_act \<Rightarrow> ('x, command_output) exe_act" where
  "normalized xl au tag m s = (case m s of (r, s') \<Rightarrow> normalize_vm_ssh_result xl au tag r s')"

definition guest_command :: "string list \<Rightarrow> string" where
  "guest_command command = join_spaces (map exe_quote command)"

definition guest_host :: "string \<Rightarrow> string" where
  "guest_host tag = tag @ ''.exe.xyz''"

definition exe_run :: "'x exe_lib \<Rightarrow> exe_auth \<Rightarrow> string \<Rightarrow> string list \<Rightarrow> nat \<Rightarrow> string option \<Rightarrow> ('x, command_output) exe_act" where
  "exe_run xl au tag command tmo identity s =
     (let cmd = guest_command command; host = guest_host tag
      in case au of
           AccountToken token \<Rightarrow> on_net (exec_with_timeout xl token (wrap_guest_command tag cmd) tmo) s
         | VmScopedToken token \<Rightarrow> on_net (exec_with_timeout xl token (wrap_guest_command tag cmd) tmo) s
         | SshKey key_path \<Rightarrow>
             normalized xl au tag
               (run_ssh xl host cmd tmo
                 (case first_of identity (vm_key_path s tag) of Some k \<Rightarrow> k | None \<Rightarrow> key_path)) s
         | SshAlias _ \<Rightarrow>
             (case first_of identity (vm_key_path s tag) of
                Some key_path \<Rightarrow> normalized xl au tag (run_ssh xl host cmd tmo key_path) s
              | None \<Rightarrow>
                  normalized xl au tag
                    (on_net (run_open_ssh xl
                       [''-n'', ''-o'', ''BatchMode=yes'', ''-o'', ''StrictHostKeyChecking=accept-new'',
                        ''-o'', ''ConnectTimeout=30'', host, cmd] tmo)) s))"

definition scp_options :: "string option \<Rightarrow> bool \<Rightarrow> string list" where
  "scp_options key recursive =
     [''-o'', ''BatchMode=yes'', ''-o'', ''StrictHostKeyChecking=accept-new'']
       @ (if recursive then [''-r''] else []) @ (case key of Some k \<Rightarrow> [''-i'', k] | None \<Rightarrow> [])"

definition exe_put_file :: "'x exe_lib \<Rightarrow> exe_auth \<Rightarrow> string \<Rightarrow> string \<Rightarrow> string \<Rightarrow> string option \<Rightarrow> ('x, unit) exe_act" where
  "exe_put_file xl au tag source destination identity s =
     (if \<not> xl_is_file xl source (xs_net s) \<and> \<not> xl_is_dir xl source (xs_net s)
      then (Inl (NotFound (''local upload source does not exist: '' @ source)), s)
      else on_net (run_scp xl
             (scp_options (explicit_or_guest_key au s tag identity) (xl_is_dir xl source (xs_net s))
                @ [source, guest_host tag @ '':'' @ destination]) (secs 120)) s)"

definition exe_get_file :: "'x exe_lib \<Rightarrow> exe_auth \<Rightarrow> string \<Rightarrow> string \<Rightarrow> string \<Rightarrow> string option \<Rightarrow> ('x, unit) exe_act" where
  "exe_get_file xl au tag source destination identity s =
     on_net (run_scp xl
       (scp_options (explicit_or_guest_key au s tag identity) False
          @ [guest_host tag @ '':'' @ source, destination]) (secs 120)) s"

subsection \<open>Orphaned keys\<close>

definition revoked :: "command_output \<Rightarrow> lsbx_error + unit" where
  "revoked out =
     (if key_gone out then Inr ()
      else Inl (BackendUnavailable (''failed to revoke SSH key: '' @ both_streams out)))"

definition revoke_key :: "'x exe_lib \<Rightarrow> exe_auth \<Rightarrow> string \<Rightarrow> ('x, unit) exe_act" where
  "revoke_key xl au public_key =
     (let cmd = remove_key_command public_key
      in bindE (case (http_token au, au) of
                  (Some token, _) \<Rightarrow> on_net (http_exec xl token cmd)
                | (None, SshKey key_path) \<Rightarrow>
                    on_net (bindE (ssh_connect (xl_russh xl) key_path ''root'' ''exe.dev'' 22) (\<lambda>_.
                            ssh_exec (xl_russh xl) cmd (secs 30)))
                | (None, SshAlias alias) \<Rightarrow>
                    on_net (run_open_ssh xl [''-n'', ''-o'', ''BatchMode=yes'', alias, cmd] (secs 30))
                | (None, _) \<Rightarrow> failE (BackendUnavailable ''no auth mode available to revoke key''))
           (\<lambda>out. liftE (revoked out)))"

definition key_comment :: "json \<Rightarrow> string \<Rightarrow> string" where
  "key_comment entry public_key =
     (case Option.bind (json_get entry ''name'') dec_str of
        Some n \<Rightarrow> n
      | None \<Rightarrow> (let ws = split_whitespace public_key in if 2 < length ws then ws ! 2 else []))"

definition tagged_of_entry :: "'x exe_lib \<Rightarrow> exe_auth \<Rightarrow> json \<Rightarrow> 'x exe_state tagged_key option" where
  "tagged_of_entry xl au entry =
     map_option (\<lambda>k. \<lparr>tk_comment = key_comment entry k, tk_revoke = revoke_key xl au k\<rparr>)
       (Option.bind (json_get entry ''public_key'') dec_str)"

definition list_tagged_keys :: "'x exe_lib \<Rightarrow> exe_auth \<Rightarrow> ('x, 'x exe_state tagged_key list) exe_act" where
  "list_tagged_keys xl au =
     bindE (case au of
              VmScopedToken _ \<Rightarrow> failE (BackendUnavailable ''cannot list account-level keys using a VM-scoped token'')
            | _ \<Rightarrow> control xl au ''ssh-key list --json'') (\<lambda>out.
     if co_exit_code out \<noteq> 0 then failE (BackendUnavailable (''failed to list exedev keys: '' @ co_stderr out))
     else bindE (liftE (parse_json_value xl (co_stdout out) ''ssh-key list'')) (\<lambda>v.
          case Option.bind (json_get v ''ssh_keys'') as_array of
            None \<Rightarrow> failE (BackendUnavailable ''exe.dev ssh-key list response had no ssh_keys array'')
          | Some entries \<Rightarrow> retE (List.map_filter (tagged_of_entry xl au) entries)))"

definition reconcile_exedev_keys :: "'x exe_lib \<Rightarrow> exe_auth \<Rightarrow> string list \<Rightarrow> ('x, nat) exe_act" where
  "reconcile_exedev_keys xl au known = bindE (list_tagged_keys xl au) (\<lambda>ks. reconcile_orphaned_keys ks known 0)"

subsection \<open>The backend\<close>

definition exe_rename :: "string \<Rightarrow> string \<Rightarrow> ('x, unit) exe_act" where
  "exe_rename old_tag new_tag =
     failE (BackendUnavailable (''exe.dev'' @ apostrophe @ ''s CLI/API does not document a rename verb for provisioned VMs''))"

definition exedev_backend :: "'x exe_lib \<Rightarrow> exe_auth \<Rightarrow> 'x exe_state backend" where
  "exedev_backend xl au =
     \<lparr>bk_capabilities = \<lparr>bc_console = True, bc_remote_transport = True, bc_snapshot = False\<rparr>,
      bk_create_from_golden = exe_create xl au, bk_run = exe_run xl au,
      bk_run_time = (\<lambda>tag c tmo i s. xl_run_time xl tag c tmo i (xs_net s)),
      bk_run_dropped = (\<lambda>tag c d s. s\<lparr>xs_net := xl_run_dropped xl tag c d (xs_net s)\<rparr>),
      bk_put_file = exe_put_file xl au, bk_get_file = exe_get_file xl au,
      bk_destroy = exe_destroy xl au, bk_register_vm_key = exe_register_vm_key xl,
      bk_list_vms = exe_list_vms xl au,
      bk_list_golden_artifacts = default_list_golden_artifacts (exe_list_vms xl au),
      bk_reconcile_orphaned_keys = reconcile_exedev_keys xl au,
      bk_destroy_with_key = exe_destroy_with_key xl au, bk_rename_vm = exe_rename\<rparr>"

subsection \<open>A machine-scoped token reaches nothing else\<close>

lemma scoped_refused:
  assumes "is_vm_scoped au"
  shows "exe_list_vms xl au s = (Inl (not_for_scoped ''list VMs''), s)"
    and "exe_destroy xl au t s = (Inl (not_for_scoped ''delete a VM''), s)"
    and "exe_destroy_with_key xl au t k s = (Inl (not_for_scoped ''delete a VM''), s)"
    and "exe_create xl au rq s = (Inl (not_for_scoped ''create a VM''), s)"
    and "isl (fst (reconcile_exedev_keys xl au known s)) \<and> snd (reconcile_exedev_keys xl au known s) = s"
  unfolding exe_list_vms_def exe_destroy_def exe_destroy_with_key_def exe_create_def reconcile_exedev_keys_def
    list_tagged_keys_def require_not_vm_scoped_def
  using assms by (auto simp only: if_True failE_run bindE_run fst_conv snd_conv sum.case is_vm_scoped_def isl_def
      exe_auth.case split: exe_auth.splits)

subsection \<open>Names of machines\<close>

lemma trim_end_if_append:
  "trim_end_if f (a @ b) = (if list_all f b then trim_end_if f a else a @ trim_end_if f b)"
proof -
  have "dropWhile f (rev b @ rev a) = (if list_all f b then dropWhile f (rev a) else dropWhile f (rev b) @ rev a)"
    by (induction b rule: rev_induct) auto
  then show ?thesis by (simp add: trim_end_if_def)
qed

lemma trim_dash_lsbx:
  "\<exists>r. trim_if (\<lambda>c. c = CHR ''-'') (''lsbx-'' @ stem) @ ''-'' = ''lsbx-'' @ r \<and> set r \<subseteq> insert (CHR ''-'') (set stem)"
proof -
  let ?f = "\<lambda>c. c = CHR ''-''"
  have s: "trim_start_if ?f (''lsbx-'' @ stem) = ''lsbx-'' @ stem" by (simp add: trim_start_if_def)
  have l: "trim_end_if ?f ''lsbx-'' = ''lsbx''" by (simp add: trim_end_if_def)
  have sub: "set (trim_end_if ?f stem) \<subseteq> set stem" unfolding trim_end_if_def using set_dropWhileD by fastforce
  show ?thesis
  proof (cases "list_all ?f stem")
    case True
    then have "trim_if ?f (''lsbx-'' @ stem) = ''lsbx''"
      unfolding trim_if_def s trim_end_if_append l by simp
    then show ?thesis by (intro exI [of _ "[]"]) simp
  next
    case False
    then have "trim_if ?f (''lsbx-'' @ stem) = ''lsbx-'' @ trim_end_if ?f stem"
      unfolding trim_if_def s trim_end_if_append by simp
    then show ?thesis using sub by (intro exI [of _ "trim_end_if ?f stem @ ''-''"]) auto
  qed
qed

lemma golden_vm_tag_shape:
  assumes "\<And>t. list_all is_alnum (xl_sha xl t)"
  shows "starts_with ''lsbx-'' (golden_vm_tag xl base name) \<and>
    list_all (\<lambda>c. is_alnum c \<or> c = CHR ''-'') (golden_vm_tag xl base name)"
proof -
  define ok where "ok = (\<lambda>c. is_alnum c \<or> c = CHR ''-'')"
  define stem where "stem = map (\<lambda>c. if is_alnum c \<or> c = CHR ''-'' then c else CHR ''-'')
      (golden_stem (trim_suffixes ''.qcow2'' (last (split_on (CHR ''/'') base))))"
  define pre where "pre = (if starts_with ''lsbx-'' stem then stem else ''lsbx-'' @ stem)"
  define digest where "digest = take 12 (xl_sha xl (base @ '':'' @ name))"
  have tag: "golden_vm_tag xl base name = (trim_if (\<lambda>c. c = CHR ''-'') pre @ ''-'') @ digest"
    by (simp add: golden_vm_tag_def Let_def stem_def pre_def digest_def)
  have d: "list_all ok digest" using assms [of "base @ '':'' @ name"]
    by (auto simp: digest_def ok_def list_all_iff dest: in_set_takeD)
  have so: "list_all ok stem" by (auto simp: stem_def ok_def list_all_iff)
  obtain body where p: "pre = ''lsbx-'' @ body" and b: "set body \<subseteq> set stem"
  proof (cases "starts_with ''lsbx-'' stem")
    case True
    then obtain t where "stem = ''lsbx-'' @ t" using starts_withE by blast
    with True show ?thesis by (intro that [of t]) (auto simp: pre_def)
  next
    case False
    then show ?thesis by (intro that [of stem]) (auto simp: pre_def)
  qed
  obtain r where r: "trim_if (\<lambda>c. c = CHR ''-'') pre @ ''-'' = ''lsbx-'' @ r"
    and rs: "set r \<subseteq> insert (CHR ''-'') (set body)"
    using trim_dash_lsbx [of body] unfolding p by blast
  have l: "list_all ok ''lsbx-''" by (simp add: ok_def is_alnum_def is_lower_def)
  have "list_all ok r" using rs b so by (auto simp: list_all_iff ok_def)
  then have "list_all ok ((''lsbx-'' @ r) @ digest)" using l d by (simp only: list_all_append)
  moreover have "starts_with ''lsbx-'' ((''lsbx-'' @ r) @ digest)" unfolding append_assoc by (rule starts_with_append)
  ultimately show ?thesis unfolding tag r ok_def by blast
qed

subsection \<open>Two layers of quoting\<close>

lemma sh_dquoted_join:
  assumes "\<And>v c. v \<in> set vs \<Longrightarrow> c \<in> set v \<Longrightarrow> \<not> dq_special c"
  shows "sh_dquoted (join_spaces (map shell_quote vs) @ s) =
    map_option (\<lambda>(w, r). (join_spaces (map shell_quote vs) @ w, r)) (sh_dquoted s)"
  using assms
proof (induction vs rule: join_spaces.induct)
  case 1
  show ?case by (cases "sh_dquoted s") auto
next
  case (2 w)
  then show ?case using sh_dquoted_shell_quote [of w s] by simp
next
  case (3 w v vs)
  have sp: "\<not> dq_special (CHR '' '')" by (simp add: dq_special_def)
  have "sh_dquoted (shell_quote w @ '' '' @ join_spaces (map shell_quote (v # vs)) @ s) =
      map_option (\<lambda>(x, r). (shell_quote w @ x, r)) (sh_dquoted ('' '' @ join_spaces (map shell_quote (v # vs)) @ s))"
    by (rule sh_dquoted_shell_quote) (use 3 in auto)
  moreover have "sh_dquoted (join_spaces (map shell_quote (v # vs)) @ s) =
      map_option (\<lambda>(x, r). (join_spaces (map shell_quote (v # vs)) @ x, r)) (sh_dquoted s)"
    by (rule 3(1)) (use 3(2) in auto)
  ultimately show ?case
    by (simp add: sh_dquoted_plain [OF sp] option.map_comp comp_def case_prod_unfold del: sh_dquoted.simps(2))
qed

lemma guest_command_eq: "guest_command command = join_spaces (map shell_quote command)"
  unfolding guest_command_def exe_quote_def ..

lemma wrapped_command:
  "wrap_guest_command tag cmd = (''ssh '' @ tag @ '' '' @ [CHR 0x22]) @ cmd @ CHR 0x22 # ''; echo '' @ exit_sentinel @ ''$?''"
  by (simp only: wrap_guest_command_def append_assoc append_Cons append_Nil)

lemma guest_command_survives:
  assumes "\<And>v c. v \<in> set command \<Longrightarrow> c \<in> set v \<Longrightarrow> \<not> dq_special c"
  shows "sh_dquoted (guest_command command @ CHR 0x22 # rest) = Some (guest_command command, rest)"
  using sh_dquoted_join [OF assms, where s = "CHR 0x22 # rest"] unfolding guest_command_eq by simp

lemma guest_command_words: "sh_argv (length command) (guest_command command) = Some command"
  unfolding guest_command_eq by (rule sh_argv_join)

text \<open>A double quote in an argument ends the lobby's word before the command is over.\<close>

lemma sh_dquoted_cut:
  assumes "\<And>c. c \<in> set u \<Longrightarrow> \<not> dq_special c"
  shows "sh_dquoted (u @ CHR 0x22 # rest) = Some (u, rest)"
  using assms by (induction u) (simp_all add: sh_dquoted_plain del: sh_dquoted.simps(2) add: sh_dquoted.simps(2) [of "CHR 0x22"])

subsection \<open>A control plane that does what it answers\<close>

text \<open>
  What the backend relies on: the inventory is that of the live machines, an \<open>rm\<close> that exits 0 removed
  the machine and a \<open>cp\<close> that exits 0 made it, other answers may have done so or not, and the
  commands for tags and keys touch no machine. \<open>live\<close> gives the live machines.
\<close>

definition plane_lists :: "'x exe_lib \<Rightarrow> exe_auth \<Rightarrow> ('x \<Rightarrow> string set) \<Rightarrow> bool" where
  "plane_lists xl au live \<longleftrightarrow> (\<forall>s r s'. exe_list_vms xl au s = (r, s') \<longrightarrow>
     live (xs_net s') = live (xs_net s) \<and> (\<forall>vms. r = Inr vms \<longrightarrow> set vms = live (xs_net s)))"

definition plane_removes :: "'x exe_lib \<Rightarrow> exe_auth \<Rightarrow> ('x \<Rightarrow> string set) \<Rightarrow> bool" where
  "plane_removes xl au live \<longleftrightarrow> (\<forall>t s r s'. control xl au (rm_command t) s = (r, s') \<longrightarrow>
     live (xs_net s) - {t} \<subseteq> live (xs_net s') \<and> live (xs_net s') \<subseteq> live (xs_net s) \<and>
     (\<forall>out. r = Inr out \<longrightarrow> co_exit_code out = 0 \<longrightarrow> t \<notin> live (xs_net s')))"

definition plane_clones :: "'x exe_lib \<Rightarrow> exe_auth \<Rightarrow> ('x \<Rightarrow> string set) \<Rightarrow> bool" where
  "plane_clones xl au live \<longleftrightarrow> (\<forall>rq s r s'. control xl au (cp_command rq) s = (r, s') \<longrightarrow>
     live (xs_net s) \<subseteq> live (xs_net s') \<and> live (xs_net s') \<subseteq> insert (cg_name rq) (live (xs_net s)) \<and>
     (\<forall>out. r = Inr out \<longrightarrow> co_exit_code out = 0 \<longrightarrow> cg_name rq \<in> live (xs_net s')))"

definition plane_spares :: "'x exe_lib \<Rightarrow> exe_auth \<Rightarrow> ('x \<Rightarrow> string set) \<Rightarrow> bool" where
  "plane_spares xl au live \<longleftrightarrow> (\<forall>s rq k.
     live (xs_net (snd (control xl au (tag_command xl rq) s))) = live (xs_net s) \<and>
     live (xs_net (snd (control xl au (add_key_command rq) s))) = live (xs_net s) \<and>
     live (xs_net (snd (control xl au (remove_key_command k) s))) = live (xs_net s))"

definition honest_plane :: "'x exe_lib \<Rightarrow> exe_auth \<Rightarrow> ('x \<Rightarrow> string set) \<Rightarrow> bool" where
  "honest_plane xl au live \<longleftrightarrow>
     plane_lists xl au live \<and> plane_removes xl au live \<and> plane_clones xl au live \<and> plane_spares xl au live"

lemma list_result:
  assumes "honest_plane xl au live" and "exe_list_vms xl au s = (r, s')"
  shows "live (xs_net s') = live (xs_net s) \<and> (\<forall>vms. r = Inr vms \<longrightarrow> set vms = live (xs_net s))"
  using assms unfolding honest_plane_def plane_lists_def by blast

lemma rm_run:
  assumes "honest_plane xl au live" and "control xl au (rm_command t) s = (r, s')"
  shows "live (xs_net s) - {t} \<subseteq> live (xs_net s') \<and> live (xs_net s') \<subseteq> live (xs_net s) \<and>
    (\<forall>out. r = Inr out \<longrightarrow> co_exit_code out = 0 \<longrightarrow> t \<notin> live (xs_net s'))"
  using assms unfolding honest_plane_def plane_removes_def by blast

lemma cp_run:
  assumes "honest_plane xl au live" and "control xl au (cp_command rq) s = (r, s')"
  shows "live (xs_net s) \<subseteq> live (xs_net s') \<and> live (xs_net s') \<subseteq> insert (cg_name rq) (live (xs_net s)) \<and>
    (\<forall>out. r = Inr out \<longrightarrow> co_exit_code out = 0 \<longrightarrow> cg_name rq \<in> live (xs_net s'))"
  using assms unfolding honest_plane_def plane_clones_def by blast

lemma other_runs:
  assumes "honest_plane xl au live"
  shows "control xl au (tag_command xl rq) s = (r, s') \<Longrightarrow> live (xs_net s') = live (xs_net s)"
    and "control xl au (add_key_command rq) s = (r, s') \<Longrightarrow> live (xs_net s') = live (xs_net s)"
    and "control xl au (remove_key_command k) s = (r, s') \<Longrightarrow> live (xs_net s') = live (xs_net s)"
  using assms unfolding honest_plane_def plane_spares_def by (metis snd_conv)+

subsection \<open>Destroying\<close>

text \<open>The runs of \<open>exe_destroy\<close>: refused, not listed, or the result of one \<open>rm\<close>.\<close>

lemma exe_destroy_cases:
  assumes "exe_destroy xl au t s = (r, s')"
  obtains (scoped) "r = Inl (not_for_scoped ''delete a VM'')" "s' = s"
    | (no_list) e where "exe_list_vms xl au s = (Inl e, s')" "r = Inl e"
    | (absent) vms where "exe_list_vms xl au s = (Inr vms, s')" "t \<notin> set vms" "r = Inl (vm_not_found t)"
    | (failed) vms s1 e where "exe_list_vms xl au s = (Inr vms, s1)" "t \<in> set vms"
        "control xl au (rm_command t) s1 = (Inl e, s')" "r = Inl e"
    | (refused) vms s1 out e where "exe_list_vms xl au s = (Inr vms, s1)" "t \<in> set vms"
        "control xl au (rm_command t) s1 = (Inr out, s')" "co_exit_code out \<noteq> 0" "rm_result t out = Inl e" "r = Inl e"
    | (removed) vms s1 out s2 where "exe_list_vms xl au s = (Inr vms, s1)" "t \<in> set vms"
        "control xl au (rm_command t) s1 = (Inr out, s2)" "co_exit_code out = 0" "r = Inr ()"
        "s' = s2\<lparr>xs_keys := AList.delete t (xs_keys s2)\<rparr>"
proof -
  have rm: "(\<exists>e. rm_result t out = Inl e \<and> co_exit_code out \<noteq> 0) \<or> rm_result t out = Inr () \<and> co_exit_code out = 0" for out
    unfolding rm_result_def by (cases "co_exit_code out = 0") auto
  show thesis
  proof (cases "is_vm_scoped au")
    case True
    with assms scoped_refused(2) [OF True, of xl t s] scoped show thesis by simp
  next
    case False
    then have d: "exe_destroy xl au t s =
      bindE (exe_list_vms xl au) (\<lambda>vms.
        if t \<notin> set vms then failE (vm_not_found t)
        else bindE (control xl au (rm_command t)) (\<lambda>out.
             bindE (liftE (rm_result t out)) (\<lambda>_. forget_key t))) s"
      by (simp add: exe_destroy_def require_not_vm_scoped_def bindE_run)
    obtain x s1 where l: "exe_list_vms xl au s = (x, s1)" by fastforce
    show thesis
    proof (cases x)
      case (Inl e)
      with l d assms no_list show thesis by simp
    next
      case (Inr vms)
      show thesis
      proof (cases "t \<in> set vms")
        case False
        with l d assms Inr absent show thesis by simp
      next
        case True
        obtain y s2 where c: "control xl au (rm_command t) s1 = (y, s2)" by fastforce
        show thesis
        proof (cases y)
          case (Inl e)
          with l d c assms Inr True failed [of vms s1 e] \<open>x = Inr vms\<close> show thesis by simp
        next
          case y: (Inr out)
          from rm [of out] show thesis
          proof (elim disjE exE conjE)
            fix e assume "rm_result t out = Inl e" "co_exit_code out \<noteq> 0"
            with l d c assms y True refused [of vms s1 out e] \<open>x = Inr vms\<close> show thesis by simp
          next
            assume "rm_result t out = Inr ()" "co_exit_code out = 0"
            with l d c assms y True removed [of vms s1 out s2] \<open>x = Inr vms\<close> show thesis by (simp add: forget_key_def)
          qed
        qed
      qed
    qed
  qed
qed

lemma exe_destroy_result:
  assumes h: "honest_plane xl au live" and d: "exe_destroy xl au t s = (r, s')"
  shows "live (xs_net s) - {t} \<subseteq> live (xs_net s') \<and> live (xs_net s') \<subseteq> live (xs_net s) \<and>
    (r = Inr () \<longrightarrow> t \<in> live (xs_net s) \<and> t \<notin> live (xs_net s') \<and> map_of (xs_keys s') t = None) \<and>
    (t \<notin> live (xs_net s) \<longrightarrow> isl r)"
  using d
proof (cases rule: exe_destroy_cases)
  case (removed vms s1 out s2)
  then show ?thesis using list_result [OF h removed(1)] rm_run [OF h removed(3)] by (auto simp: delete_conv')
next
  case (refused vms s1 out e)
  then show ?thesis using list_result [OF h refused(1)] rm_run [OF h refused(3)] by auto
next
  case (failed vms s1 e)
  then show ?thesis using list_result [OF h failed(1)] rm_run [OF h failed(3)] by auto
next
  case (absent vms)
  then show ?thesis using list_result [OF h absent(1)] by auto
next
  case (no_list e)
  then show ?thesis using list_result [OF h no_list(1)] by auto
qed auto

subsection \<open>Creating\<close>

definition spares :: "('x \<Rightarrow> string set) \<Rightarrow> ('x, 'a) exe_act \<Rightarrow> bool" where
  "spares live m \<longleftrightarrow> (\<forall>s. live (xs_net (snd (m s))) = live (xs_net s))"

lemma sparesD: "spares live m \<Longrightarrow> m s = (r, s') \<Longrightarrow> live (xs_net s') = live (xs_net s)"
  unfolding spares_def by (metis snd_conv)

lemma spares_intros:
  "spares live (retE x)" "spares live (failE e)" "spares live (liftE y)"
  "spares live m \<Longrightarrow> (\<And>x. spares live (k x)) \<Longrightarrow> spares live (bindE m k)"
  unfolding spares_def by (auto simp: bindE_run split: sum.split)

lemma follow_up_spares:
  assumes "honest_plane xl au live" and "cmd = tag_command xl rq \<or> cmd = add_key_command rq"
  shows "spares live (follow_up xl au name cmd)"
proof -
  have "spares live (control xl au cmd)"
    using assms unfolding honest_plane_def plane_spares_def spares_def by blast
  then show ?thesis unfolding follow_up_def by (intro spares_intros) (auto intro: spares_intros)
qed

text \<open>What is left of a clone: the machine itself, unless its removal was answered.\<close>

lemma complete_clone_result:
  assumes h: "honest_plane xl au live" and c: "complete_clone xl au rq out s = (r, s')"
  shows "live (xs_net s) - {cg_name rq} \<subseteq> live (xs_net s') \<and> live (xs_net s') \<subseteq> live (xs_net s) \<and>
    (\<forall>vm. r = Inr vm \<longrightarrow> cv_vm_tag vm = cg_name rq \<and> live (xs_net s') = live (xs_net s)) \<and>
    (isl r \<longrightarrow> cg_name rq \<in> live (xs_net s') \<longrightarrow> (\<exists>v e. exe_destroy xl au (cg_name rq) v = (Inl e, s')))"
proof -
  let ?n = "cg_name rq"
  define m where "m = bindE (liftE (clone_host xl out)) (\<lambda>host.
        bindE (follow_up xl au ?n (tag_command xl rq)) (\<lambda>_.
        bindE (follow_up xl au ?n (add_key_command rq)) (\<lambda>_.
        retE \<lparr>cv_vm_tag = ?n, cv_host = host,
              cv_https_url = Some (''https://'' @ trim_end_if (\<lambda>c. c = CHR ''/'') host)\<rparr>)))"
  obtain x s1 where x: "m s = (x, s1)" by fastforce
  have "spares live m"
    unfolding m_def by (intro spares_intros follow_up_spares [OF h, where rq = rq]) auto
  then have l: "live (xs_net s1) = live (xs_net s)" using x by (rule sparesD)
  have v: "cv_vm_tag vm = ?n" if "x = Inr vm" for vm
  proof -
    have "m s = (Inr vm, s1)" using x that by (simp only:)
    then show ?thesis unfolding m_def bindE_Inr_iff by (auto simp only: retE_run prod.inject sum.inject created_vm.select_convs)
  qed
  have c': "on_error m (\<lambda>s. snd (exe_destroy xl au ?n s)) s = (r, s')"
    using c unfolding complete_clone_def undo_clone_def m_def .
  show ?thesis
  proof (cases x)
    case (Inr vm)
    with c' x l v show ?thesis by (auto simp: on_error_def)
  next
    case (Inl e)
    obtain y s2 where d: "exe_destroy xl au ?n s1 = (y, s2)" by fastforce
    have "r = Inl e" "s' = s2" using c' x Inl d by (auto simp: on_error_def)
    moreover have "\<exists>e'. y = Inl e'" if "?n \<in> live (xs_net s2)"
      using exe_destroy_result [OF h d] that by (cases y) auto
    ultimately show ?thesis using exe_destroy_result [OF h d] l d by auto
  qed
qed

lemma exe_create_result:
  assumes h: "honest_plane xl au live" and c: "exe_create xl au rq s = (r, s')"
  shows "live (xs_net s) - {cg_name rq} \<subseteq> live (xs_net s') \<and> live (xs_net s') \<subseteq> insert (cg_name rq) (live (xs_net s)) \<and>
    (\<forall>vm. r = Inr vm \<longrightarrow> cv_vm_tag vm = cg_name rq \<and> cg_name rq \<in> live (xs_net s')) \<and>
    (isl r \<longrightarrow> cg_name rq \<in> live (xs_net s') \<longrightarrow> cg_name rq \<in> live (xs_net s) \<or>
       (\<exists>e. control xl au (cp_command rq) s = (Inl e, s')) \<or>
       (\<exists>out. control xl au (cp_command rq) s = (Inr out, s') \<and> co_exit_code out \<noteq> 0) \<or>
       (\<exists>v e. exe_destroy xl au (cg_name rq) v = (Inl e, s')))"
proof (cases "is_vm_scoped au")
  case True
  then show ?thesis using c scoped_refused(4) [OF True, of xl rq s] by auto
next
  case False
  then have d: "exe_create xl au rq s = bindE (control xl au (cp_command rq)) (\<lambda>out.
     if co_exit_code out \<noteq> 0 then failE (clone_failed rq out) else complete_clone xl au rq out) s"
    by (simp add: exe_create_def require_not_vm_scoped_def bindE_run)
  obtain x s1 where x: "control xl au (cp_command rq) s = (x, s1)" by fastforce
  note cp = cp_run [OF h x]
  show ?thesis
  proof (cases x)
    case (Inl e)
    with c d x cp show ?thesis by auto
  next
    case (Inr out)
    show ?thesis
    proof (cases "co_exit_code out = 0")
      case False
      with c d x cp Inr show ?thesis by auto
    next
      case True
      then have k: "complete_clone xl au rq out s1 = (r, s')" using c d x Inr by simp
      show ?thesis using complete_clone_result [OF h k] cp Inr True by blast
    qed
  qed
qed

text \<open>Destroying with the key: the key is revoked first, and the machine is gone or was found absent.\<close>

lemma exe_destroy_with_key_Inr:
  assumes h: "honest_plane xl au live" and d: "exe_destroy_with_key xl au t k s = (Inr u, s')"
  shows "live (xs_net s) - {t} \<subseteq> live (xs_net s') \<and> live (xs_net s') \<subseteq> live (xs_net s) \<and>
    (\<exists>out s1. control xl au (remove_key_command k) s = (Inr out, s1) \<and> key_gone out) \<and>
    (t \<notin> live (xs_net s') \<or> (\<exists>v m. exe_destroy xl au t v = (Inl (NotFound m), s')))"
proof -
  have n: "\<not> is_vm_scoped au" using d scoped_refused(3) [of au xl t k s] by auto
  define rest where "rest = (\<lambda>s. case exe_destroy xl au t s of (Inl (NotFound _), s') \<Rightarrow> (Inr (), s') | (r, s') \<Rightarrow> (r, s'))"
  have e: "exe_destroy_with_key xl au t k s = bindE (control xl au (remove_key_command k)) (\<lambda>out.
     if \<not> key_gone out
     then failE (BackendUnavailable (''failed to revoke ephemeral SSH key: '' @ both_streams out)) else rest) s"
    unfolding exe_destroy_with_key_def require_not_vm_scoped_def rest_def using n by (simp add: bindE_run)
  obtain x s1 where x: "control xl au (remove_key_command k) s = (x, s1)" by fastforce
  obtain out where k: "control xl au (remove_key_command k) s = (Inr out, s1)" "key_gone out"
    and r: "rest s1 = (Inr u, s')"
    using d x unfolding e by (cases x) (auto simp: bindE_run split: if_splits)
  have l1: "live (xs_net s1) = live (xs_net s)" by (rule other_runs(3) [OF h k(1)])
  obtain y s2 where y: "exe_destroy xl au t s1 = (y, s2)" by fastforce
  have s2: "s2 = s'" and cases: "y = Inr () \<or> (\<exists>m. y = Inl (NotFound m))"
    using r y unfolding rest_def by (auto split: sum.splits lsbx_error.splits)
  have "t \<notin> live (xs_net s') \<or> (\<exists>v m. exe_destroy xl au t v = (Inl (NotFound m), s'))"
    using exe_destroy_result [OF h y] cases y s2 by blast
  then show ?thesis using exe_destroy_result [OF h y] l1 s2 k by blast
qed

end
