(* ===== verification/Lsbx_Cli.thy ===== *)
theory Lsbx_Cli
  imports Lsbx_Format Lsbx_Broker Lsbx_Exedev
begin

text \<open>
  The command line (\<open>lsbx-cli\<close>): its arguments (\<open>cli.rs\<close>), the construction of the backend and of the
  facade from them and the environment, and one definition per subcommand (\<open>lib.rs\<close>). The parser of
  arguments is \<open>clap\<close>: a command is the value it gives. The servers that some commands start are in
  \<open>Lsbx_Serve\<close>.
\<close>

subsection \<open>Arguments\<close>

datatype backend_choice = ChooseLibvirt | ChooseExedev | ChooseDemo | ChooseAuto

record up_args =
  ua_profile :: string
  ua_count :: "nat option"
  ua_name :: "string option"
  ua_task_id :: "string option"
  ua_lease :: "string option"
  ua_no_verify :: bool
  ua_ready_timeout :: "nat option"

record serve_args =
  sa_host :: "string option"
  sa_port :: "nat option"
  sa_max_sandboxes :: "nat option"
  sa_stream_port :: "nat option"
  sa_token :: "string option"
  sa_reap_ttl :: "string option"
  sa_insecure :: bool
  sa_daemon :: bool

record build_args =
  ba_name :: string
  ba_from :: string
  ba_script :: string
  ba_flavor :: string
  ba_cpu :: nat
  ba_memory :: string
  ba_streaming :: "string option"
  ba_register :: bool
  ba_no_cleanup :: bool
  ba_dry_run :: bool

record register_args =
  ra_name :: string
  ra_base :: string
  ra_flavor :: string
  ra_os :: string
  ra_streaming :: "string option"
  ra_capabilities :: "string list"
  ra_healthcheck :: "string list"
  ra_cpu :: nat
  ra_memory :: string
  ra_disk :: "string option"
  ra_mode :: string
  ra_repo :: "string option"
  ra_content_hash :: "string option"
  ra_replace :: bool

datatype golden_command =
    GoldenList
  | GoldenReconcile
  | GoldenBuild build_args
  | GoldenVerify string
  | GoldenRegister register_args
  | GoldenDelete string bool

record bootstrap_args =
  oa_target :: "string option"
  oa_no_services :: bool
  oa_no_verify :: bool
  oa_force :: bool
  oa_dry_run :: bool

record config_args =
  ga_show :: bool
  ga_init :: bool
  ga_set :: "string option"
  ga_path :: bool
  ga_force :: bool

datatype command =
    Up up_args
  | Down "string list" bool
  | List "string option" bool
  | Exec string "nat option" "string list"
  | Put string string string
  | Get string string string
  | Renew string string
  | Console string
  | Info string
  | Status
  | Profiles bool
  | Images
  | Reap "string option" bool
  | Serve serve_args
  | Bootstrap bootstrap_args
  | Golden golden_command
  | Config config_args
  | Logs "string option" "nat option"
  | Mcp
  | CiBrokerRun backend_choice "string option"

record cli =
  cl_json :: bool
  cl_verbose :: bool
  cl_config :: "string option"
  cl_backend :: "backend_choice option"
  cl_images :: "string option"
  cl_state_dir :: "string option"
  cl_command :: "command option"

subsection \<open>The process\<close>

text \<open>
  The backends a build may choose from: connecting to libvirt is that library's, with its URI, its
  directories and the guest's user; the others are only constructed. They share one state.
\<close>

record 'b backends =
  bs_demo :: "'b \<Rightarrow> 'b backend \<times> 'b"
  bs_libvirt :: "string option \<Rightarrow> string \<Rightarrow> string \<Rightarrow> string \<Rightarrow> ('b, 'b backend) bk_op"
  bs_exedev :: "exe_auth \<Rightarrow> 'b \<Rightarrow> 'b backend \<times> 'b"

record 'b cli_lib =
  cx_env :: env
  cx_lib :: lib
  cx_json :: json_lib
  cx_backends :: "'b backends"
  cx_sha :: "fcontent \<Rightarrow> string"
  cx_host :: host_lib

record 'b process =
  pr_ops :: "'b ops_world"
  pr_out :: "string list"
  pr_err :: "string list"

type_synonym ('b, 'a) cli_act = "('b process, lsbx_error, 'a) comp"

definition via_ops :: "('b, 'a) ops_act \<Rightarrow> ('b, 'a) cli_act" where
  "via_ops m s = (case m (pr_ops s) of (r, os) \<Rightarrow> (r, s\<lparr>pr_ops := os\<rparr>))"

definition println :: "string \<Rightarrow> ('b, unit) cli_act" where
  "println t s = (Inr (), s\<lparr>pr_out := pr_out s @ [t]\<rparr>)"

definition eprintln :: "string \<Rightarrow> ('b, unit) cli_act" where
  "eprintln t s = (Inr (), s\<lparr>pr_err := pr_err s @ [t]\<rparr>)"

definition print_value :: "'b cli_lib \<Rightarrow> bool \<Rightarrow> 'a formattable \<Rightarrow> 'a \<Rightarrow> ('b, unit) cli_act" where
  "print_value cx js f v = println (render (cx_json cx) f v js)"

definition print_error :: "'b cli_lib \<Rightarrow> bool \<Rightarrow> lsbx_error \<Rightarrow> ('b, unit) cli_act" where
  "print_error cx js e = println (render_error (cx_json cx) e js)"

definition error_code :: "lsbx_error \<Rightarrow> int" where
  "error_code e = sint (exit_code_i32 (exit_code e))"

text \<open>A call of the facade, its result printed; the exit code is 0.\<close>

definition call_and_print :: "'b cli_lib \<Rightarrow> bool \<Rightarrow> 'a formattable \<Rightarrow> ('b, 'a) ops_act \<Rightarrow> ('b, int) cli_act" where
  "call_and_print cx js f m = bindE (via_ops m) (\<lambda>v. bindE (print_value cx js f v) (\<lambda>_. retE 0))"

subsection \<open>The backend\<close>

fun first_set :: "env \<Rightarrow> string list \<Rightarrow> string option" where
  "first_set ev [] = None"
| "first_set ev (n # ns) = (case ev n of Some v \<Rightarrow> Some v | None \<Rightarrow> first_set ev ns)"

definition connect_libvirt :: "'b cli_lib \<Rightarrow> string \<Rightarrow> ('b, 'b backend) bk_op" where
  "connect_libvirt cx state_dir =
     (let ev = cx_env cx
      in bs_libvirt (cx_backends cx) (ev ''LSBX_LIBVIRT_URI'')
           (unwrap_or (path_join state_dir ''images'') (ev ''LSBX_LIBVIRT_IMAGES_DIR''))
           (unwrap_or (path_join state_dir ''vms'') (ev ''LSBX_LIBVIRT_VM_DIR''))
           (unwrap_or ''lsbx'' (first_set ev [''LSBX_LIBVIRT_USER'', ''LUFSS_LIBVIRT_USER''])))"

definition exedev_auth :: "env \<Rightarrow> exe_auth" where
  "exedev_auth ev =
     (let token_env = unwrap_or ''EXE_TOKEN'' (first_set ev [''LSBX_EXEDEV_TOKEN_ENV'', ''LUFSS_EXEDEV_TOKEN_ENV''])
      in case non_empty (ev token_env) of
           Some t \<Rightarrow> AccountToken t
         | None \<Rightarrow>
             (case ev ''LSBX_EXEDEV_SSH_KEY'' of
                Some k \<Rightarrow> SshKey k
              | None \<Rightarrow> SshAlias (unwrap_or ''exe.dev'' (first_set ev [''LSBX_EXEDEV_SSH_ALIAS'', ''LUFSS_EXEDEV_SSH_ALIAS'']))))"

definition build_exedev :: "'b cli_lib \<Rightarrow> ('b, 'b backend) bk_op" where
  "build_exedev cx b = (case bs_exedev (cx_backends cx) (exedev_auth (cx_env cx)) b of (be, b') \<Rightarrow> (Inr be, b'))"

definition probe_backend :: "'b backend \<Rightarrow> ('b, unit) bk_op" where
  "probe_backend be = bindE (bk_list_vms be) (\<lambda>_. retE ())"

record 'b built =
  bb_backend :: "'b backend"
  bb_name :: string

definition build_demo :: "'b cli_lib \<Rightarrow> ('b, 'b built) bk_op" where
  "build_demo cx b = (case bs_demo (cx_backends cx) b of (be, b') \<Rightarrow> (Inr \<lparr>bb_backend = be, bb_name = ''demo''\<rparr>, b'))"

text \<open>A candidate is taken when it is constructed and answers; otherwise the next one is tried.\<close>

definition probed :: "string \<Rightarrow> ('b, 'b backend) bk_op \<Rightarrow> ('b, 'b built) bk_op" where
  "probed name m = bindE m (\<lambda>be. bindE (probe_backend be) (\<lambda>_. retE \<lparr>bb_backend = be, bb_name = name\<rparr>))"

definition or_next :: "('b, 'a) bk_op \<Rightarrow> ('b, 'a) bk_op \<Rightarrow> ('b, 'a) bk_op" where
  "or_next m n b = (case m b of (Inr x, b') \<Rightarrow> (Inr x, b') | (Inl _, b') \<Rightarrow> n b')"

definition probe_auto :: "'b cli_lib \<Rightarrow> string \<Rightarrow> ('b, 'b built) bk_op" where
  "probe_auto cx state_dir =
     or_next (probed ''libvirt'' (connect_libvirt cx state_dir))
       (or_next (probed ''exedev'' (build_exedev cx)) (build_demo cx))"

definition build_backend :: "'b cli_lib \<Rightarrow> backend_choice \<Rightarrow> string \<Rightarrow> ('b, 'b built) bk_op" where
  "build_backend cx choice state_dir =
     (case choice of
        ChooseDemo \<Rightarrow> build_demo cx
      | ChooseLibvirt \<Rightarrow> bindE (connect_libvirt cx state_dir) (\<lambda>be. retE \<lparr>bb_backend = be, bb_name = ''libvirt''\<rparr>)
      | ChooseExedev \<Rightarrow> probed ''exedev'' (build_exedev cx)
      | ChooseAuto \<Rightarrow> probe_auto cx state_dir)"

subsection \<open>The facade\<close>

definition resolve_state_dir :: "env \<Rightarrow> string option \<Rightarrow> string" where
  "resolve_state_dir ev explicit =
     (case or_else explicit (first_set ev [''LSBX_STATE_DIR'', ''LUFSS_SANDBOX_STATE_DIR'']) of
        Some p \<Rightarrow> p
      | None \<Rightarrow> (case ev ''HOME'' of Some h \<Rightarrow> path_join h ''.local/share/lsbx'' | None \<Rightarrow> ''/tmp/lsbx''))"

definition resolve_images_path :: "env \<Rightarrow> string option \<Rightarrow> string \<Rightarrow> string" where
  "resolve_images_path ev explicit state_dir =
     (case or_else explicit (first_set ev [''LSBX_IMAGES_PATH'', ''LSBX_IMAGES'', ''LUFSS_IMAGES'']) of
        Some p \<Rightarrow> p
      | None \<Rightarrow> path_join state_dir ''images.json'')"

definition choice_of_name :: "string \<Rightarrow> backend_choice option" where
  "choice_of_name t =
     (let n = map ascii_lower t
      in if n = ''libvirt'' then Some ChooseLibvirt else if n = ''exedev'' then Some ChooseExedev
         else if n = ''demo'' then Some ChooseDemo else if n = ''auto'' then Some ChooseAuto else None)"

definition backend_choice_of :: "env \<Rightarrow> cli \<Rightarrow> backend_choice option \<Rightarrow> backend_choice" where
  "backend_choice_of ev args override =
     unwrap_or ChooseDemo
       (or_else override (or_else (cl_backend args)
         (Option.bind (first_set ev [''LSBX_BACKEND'', ''LUFSS_BACKEND'']) choice_of_name)))"

definition empty_registry :: image_registry where
  "empty_registry = \<lparr>ir_images = [], ir_goldens = [], ir_profiles = []\<rparr>"

definition no_manifest_note :: "string \<Rightarrow> string" where
  "no_manifest_note p =
     ''lsbx: note: no image manifest found at the default path '' @ quoted p @ '' '' @ em_dash
     @ '' proceeding with an empty image registry (pass `--images` explicitly, or set LSBX_IMAGES/LSBX_IMAGES_PATH)''"

text \<open>A manifest that cannot be read counts as none, with a note when its path was not given.\<close>

definition load_registry :: "'b cli_lib \<Rightarrow> cli \<Rightarrow> string \<Rightarrow> ('b, image_registry) cli_act" where
  "load_registry cx args p s =
     (case via_ops (in_world (on_fs (registry_load (lb_serde (cx_lib cx)) (path_pair p)))) s of
        (Inr reg, s') \<Rightarrow> (Inr reg, s')
      | (Inl (NotFound _), s') \<Rightarrow>
          bindE (if cl_images args = None then eprintln (no_manifest_note p) else retE ()) (\<lambda>_. retE empty_registry) s'
      | (Inl e, s') \<Rightarrow> (Inl e, s'))"

text \<open>The facade of the process; its registry becomes the one in the state.\<close>

definition build_deps :: "'b cli_lib \<Rightarrow> cli \<Rightarrow> backend_choice option \<Rightarrow> ('b, 'b ops) cli_act" where
  "build_deps cx args override =
     (let ev = cx_env cx; state_dir = resolve_state_dir ev (cl_state_dir args);
          images = resolve_images_path ev (cl_images args) state_dir
      in bindE (via_ops (in_world (on_bk (build_backend cx (backend_choice_of ev args override) state_dir)))) (\<lambda>built.
         bindE (load_registry cx args images) (\<lambda>reg.
         bindE (if cl_verbose args then eprintln (''lsbx: selected backend '' @ quoted (bb_name built)) else retE ()) (\<lambda>_ s.
         (Inr \<lparr>op_lib = cx_lib cx, op_backend = bb_backend built, op_backend_name = bb_name built,
               op_state_dir = state_dir, op_images_path = Some (path_pair images)\<rparr>,
          s\<lparr>pr_ops := (pr_ops s)\<lparr>ow_registry := reg\<rparr>\<rparr>)))))"

subsection \<open>Durations and names\<close>

definition is_alpha :: "char \<Rightarrow> bool" where
  "is_alpha c \<longleftrightarrow> is_lower c \<or> is_upper c"

definition saturating_mul_u64 :: "nat \<Rightarrow> nat \<Rightarrow> nat" where
  "saturating_mul_u64 a b = min (a * b) (2 ^ 64 - 1)"

definition unit_secs :: "char \<Rightarrow> nat option" where
  "unit_secs c =
     (if c = CHR ''s'' then Some 1 else if c = CHR ''m'' then Some 60 else if c = CHR ''h'' then Some 3600
      else if c = CHR ''d'' then Some 86400 else None)"

definition parse_duration :: "string \<Rightarrow> lsbx_error + nat" where
  "parse_duration raw =
     (let input = trim raw
      in if input = [] then Inl (Usage ''duration must not be empty'')
         else let (num, unit) = (if is_alpha (last input) then (butlast input, last input) else (input, CHR ''s''))
              in case parse_u64 num of
                   None \<Rightarrow> Inl (Usage (''invalid duration '' @ quoted input @ '': not a valid number''))
                 | Some v \<Rightarrow>
                     (case unit_secs unit of
                        None \<Rightarrow> Inl (Usage (''invalid duration unit '' @ quoted [unit] @ '' in '' @ quoted input
                                  @ '' (expected s, m, h, or d)''))
                      | Some k \<Rightarrow> Inr (secs (saturating_mul_u64 v k))))"

definition duration_or :: "nat \<Rightarrow> string option \<Rightarrow> lsbx_error + nat" where
  "duration_or d t = (case t of None \<Rightarrow> Inr d | Some s \<Rightarrow> parse_duration s)"

definition default_lease :: nat where "default_lease = secs 3600"
definition default_ready_timeout :: nat where "default_ready_timeout = secs 120"
definition default_reap_ttl :: nat where "default_reap_ttl = 0"
definition default_exec_timeout :: nat where "default_exec_timeout = secs 60"

definition parse_flavor :: "string \<Rightarrow> lsbx_error + golden_flavor" where
  "parse_flavor input =
     (let t = map ascii_lower input
      in if t = ''desktop'' then Inr Desktop else if t = ''agent'' then Inr Agent
         else if t = ''ci-runner'' \<or> t = ''ci_runner'' \<or> t = ''cirunner'' then Inr CiRunner
         else Inl (Usage (''invalid --flavor '' @ quoted t @ '' (expected desktop, agent, or ci-runner)'')))"

definition parse_streaming :: "string option \<Rightarrow> streaming_mode" where
  "parse_streaming input = (if map_option (map ascii_lower) input = Some ''novnc'' then Novnc else StreamNone)"

definition parse_mode :: "string \<Rightarrow> lsbx_error + golden_mode" where
  "parse_mode input =
     (let t = map ascii_lower input
      in if t = ''copy'' then Inr Copy else if t = ''new'' then Inr New
         else Inl (Usage (''invalid --mode '' @ quoted t @ '' (expected copy or new)'')))"

text \<open>A lease that is missing or cannot be read has not run out.\<close>

definition is_expired_public :: "lib \<Rightarrow> public_sandbox \<Rightarrow> nat \<Rightarrow> bool" where
  "is_expired_public lb p now =
     (case Option.bind (ps_lease_expires_at p) (lb_parse_rfc3339 lb) of None \<Rightarrow> False | Some t \<Rightarrow> t < int now)"

subsection \<open>Commands on sandboxes\<close>

definition up_name :: "string option \<Rightarrow> nat \<Rightarrow> nat \<Rightarrow> string option" where
  "up_name name n i = map_option (\<lambda>base. if 1 < n then base @ ''-'' @ show_nat i else base) name"

definition up_request :: "up_args \<Rightarrow> nat \<Rightarrow> nat \<Rightarrow> nat \<Rightarrow> create_request" where
  "up_request a lease n i =
     \<lparr>rq_profile = ua_profile a, rq_golden = None, rq_name = up_name (ua_name a) n i, rq_task_id = ua_task_id a,
      rq_lease = lease,
      rq_ready_timeout = (case ua_ready_timeout a of Some t \<Rightarrow> secs t | None \<Rightarrow> default_ready_timeout),
      rq_verify = (\<not> ua_no_verify a), rq_cpu = None, rq_memory = None, rq_flavor = None, rq_streaming = None,
      rq_healthchecks = [], rq_os = None\<rparr>"

text \<open>One call per item, each result or error printed; the exit code is the last error's.\<close>

fun each_printed ::
  "'b cli_lib \<Rightarrow> bool \<Rightarrow> 'a formattable \<Rightarrow> ('x \<Rightarrow> ('b, 'a) ops_act) \<Rightarrow> 'x list \<Rightarrow> int \<Rightarrow> ('b, int) cli_act" where
  "each_printed cx js f m [] code = retE code"
| "each_printed cx js f m (x # xs) code =
     bindE (catchE (via_ops (m x))) (\<lambda>r.
     case r of
       Inr v \<Rightarrow> bindE (print_value cx js f v) (\<lambda>_. each_printed cx js f m xs code)
     | Inl e \<Rightarrow> bindE (print_error cx js e) (\<lambda>_. each_printed cx js f m xs (error_code e)))"

definition cmd_up :: "'b cli_lib \<Rightarrow> bool \<Rightarrow> 'b ops \<Rightarrow> up_args \<Rightarrow> ('b, int) cli_act" where
  "cmd_up cx js op a =
     bindE (liftE (duration_or default_lease (ua_lease a))) (\<lambda>lease.
     let n = max 1 (unwrap_or 1 (ua_count a))
     in each_printed cx js public_format (\<lambda>i. ops_create op (up_request a lease n i)) [0..<n] 0)"

definition cmd_down :: "'b cli_lib \<Rightarrow> bool \<Rightarrow> 'b ops \<Rightarrow> string list \<Rightarrow> bool \<Rightarrow> ('b, int) cli_act" where
  "cmd_down cx js op ids every =
     bindE (if every then bindE (via_ops (ops_list op)) (\<lambda>ps. retE (map ps_id ps)) else retE ids) (\<lambda>targets.
     if targets = [] then bindE (print_value cx js empty_list_format ()) (\<lambda>_. retE 0)
     else each_printed cx js destroyed_format (\<lambda>i. bindE (ops_destroy op i) (\<lambda>_. retE i)) targets 0)"

definition cmd_list :: "'b cli_lib \<Rightarrow> bool \<Rightarrow> 'b ops \<Rightarrow> string option \<Rightarrow> bool \<Rightarrow> ('b, int) cli_act" where
  "cmd_list cx js op profile expired =
     bindE (via_ops (ops_list op)) (\<lambda>ps s.
     let ps1 = (case profile of None \<Rightarrow> ps | Some q \<Rightarrow> filter (\<lambda>p. ps_profile p = q) ps);
         ps2 = (if expired then filter (\<lambda>p. is_expired_public (cx_lib cx) p (w_now (ow_world (pr_ops s)))) ps1 else ps1)
     in bindE (print_value cx js sandbox_list_format ps2) (\<lambda>_. retE 0) s)"

definition cmd_exec :: "'b cli_lib \<Rightarrow> bool \<Rightarrow> 'b ops \<Rightarrow> string \<Rightarrow> nat option \<Rightarrow> string list \<Rightarrow> ('b, int) cli_act" where
  "cmd_exec cx js op i timeout c =
     bindE (via_ops (ops_exec op i c (case timeout of Some t \<Rightarrow> secs t | None \<Rightarrow> default_exec_timeout))) (\<lambda>out.
     bindE (print_value cx js output_format out) (\<lambda>_. retE (co_exit_code out)))"

definition cmd_renew :: "'b cli_lib \<Rightarrow> bool \<Rightarrow> 'b ops \<Rightarrow> string \<Rightarrow> string \<Rightarrow> ('b, int) cli_act" where
  "cmd_renew cx js op i duration =
     bindE (liftE (parse_duration duration)) (\<lambda>d. call_and_print cx js public_format (ops_renew op i d))"

definition cmd_reap :: "'b cli_lib \<Rightarrow> bool \<Rightarrow> 'b ops \<Rightarrow> string option \<Rightarrow> bool \<Rightarrow> ('b, int) cli_act" where
  "cmd_reap cx js op ttl dry_run =
     bindE (liftE (duration_or default_reap_ttl ttl)) (\<lambda>d. call_and_print cx js reap_format (ops_reap op d dry_run))"

definition keys_of :: "string \<Rightarrow> json \<Rightarrow> json" where
  "keys_of what v = unwrap_or (JArr []) (Option.bind (json_get v what) (\<lambda>w. json_get w ''keys''))"

definition cmd_config :: "'b cli_lib \<Rightarrow> bool \<Rightarrow> 'b ops \<Rightarrow> config_args \<Rightarrow> ('b, int) cli_act" where
  "cmd_config cx js op a =
     (case ga_set a of
        Some kv \<Rightarrow>
          failE (ContractViolated (''config --set is not implemented '' @ em_dash
            @ '' no merged crate owns a writable config schema yet (attempted to set '' @ quoted kv @ '')''))
      | None \<Rightarrow>
          if ga_init a
          then failE (ContractViolated (''config --init is not implemented '' @ em_dash
            @ '' no merged crate owns a config file format to initialize yet''))
          else if ga_path a then bindE (print_value cx js config_path_format ()) (\<lambda>_. retE 0)
          else call_and_print cx js (config_show_format (cx_json cx)) (config_show op))"

definition cmd_bootstrap :: "'b cli_lib \<Rightarrow> bool \<Rightarrow> bootstrap_args \<Rightarrow> ('b, int) cli_act" where
  "cmd_bootstrap cx js a =
     call_and_print cx js bootstrap_format (in_world (on_fs (bootstrap (cx_host cx) (cx_env cx)
       \<lparr>bo_target = oa_target a, bo_install_services = (\<not> oa_no_services a), bo_verify = (\<not> oa_no_verify a),
        bo_force = oa_force a, bo_dry_run = oa_dry_run a\<rparr>)))"

subsection \<open>Commands on goldens\<close>

definition generate_pubkey_for :: "'b cli_lib \<Rightarrow> string \<Rightarrow> ('b, keypair) ops_act" where
  "generate_pubkey_for cx label =
     in_world (on_fs (generate_ephemeral_keypair_in (lb_keys (cx_lib cx)) (kl_temp_dir (lb_keys (cx_lib cx))) label))"

definition discard_keypair :: "keypair \<Rightarrow> ('b, unit) cli_act" where
  "discard_keypair kp = bindE (catchE (via_ops (in_world (on_fs (cleanup_keypair kp))))) (\<lambda>_. retE ())"

definition placeholder_pubkey :: string where
  "placeholder_pubkey = ''ssh-ed25519 AAAA lsbx-dry-run-placeholder''"

definition build_request_of :: "build_args \<Rightarrow> golden_flavor \<Rightarrow> keypair option \<Rightarrow> golden_build_request" where
  "build_request_of a flavor kp =
     \<lparr>gb_name = ba_name a, gb_from = ba_from a, gb_script = ba_script a, gb_flavor = flavor, gb_cpu = ba_cpu a,
      gb_memory = ba_memory a, gb_streaming = parse_streaming (ba_streaming a), gb_register = ba_register a,
      gb_cleanup = (\<not> ba_no_cleanup a), gb_dry_run = ba_dry_run a,
      gb_pubkey = (case kp of None \<Rightarrow> placeholder_pubkey | Some k \<Rightarrow> kp_public_key_line k),
      gb_key_path = map_option kp_private_key_path kp\<rparr>"

definition cmd_golden_build :: "'b cli_lib \<Rightarrow> bool \<Rightarrow> 'b ops \<Rightarrow> build_args \<Rightarrow> ('b, int) cli_act" where
  "cmd_golden_build cx js op a =
     bindE (liftE (parse_flavor (ba_flavor a))) (\<lambda>flavor.
     bindE (if ba_dry_run a then retE None
            else bindE (via_ops (generate_pubkey_for cx (''golden-build-'' @ ba_name a))) (\<lambda>kp. retE (Some kp))) (\<lambda>kp.
     bindE (catchE (via_ops (ops_golden_build (cx_sha cx) op (build_request_of a flavor kp)))) (\<lambda>result.
     bindE (case kp of None \<Rightarrow> retE () | Some k \<Rightarrow> if ba_no_cleanup a then retE () else discard_keypair k) (\<lambda>_.
     bindE (liftE result) (\<lambda>out.
     bindE (print_value cx js build_format out) (\<lambda>_. retE 0))))))"

definition cmd_golden_verify :: "'b cli_lib \<Rightarrow> bool \<Rightarrow> 'b ops \<Rightarrow> string \<Rightarrow> ('b, int) cli_act" where
  "cmd_golden_verify cx js op name =
     bindE (via_ops (generate_pubkey_for cx (''golden-verify-'' @ name))) (\<lambda>kp.
     bindE (catchE (via_ops (ops_golden_verify op name (''verify-'' @ name) (kp_public_key_line kp)
              (Some (kp_private_key_path kp))))) (\<lambda>result.
     bindE (discard_keypair kp) (\<lambda>_.
     bindE (liftE result) (\<lambda>rs.
     bindE (print_value cx js checks_format rs) (\<lambda>_.
     retE (if list_all hr_passed rs then 0 else error_code (ContractViolated [])))))))"

definition registered_config :: "register_args \<Rightarrow> golden_flavor \<Rightarrow> golden_mode \<Rightarrow> golden_config" where
  "registered_config a flavor mode =
     \<lparr>gc_key = ra_name a, gc_flavor = flavor, gc_os = ra_os a, gc_base = ra_base a, gc_mode = mode, gc_cpu = ra_cpu a,
      gc_memory = ra_memory a, gc_disk = ra_disk a, gc_streaming = parse_streaming (ra_streaming a),
      gc_capabilities = ra_capabilities a, gc_healthcheck = ra_healthcheck a, gc_repo = ra_repo a,
      gc_content_hash = ra_content_hash a,
      gc_description = ''Registered via lsbx golden register ('' @ ra_base a @ '')''\<rparr>"

definition cmd_golden_register :: "'b cli_lib \<Rightarrow> bool \<Rightarrow> 'b ops \<Rightarrow> register_args \<Rightarrow> ('b, int) cli_act" where
  "cmd_golden_register cx js op a =
     bindE (liftE (parse_flavor (ra_flavor a))) (\<lambda>flavor.
     bindE (liftE (parse_mode (ra_mode a))) (\<lambda>mode.
     bindE (if ra_replace a then bindE (catchE (via_ops (golden_delete op (ra_name a) False))) (\<lambda>_. retE ()) else retE ()) (\<lambda>_.
     bindE (via_ops (golden_register op (registered_config a flavor mode))) (\<lambda>_.
     bindE (print_value cx js registered_format (ra_name a)) (\<lambda>_. retE 0)))))"

definition dispatch_golden :: "'b cli_lib \<Rightarrow> bool \<Rightarrow> 'b ops \<Rightarrow> golden_command \<Rightarrow> ('b, int) cli_act" where
  "dispatch_golden cx js op c =
     (case c of
        GoldenList \<Rightarrow> call_and_print cx js golden_list_format golden_list
      | GoldenReconcile \<Rightarrow> call_and_print cx js reconcile_format (golden_reconcile op)
      | GoldenBuild a \<Rightarrow> cmd_golden_build cx js op a
      | GoldenVerify name \<Rightarrow> cmd_golden_verify cx js op name
      | GoldenRegister a \<Rightarrow> cmd_golden_register cx js op a
      | GoldenDelete name keep \<Rightarrow>
          call_and_print cx js deleted_format (bindE (golden_delete op name keep) (\<lambda>_. retE name)))"

subsection \<open>Each item is called once\<close>

lemma error_code_pos: "error_code e \<noteq> 0"
  by (cases e) (simp_all add: error_code_def)

text \<open>The calls alone, whatever becomes of them.\<close>

fun call_all :: "('x \<Rightarrow> ('b, 'a) ops_act) \<Rightarrow> 'x list \<Rightarrow> 'b ops_world \<Rightarrow> (lsbx_error + 'a) list \<times> 'b ops_world" where
  "call_all m [] s = ([], s)"
| "call_all m (x # xs) s = (case m x s of (r, s1) \<Rightarrow> (case call_all m xs s1 of (rs, s2) \<Rightarrow> (r # rs, s2)))"

definition last_code :: "(lsbx_error + 'a) list \<Rightarrow> int \<Rightarrow> int" where
  "last_code rs code = fold (\<lambda>r c. case r of Inl e \<Rightarrow> error_code e | Inr _ \<Rightarrow> c) rs code"

lemma last_code_zero: "last_code rs code = 0 \<longleftrightarrow> (\<exists>k. rs = map Inr k) \<and> code = 0"
proof -
  have "fold (\<lambda>r c. case r of Inl e \<Rightarrow> error_code e | Inr _ \<Rightarrow> c) rs code = 0 \<longleftrightarrow> list_all (\<lambda>r. \<not> isl r) rs \<and> code = 0"
    by (induction rs arbitrary: code) (auto simp: error_code_pos split: sum.split)
  moreover have "list_all (\<lambda>r. \<not> isl r) rs \<longleftrightarrow> (\<exists>k. rs = map Inr k)"
    by (induction rs) (auto simp: isl_def Cons_eq_map_conv split: sum.splits; metis sum.exhaust)+
  ultimately show ?thesis by (simp add: last_code_def)
qed

lemma each_printed_eq:
  "each_printed cx js f m xs code s =
     (case call_all m xs (pr_ops s) of
        (rs, os) \<Rightarrow> (Inr (last_code rs code),
          s\<lparr>pr_ops := os, pr_out := pr_out s @ map (\<lambda>r. render_result (cx_json cx) f r js) rs\<rparr>))"
proof (induction xs arbitrary: code s)
  case (Cons x xs)
  obtain r os where r: "m x (pr_ops s) = (r, os)" by fastforce
  show ?case
    by (cases r) (simp_all add: r via_ops_def bindE_run print_value_def print_error_def println_def Cons render_result_def
        last_code_def split: prod.split)
qed (simp add: last_code_def)

lemma call_all_tagged:
  "call_all (\<lambda>i. bindE (m i) (\<lambda>_. retE i)) xs s = (map Inr ks, os) \<Longrightarrow> ks = xs"
  by (induction xs arbitrary: s ks) (auto simp: Cons_eq_map_conv bindE_run split: prod.splits sum.splits)

subsection \<open>Durations\<close>

lemma digit_plain: "is_digit c \<Longrightarrow> \<not> is_alpha c \<and> \<not> is_space c"
  by (auto simp: is_digit_def is_alpha_def is_alnum_def is_lower_def is_upper_def is_space_def)

lemma unit_plain: "unit_secs c = Some k \<Longrightarrow> is_alpha c \<and> \<not> is_space c"
  by (auto simp: unit_secs_def is_alpha_def is_alnum_def is_lower_def is_upper_def is_digit_def is_space_def split: if_splits)

lemma duration_read:
  assumes "n < 2 ^ 64"
  shows "parse_duration (show_nat n) = Inr (secs n)"
    and "unit_secs c = Some k \<Longrightarrow> parse_duration (show_nat n @ [c]) = Inr (secs (min (n * k) (2 ^ 64 - 1)))"
proof -
  have d: "is_digit x" if "x \<in> set (show_nat n)" for x using is_digit_show_nat that .
  have "trim (show_nat n) = show_nat n" using d digit_plain by (intro trim_no_space) blast
  moreover have "\<not> is_alpha (last (show_nat n))" using d digit_plain by simp
  ultimately show "parse_duration (show_nat n) = Inr (secs n)"
    using assms parse_show_nat [OF assms]
    by (simp add: parse_duration_def Let_def unit_secs_def saturating_mul_u64_def)
  assume u: "unit_secs c = Some k"
  have "trim (show_nat n @ [c]) = show_nat n @ [c]"
    using d digit_plain unit_plain [OF u] by (intro trim_no_space) auto
  then show "parse_duration (show_nat n @ [c]) = Inr (secs (min (n * k) (2 ^ 64 - 1)))"
    using assms parse_show_nat [OF assms] u unit_plain [OF u]
    by (simp add: parse_duration_def Let_def saturating_mul_u64_def)
qed

lemma duration_bound: "parse_duration t = Inr d \<Longrightarrow> d \<le> secs (2 ^ 64 - 1)"
  by (auto simp: parse_duration_def Let_def saturating_mul_u64_def secs_def split: if_splits option.splits prod.splits)

subsection \<open>The backend that was asked for\<close>

lemma probed_iff:
  "probed name m b = (Inr bb, b') \<longleftrightarrow>
   (\<exists>be b1 vs. m b = (Inr be, b1) \<and> bk_list_vms be b1 = (Inr vs, b') \<and> bb = \<lparr>bb_backend = be, bb_name = name\<rparr>)"
  by (auto simp: probed_def probe_backend_def bindE_Inr_iff)

lemma build_demo_iff: "build_demo cx b = (Inr bb, b') \<Longrightarrow> bb_name bb = ''demo''"
  by (auto simp: build_demo_def split: prod.splits)

lemma auto_total: "\<exists>bb. fst (build_backend cx ChooseAuto dir b) = Inr bb" "\<exists>bb. fst (build_backend cx ChooseDemo dir b) = Inr bb"
  by (auto simp: build_backend_def probe_auto_def or_next_def build_demo_def split: prod.split sum.split)

lemma backend_answers:
  assumes "build_backend cx c dir b = (Inr bb, b')" and "c = ChooseExedev \<or> c = ChooseAuto \<and> bb_name bb \<noteq> ''demo''"
  shows "\<exists>b1 vs. bk_list_vms (bb_backend bb) b1 = (Inr vs, b')"
  using assms
  by (auto simp: build_backend_def probe_auto_def or_next_def probed_iff split: backend_choice.splits prod.splits sum.splits
      dest!: build_demo_iff; blast)

lemma backend_named:
  assumes "build_backend cx c dir b = (Inr bb, b')"
  shows "c = ChooseDemo \<Longrightarrow> bb_name bb = ''demo''" "c = ChooseLibvirt \<Longrightarrow> bb_name bb = ''libvirt''"
    "c = ChooseExedev \<Longrightarrow> bb_name bb = ''exedev''"
  using assms by (auto simp: build_backend_def probed_iff bindE_Inr_iff dest: build_demo_iff)

subsection \<open>Registering a golden in place of another\<close>

lemma via_ops_run: "via_ops m s = (fst (m (pr_ops s)), s\<lparr>pr_ops := snd (m (pr_ops s))\<rparr>)"
  by (simp add: via_ops_def split: prod.split)

lemma cmd_golden_register_Inr:
  assumes "cmd_golden_register cx js op a s = (Inr code, s')"
  shows "\<exists>flavor mode os os'. parse_flavor (ra_flavor a) = Inr flavor \<and> parse_mode (ra_mode a) = Inr mode \<and>
    os = (if ra_replace a then snd (golden_delete op (ra_name a) False (pr_ops s)) else pr_ops s) \<and>
    golden_register op (registered_config a flavor mode) os = (Inr (), os') \<and> pr_ops s' = os' \<and> code = 0"
  using assms
  by (cases "ra_replace a") (auto simp: cmd_golden_register_def bindE_Inr_iff via_ops_run print_value_def println_def intro!: prod_eqI)

lemma golden_delete_others: "k \<noteq> n \<Longrightarrow> find_golden (ow_registry (snd (golden_delete op n b s))) k = find_golden (ow_registry s) k"
proof -
  assume "k \<noteq> n"
  have "find (\<lambda>g. gc_key g = k) (filter (\<lambda>g. gc_key g \<noteq> n) gs) = find (\<lambda>g. gc_key g = k) gs" for gs
    using \<open>k \<noteq> n\<close> by (induction gs) auto
  then show ?thesis by (simp add: find_golden_def golden_delete_registry)
qed

lemma register_replaces:
  assumes "cmd_golden_register cx js op a s = (Inr code, s')"
  shows "\<exists>flavor mode. parse_flavor (ra_flavor a) = Inr flavor \<and> parse_mode (ra_mode a) = Inr mode \<and>
      find_golden (ow_registry (pr_ops s')) (ra_name a) = Some (registered_config a flavor mode)"
    and "code = 0"
    and "k \<noteq> ra_name a \<Longrightarrow> find_golden (ow_registry (pr_ops s')) k = find_golden (ow_registry (pr_ops s)) k"
proof -
  obtain flavor mode os os' where p: "parse_flavor (ra_flavor a) = Inr flavor" "parse_mode (ra_mode a) = Inr mode" "code = 0"
    and r: "os = (if ra_replace a then snd (golden_delete op (ra_name a) False (pr_ops s)) else pr_ops s)"
    "golden_register op (registered_config a flavor mode) os = (Inr (), os')" "pr_ops s' = os'"
    using cmd_golden_register_Inr [OF assms] by blast
  have n: "gc_key (registered_config a flavor mode) = ra_name a" by (simp add: registered_config_def)
  note f = golden_register_found [OF r(2), unfolded n]
  show "\<exists>flavor mode. parse_flavor (ra_flavor a) = Inr flavor \<and> parse_mode (ra_mode a) = Inr mode \<and>
      find_golden (ow_registry (pr_ops s')) (ra_name a) = Some (registered_config a flavor mode)"
    using f r(3) p by blast
  show "code = 0" by (rule p(3))
  show "find_golden (ow_registry (pr_ops s')) k = find_golden (ow_registry (pr_ops s)) k" if "k \<noteq> ra_name a"
    using f r that by (simp add: golden_delete_others)
qed

text \<open>The old golden is gone before the new one is registered.\<close>

lemma register_loses:
  assumes "ra_replace a" and "parse_flavor (ra_flavor a) = Inr flavor" and "parse_mode (ra_mode a) = Inr mode"
    and "golden_register op (registered_config a flavor mode) (snd (golden_delete op (ra_name a) False (pr_ops s))) = (Inl e, os)"
  shows "cmd_golden_register cx js op a s = (Inl e, s\<lparr>pr_ops := os\<rparr>)"
  using assms by (simp add: cmd_golden_register_def bindE_run via_ops_run)

end
