(* ===== verification/Lsbx_Serve.thy ===== *)
theory Lsbx_Serve
  imports Lsbx_Cli
begin

text \<open>
  The commands of \<open>lsbx-cli\<close> that run until they are stopped, and the dispatch of all of them
  (\<open>dispatch_serve\<close>, \<open>dispatch_mcp\<close>, \<open>dispatch_ci_broker\<close>, \<open>dispatch\<close> and \<open>run_with_args\<close> of \<open>lib.rs\<close>,
  \<open>run_stdio_server\<close> of \<open>lsbx-mcp\<close> and \<open>GitHubClient::from_app_auth\<close> of \<open>lsbx-broker\<close>). \<open>None\<close> is a command that never ends.
\<close>

text \<open>The process, the network and the remote.\<close>

record ('b, 'n, 'g) machine =
  ma_process :: "'b process"
  ma_net :: 'n
  ma_gh :: 'g

type_synonym ('b, 'n, 'g, 'a) machine_act = "(('b, 'n, 'g) machine, lsbx_error, 'a) comp"

definition on_process :: "('b, 'a) cli_act \<Rightarrow> ('b, 'n, 'g, 'a) machine_act" where
  "on_process m s = (case m (ma_process s) of (r, p) \<Rightarrow> (r, s\<lparr>ma_process := p\<rparr>))"

definition on_network :: "('n, lsbx_error, 'a) comp \<Rightarrow> ('b, 'n, 'g, 'a) machine_act" where
  "on_network m s = (case m (ma_net s) of (r, n) \<Rightarrow> (r, s\<lparr>ma_net := n\<rparr>))"

subsection \<open>The servers\<close>

datatype listener_kind = Merged | GatewayOnly | StreamOnly

record 'b serving =
  sg_ops :: "'b ops"
  sg_config :: gateway_config
  sg_reap_ttl :: nat
  sg_reap_interval :: nat
  sg_listeners :: "(listener_kind \<times> (ip_addr \<times> nat)) list"

text \<open>
  \<open>sv_serve\<close> is what becomes of the listeners: how each one's server ended, if it does. \<open>sv_round\<close> is the
  rounding of 64-bit floats.
\<close>

record ('b, 'n, 'g) serve_lib =
  sv_net :: "'n net_lib"
  sv_parse_ip :: "string \<Rightarrow> string + ip_addr"
  sv_round :: "rat \<Rightarrow> rat"
  sv_serve :: "'b serving \<Rightarrow> ('b, 'n, 'g) machine \<Rightarrow> ((string + unit) list \<times> ('b, 'n, 'g) machine) option"

definition default_serve_port :: nat where "default_serve_port = 8080"
definition min_reap_loop_interval :: nat where "min_reap_loop_interval = secs 30"
definition default_serve_reap_ttl :: nat where "default_serve_reap_ttl = 0"

text \<open>A quarter of the time, in the arithmetic of floats, but no less than the floor.\<close>

definition reap_loop_interval :: "(rat \<Rightarrow> rat) \<Rightarrow> nat \<Rightarrow> nat" where
  "reap_loop_interval fl ttl = max (nat \<lfloor>fl (secs_f64 fl ttl / 4) * 1000000000\<rfloor>) min_reap_loop_interval"

text \<open>A pass of the background task; an error is only logged.\<close>

definition reap_pass :: "'b ops \<Rightarrow> nat \<Rightarrow> 'b ops_world \<Rightarrow> 'b ops_world" where
  "reap_pass op ttl s = snd (ops_reap op ttl False s)"

record serve_settings =
  se_host :: string
  se_ip :: ip_addr
  se_port :: nat
  se_reap_ttl :: nat
  se_config :: gateway_config

definition serve_settings_of :: "(string \<Rightarrow> string + ip_addr) \<Rightarrow> env \<Rightarrow> serve_args \<Rightarrow> lsbx_error + serve_settings" where
  "serve_settings_of parse_ip ev a =
     (let host = unwrap_or ''127.0.0.1'' (sa_host a); n = unwrap_or 8 (sa_max_sandboxes a)
      in case parse_ip host of
           Inl e \<Rightarrow> Inl (Usage (''invalid --host value '' @ quoted host @ '': '' @ e))
         | Inr ip \<Rightarrow>
             if n = 0 then Inl (Usage ''--max-sandboxes must be greater than zero'')
             else bindS (duration_or default_serve_reap_ttl (sa_reap_ttl a)) (\<lambda>ttl.
               Inr \<lparr>se_host = host, se_ip = ip, se_port = unwrap_or default_serve_port (sa_port a), se_reap_ttl = ttl,
                    se_config = \<lparr>gw_token = or_else (sa_token a) (first_set ev [''LSBX_GATEWAY_TOKEN'', ''LUFSS_GATEWAY_TOKEN'']),
                      gw_allow_local_files = False, gw_insecure = sa_insecure a, gw_max_sandboxes = n,
                      gw_rpm = 120, gw_burst = 20\<rparr>\<rparr>))"

definition dual_listener :: "serve_args \<Rightarrow> nat \<Rightarrow> nat option" where
  "dual_listener a port = (case sa_stream_port a of Some sp \<Rightarrow> if sp \<noteq> port then Some sp else None | None \<Rightarrow> None)"

definition announce :: "serve_args \<Rightarrow> string \<Rightarrow> ('b, 'n, 'g, unit) machine_act" where
  "announce a t = (if sa_daemon a then retE () else on_process (println t))"

definition serve_merged ::
  "('b, 'n, 'g) serve_lib \<Rightarrow> serve_args \<Rightarrow> serve_settings \<Rightarrow>
   ('b, 'n, 'g, (listener_kind \<times> (ip_addr \<times> nat)) list) machine_act" where
  "serve_merged sv a st =
     bindE (on_network (run_server (sv_net sv) (se_config st) (se_ip st, se_port st))) (\<lambda>bound.
     bindE (announce a (''lsbx serve: listening on '' @ nl_addr_text (sv_net sv) bound @ '' (gateway + stream, merged)'')) (\<lambda>_.
     retE [(Merged, bound)]))"

definition bind_plain :: "'n net_lib \<Rightarrow> string \<Rightarrow> ip_addr \<times> nat \<Rightarrow> ('b, 'n, 'g, unit) machine_act" where
  "bind_plain nl what addr =
     on_network (mapErr (\<lambda>e. ContractViolated (''failed to bind '' @ what @ '' listener on '' @ nl_addr_text nl addr @ '': '' @ e))
       (nl_bind nl addr))"

definition serve_split ::
  "('b, 'n, 'g) serve_lib \<Rightarrow> serve_args \<Rightarrow> serve_settings \<Rightarrow> nat \<Rightarrow>
   ('b, 'n, 'g, (listener_kind \<times> (ip_addr \<times> nat)) list) machine_act" where
  "serve_split sv a st stream_port =
     (let nl = sv_net sv; ga = (se_ip st, se_port st); sa = (se_ip st, stream_port)
      in bindE (bind_plain nl ''gateway'' ga) (\<lambda>_.
         bindE (bind_plain nl ''stream'' sa) (\<lambda>_.
         bindE (announce a (''lsbx serve: listening on '' @ nl_addr_text nl ga @ '' (gateway) and '' @ nl_addr_text nl sa @ '' (stream)'')) (\<lambda>_.
         retE [(GatewayOnly, ga), (StreamOnly, sa)]))))"

text \<open>Everything up to the moment the servers run.\<close>

definition serve_start ::
  "'b cli_lib \<Rightarrow> ('b, 'n, 'g) serve_lib \<Rightarrow> cli \<Rightarrow> serve_args \<Rightarrow> ('b, 'n, 'g, 'b serving) machine_act" where
  "serve_start cx sv args a =
     bindE (liftE (serve_settings_of (sv_parse_ip sv) (cx_env cx) a)) (\<lambda>st.
     bindE (on_process (build_deps cx args None)) (\<lambda>op.
     bindE (announce a (''lsbx serve: starting on '' @ se_host st @ '':'' @ show_nat (se_port st))) (\<lambda>_.
     bindE (case dual_listener a (se_port st) of None \<Rightarrow> serve_merged sv a st | Some sp \<Rightarrow> serve_split sv a st sp) (\<lambda>ls.
     retE \<lparr>sg_ops = op, sg_config = se_config st, sg_reap_ttl = se_reap_ttl st,
           sg_reap_interval = reap_loop_interval (sv_round sv) (se_reap_ttl st), sg_listeners = ls\<rparr>))))"

text \<open>The first error of the servers that ended, named after the first or the second listener.\<close>

definition serve_ended :: "(string + unit) list \<Rightarrow> lsbx_error + int" where
  "serve_ended rs =
     (case rs of
        Inl e # _ \<Rightarrow> Inl (ContractViolated (''gateway server error: '' @ e))
      | Inr _ # Inl e # _ \<Rightarrow> Inl (ContractViolated (''stream server error: '' @ e))
      | _ \<Rightarrow> Inr 0)"

definition dispatch_serve ::
  "'b cli_lib \<Rightarrow> ('b, 'n, 'g) serve_lib \<Rightarrow> cli \<Rightarrow> serve_args \<Rightarrow> ('b, 'n, 'g) machine \<Rightarrow>
   ((lsbx_error + int) \<times> ('b, 'n, 'g) machine) option" where
  "dispatch_serve cx sv args a s =
     (case serve_start cx sv args a s of
        (Inl e, s1) \<Rightarrow> Some (Inl e, s1)
      | (Inr sg, s1) \<Rightarrow> map_option (\<lambda>(rs, s2). (serve_ended rs, s2)) (sv_serve sv sg s1))"

text \<open>What a listener answers.\<close>

definition listener_answer ::
  "'b gateway_env \<Rightarrow> listener_kind \<Rightarrow> http_request \<Rightarrow> 'b gateway \<Rightarrow> http_response option \<times> 'b gateway" where
  "listener_answer env k rq g =
     (case k of
        Merged \<Rightarrow> serve_request env rq g
      | GatewayOnly \<Rightarrow> build_router_inner env True rq g
      | StreamOnly \<Rightarrow>
          (case stream_route_of (hq_path rq) of
             None \<Rightarrow> (Some not_found_response, g)
           | Some r \<Rightarrow>
               (case on_ops (stream_handle (gv_lib env) (gv_addr env) (gv_ops env) rq r) g of (resp, g') \<Rightarrow> (Some resp, g'))))"

subsection \<open>The server of tools\<close>

text \<open>A session: whether it starts, the calls of the client, and how it ends.\<close>

record mcp_session =
  ms_start :: "string + unit"
  ms_calls :: "(string \<times> (string \<times> json) list) list"
  ms_end :: "string + unit"

definition run_stdio_server :: "'b mcp_server \<Rightarrow> mcp_session \<Rightarrow> ('b, unit) ops_act" where
  "run_stdio_server mc ms s =
     (case ms_start ms of
        Inl e \<Rightarrow> (Inl (ContractViolated (''failed to start stdio MCP server: '' @ e)), s)
      | Inr _ \<Rightarrow>
          (case ms_end ms of
             Inl e \<Rightarrow> Inl (Interrupted (''stdio MCP server terminated unexpectedly: '' @ e))
           | Inr _ \<Rightarrow> Inr (),
           fold (\<lambda>(n, fs) s. snd (call_tool mc n fs s)) (ms_calls ms) s))"

definition dispatch_mcp :: "'b cli_lib \<Rightarrow> cli \<Rightarrow> mcp_session \<Rightarrow> ('b, int) cli_act" where
  "dispatch_mcp cx args ms =
     bindE (build_deps cx args None) (\<lambda>op.
     bindE (via_ops (run_stdio_server \<lparr>mc_ops = op, mc_sha = cx_sha cx\<rparr> ms)) (\<lambda>_. retE 0))"

subsection \<open>The broker\<close>

text \<open>\<open>gh_client_error\<close> is the error of building a client with a token, if there is one; the lock is the store's.\<close>

record 'g gh_lib =
  gh_transport :: "'g transport"
  gh_auth :: auth_lib
  gh_client_error :: "string \<Rightarrow> string option"
  gh_lock :: "lsbx_error + unit"

definition from_app_auth :: "'g gh_lib \<Rightarrow> app_config \<Rightarrow> string \<Rightarrow> ('b, 'n, 'g, backing) machine_act" where
  "from_app_auth gl cfg ow s =
     (case installation_token (gh_transport gl) (gh_auth gl) cfg ow
             (auth_new cfg (as_secs (w_now (ow_world (pr_ops (ma_process s))))) (ma_gh s)) of
        (r, au) \<Rightarrow>
          (case r of
             Inl e \<Rightarrow> Inl e
           | Inr token \<Rightarrow>
               (case gh_client_error gl token of
                  Some t \<Rightarrow> Inl (AuthFailed (''failed to build installation-token client: '' @ t))
                | None \<Rightarrow> Inr Installation),
           s\<lparr>ma_gh := as_gh au\<rparr>))"

definition parse_id :: "string \<Rightarrow> string \<Rightarrow> lsbx_error + nat" where
  "parse_id var t =
     (case parse_u64 t of
        None \<Rightarrow> Inl (Usage (var @ '' value '' @ quoted t @ '' is not a valid u64''))
      | Some n \<Rightarrow> Inr n)"

definition read_app_key :: "'b cli_lib \<Rightarrow> string \<Rightarrow> ('b, 'n, 'g, string) machine_act" where
  "read_app_key cx p =
     on_process (via_ops (in_world (on_fs
       (bindE (mapErr (\<lambda>e. BackendUnavailable (''failed to read LSBX_GITHUB_APP_PRIVATE_KEY_PATH file '' @ quoted p
                 @ '': '' @ io_text e)) (read_file (fst (path_pair p)) (snd (path_pair p)))) (\<lambda>c.
        retE (text_of (jl_show (cx_json cx)) c))))))"

definition app_owner :: "env \<Rightarrow> lsbx_error + string" where
  "app_owner ev =
     (case first_set ev [''LSBX_GITHUB_APP_OWNER'', ''GITHUB_OWNER''] of
        Some t \<Rightarrow> Inr t
      | None \<Rightarrow>
          Inl (Usage (''LSBX_GITHUB_APP_OWNER is required when LSBX_GITHUB_APP_ID and ''
            @ ''LSBX_GITHUB_APP_PRIVATE_KEY_PATH are set (the installation-token exchange is scoped per-owner)'')))"

definition build_github_client :: "'b cli_lib \<Rightarrow> 'g gh_lib \<Rightarrow> ('b, 'n, 'g, backing) machine_act" where
  "build_github_client cx gl =
     (let ev = cx_env cx
      in case (first_set ev [''LSBX_GITHUB_APP_ID'', ''GITHUB_APP_ID''],
               first_set ev [''LSBX_GITHUB_APP_PRIVATE_KEY_PATH'', ''GITHUB_APP_KEY'']) of
           (Some i, Some p) \<Rightarrow>
             bindE (liftE (parse_id ''LSBX_GITHUB_APP_ID'' i)) (\<lambda>app_id.
             bindE (read_app_key cx p) (\<lambda>pem.
             bindE (liftE (case first_set ev [''LSBX_GITHUB_APP_INSTALLATION_ID'', ''GITHUB_INSTALLATION_ID''] of
                      None \<Rightarrow> Inr None
                    | Some t \<Rightarrow> bindS (parse_id ''LSBX_GITHUB_APP_INSTALLATION_ID'' t) (\<lambda>n. Inr (Some n)))) (\<lambda>inst.
             bindE (liftE (app_owner ev)) (\<lambda>ow.
             from_app_auth gl \<lparr>ac_app_id = app_id, ac_private_key_pem = pem, ac_installation_id = inst\<rparr> ow))))
         | _ \<Rightarrow> retE GhCli)"

definition broker_backend_name :: "backend_choice \<Rightarrow> string" where
  "broker_backend_name b = (case b of ChooseLibvirt \<Rightarrow> ''libvirt'' | ChooseDemo \<Rightarrow> ''demo'' | _ \<Rightarrow> ''exedev'')"

text \<open>Without the number of an App there are no runners; any other failure stops the command.\<close>

definition runner_of :: "'b cli_lib \<Rightarrow> backend_choice \<Rightarrow> string \<Rightarrow> ('b, 'n, 'g, runner_config option) machine_act" where
  "runner_of cx b ql s =
     (case on_process (via_ops (in_world (on_fs (runner_config_from_env (jl_show (cx_json cx)) (cx_env cx)
             (broker_backend_name b) ql)))) s of
        (Inr c, s1) \<Rightarrow> (Inr (Some c), s1)
      | (Inl e, s1) \<Rightarrow> (if e = AuthFailed ''GitHub App id is not configured'' then Inr None else Inl e, s1))"

definition default_ci_broker_lease :: nat where "default_ci_broker_lease = secs 3600"

definition ci_broker_start ::
  "'b cli_lib \<Rightarrow> 'g gh_lib \<Rightarrow> cli \<Rightarrow> backend_choice \<Rightarrow> string option \<Rightarrow>
   ('b, 'n, 'g, 'b ops \<times> 'g reconciler \<times> broker_config) machine_act" where
  "ci_broker_start cx gl args b label =
     bindE (on_process (build_deps cx args (Some b))) (\<lambda>op.
     let ql = unwrap_or fallback_queue_label (or_else label (cx_env cx ''LSBX_QUEUE_LABEL''))
     in bindE (build_github_client cx gl) (\<lambda>backing.
        bindE (runner_of cx b ql) (\<lambda>runner.
        retE (op, \<lparr>rc_lib = cx_lib cx, rc_job_dir = op_state_dir op, rc_transport = gh_transport gl, rc_backing = backing\<rparr>,
              \<lparr>bg_poll = from_queue_label_and_env ql (cx_env cx), bg_lease = default_ci_broker_lease, bg_runner = runner\<rparr>))))"

definition dispatch_ci_broker ::
  "'b cli_lib \<Rightarrow> 'g gh_lib \<Rightarrow> cli \<Rightarrow> backend_choice \<Rightarrow> string option \<Rightarrow> ('b, 'n, 'g) machine \<Rightarrow>
   ((lsbx_error + int) \<times> ('b, 'n, 'g) machine) option" where
  "dispatch_ci_broker cx gl args b label s =
     (case ci_broker_start cx gl args b label s of
        (Inl e, s1) \<Rightarrow> Some (Inl e, s1)
      | (Inr (op, rc, cfg), s1) \<Rightarrow>
          map_option (\<lambda>(r, d).
            (bindS r (\<lambda>_. Inr 0),
             s1\<lparr>ma_process := (ma_process s1)\<lparr>pr_ops := br_ops (dr_sys d)\<rparr>, ma_gh := br_gh (dr_sys d)\<rparr>))
            (run_broker rc op (gh_lock gl) cfg None \<lparr>br_ops = pr_ops (ma_process s1), br_gh = ma_gh s1\<rparr>))"

subsection \<open>All commands\<close>

definition ends :: "('b, int) cli_act \<Rightarrow> ('b, 'n, 'g) machine \<Rightarrow> ((lsbx_error + int) \<times> ('b, 'n, 'g) machine) option" where
  "ends m s = Some (on_process m s)"

definition dispatch_command ::
  "'b cli_lib \<Rightarrow> ('b, 'n, 'g) serve_lib \<Rightarrow> 'g gh_lib \<Rightarrow> mcp_session \<Rightarrow> 'b ops \<Rightarrow> cli \<Rightarrow> ('b, 'n, 'g) machine \<Rightarrow>
   ((lsbx_error + int) \<times> ('b, 'n, 'g) machine) option" where
  "dispatch_command cx sv gl ms op args =
     (let js = cl_json args
      in case cl_command args of
           None \<Rightarrow> ends (call_and_print cx js status_format (ops_status op))
         | Some c \<Rightarrow>
             (case c of
                Up a \<Rightarrow> ends (cmd_up cx js op a)
              | Down ids every \<Rightarrow> ends (cmd_down cx js op ids every)
              | List profile expired \<Rightarrow> ends (cmd_list cx js op profile expired)
              | Exec i timeout cmd \<Rightarrow> ends (cmd_exec cx js op i timeout cmd)
              | Put i src dst \<Rightarrow> ends (call_and_print cx js put_get_format (bindE (ops_put op i src dst) (\<lambda>_. retE i)))
              | Get i src dst \<Rightarrow> ends (call_and_print cx js put_get_format (bindE (ops_get op i src dst) (\<lambda>_. retE i)))
              | Renew i d \<Rightarrow> ends (cmd_renew cx js op i d)
              | Console i \<Rightarrow> ends (call_and_print cx js console_url_format (ops_console_url op i))
              | Info i \<Rightarrow> ends (call_and_print cx js public_format (ops_info op i))
              | Status \<Rightarrow> ends (call_and_print cx js status_format (ops_status op))
              | Profiles full \<Rightarrow>
                  ends (call_and_print cx js profiles_format
                    (bindE (config_show op) (\<lambda>v. retE (keys_of ''profiles'' v, full))))
              | Images \<Rightarrow>
                  ends (call_and_print cx js images_format (bindE (config_show op) (\<lambda>v. retE (keys_of ''images'' v))))
              | Reap ttl dry \<Rightarrow> ends (cmd_reap cx js op ttl dry)
              | Serve a \<Rightarrow> dispatch_serve cx sv args a
              | Bootstrap a \<Rightarrow> ends (cmd_bootstrap cx js a)
              | Golden a \<Rightarrow> ends (dispatch_golden cx js op a)
              | Config a \<Rightarrow> ends (cmd_config cx js op a)
              | Logs since limit \<Rightarrow>
                  ends (call_and_print cx js log_lines_format (logs_query since (unwrap_or 100 limit)))
              | Mcp \<Rightarrow> ends (dispatch_mcp cx args ms)
              | CiBrokerRun b label \<Rightarrow> dispatch_ci_broker cx gl args b label))"

text \<open>The exit code of a run; an error that reaches this level is printed.\<close>

definition finish_run :: "'b cli_lib \<Rightarrow> bool \<Rightarrow> (lsbx_error + int) \<times> ('b, 'n, 'g) machine \<Rightarrow> int \<times> ('b, 'n, 'g) machine" where
  "finish_run cx js x =
     (case x of
        (Inr code, s) \<Rightarrow> (code, s)
      | (Inl e, s) \<Rightarrow> (error_code e, snd (on_process (print_error cx js e) s)))"

definition run_with_args ::
  "'b cli_lib \<Rightarrow> ('b, 'n, 'g) serve_lib \<Rightarrow> 'g gh_lib \<Rightarrow> mcp_session \<Rightarrow> cli \<Rightarrow> ('b, 'n, 'g) machine \<Rightarrow>
   (int \<times> ('b, 'n, 'g) machine) option" where
  "run_with_args cx sv gl ms args s =
     map_option (finish_run cx (cl_json args))
       (case on_process (build_deps cx args None) s of
          (Inl e, s1) \<Rightarrow> Some (Inl e, s1)
        | (Inr op, s1) \<Rightarrow> dispatch_command cx sv gl ms op args s1)"

subsection \<open>What is bound\<close>

lemma on_process_iff: "on_process m s = (r, s') \<longleftrightarrow> (\<exists>p. m (ma_process s) = (r, p) \<and> s' = s\<lparr>ma_process := p\<rparr>)"
  by (auto simp: on_process_def split: prod.splits)

lemma on_network_iff: "on_network m s = (r, s') \<longleftrightarrow> (\<exists>n. m (ma_net s) = (r, n) \<and> s' = s\<lparr>ma_net := n\<rparr>)"
  by (auto simp: on_network_def split: prod.splits)

lemma run_server_closed:
  "run_server nl cfg addr n = (Inr a, n') \<Longrightarrow> is_loopback (fst addr) \<or> gw_token cfg \<noteq> None \<and> gw_insecure cfg"
  by (auto simp: run_server_def bindE_Inr_iff enforce_fail_closed_bind_def split: if_splits)

lemma announce_Inr: "\<exists>s'. announce a t s = (Inr (), s') \<and> ma_net s' = ma_net s \<and> ma_gh s' = ma_gh s"
  by (simp add: announce_def on_process_def println_def)

lemma serve_start_iff:
  "serve_start cx sv args a s = (Inr sg, s') \<longleftrightarrow>
   (\<exists>st op s1 s2 ls. serve_settings_of (sv_parse_ip sv) (cx_env cx) a = Inr st \<and>
      on_process (build_deps cx args None) s = (Inr op, s1) \<and>
      announce a (''lsbx serve: starting on '' @ se_host st @ '':'' @ show_nat (se_port st)) s1 = (Inr (), s2) \<and>
      (case dual_listener a (se_port st) of None \<Rightarrow> serve_merged sv a st | Some sp \<Rightarrow> serve_split sv a st sp) s2 = (Inr ls, s') \<and>
      sg = \<lparr>sg_ops = op, sg_config = se_config st, sg_reap_ttl = se_reap_ttl st,
            sg_reap_interval = reap_loop_interval (sv_round sv) (se_reap_ttl st), sg_listeners = ls\<rparr>)"
  unfolding serve_start_def bindE_Inr_iff liftE_run retE_run by (simp add: conj_ac) blast

lemma serve_merged_closed:
  assumes "serve_merged sv a st s = (Inr ls, s')"
  shows "is_loopback (se_ip st) \<or> gw_token (se_config st) \<noteq> None \<and> gw_insecure (se_config st)"
  using assms run_server_closed [of "sv_net sv" "se_config st" "(se_ip st, se_port st)"]
  by (auto simp: serve_merged_def bindE_Inr_iff on_network_iff)

lemma merged_only: "(Merged, x) \<in> set ls \<Longrightarrow> serve_split sv a st sp s = (Inr ls, s') \<Longrightarrow> False"
  by (auto simp: serve_split_def Let_def bindE_Inr_iff)

lemma serve_closed:
  assumes "serve_start cx sv args a s = (Inr sg, s')" and "(Merged, addr) \<in> set (sg_listeners sg)"
    and "sv_parse_ip sv (unwrap_or ''127.0.0.1'' (sa_host a)) = Inr ip" and "\<not> is_loopback ip"
  shows "gw_token (sg_config sg) \<noteq> None \<and> gw_insecure (sg_config sg)"
proof -
  obtain st s2 where st: "serve_settings_of (sv_parse_ip sv) (cx_env cx) a = Inr st"
    and m: "(case dual_listener a (se_port st) of None \<Rightarrow> serve_merged sv a st | Some sp \<Rightarrow> serve_split sv a st sp) s2
      = (Inr (sg_listeners sg), s')" and c: "sg_config sg = se_config st"
    using assms(1) unfolding serve_start_iff by auto
  have "se_ip st = ip" using st assms(3) by (auto simp: serve_settings_of_def Let_def split: if_splits elim!: bindS_InrE)
  moreover have "dual_listener a (se_port st) = None"
    using m merged_only [OF assms(2)] by (cases "dual_listener a (se_port st)") auto
  ultimately show ?thesis using serve_merged_closed [of sv a st s2] m c assms(4) by simp
qed

lemma bind_plain_Inr:
  assumes "\<And>x n. \<exists>n'. nl_bind nl x n = (Inr (), n')"
  shows "\<exists>s'. bind_plain nl w x s = (Inr (), s')"
proof -
  obtain n' where "nl_bind nl x (ma_net s) = (Inr (), n')" using assms by blast
  then show ?thesis by (simp add: bind_plain_def on_network_def)
qed

lemma serve_split_open:
  assumes "\<And>x n. \<exists>n'. nl_bind (sv_net sv) x n = (Inr (), n')"
  shows "\<exists>s'. serve_split sv a st sp s = (Inr [(GatewayOnly, (se_ip st, se_port st)), (StreamOnly, (se_ip st, sp))], s')"
proof -
  obtain s1 where 1: "bind_plain (sv_net sv) ''gateway'' (se_ip st, se_port st) s = (Inr (), s1)"
    using bind_plain_Inr [OF assms] by blast
  obtain s2 where 2: "bind_plain (sv_net sv) ''stream'' (se_ip st, sp) s1 = (Inr (), s2)"
    using bind_plain_Inr [OF assms] by blast
  obtain s3 where 3: "announce a (''lsbx serve: listening on '' @ nl_addr_text (sv_net sv) (se_ip st, se_port st)
      @ '' (gateway) and '' @ nl_addr_text (sv_net sv) (se_ip st, sp) @ '' (stream)'') s2 = (Inr (), s3)"
    using announce_Inr by blast
  show ?thesis unfolding serve_split_def Let_def by (simp only: bindE_run 1 2 3 sum.case fst_conv snd_conv retE_run) blast
qed

lemma split_start_open:
  assumes "serve_settings_of (sv_parse_ip sv) (cx_env cx) a = Inr st" and "dual_listener a (se_port st) = Some sp"
    and "on_process (build_deps cx args None) s = (Inr op, s1)" and "\<And>x n. \<exists>n'. nl_bind (sv_net sv) x n = (Inr (), n')"
  shows "\<exists>sg s'. serve_start cx sv args a s = (Inr sg, s') \<and> (StreamOnly, (se_ip st, sp)) \<in> set (sg_listeners sg)"
proof -
  obtain s2 where 2: "announce a (''lsbx serve: starting on '' @ se_host st @ '':'' @ show_nat (se_port st)) s1 = (Inr (), s2)"
    using announce_Inr by blast
  obtain s3 where "serve_split sv a st sp s2 = (Inr [(GatewayOnly, (se_ip st, se_port st)), (StreamOnly, (se_ip st, sp))], s3)"
    using serve_split_open [OF assms(4)] by blast
  then show ?thesis unfolding serve_start_iff using assms(1-3) 2 by (intro exI conjI) auto
qed

lemma stream_ignores: "stream_handle hl ad op (rq\<lparr>hq_headers := hs\<rparr>) r = stream_handle hl ad op rq r"
  by (auto simp: fun_eq_iff stream_handle_def query_field_def split: stream_route.split)

lemma stream_only_ignores:
  "listener_answer (env\<lparr>gv_config := cfg\<rparr>) StreamOnly (rq\<lparr>hq_headers := hs\<rparr>) g = listener_answer env StreamOnly rq g"
  by (simp add: listener_answer_def stream_ignores split: option.split)

lemma reap_interval_floor: "secs 30 \<le> reap_loop_interval fl ttl"
  by (simp add: reap_loop_interval_def min_reap_loop_interval_def)

subsection \<open>Which commands end\<close>

lemma run_returns:
  assumes "\<And>a. cl_command args \<noteq> Some (Serve a)" and "\<And>b l. cl_command args \<noteq> Some (CiBrokerRun b l)"
  shows "\<exists>code s'. run_with_args cx sv gl ms args s = Some (code, s')"
proof -
  have "dispatch_command cx sv gl ms op args s1 \<noteq> None" for op s1
    using assms by (auto simp: dispatch_command_def ends_def Let_def split: option.split command.split)
  then have "run_with_args cx sv gl ms args s \<noteq> None"
    by (auto simp: run_with_args_def split: prod.split sum.split)
  then show ?thesis by (metis not_None_eq surj_pair)
qed

end
