(* ===== verification/Lsbx_Tui.thy ===== *)
theory Lsbx_Tui
  imports Lsbx_Cli
begin

text \<open>
  The terminal interface (\<open>lsbx-tui\<close>): the dashboard (\<open>dashboard.rs\<close>) and the two wizards (\<open>wizard.rs\<close>) as
  state machines over key presses, what they draw, and the state of the terminal around them (\<open>lib.rs\<close>).
  The terminal and its events are \<open>crossterm\<close>'s, the geometry of the widgets \<open>ratatui\<close>'s: a frame is the
  widgets that are put on it, each with its place, title and lines. The events of a run are a list; its end is
  the end of the stream.
\<close>

subsection \<open>The terminal\<close>

text \<open>
  Which of its operations the terminal refuses, and with what text; the last two say whether the
  terminal can be put back.
\<close>

record term_lib =
  te_raw :: "string option"
  te_alternate :: "string option"
  te_terminal :: "string option"
  te_draw :: "nat \<Rightarrow> string option"
  te_leave_raw :: bool
  te_leave_alternate :: bool

record terminal =
  tm_raw :: bool
  tm_alternate :: bool
  tm_active :: bool

definition refused :: "string \<Rightarrow> string option \<Rightarrow> (terminal \<Rightarrow> terminal) \<Rightarrow> (terminal, lsbx_error, unit) comp" where
  "refused what e f t =
     (case e of Some m \<Rightarrow> (Inl (ContractViolated (''failed to '' @ what @ '': '' @ m)), t) | None \<Rightarrow> (Inr (), f t))"

text \<open>The flag of the panic hook is cleared again when the guard could not be made.\<close>

definition guard_enter :: "term_lib \<Rightarrow> (terminal, lsbx_error, unit) comp" where
  "guard_enter lib t =
     (case bindE (refused ''enable raw mode'' (te_raw lib) (tm_raw_update (\<lambda>_. True))) (\<lambda>_.
           bindE (refused ''enter alternate screen'' (te_alternate lib) (tm_alternate_update (\<lambda>_. True))) (\<lambda>_.
           refused ''construct ratatui terminal'' (te_terminal lib) (\<lambda>t. t))) (t\<lparr>tm_active := True\<rparr>) of
        (Inl e, t') \<Rightarrow> (Inl e, t'\<lparr>tm_active := False\<rparr>)
      | (Inr _, t') \<Rightarrow> (Inr (), t'))"

text \<open>Both calls are tried, whatever they say.\<close>

definition restore :: "term_lib \<Rightarrow> terminal \<Rightarrow> terminal" where
  "restore lib t =
     t\<lparr>tm_raw := (tm_raw t \<and> \<not> te_leave_raw lib), tm_alternate := (tm_alternate t \<and> \<not> te_leave_alternate lib)\<rparr>"

definition guard_drop :: "term_lib \<Rightarrow> terminal \<Rightarrow> terminal" where
  "guard_drop lib t = (restore lib t)\<lparr>tm_active := False\<rparr>"

text \<open>The hook that runs when the program panics.\<close>

definition panic_hook :: "term_lib \<Rightarrow> terminal \<Rightarrow> terminal" where
  "panic_hook lib t = (if tm_active t then restore lib t else t)"

definition draw_failed :: "string \<Rightarrow> lsbx_error" where
  "draw_failed e = ContractViolated (''failed to draw frame: '' @ e)"

definition stream_failed :: "string \<Rightarrow> lsbx_error" where
  "stream_failed e = ContractViolated (''terminal event stream error: '' @ e)"

datatype key = KEsc | KChar char | KLeft | KRight | KUp | KDown | KEnter | KBackspace | KOtherKey

datatype event = EvKey key | EvOther | EvError string | EvTick

subsection \<open>Frames\<close>

datatype place = Chunk nat | Popup nat nat

record widget =
  wg_place :: place
  wg_title :: "string option"
  wg_lines :: "(string \<times> bool) list"

text \<open>A para has no highlighted line.\<close>

definition para :: "place \<Rightarrow> string option \<Rightarrow> string list \<Rightarrow> widget" where
  "para p title ls = \<lparr>wg_place = p, wg_title = title, wg_lines = map (\<lambda>l. (l, False)) ls\<rparr>"

definition highlighted :: "nat \<Rightarrow> string list \<Rightarrow> (string \<times> bool) list" where
  "highlighted k ls = map (\<lambda>(i, l). (l, i = k)) (enumerate 0 ls)"

subsection \<open>The dashboard\<close>

definition refresh_interval :: nat where
  "refresh_interval = secs 1"

record dashboard =
  db_sandboxes :: "public_sandbox list"
  db_selected :: nat
  db_confirm :: "string option"
  db_quit :: bool
  db_status :: "string option"
  db_info :: "public_sandbox option"

definition dashboard_new :: dashboard where
  "dashboard_new =
     \<lparr>db_sandboxes = [], db_selected = 0, db_confirm = None, db_quit = False, db_status = None, db_info = None\<rparr>"

definition selected_id :: "dashboard \<Rightarrow> string option" where
  "selected_id d = (if db_selected d < length (db_sandboxes d) then Some (ps_id (db_sandboxes d ! db_selected d)) else None)"

definition move_selection :: "int \<Rightarrow> dashboard \<Rightarrow> dashboard" where
  "move_selection delta d =
     (if db_sandboxes d = [] then d\<lparr>db_selected := 0\<rparr>
      else d\<lparr>db_selected := nat ((int (db_selected d) + delta) mod int (length (db_sandboxes d)))\<rparr>)"

type_synonym 'b dash = "dashboard \<times> 'b ops_world"

definition refresh :: "'b ops \<Rightarrow> 'b dash \<Rightarrow> 'b dash" where
  "refresh op ds =
     (case ds of (d, s) \<Rightarrow>
       (case ops_list op s of
          (Inr ps, s') \<Rightarrow>
            (d\<lparr>db_sandboxes := ps,
               db_selected := (if length ps \<le> db_selected d then length ps - 1 else db_selected d)\<rparr>, s')
        | (Inl e, s') \<Rightarrow> (d\<lparr>db_status := Some (''list() failed: '' @ err_display e)\<rparr>, s')))"

definition confirm_key :: "'b ops \<Rightarrow> string \<Rightarrow> key \<Rightarrow> 'b dash \<Rightarrow> 'b dash" where
  "confirm_key op i k ds =
     (case ds of (d, s) \<Rightarrow>
        if k \<in> {KChar (CHR ''y''), KChar (CHR ''Y'')}
        then (case ops_destroy op i s of
                (Inr _, s') \<Rightarrow> refresh op (d\<lparr>db_confirm := None, db_status := Some (''destroyed '' @ i)\<rparr>, s')
              | (Inl e, s') \<Rightarrow> (d\<lparr>db_confirm := None, db_status := Some (''destroy failed: '' @ err_display e)\<rparr>, s'))
        else if k \<in> {KChar (CHR ''n''), KChar (CHR ''N''), KEsc}
        then (d\<lparr>db_confirm := None, db_status := Some ''destroy cancelled''\<rparr>, s)
        else (d, s))"

definition show_info :: "'b ops \<Rightarrow> 'b dash \<Rightarrow> 'b dash" where
  "show_info op ds =
     (case ds of (d, s) \<Rightarrow>
       (case selected_id d of
          None \<Rightarrow> (d, s)
        | Some i \<Rightarrow>
            (case ops_info op i s of
               (Inr p, s') \<Rightarrow> (d\<lparr>db_info := Some p\<rparr>, s')
             | (Inl e, s') \<Rightarrow> (d\<lparr>db_status := Some (''info('' @ i @ '') failed: '' @ err_display e)\<rparr>, s'))))"

definition list_key :: "'b ops \<Rightarrow> key \<Rightarrow> 'b dash \<Rightarrow> 'b dash" where
  "list_key op k ds =
     (case ds of (d, s) \<Rightarrow>
        if k \<in> {KChar (CHR ''q''), KChar (CHR ''c'')} then (d\<lparr>db_quit := True\<rparr>, s)
        else if k \<in> {KUp, KChar (CHR ''k'')} then (move_selection (- 1) d, s)
        else if k \<in> {KDown, KChar (CHR ''j'')} then (move_selection 1 d, s)
        else if k = KChar (CHR ''d'')
        then (case selected_id d of None \<Rightarrow> (d, s) | Some i \<Rightarrow> (d\<lparr>db_confirm := Some i\<rparr>, s))
        else if k \<in> {KEnter, KChar (CHR ''i'')} then show_info op (d, s)
        else if k = KChar (CHR ''r'') then refresh op (d, s)
        else (d, s))"

definition handle_key :: "'b ops \<Rightarrow> key \<Rightarrow> 'b dash \<Rightarrow> 'b dash" where
  "handle_key op k ds =
     (if db_info (fst ds) \<noteq> None then ((fst ds)\<lparr>db_info := None\<rparr>, snd ds)
      else case db_confirm (fst ds) of Some i \<Rightarrow> confirm_key op i k ds | None \<Rightarrow> list_key op k ds)"

text \<open>The loop: a frame is drawn before each event. A run keeps the number of frames.\<close>

fun dash_loop :: "term_lib \<Rightarrow> 'b ops \<Rightarrow> event list \<Rightarrow> nat \<Rightarrow> 'b dash \<Rightarrow> (lsbx_error + unit) \<times> 'b dash" where
  "dash_loop lib op [] n ds = (case te_draw lib n of Some e \<Rightarrow> Inl (draw_failed e) | None \<Rightarrow> Inr (), ds)"
| "dash_loop lib op (ev # evs) n ds =
     (case te_draw lib n of
        Some e \<Rightarrow> (Inl (draw_failed e), ds)
      | None \<Rightarrow>
          if db_quit (fst ds) then (Inr (), ds)
          else (case ev of
                  EvKey k \<Rightarrow> dash_loop lib op evs (Suc n) (handle_key op k ds)
                | EvOther \<Rightarrow> dash_loop lib op evs (Suc n) ds
                | EvError e \<Rightarrow> (Inl (stream_failed e), ds)
                | EvTick \<Rightarrow> dash_loop lib op evs (Suc n) (refresh op ds)))"

definition run_dashboard ::
  "term_lib \<Rightarrow> 'b ops \<Rightarrow> event list \<Rightarrow> terminal \<times> 'b ops_world \<Rightarrow> (lsbx_error + unit) \<times> (terminal \<times> 'b ops_world)" where
  "run_dashboard lib op evs ts =
     (case ts of (t, s) \<Rightarrow>
       (case guard_enter lib t of
          (Inl e, t') \<Rightarrow> (Inl e, (t', s))
        | (Inr _, t') \<Rightarrow>
            (case dash_loop lib op evs 0 (refresh op (dashboard_new, s)) of
               (r, (d, s')) \<Rightarrow> (r, (guard_drop lib t', s')))))"

definition or_dash :: "string option \<Rightarrow> string" where
  "or_dash v = unwrap_or ''-'' v"

definition sandbox_line :: "public_sandbox \<Rightarrow> string" where
  "sandbox_line p =
     pad_right 20 (ps_id p) @ '' '' @ pad_right 16 (ps_profile p) @ '' '' @ pad_right 20 (ps_host p) @ '' lease=''
     @ pad_right 24 (or_dash (ps_lease_expires_at p)) @ '' streaming='' @ ps_streaming p"

definition draw_sandbox_list :: "dashboard \<Rightarrow> widget" where
  "draw_sandbox_list d =
     \<lparr>wg_place = Chunk 1, wg_title = Some ''sandboxes (id / profile / host / lease / streaming)'',
      wg_lines = (if db_sandboxes d = [] then [(''(no sandboxes)'', False)]
                  else highlighted (db_selected d) (map sandbox_line (db_sandboxes d)))\<rparr>"

definition draw_status_bar :: "dashboard \<Rightarrow> widget" where
  "draw_status_bar d =
     para (Chunk 2) (Some ''status'')
       [unwrap_or ''j/k or up/down: navigate  enter/i: info  d: destroy  r: refresh  q: quit'' (db_status d)]"

definition draw_info_detail :: "public_sandbox \<Rightarrow> widget" where
  "draw_info_detail p =
     para (Popup 70 60) (Some (''info: '' @ ps_id p))
       [''id: '' @ ps_id p, ''name: '' @ ps_name p, ''host: '' @ ps_host p, ''profile: '' @ ps_profile p,
        ''flavor: '' @ ps_flavor p, ''streaming: '' @ ps_streaming p, ''task_id: '' @ or_dash (ps_task_id p),
        ''created_at: '' @ or_dash (ps_created_at p), ''lease_expires_at: '' @ or_dash (ps_lease_expires_at p),
        ''console_url: '' @ or_dash (ps_console_url p), ''cleanup_failed: '' @ show_bool (ps_cleanup_failed p),
        ''repository: '' @ or_dash (ps_repository p), [], ''(press any key to close)'']"

definition draw_destroy_confirm :: "string \<Rightarrow> widget" where
  "draw_destroy_confirm i =
     para (Popup 60 20) (Some ''confirm destroy'') [''Destroy sandbox '' @ quoted i @ ''? (y/n)'']"

definition draw :: "dashboard \<Rightarrow> widget list" where
  "draw d =
     [para (Chunk 0) None [''lsbx '' @ em_dash @ '' live sandbox dashboard''], draw_sandbox_list d, draw_status_bar d]
     @ (case db_info d of None \<Rightarrow> [] | Some p \<Rightarrow> [draw_info_detail p])
     @ (case db_confirm d of None \<Rightarrow> [] | Some i \<Rightarrow> [draw_destroy_confirm i])"

subsection \<open>The wizard of \<open>up\<close>\<close>

record wizard_answers =
  wa_profile :: string
  wa_cpu :: nat
  wa_memory :: string
  wa_lease :: nat

definition fallback_profile_choices :: "string list" where
  "fallback_profile_choices = [''agent-default'', ''ci-runner-default'', ''desktop-default'']"

definition cpu_choices :: "nat list" where "cpu_choices = [1, 2, 4, 8]"
definition memory_choices :: "string list" where "memory_choices = [''512M'', ''1G'', ''2G'', ''4G'', ''8G'']"
definition lease_choices_secs :: "nat list" where "lease_choices_secs = [1800, 3600, 3600 * 4, 3600 * 24]"

definition format_lease :: "nat \<Rightarrow> string" where
  "format_lease n = (if n mod 3600 = 0 then show_nat (n div 3600) @ ''h'' else show_nat (n div 60) @ ''m'')"

datatype step = SProfile | SCpu | SMemory | SLease | SConfirm

fun next_step :: "step \<Rightarrow> step" where
  "next_step SProfile = SCpu"
| "next_step SCpu = SMemory"
| "next_step SMemory = SLease"
| "next_step SLease = SConfirm"
| "next_step SConfirm = SConfirm"

fun prev_step :: "step \<Rightarrow> step" where
  "prev_step SProfile = SProfile"
| "prev_step SCpu = SProfile"
| "prev_step SMemory = SCpu"
| "prev_step SLease = SMemory"
| "prev_step SConfirm = SLease"

record up_wizard =
  uw_step :: step
  uw_profiles :: "string list"
  uw_profile_index :: nat
  uw_cpu_index :: nat
  uw_memory_index :: nat
  uw_lease_index :: nat
  uw_cancelled :: bool
  uw_confirmed :: bool

definition up_wizard_new :: "string list \<Rightarrow> up_wizard" where
  "up_wizard_new ps =
     \<lparr>uw_step = SProfile, uw_profiles = ps, uw_profile_index = 0, uw_cpu_index = 0, uw_memory_index = 2,
      uw_lease_index = 1, uw_cancelled = False, uw_confirmed = False\<rparr>"

text \<open>\<open>None\<close> is a panic on an index out of range.\<close>

definition nth_or_panic :: "'a list \<Rightarrow> nat \<Rightarrow> 'a option" where
  "nth_or_panic xs i = (if i < length xs then Some (xs ! i) else None)"

definition answers :: "up_wizard \<Rightarrow> wizard_answers option" where
  "answers w =
     Option.bind (nth_or_panic (uw_profiles w) (uw_profile_index w)) (\<lambda>p.
     Option.bind (nth_or_panic cpu_choices (uw_cpu_index w)) (\<lambda>c.
     Option.bind (nth_or_panic memory_choices (uw_memory_index w)) (\<lambda>m.
     Option.bind (nth_or_panic lease_choices_secs (uw_lease_index w)) (\<lambda>l.
       Some \<lparr>wa_profile = p, wa_cpu = c, wa_memory = m, wa_lease = secs l\<rparr>))))"

definition clamp_index :: "nat \<Rightarrow> int \<Rightarrow> nat \<Rightarrow> nat" where
  "clamp_index current delta len =
     (if len = 0 then 0 else nat (min (max (int current + delta) 0) (int len - 1)))"

definition adjust_current :: "int \<Rightarrow> up_wizard \<Rightarrow> up_wizard" where
  "adjust_current delta w =
     (case uw_step w of
        SProfile \<Rightarrow> w\<lparr>uw_profile_index := clamp_index (uw_profile_index w) delta (length (uw_profiles w))\<rparr>
      | SCpu \<Rightarrow> w\<lparr>uw_cpu_index := clamp_index (uw_cpu_index w) delta (length cpu_choices)\<rparr>
      | SMemory \<Rightarrow> w\<lparr>uw_memory_index := clamp_index (uw_memory_index w) delta (length memory_choices)\<rparr>
      | SLease \<Rightarrow> w\<lparr>uw_lease_index := clamp_index (uw_lease_index w) delta (length lease_choices_secs)\<rparr>
      | SConfirm \<Rightarrow> w)"

definition handle_up_wizard_key :: "key \<Rightarrow> up_wizard \<Rightarrow> up_wizard" where
  "handle_up_wizard_key k w =
     (if k \<in> {KEsc, KChar (CHR ''q'')} then w\<lparr>uw_cancelled := True\<rparr>
      else if k = KLeft then adjust_current (- 1) w
      else if k = KRight then adjust_current 1 w
      else if k = KUp then (if uw_step w = SProfile then adjust_current (- 1) w else w\<lparr>uw_step := prev_step (uw_step w)\<rparr>)
      else if k = KDown then (if uw_step w = SProfile then adjust_current 1 w else w\<lparr>uw_step := next_step (uw_step w)\<rparr>)
      else if k = KEnter
      then (if uw_step w = SConfirm then w\<lparr>uw_confirmed := True\<rparr> else w\<lparr>uw_step := next_step (uw_step w)\<rparr>)
      else if k = KBackspace then w\<lparr>uw_step := prev_step (uw_step w)\<rparr>
      else w)"

definition candidate_profiles :: "('b, string list) ops_act" where
  "candidate_profiles s =
     (case golden_list s of
        (Inr gs, s') \<Rightarrow> (Inr (if gs = [] then fallback_profile_choices else map gc_key gs), s')
      | (Inl _, s') \<Rightarrow> (Inr fallback_profile_choices, s'))"

definition answers_to_create_request :: "wizard_answers \<Rightarrow> create_request" where
  "answers_to_create_request a =
     \<lparr>rq_profile = wa_profile a, rq_golden = None, rq_name = None, rq_task_id = None, rq_lease = wa_lease a,
      rq_ready_timeout = secs 30, rq_verify = True, rq_cpu = None, rq_memory = None, rq_flavor = None,
      rq_streaming = None, rq_healthchecks = [], rq_os = None\<rparr>"

text \<open>
  The loop of a wizard, with its key handler and its two ends; a tick is no event of it. The texts are
  those of the wizard's name.
\<close>

fun wizard_loop ::
  "term_lib \<Rightarrow> string \<Rightarrow> (key \<Rightarrow> 'w \<Rightarrow> 'w) \<Rightarrow> ('w \<Rightarrow> bool) \<Rightarrow> ('w \<Rightarrow> bool) \<Rightarrow> event list \<Rightarrow> nat \<Rightarrow> 'w \<Rightarrow> lsbx_error + 'w" where
  "wizard_loop lib name h can con [] n w =
     (case te_draw lib n of
        Some e \<Rightarrow> Inl (draw_failed e)
      | None \<Rightarrow>
          if can w then Inl (Interrupted (name @ '' wizard cancelled by user (Esc/q)''))
          else if con w then Inr w
          else Inl (Interrupted (name @ '' wizard'' @ apostrophe @ ''s terminal event stream closed unexpectedly'')))"
| "wizard_loop lib name h can con (ev # evs) n w =
     (case te_draw lib n of
        Some e \<Rightarrow> Inl (draw_failed e)
      | None \<Rightarrow>
          if can w then Inl (Interrupted (name @ '' wizard cancelled by user (Esc/q)''))
          else if con w then Inr w
          else (case ev of
                  EvKey k \<Rightarrow> wizard_loop lib name h can con evs (Suc n) (h k w)
                | EvError e \<Rightarrow> Inl (stream_failed e)
                | _ \<Rightarrow> wizard_loop lib name h can con evs (Suc n) w))"

text \<open>The terminal is put back before the operation is called. The outer \<open>None\<close> is a panic.\<close>

definition run_up_wizard ::
  "term_lib \<Rightarrow> 'b ops \<Rightarrow> event list \<Rightarrow> terminal \<times> 'b ops_world \<Rightarrow>
   ((lsbx_error + public_sandbox) \<times> (terminal \<times> 'b ops_world)) option" where
  "run_up_wizard lib op evs ts =
     (case ts of (t, s) \<Rightarrow>
       (case candidate_profiles s of
          (Inl e, s1) \<Rightarrow> Some (Inl e, (t, s1))
        | (Inr ps, s1) \<Rightarrow>
            (case guard_enter lib t of
               (Inl e, t') \<Rightarrow> Some (Inl e, (t', s1))
             | (Inr _, t') \<Rightarrow>
                 (case wizard_loop lib ''up'' handle_up_wizard_key uw_cancelled uw_confirmed evs 0 (up_wizard_new ps) of
                    Inl e \<Rightarrow> Some (Inl e, (guard_drop lib t', s1))
                  | Inr w \<Rightarrow>
                      map_option (\<lambda>a. case ops_create op (answers_to_create_request a) s1 of
                          (r, s2) \<Rightarrow> (r, (guard_drop lib t', s2))) (answers w)))))"

definition draw_profile_step :: "up_wizard \<Rightarrow> widget" where
  "draw_profile_step w =
     \<lparr>wg_place = Chunk 1, wg_title = Some ''select a profile'', wg_lines = highlighted (uw_profile_index w) (uw_profiles w)\<rparr>"

definition draw_choice_step :: "string \<Rightarrow> string list \<Rightarrow> nat \<Rightarrow> widget" where
  "draw_choice_step label choices i =
     para (Chunk 1) (Some label) [label @ '': < '' @ unwrap_or ''?'' (nth_or_panic choices i) @ '' >'']"

definition draw_confirm_step :: "(nat \<Rightarrow> string) \<Rightarrow> wizard_answers \<Rightarrow> widget" where
  "draw_confirm_step dur a =
     para (Chunk 1) (Some ''confirm'')
       [''profile='' @ wa_profile a, ''cpu='' @ show_nat (wa_cpu a), ''memory='' @ wa_memory a, ''lease='' @ dur (wa_lease a),
        [], ''press enter to create'']"

definition up_footer :: "step \<Rightarrow> string" where
  "up_footer st =
     (case st of
        SProfile \<Rightarrow> ''up/down: select profile  enter: next  esc/q: cancel''
      | SConfirm \<Rightarrow> ''enter: create  backspace: back  esc/q: cancel''
      | _ \<Rightarrow> ''left/right: adjust  enter: next  backspace: back  esc/q: cancel'')"

definition draw_up_wizard :: "(nat \<Rightarrow> string) \<Rightarrow> up_wizard \<Rightarrow> widget list option" where
  "draw_up_wizard dur w =
     map_option (\<lambda>body. [para (Chunk 0) None [''lsbx up --wizard''], body, para (Chunk 2) None [up_footer (uw_step w)]])
       (case uw_step w of
          SProfile \<Rightarrow> Some (draw_profile_step w)
        | SCpu \<Rightarrow> Some (draw_choice_step ''cpu'' (map show_nat cpu_choices) (uw_cpu_index w))
        | SMemory \<Rightarrow> Some (draw_choice_step ''memory'' memory_choices (uw_memory_index w))
        | SLease \<Rightarrow> Some (draw_choice_step ''lease'' (map format_lease lease_choices_secs) (uw_lease_index w))
        | SConfirm \<Rightarrow> map_option (draw_confirm_step dur) (answers w))"

subsection \<open>The wizard of \<open>golden build\<close>\<close>

record golden_wizard =
  gz_name :: string
  gz_from :: string
  gz_script_path :: string
  gz_cpu_index :: nat
  gz_memory_index :: nat
  gz_cancelled :: bool
  gz_confirmed :: bool

definition golden_wizard_new :: golden_wizard where
  "golden_wizard_new =
     \<lparr>gz_name = ''wizard-golden'', gz_from = ''lsbx-default-v1'', gz_script_path = ''/tmp/lsbx-golden-build-script.sh'',
      gz_cpu_index = 0, gz_memory_index = 2, gz_cancelled = False, gz_confirmed = False\<rparr>"

definition handle_golden_build_wizard_key :: "key \<Rightarrow> golden_wizard \<Rightarrow> golden_wizard" where
  "handle_golden_build_wizard_key k w =
     (if k \<in> {KEsc, KChar (CHR ''q'')} then w\<lparr>gz_cancelled := True\<rparr>
      else if k = KLeft then w\<lparr>gz_cpu_index := clamp_index (gz_cpu_index w) (- 1) (length cpu_choices)\<rparr>
      else if k = KRight then w\<lparr>gz_cpu_index := clamp_index (gz_cpu_index w) 1 (length cpu_choices)\<rparr>
      else if k = KUp then w\<lparr>gz_memory_index := clamp_index (gz_memory_index w) (- 1) (length memory_choices)\<rparr>
      else if k = KDown then w\<lparr>gz_memory_index := clamp_index (gz_memory_index w) 1 (length memory_choices)\<rparr>
      else if k = KEnter then w\<lparr>gz_confirmed := True\<rparr>
      else w)"

definition wizard_pubkey :: string where
  "wizard_pubkey = ''ssh-ed25519 AAAAC3NzaC1lZDI1NTE5AAAAIHdpemFyZC1wbGFjZWhvbGRlcg== lsbx:wizard''"

definition wizard_build_request :: "golden_wizard \<Rightarrow> golden_build_request option" where
  "wizard_build_request w =
     Option.bind (nth_or_panic cpu_choices (gz_cpu_index w)) (\<lambda>c.
     Option.bind (nth_or_panic memory_choices (gz_memory_index w)) (\<lambda>m.
       Some \<lparr>gb_name = gz_name w, gb_from = gz_from w, gb_script = gz_script_path w, gb_flavor = Agent, gb_cpu = c,
             gb_memory = m, gb_streaming = StreamNone, gb_register = True, gb_cleanup = True, gb_dry_run = False,
             gb_pubkey = wizard_pubkey, gb_key_path = None\<rparr>))"

definition run_golden_build_wizard ::
  "term_lib \<Rightarrow> (fcontent \<Rightarrow> string) \<Rightarrow> 'b ops \<Rightarrow> event list \<Rightarrow> terminal \<times> 'b ops_world \<Rightarrow>
   ((lsbx_error + golden_config) \<times> (terminal \<times> 'b ops_world)) option" where
  "run_golden_build_wizard lib sha op evs ts =
     (case ts of (t, s) \<Rightarrow>
       (case guard_enter lib t of
          (Inl e, t') \<Rightarrow> Some (Inl e, (t', s))
        | (Inr _, t') \<Rightarrow>
            (case wizard_loop lib ''golden build'' handle_golden_build_wizard_key gz_cancelled gz_confirmed evs 0 golden_wizard_new of
               Inl e \<Rightarrow> Some (Inl e, (guard_drop lib t', s))
             | Inr w \<Rightarrow>
                 map_option (\<lambda>rq. case bindE (ops_golden_build sha op rq) (\<lambda>out. retE (go_config out)) s of
                     (r, s') \<Rightarrow> (r, (guard_drop lib t', s'))) (wizard_build_request w))))"

definition draw_golden_build_wizard :: "golden_wizard \<Rightarrow> widget option" where
  "draw_golden_build_wizard w =
     map_option (\<lambda>rq. para (Chunk 0) (Some ''golden build wizard'')
         [''lsbx golden build --wizard'', [], ''name='' @ gb_name rq, ''from='' @ gb_from rq, ''script='' @ gb_script rq,
          ''cpu=< '' @ show_nat (gb_cpu rq) @ '' >  (left/right)'', ''memory=< '' @ gb_memory rq @ '' >  (up/down)'', [],
          ''enter: build   esc/q: cancel''])
       (wizard_build_request w)"

subsection \<open>What the dashboard keeps\<close>

text \<open>The selection is a row of the list, and at most one overlay is shown.\<close>

definition dash_ok :: "dashboard \<Rightarrow> bool" where
  "dash_ok d \<longleftrightarrow> (if db_sandboxes d = [] then db_selected d = 0 else db_selected d < length (db_sandboxes d))
     \<and> (db_info d = None \<or> db_confirm d = None)"

lemma dashboard_new_ok: "dash_ok dashboard_new"
  by (simp add: dash_ok_def dashboard_new_def)

lemma move_selection_ok: "dash_ok d \<Longrightarrow> dash_ok (move_selection delta d)"
proof (cases "db_sandboxes d = []")
  case False
  then have "nat ((int (db_selected d) + delta) mod int (length (db_sandboxes d))) < length (db_sandboxes d)"
    by (simp add: nat_less_iff)
  then show "dash_ok d \<Longrightarrow> ?thesis" using False by (auto simp: dash_ok_def move_selection_def)
qed (simp add: dash_ok_def move_selection_def)

lemma refresh_ok: "dash_ok (fst ds) \<Longrightarrow> dash_ok (fst (refresh op ds))"
  by (cases ds) (auto simp: dash_ok_def refresh_def not_le neq_Nil_conv split: prod.splits sum.splits)

text \<open>A command of the dashboard that only reads leaves the files, the backend and the registry alone.\<close>

definition same_store :: "'b ops_world \<Rightarrow> 'b ops_world \<Rightarrow> bool" where
  "same_store s s' \<longleftrightarrow> fs_files (w_fs (ow_world s')) = fs_files (w_fs (ow_world s)) \<and> w_bk (ow_world s') = w_bk (ow_world s)
     \<and> ow_registry s' = ow_registry s"

lemma same_store_refl: "same_store s s"
  by (simp add: same_store_def)

lemma same_store_trans: "same_store s t \<Longrightarrow> same_store t u \<Longrightarrow> same_store s u"
  by (simp add: same_store_def)

lemma on_fs_same_store:
  assumes "\<And>f. fs_files (snd (m f)) = fs_files f"
  shows "same_store s (snd (in_world (on_fs m) s))"
  using assms [of "w_fs (ow_world s)"] by (auto simp: same_store_def in_world_def on_fs_def split: prod.splits)

lemma ops_list_same: "same_store s (snd (ops_list op s))"
proof -
  have "snd (ops_list op s) = snd (list_records op s)"
    by (auto simp: ops_list_def bindE_def retE_def split: prod.splits sum.splits)
  then show ?thesis unfolding list_records_def by (simp add: on_fs_same_store sandbox_list_files)
qed

lemma ops_info_same: "same_store s (snd (ops_info op i s))"
proof -
  have "snd (ops_info op i s) = snd (load_record op i s)"
    by (auto simp: ops_info_def bindE_def retE_def split: prod.splits sum.splits)
  then show ?thesis unfolding load_record_def by (simp add: on_fs_same_store sandbox_load_snd)
qed

lemma refresh_same: "same_store (snd ds) (snd (refresh op ds))"
  using ops_list_same [of "snd ds" op] by (cases ds) (auto simp: refresh_def split: prod.splits sum.splits)

lemma refresh_rest: "db_confirm (fst (refresh op ds)) = db_confirm (fst ds)" "db_info (fst (refresh op ds)) = db_info (fst ds)"
  by (cases ds; auto simp: refresh_def split: prod.splits sum.splits)+

lemma show_info_same: "same_store (snd ds) (snd (show_info op ds))"
proof (cases ds)
  case (Pair d s)
  show ?thesis
  proof (cases "selected_id d")
    case (Some i)
    then show ?thesis using Pair ops_info_same [of s op i] by (auto simp: show_info_def split: prod.splits sum.splits)
  qed (simp add: Pair show_info_def same_store_refl)
qed

lemma list_key_same: "same_store (snd ds) (snd (list_key op k ds))"
  using show_info_same [of ds op] refresh_same [of ds op]
  by (cases ds) (auto simp: list_key_def same_store_refl split: option.splits)

text \<open>What a key does to the store: nothing, but for the answer yes to the question of a destruction.\<close>

definition is_yes :: "key \<Rightarrow> bool" where
  "is_yes k \<longleftrightarrow> k \<in> {KChar (CHR ''y''), KChar (CHR ''Y'')}"

definition asked :: "dashboard \<Rightarrow> string option" where
  "asked d = (if db_info d = None then db_confirm d else None)"

lemma handle_key_store:
  "same_store (snd ds) (snd (handle_key op k ds)) \<or>
   (\<exists>i. asked (fst ds) = Some i \<and> is_yes k \<and> same_store (snd (ops_destroy op i (snd ds))) (snd (handle_key op k ds)))"
proof (cases "db_info (fst ds) = None")
  case False
  then show ?thesis by (auto simp: handle_key_def same_store_refl)
next
  case info: True
  show ?thesis
  proof (cases "db_confirm (fst ds)")
    case None
    then show ?thesis using list_key_same [of ds op k] info by (simp add: handle_key_def)
  next
    case (Some i)
    have e: "handle_key op k ds = confirm_key op i k ds" using info Some by (simp add: handle_key_def)
    obtain d s where ds: "ds = (d, s)" by fastforce
    show ?thesis
    proof (cases "is_yes k")
      case True
      obtain r s1 where r: "ops_destroy op i s = (r, s1)" by fastforce
      have "same_store s1 (snd (confirm_key op i k ds))"
        using True refresh_same [of "(d\<lparr>db_confirm := None, db_status := Some (''destroyed '' @ i)\<rparr>, s1)" op]
        by (cases r) (simp_all add: ds r confirm_key_def is_yes_def same_store_refl)
      then show ?thesis unfolding e using info Some True by (simp add: asked_def ds r)
    next
      case False
      then have "snd (confirm_key op i k ds) = s" by (auto simp: ds confirm_key_def is_yes_def)
      then show ?thesis unfolding e by (simp add: ds same_store_refl)
    qed
  qed
qed

lemma handle_key_asks:
  "asked d = None \<Longrightarrow> db_info d = None \<Longrightarrow> asked (fst (handle_key op k (d, s))) = Some i \<Longrightarrow>
   k = KChar (CHR ''d'') \<and> selected_id d = Some i"
  unfolding asked_def handle_key_def
  by (auto simp: list_key_def show_info_def move_selection_def refresh_rest split: if_splits option.splits prod.splits sum.splits)

lemma confirm_key_ok: "dash_ok (fst ds) \<Longrightarrow> dash_ok (fst (confirm_key op i k ds))"
proof (cases ds)
  case (Pair d s)
  assume ok: "dash_ok (fst ds)"
  have c: "dash_ok (d\<lparr>db_confirm := None, db_status := x\<rparr>)" for x using ok Pair by (simp add: dash_ok_def)
  show ?thesis
    using refresh_ok [of "(d\<lparr>db_confirm := None, db_status := Some (''destroyed '' @ i)\<rparr>, t)" for t] c ok Pair
    by (auto simp: confirm_key_def split: prod.splits sum.splits)
qed

lemma list_key_ok: "dash_ok (fst ds) \<Longrightarrow> db_info (fst ds) = None \<Longrightarrow> db_confirm (fst ds) = None \<Longrightarrow> dash_ok (fst (list_key op k ds))"
proof (cases ds)
  case (Pair d s)
  assume a: "dash_ok (fst ds)" "db_info (fst ds) = None" "db_confirm (fst ds) = None"
  have i: "dash_ok (fst (show_info op ds))"
    using a Pair by (auto simp: show_info_def dash_ok_def split: option.splits prod.splits sum.splits)
  show ?thesis
    using a Pair i refresh_ok [OF a(1), of op] move_selection_ok [of d]
    by (auto simp: list_key_def dash_ok_def split: option.splits)
qed

lemma handle_key_ok: "dash_ok (fst ds) \<Longrightarrow> dash_ok (fst (handle_key op k ds))"
proof (cases "db_info (fst ds) = None")
  case False
  then show "dash_ok (fst ds) \<Longrightarrow> ?thesis" by (auto simp: handle_key_def dash_ok_def)
next
  case True
  then show "dash_ok (fst ds) \<Longrightarrow> ?thesis"
    by (cases "db_confirm (fst ds)") (auto simp: handle_key_def intro: list_key_ok confirm_key_ok)
qed

lemma dash_loop_ok: "dash_ok (fst ds) \<Longrightarrow> dash_loop lib op evs n ds = (r, ds') \<Longrightarrow> dash_ok (fst ds')"
  by (induction lib op evs n ds rule: dash_loop.induct)
    (auto intro: handle_key_ok refresh_ok split: option.splits if_splits event.splits)

text \<open>Without the answer yes, a run of the dashboard destroys nothing.\<close>

lemma dash_loop_same:
  "(\<And>k. EvKey k \<in> set evs \<Longrightarrow> \<not> is_yes k) \<Longrightarrow> dash_loop lib op evs n ds = (r, ds') \<Longrightarrow> same_store (snd ds) (snd ds')"
proof (induction lib op evs n ds rule: dash_loop.induct)
  case (1 lib op n ds)
  then show ?case by (auto simp: same_store_refl split: option.splits)
next
  case (2 lib op ev evs n ds)
  show ?case
  proof (cases "te_draw lib n = None \<and> \<not> db_quit (fst ds)")
    case False
    then show ?thesis using 2(5) by (auto simp: same_store_refl split: option.splits if_splits)
  next
    case go: True
    show ?thesis
    proof (cases ev)
      case (EvKey k)
      have "same_store (snd ds) (snd (handle_key op k ds))" using handle_key_store [of ds op k] 2(4) [of k] EvKey by auto
      moreover have "same_store (snd (handle_key op k ds)) (snd ds')" using 2 go EvKey by auto
      ultimately show ?thesis by (rule same_store_trans)
    next
      case EvTick
      have "same_store (snd (refresh op ds)) (snd ds')" using 2 go EvTick by auto
      then show ?thesis by (rule same_store_trans [OF refresh_same])
    qed (use 2 go in \<open>auto simp: same_store_refl\<close>)
  qed
qed

subsection \<open>What the wizards keep\<close>

definition up_wizard_ok :: "up_wizard \<Rightarrow> bool" where
  "up_wizard_ok w \<longleftrightarrow> uw_profile_index w < length (uw_profiles w) \<and> uw_cpu_index w < length cpu_choices \<and>
     uw_memory_index w < length memory_choices \<and> uw_lease_index w < length lease_choices_secs"

definition golden_wizard_ok :: "golden_wizard \<Rightarrow> bool" where
  "golden_wizard_ok w \<longleftrightarrow> gz_cpu_index w < length cpu_choices \<and> gz_memory_index w < length memory_choices"

lemma clamp_index_less: "0 < len \<Longrightarrow> clamp_index i delta len < len"
  unfolding clamp_index_def by (simp add: min_def max_def) linarith

lemma clamp_index_in: "i < len \<Longrightarrow> clamp_index i delta len < len"
  by (rule clamp_index_less) linarith

lemma adjust_current_keeps:
  "uw_profiles (adjust_current delta w) = uw_profiles w" "uw_cancelled (adjust_current delta w) = uw_cancelled w"
  "uw_confirmed (adjust_current delta w) = uw_confirmed w"
  by (simp_all add: adjust_current_def split: step.split)

lemma adjust_current_ok: "up_wizard_ok w \<Longrightarrow> up_wizard_ok (adjust_current delta w)"
  unfolding up_wizard_ok_def adjust_current_def
  by (cases "uw_step w") (simp_all add: clamp_index_in cpu_choices_def memory_choices_def lease_choices_secs_def)

lemma up_key_ok: "up_wizard_ok w \<Longrightarrow> up_wizard_ok (handle_up_wizard_key k w)"
  unfolding handle_up_wizard_key_def by (simp add: adjust_current_ok) (simp add: up_wizard_ok_def)

lemma up_key_profiles: "uw_profiles (handle_up_wizard_key k w) = uw_profiles w"
  unfolding handle_up_wizard_key_def by (simp add: adjust_current_keeps)

lemma golden_key_ok: "golden_wizard_ok w \<Longrightarrow> golden_wizard_ok (handle_golden_build_wizard_key k w)"
  unfolding handle_golden_build_wizard_key_def golden_wizard_ok_def
  by (simp add: clamp_index_less cpu_choices_def memory_choices_def)

lemma up_wizard_new_ok: "ps \<noteq> [] \<Longrightarrow> up_wizard_ok (up_wizard_new ps)"
  by (simp add: up_wizard_ok_def up_wizard_new_def cpu_choices_def memory_choices_def lease_choices_secs_def)

lemma golden_wizard_new_ok: "golden_wizard_ok golden_wizard_new"
  by (simp add: golden_wizard_ok_def golden_wizard_new_def cpu_choices_def memory_choices_def)

lemma answers_some:
  assumes "up_wizard_ok w"
  shows "answers w = Some \<lparr>wa_profile = uw_profiles w ! uw_profile_index w, wa_cpu = cpu_choices ! uw_cpu_index w,
    wa_memory = memory_choices ! uw_memory_index w, wa_lease = secs (lease_choices_secs ! uw_lease_index w)\<rparr>"
  using assms unfolding up_wizard_ok_def answers_def nth_or_panic_def by simp

lemma draws_some: "up_wizard_ok w \<Longrightarrow> \<exists>ws. draw_up_wizard dur w = Some ws"
  by (cases "uw_step w") (simp_all add: draw_up_wizard_def answers_some)

lemma build_request_some: "golden_wizard_ok w \<Longrightarrow> \<exists>rq. wizard_build_request w = Some rq"
  unfolding golden_wizard_ok_def wizard_build_request_def nth_or_panic_def by simp

lemma candidate_profiles_some: "\<exists>ps s'. candidate_profiles s = (Inr ps, s') \<and> ps \<noteq> [] \<and> s' = s"
  by (simp add: candidate_profiles_def golden_list_def fallback_profile_choices_def)

text \<open>A loop ends with a state that every key keeps, and that the user confirmed.\<close>

lemma wizard_loop_keeps:
  "(\<And>k w. P w \<Longrightarrow> P (h k w)) \<Longrightarrow> P w \<Longrightarrow> wizard_loop lib name h can con evs n w = Inr w' \<Longrightarrow> P w' \<and> con w' \<and> \<not> can w'"
proof (induction evs arbitrary: n w)
  case Nil
  then show ?case by (simp split: option.splits if_splits)
next
  case (Cons ev evs)
  show ?case
  proof (cases "te_draw lib n = None \<and> \<not> can w \<and> \<not> con w")
    case True
    show ?thesis
    proof (cases ev)
      case (EvKey k)
      with True Cons.prems(3) have "wizard_loop lib name h can con evs (Suc n) (h k w) = Inr w'" by simp
      then show ?thesis using Cons.IH [OF Cons.prems(1), of "h k w" "Suc n"] Cons.prems(1) [OF Cons.prems(2)] by blast
    qed (use True Cons.prems Cons.IH [OF Cons.prems(1)] in simp_all)
  next
    case False
    then show ?thesis using Cons.prems(2,3) by (simp split: option.splits if_splits)
  qed
qed

text \<open>Without Enter nothing is confirmed.\<close>

lemma up_key_confirms: "uw_confirmed (handle_up_wizard_key k w) \<longleftrightarrow> uw_confirmed w \<or> k = KEnter \<and> uw_step w = SConfirm"
  unfolding handle_up_wizard_key_def by (auto simp: adjust_current_keeps)

subsection \<open>The terminal is put back\<close>

definition clean :: "terminal \<Rightarrow> bool" where
  "clean t \<longleftrightarrow> \<not> tm_raw t \<and> \<not> tm_alternate t \<and> \<not> tm_active t"

lemma guard_enter_run:
  "guard_enter lib t =
    (case te_raw lib of
       Some m \<Rightarrow> (Inl (ContractViolated (''failed to enable raw mode: '' @ m)), t\<lparr>tm_active := False\<rparr>)
     | None \<Rightarrow>
        (case te_alternate lib of
           Some m \<Rightarrow> (Inl (ContractViolated (''failed to enter alternate screen: '' @ m)), t\<lparr>tm_active := False, tm_raw := True\<rparr>)
         | None \<Rightarrow>
            (case te_terminal lib of
               Some m \<Rightarrow> (Inl (ContractViolated (''failed to construct ratatui terminal: '' @ m)),
                 t\<lparr>tm_active := False, tm_raw := True, tm_alternate := True\<rparr>)
             | None \<Rightarrow> (Inr (), t\<lparr>tm_active := True, tm_raw := True, tm_alternate := True\<rparr>))))"
  unfolding guard_enter_def refused_def bindE_run
  by (cases "te_raw lib"; cases "te_alternate lib"; cases "te_terminal lib") simp_all

lemma guard_drop_clean: "te_leave_raw lib \<Longrightarrow> te_leave_alternate lib \<Longrightarrow> clean (guard_drop lib t)"
  by (simp add: clean_def guard_drop_def restore_def)


text \<open>A guard that was made puts the terminal back; one that could not be made may leave it raw.\<close>

lemma guard_enter_err: "clean t \<Longrightarrow> guard_enter lib t = (Inl e, t') \<Longrightarrow> clean t' \<longleftrightarrow> te_raw lib \<noteq> None"
  unfolding guard_enter_run clean_def by (auto split: option.splits)

lemma run_dashboard_cases:
  "run_dashboard lib op evs (t, s) = (r, (t', s')) \<Longrightarrow>
   (\<exists>e. guard_enter lib t = (Inl e, t') \<and> r = Inl e \<and> s' = s) \<or>
   (\<exists>t1 d. guard_enter lib t = (Inr (), t1) \<and> t' = guard_drop lib t1 \<and>
      dash_loop lib op evs 0 (refresh op (dashboard_new, s)) = (r, (d, s')))"
  unfolding run_dashboard_def by (auto split: prod.splits sum.splits)

text \<open>
  The wizard of \<open>up\<close> does not panic: it ends without a call, or with the creation of what was confirmed,
  from a terminal that was put back.
\<close>

lemma run_up_wizard_cases:
  "\<exists>r t' s'. run_up_wizard lib op evs (t, s) = Some (r, (t', s')) \<and>
    ((\<exists>e. r = Inl e \<and> s' = s \<and> (guard_enter lib t = (Inl e, t') \<or> (\<exists>t1. guard_enter lib t = (Inr (), t1) \<and> t' = guard_drop lib t1))) \<or>
     (\<exists>t1 w ps a. guard_enter lib t = (Inr (), t1) \<and> t' = guard_drop lib t1 \<and> candidate_profiles s = (Inr ps, s) \<and>
        wizard_loop lib ''up'' handle_up_wizard_key uw_cancelled uw_confirmed evs 0 (up_wizard_new ps) = Inr w \<and>
        uw_confirmed w \<and> uw_profiles w = ps \<and> up_wizard_ok w \<and> answers w = Some a \<and>
        ops_create op (answers_to_create_request a) s = (r, s')))"
proof -
  obtain ps where c: "candidate_profiles s = (Inr ps, s)" and n: "ps \<noteq> []" using candidate_profiles_some [of s] by auto
  obtain g t1 where g: "guard_enter lib t = (g, t1)" by fastforce
  show ?thesis
  proof (cases g)
    case (Inl e)
    then show ?thesis by (simp add: run_up_wizard_def c g)
  next
    case (Inr u)
    let ?l = "wizard_loop lib ''up'' handle_up_wizard_key uw_cancelled uw_confirmed evs 0 (up_wizard_new ps)"
    show ?thesis
    proof (cases ?l)
      case (Inl e)
      then show ?thesis by (simp add: run_up_wizard_def c g Inr)
    next
      case l: (Inr w)
      have k: "(up_wizard_ok w \<and> uw_profiles w = ps) \<and> uw_confirmed w \<and> \<not> uw_cancelled w"
        using wizard_loop_keeps [where P = "\<lambda>w. up_wizard_ok w \<and> uw_profiles w = ps", OF _ _ l] n
        by (simp add: up_key_ok up_key_profiles up_wizard_new_ok) (simp add: up_wizard_new_def)
      obtain a where a: "answers w = Some a" using answers_some k by blast
      obtain r s2 where o: "ops_create op (answers_to_create_request a) s = (r, s2)" by fastforce
      show ?thesis using k by (simp add: run_up_wizard_def c g Inr l a o)
    qed
  qed
qed

text \<open>The wizard of \<open>golden build\<close> does not panic either.\<close>

lemma run_golden_wizard_returns: "\<exists>x. run_golden_build_wizard lib sha op evs ts = Some x"
proof (cases ts)
  case (Pair t s)
  obtain g t1 where g: "guard_enter lib t = (g, t1)" by fastforce
  let ?l = "wizard_loop lib ''golden build'' handle_golden_build_wizard_key gz_cancelled gz_confirmed evs 0 golden_wizard_new"
  show ?thesis
  proof (cases ?l)
    case (Inr w)
    then obtain rq where "wizard_build_request w = Some rq"
      using wizard_loop_keeps [where P = golden_wizard_ok, OF golden_key_ok golden_wizard_new_ok Inr] build_request_some by blast
    then show ?thesis by (cases g) (simp_all add: run_golden_build_wizard_def Pair g Inr del: split_paired_Ex)
  qed (cases g; simp add: run_golden_build_wizard_def Pair g)
qed

end
