(* ===== verification/Lsbx_Domain.thy ===== *)
theory Lsbx_Domain
  imports Lsbx_Http Lsbx_Format Lsbx_Bootstrap
begin

text \<open>
  The texts that the libvirt backend hands to other programs: the description of a domain
  (\<open>domain_xml.rs\<close>), the address of a host (\<open>transport.rs\<close>), the command lines of \<open>ssh\<close>, \<open>scp\<close> and
  \<open>qemu-img\<close> (\<open>guest_ssh.rs\<close>, \<open>image_ops.rs\<close>) and the place of a golden's disk (\<open>golden_disk.rs\<close>). Numbers of
  KiB are 64-bit words, whose product wraps as in a release build.
\<close>

subsection \<open>Memory\<close>

definition memory_units :: "(string \<times> nat) list" where
  "memory_units =
     [(''GiB'', 1048576), (''gib'', 1048576), (''GB'', 1048576), (''gb'', 1048576), (''G'', 1048576), (''g'', 1048576),
      (''MiB'', 1024), (''mib'', 1024), (''MB'', 1024), (''mb'', 1024), (''M'', 1024), (''m'', 1024),
      (''K'', 1), (''k'', 1)]"

text \<open>A number without a unit counts MiB.\<close>

fun split_unit :: "(string \<times> nat) list \<Rightarrow> string \<Rightarrow> string \<times> nat" where
  "split_unit [] t = (t, 1024)"
| "split_unit ((u, k) # us) t = (case strip_suffix u t of Some d \<Rightarrow> (d, k) | None \<Rightarrow> split_unit us t)"

definition parse_memory_to_kib :: "string \<Rightarrow> lsbx_error + 64 word" where
  "parse_memory_to_kib memory =
     (let t = trim memory
      in if t = [] then Inl (Usage ''memory value is empty'')
         else (case split_unit memory_units t of
                 (d, k) \<Rightarrow>
                   (case parse_u64 (trim d) of
                      None \<Rightarrow> Inl (Usage (''invalid memory value: '' @ quoted memory))
                    | Some v \<Rightarrow> Inr (of_nat v * of_nat k))))"

subsection \<open>The description of a domain\<close>

definition xml_escape :: "string \<Rightarrow> string" where
  "xml_escape s =
     replace_char (CHR 0x27) ''&apos;'' (replace_char (CHR 0x22) ''&quot;'' (replace_char (CHR ''>'') ''&gt;''
       (replace_char (CHR ''<'') ''&lt;'' (replace_char (CHR ''&'') ''&amp;'' s))))"

record domain_xml_params =
  dx_name :: string
  dx_cpu :: nat
  dx_memory :: string
  dx_disk_path :: string
  dx_seed_iso :: "string option"
  dx_os :: string

text \<open>The templates, cut where a value is put in.\<close>

definition seed_xml_1 :: string where
  "seed_xml_1 =
     join_with newline
     [''    <disk type='file' device='cdrom'>'',
      ''      <source file='' @ apostrophe]"

definition seed_xml_2 :: string where
  "seed_xml_2 =
     join_with newline
     [apostrophe @ ''/>'',
      ''      <target dev='hda' bus='ide'/>'',
      ''      <readonly/>'',
      ''    </disk>'']"

definition linux_xml_1 :: string where
  "linux_xml_1 =
     join_with newline
     [''<domain type='kvm'>'',
      ''  <name>'']"

definition linux_xml_2 :: string where
  "linux_xml_2 =
     join_with newline
     [''</name>'',
      ''  <memory unit='KiB'>'']"

definition linux_xml_3 :: string where
  "linux_xml_3 =
     join_with newline
     [''</memory>'',
      ''  <currentMemory unit='KiB'>'']"

definition linux_xml_4 :: string where
  "linux_xml_4 =
     join_with newline
     [''</currentMemory>'',
      ''  <vcpu placement='static'>'']"

definition linux_xml_5 :: string where
  "linux_xml_5 =
     join_with newline
     [''</vcpu>'',
      ''  <os>'',
      ''    <type arch='x86_64' machine='pc'>hvm</type>'',
      ''    <boot dev='hd'/>'',
      ''  </os>'',
      ''  <features>'',
      ''    <acpi/>'',
      ''    <apic/>'',
      ''  </features>'',
      ''  <cpu mode='host-passthrough'/>'',
      ''  <metadata>'',
      ''    <lsbx:pubkey xmlns:lsbx=\"https://lufs.org/lsbx/domain-metadata\">'']"

definition linux_xml_6 :: string where
  "linux_xml_6 =
     join_with newline
     [''</lsbx:pubkey>'',
      ''  </metadata>'',
      ''  <devices>'',
      ''    <emulator>/usr/bin/qemu-system-x86_64</emulator>'',
      ''    <disk type='file' device='disk'>'',
      ''      <driver name='qemu' type='qcow2'/>'',
      ''      <source file='' @ apostrophe]"

definition linux_xml_7 :: string where
  "linux_xml_7 =
     join_with newline
     [apostrophe @ ''/>'',
      ''      <target dev='vda' bus='virtio'/>'',
      ''    </disk>'',
      []]"

definition linux_xml_8 :: string where
  "linux_xml_8 =
     join_with newline
     [''    <interface type='network'>'',
      ''      <source network='default'/>'',
      ''      <model type='virtio'/>'',
      ''      <mtu size='1280'/>'',
      ''    </interface>'',
      ''    <serial type='pty'/>'',
      ''    <console type='pty'/>'',
      ''    <channel type='unix'>'',
      ''      <source mode='bind'/>'',
      ''      <target type='virtio' name='org.qemu.guest_agent.0'/>'',
      ''    </channel>'',
      ''    <graphics type='vnc' port='-1' autoport='yes'/>'',
      ''  </devices>'',
      ''</domain>'']"

definition windows_xml_1 :: string where
  "windows_xml_1 =
     join_with newline
     [''<domain type='kvm'>'',
      ''  <name>'']"

definition windows_xml_2 :: string where
  "windows_xml_2 =
     join_with newline
     [''</name>'',
      ''  <memory unit='KiB'>'']"

definition windows_xml_3 :: string where
  "windows_xml_3 =
     join_with newline
     [''</memory>'',
      ''  <currentMemory unit='KiB'>'']"

definition windows_xml_4 :: string where
  "windows_xml_4 =
     join_with newline
     [''</currentMemory>'',
      ''  <vcpu placement='static'>'']"

definition windows_xml_5 :: string where
  "windows_xml_5 =
     join_with newline
     [''</vcpu>'',
      ''  <os firmware='efi'>'',
      ''    <type arch='x86_64' machine='pc-q35-11.0'>hvm</type>'',
      ''    <firmware>'',
      ''      <feature enabled='no' name='enrolled-keys'/>'',
      ''      <feature enabled='yes' name='secure-boot'/>'',
      ''    </firmware>'',
      ''    <loader readonly='yes' secure='yes' type='pflash' format='raw'>/usr/share/edk2/x64/OVMF_CODE.secboot.4m.fd</loader>'',
      ''    <nvram template='/usr/share/edk2/x64/OVMF_VARS.4m.fd' templateFormat='raw' format='raw'>/var/lib/libvirt/qemu/nvram/'']"

definition windows_xml_6 :: string where
  "windows_xml_6 =
     join_with newline
     [''_VARS.fd</nvram>'',
      ''    <boot dev='hd'/>'',
      ''  </os>'',
      ''  <features>'',
      ''    <acpi/>'',
      ''    <apic/>'',
      ''    <hyperv mode='custom'>'',
      ''      <relaxed state='on'/>'',
      ''      <vapic state='on'/>'',
      ''      <spinlocks state='on' retries='8191'/>'',
      ''      <vpindex state='on'/>'',
      ''      <runtime state='on'/>'',
      ''      <synic state='on'/>'',
      ''      <stimer state='on'/>'',
      ''      <frequencies state='on'/>'',
      ''      <tlbflush state='on'/>'',
      ''      <ipi state='on'/>'',
      ''      <evmcs state='on'/>'',
      ''      <avic state='on'/>'',
      ''    </hyperv>'',
      ''    <vmport state='off'/>'',
      ''    <smm state='on'/>'',
      ''  </features>'',
      ''  <cpu mode='host-passthrough' check='none' migratable='on'/>'',
      ''  <clock offset='localtime'>'',
      ''    <timer name='rtc' tickpolicy='catchup'/>'',
      ''    <timer name='pit' tickpolicy='delay'/>'',
      ''    <timer name='hpet' present='no'/>'',
      ''    <timer name='hypervclock' present='yes'/>'',
      ''  </clock>'',
      ''  <on_poweroff>destroy</on_poweroff>'',
      ''  <on_reboot>restart</on_reboot>'',
      ''  <on_crash>destroy</on_crash>'',
      ''  <pm>'',
      ''    <suspend-to-mem enabled='no'/>'',
      ''    <suspend-to-disk enabled='no'/>'',
      ''  </pm>'',
      ''  <metadata>'',
      ''    <lsbx:pubkey xmlns:lsbx=\"https://lufs.org/lsbx/domain-metadata\">'']"

definition windows_xml_7 :: string where
  "windows_xml_7 =
     join_with newline
     [''</lsbx:pubkey>'',
      ''  </metadata>'',
      ''  <devices>'',
      ''    <emulator>/usr/bin/qemu-system-x86_64</emulator>'',
      ''    <disk type='file' device='disk'>'',
      ''      <driver name='qemu' type='qcow2'/>'',
      ''      <source file='' @ apostrophe]"

definition windows_xml_8 :: string where
  "windows_xml_8 =
     join_with newline
     [apostrophe @ ''/>'',
      ''      <target dev='vda' bus='virtio'/>'',
      ''    </disk>'',
      ''    <interface type='network'>'',
      ''      <source network='default'/>'',
      ''      <model type='virtio'/>'',
      ''    </interface>'',
      ''    <serial type='pty'/>'',
      ''    <console type='pty'/>'',
      ''    <channel type='unix'>'',
      ''      <source mode='bind'/>'',
      ''      <target type='virtio' name='org.qemu.guest_agent.0'/>'',
      ''    </channel>'',
      ''    <input type='tablet' bus='usb'/>'',
      ''    <input type='mouse' bus='ps2'/>'',
      ''    <input type='keyboard' bus='ps2'/>'',
      ''    <tpm model='tpm-tis'>'',
      ''      <backend type='emulator' version='2.0'/>'',
      ''    </tpm>'',
      ''    <graphics type='vnc' port='-1' autoport='yes'/>'',
      ''    <video>'',
      ''      <model type='qxl' ram='65536' vram='65536' vgamem='16384' heads='1' primary='yes'/>'',
      ''    </video>'',
      ''  </devices>'',
      ''</domain>'']"

definition seed_disk :: "string option \<Rightarrow> string" where
  "seed_disk seed = (case seed of None \<Rightarrow> [] | Some p \<Rightarrow> seed_xml_1 @ xml_escape p @ seed_xml_2)"

definition linux_domain :: "string \<Rightarrow> 64 word \<Rightarrow> nat \<Rightarrow> string \<Rightarrow> string \<Rightarrow> string \<Rightarrow> string" where
  "linux_domain name kib cpu pubkey disk seed =
     linux_xml_1 @ name @ linux_xml_2 @ show_nat (unat kib) @ linux_xml_3 @ show_nat (unat kib) @ linux_xml_4
     @ show_nat cpu @ linux_xml_5 @ pubkey @ linux_xml_6 @ disk @ linux_xml_7 @ seed @ linux_xml_8"

definition render_windows_domain_xml :: "string \<Rightarrow> 64 word \<Rightarrow> nat \<Rightarrow> string \<Rightarrow> string \<Rightarrow> string" where
  "render_windows_domain_xml name kib cpu disk pubkey =
     windows_xml_1 @ name @ windows_xml_2 @ show_nat (unat kib) @ windows_xml_3 @ show_nat (unat kib) @ windows_xml_4
     @ show_nat cpu @ windows_xml_5 @ name @ windows_xml_6 @ pubkey @ windows_xml_7 @ disk @ windows_xml_8"

definition render_domain_xml :: "domain_xml_params \<Rightarrow> string \<Rightarrow> lsbx_error + string" where
  "render_domain_xml p pubkey =
     bindS (parse_memory_to_kib (dx_memory p)) (\<lambda>kib.
     let name = xml_escape (dx_name p); disk = xml_escape (dx_disk_path p); key = xml_escape pubkey
     in if dx_os p = ''windows'' then Inr (render_windows_domain_xml name kib (dx_cpu p) disk key)
        else Inr (linux_domain name kib (dx_cpu p) key disk (seed_disk (dx_seed_iso p))))"

subsection \<open>The address of a host\<close>

datatype libvirt_transport =
    LocalHost "string option"
  | RemoteSsh string string "string option" "string option"

definition default_local_uri :: string where "default_local_uri = ''qemu:///system''"
definition default_remote_path :: string where "default_remote_path = ''/system''"

definition hex_upper :: "nat \<Rightarrow> char" where
  "hex_upper d = (if d < 10 then char_of (48 + d) else char_of (55 + d))"

definition url_safe :: "char \<Rightarrow> bool" where
  "url_safe c \<longleftrightarrow> is_alnum c \<or> c \<in> set ''-_.~/''"

definition urlencode :: "string \<Rightarrow> string" where
  "urlencode s =
     concat (map (\<lambda>c. if url_safe c then [c] else [CHR ''%'', hex_upper (of_char c div 16), hex_upper (of_char c mod 16)]) s)"

fun to_connect_uri :: "libvirt_transport \<Rightarrow> string" where
  "to_connect_uri (LocalHost uri) = unwrap_or default_local_uri uri"
| "to_connect_uri (RemoteSsh host key jump uri) =
     (let path = (case Option.bind uri (rsplit_str ''///'') of
                    None \<Rightarrow> default_remote_path
                  | Some (_, p) \<Rightarrow> ''/'' @ trim_start_if (\<lambda>c. c = CHR ''/'') p);
          query = (''keyfile='' @ urlencode key)
            # (case jump of None \<Rightarrow> [] | Some j \<Rightarrow> [''command='' @ urlencode (''ssh -o ProxyJump='' @ j)])
      in ''qemu+ssh://'' @ host @ path @ ''?'' @ join_with ''&'' query)"

subsection \<open>Commands of a guest\<close>

record ssh_target =
  gt_host :: string
  gt_username :: string
  gt_identity_file :: string

definition ssh_connect_timeout_secs :: nat where "ssh_connect_timeout_secs = 10"

definition base_ssh_args :: "ssh_target \<Rightarrow> string list" where
  "base_ssh_args t =
     [''-o'', ''BatchMode=yes'', ''-o'', ''StrictHostKeyChecking=accept-new'',
      ''-o'', ''ConnectTimeout='' @ show_nat ssh_connect_timeout_secs, ''-o'', ''UserKnownHostsFile=/dev/null'',
      ''-o'', ''ClearAllForwardings=yes'', ''-i'', gt_identity_file t]"

definition is_ssh_client_failure :: "int option \<Rightarrow> bool" where
  "is_ssh_client_failure c \<longleftrightarrow> c = Some 255"

definition plain_arg_char :: "char \<Rightarrow> bool" where
  "plain_arg_char c \<longleftrightarrow> is_alnum c \<or> c \<in> set ''@%+=:,./-_''"

definition guest_quote :: "string \<Rightarrow> string" where
  "guest_quote arg = (if arg \<noteq> [] \<and> list_all plain_arg_char arg then arg else shell_quote arg)"

definition guest_quote_join :: "string list \<Rightarrow> string" where
  "guest_quote_join command = join_spaces (map guest_quote command)"

definition is_cmd_session :: "string list \<Rightarrow> bool" where
  "is_cmd_session command \<longleftrightarrow> take 2 command = [''cmd'', ''/c'']"

definition cmd_special :: "char \<Rightarrow> bool" where
  "cmd_special c \<longleftrightarrow> is_space c \<or> c \<in> set ''&|<>^()''"

definition cmd_quote :: "string \<Rightarrow> string" where
  "cmd_quote arg =
     (if arg = [] then [CHR 0x22, CHR 0x22]
      else if list_ex cmd_special arg then [CHR 0x22] @ replace_char (CHR 0x22) [CHR 0x22, CHR 0x22] arg @ [CHR 0x22]
      else arg)"

definition guest_quote_join_cmd :: "string list \<Rightarrow> string" where
  "guest_quote_join_cmd command = ''cmd /c '' @ cmd_quote (join_spaces (drop 2 command))"

definition ssh_args :: "ssh_target \<Rightarrow> string list \<Rightarrow> string list" where
  "ssh_args t command =
     base_ssh_args t @ [gt_username t @ ''@'' @ gt_host t,
       if is_cmd_session command then guest_quote_join_cmd command else guest_quote_join command]"

definition put_args :: "ssh_target \<Rightarrow> bool \<Rightarrow> string \<Rightarrow> string \<Rightarrow> string list" where
  "put_args t dir source destination =
     (if dir then [''-r''] else []) @ base_ssh_args t
     @ [source, gt_username t @ ''@'' @ gt_host t @ '':'' @ destination]"

definition get_args :: "ssh_target \<Rightarrow> string \<Rightarrow> string \<Rightarrow> string list" where
  "get_args t source destination =
     base_ssh_args t @ [gt_username t @ ''@'' @ gt_host t @ '':'' @ source, destination]"

subsection \<open>Disks\<close>

definition qemu_convert_args :: "string \<Rightarrow> string \<Rightarrow> string \<Rightarrow> string list" where
  "qemu_convert_args source dest format = [''convert'', ''-O'', format, source, dest]"

definition qemu_cow_args :: "string \<Rightarrow> string \<Rightarrow> string list" where
  "qemu_cow_args backing dest = [''create'', ''-f'', ''qcow2'', ''-F'', ''qcow2'', ''-b'', backing, dest]"

definition golden_disk :: "string \<Rightarrow> string \<Rightarrow> lsbx_error + string" where
  "golden_disk images_dir key =
     (if key = [] \<or> CHR ''/'' \<in> set key \<or> CHR 0x5C \<in> set key \<or> contains_str ''..'' key
      then Inl (ContractViolated (''golden key '' @ quoted key @ '' is not a safe path component''))
      else Inr (path_join images_dir (key @ ''.qcow2'')))"

subsection \<open>Reading memory\<close>

lemma show_nat_last: "\<exists>w d. show_nat v = w @ [digit_char d] \<and> d < 10"
  by (subst show_nat.simps) auto

lemma show_nat_spaceless: "c \<in> set (show_nat n) \<Longrightarrow> is_digit c"
proof (induction n rule: show_nat.induct)
  case (1 n)
  have d: "is_digit (digit_char k)" if "k < 10" for k using that by (auto simp: is_digit_def digit_char_def take_bit_eq_mod)
  show ?case using 1 d by (subst (asm) (2) show_nat.simps) (auto split: if_splits)
qed

lemma digit_no_space: "is_digit c \<Longrightarrow> \<not> is_space c"
  by (auto simp: is_digit_def is_space_def)

lemma trim_spaceless: "(\<And>c. c \<in> set s \<Longrightarrow> \<not> is_space c) \<Longrightarrow> trim s = s"
proof -
  assume a: "\<And>c. c \<in> set s \<Longrightarrow> \<not> is_space c"
  have "dropWhile is_space t = t" if "set t \<subseteq> set s" for t using that a by (cases t) auto
  then show "trim s = s" by (simp add: trim_def trim_if_def trim_end_if_def trim_start_if_def)
qed

lemma unit_letters: "c \<in> set ''GgMmKkBbi'' \<Longrightarrow> char_digit c = None"
  by (auto simp: char_digit_def)

text \<open>A unit is found as it is written, since no earlier one of the list ends it.\<close>

lemma ends_with_cut:
  assumes "x \<notin> set p"
  shows "ends_with p (w @ x # u) \<longleftrightarrow> ends_with p u"
proof
  assume "ends_with p (w @ x # u)"
  then obtain t where "w @ x # u = t @ p" by (auto simp: ends_with_iff)
  then obtain v where "w = t @ v \<and> v @ x # u = p \<or> w @ v = t \<and> x # u = v @ p" unfolding append_eq_append_conv2 by blast
  then have "x # u = v @ p" using assms by auto
  then show "ends_with p u" using assms by (cases v) (auto simp: ends_with_iff)
next
  assume "ends_with p u"
  then obtain t where "u = t @ p" by (auto simp: ends_with_iff)
  then have "w @ x # u = (w @ x # t) @ p" by simp
  then show "ends_with p (w @ x # u)" unfolding ends_with_iff by blast
qed

lemma split_unit_find:
  assumes "\<And>p j. (p, j) \<in> set us \<Longrightarrow> x \<notin> set p"
  shows "split_unit us (w @ x # u) =
    (case find (\<lambda>(p, j). ends_with p u) us of
       None \<Rightarrow> (w @ x # u, 1024) | Some (p, j) \<Rightarrow> (w @ x # take (length u - length p) u, j))"
  using assms
proof (induction us)
  case (Cons e us)
  obtain p j where e: "e = (p, j)" by fastforce
  have x: "x \<notin> set p" using Cons.prems e by auto
  show ?case
  proof (cases "ends_with p u")
    case True
    then obtain t where "u = t @ p" by (auto simp: ends_with_iff)
    then have "strip_suffix p (w @ x # u) = Some (w @ x # t)" using strip_suffix_append [of p "w @ x # t"] by simp
    then show ?thesis using True \<open>u = t @ p\<close> by (simp add: e)
  next
    case False
    then have "strip_suffix p (w @ x # u) = None" using ends_with_cut [OF x] by (simp add: strip_suffix_def)
    moreover have "split_unit us (w @ x # u) =
        (case find (\<lambda>(p, j). ends_with p u) us of
           None \<Rightarrow> (w @ x # u, 1024) | Some (p, j) \<Rightarrow> (w @ x # take (length u - length p) u, j))"
      by (rule Cons.IH) (use Cons.prems in auto)
    ultimately show ?thesis using False by (simp add: e)
  qed
qed simp

lemma units_found:
  "list_all (\<lambda>(u, k). find (\<lambda>(p, j). ends_with p u) memory_units = Some (u, k)) memory_units"
  "find (\<lambda>(p, j). ends_with p []) memory_units = None"
  "list_all (\<lambda>(u, k). list_all (\<lambda>c. char_digit c = None) u) memory_units"
  by (simp_all add: memory_units_def ends_with_def starts_with_def char_digit_def)

lemma split_unit_number:
  assumes "(u, k) \<in> set memory_units \<or> u = [] \<and> k = 1024"
  shows "split_unit memory_units (show_nat v @ u) = (show_nat v, k)"
proof -
  obtain w d where n: "show_nat v = w @ [digit_char d]" "d < 10" using show_nat_last by blast
  have x: "digit_char d \<notin> set p" if "(p, j) \<in> set memory_units" for p j
    using units_found(3) that char_digit_digit_char [OF n(2)] by (force simp: list_all_iff)
  have "find (\<lambda>(p, j). ends_with p u) memory_units = (if u = [] then None else Some (u, k))"
    using assms units_found(1,2) by (auto simp: list_all_iff)
  moreover have "split_unit memory_units (w @ digit_char d # u) =
      (case find (\<lambda>(p, j). ends_with p u) memory_units of
         None \<Rightarrow> (w @ digit_char d # u, 1024) | Some (p, j) \<Rightarrow> (w @ digit_char d # take (length u - length p) u, j))"
    by (rule split_unit_find) (rule x)
  ultimately show ?thesis using assms by (auto simp: n(1) memory_units_def)
qed

lemma memory_read:
  assumes "v < 2 ^ 64" and "(u, k) \<in> set memory_units \<or> u = [] \<and> k = 1024"
  shows "parse_memory_to_kib (show_nat v @ u) = Inr (of_nat (v * k))"
proof -
  have u: "\<not> is_space c" if "c \<in> set u" for c
    using assms(2) that by (auto simp: memory_units_def is_space_def)
  have t: "trim (show_nat v @ u) = show_nat v @ u"
    using u digit_no_space [OF show_nat_spaceless] by (intro trim_spaceless) auto
  have s: "split_unit memory_units (show_nat v @ u) = (show_nat v, k)"
    by (rule split_unit_number [OF assms(2)])
  have "trim (show_nat v) = show_nat v" using digit_no_space [OF show_nat_spaceless] by (intro trim_spaceless) auto
  then show ?thesis by (simp add: parse_memory_to_kib_def Let_def t s parse_show_nat [OF assms(1)])
qed

subsection \<open>Reading the description of a domain\<close>

text \<open>The five entities of XML, and a reader that undoes them.\<close>

definition xml_entities :: "(string \<times> char) list" where
  "xml_entities = [(''&amp;'', CHR ''&''), (''&lt;'', CHR ''<''), (''&gt;'', CHR ''>''), (''&quot;'', CHR 0x22), (''&apos;'', CHR 0x27)]"

fun xml_read :: "nat \<Rightarrow> string \<Rightarrow> string option" where
  "xml_read n [] = Some []"
| "xml_read 0 (c # s) = None"
| "xml_read (Suc n) (c # s) =
     (case find (\<lambda>e. starts_with (fst e) (c # s)) xml_entities of
        Some (e, d) \<Rightarrow> map_option (Cons d) (xml_read n (drop (length e) (c # s)))
      | None \<Rightarrow> map_option (Cons c) (xml_read n s))"

definition xml_escape_char :: "char \<Rightarrow> string" where
  "xml_escape_char c =
     (if c = CHR ''&'' then ''&amp;'' else if c = CHR ''<'' then ''&lt;'' else if c = CHR ''>'' then ''&gt;''
      else if c = CHR 0x22 then ''&quot;'' else if c = CHR 0x27 then ''&apos;'' else [c])"

lemma xml_escape_eq: "xml_escape s = concat (map xml_escape_char s)"
proof (induction s)
  case Nil
  show ?case by (simp add: xml_escape_def replace_char_def)
next
  case (Cons c s)
  have "xml_escape (c # s) = xml_escape [c] @ xml_escape s"
    unfolding xml_escape_def by (simp only: replace_char_append [symmetric] append_Cons append_Nil)
  moreover have "xml_escape [c] = xml_escape_char c"
    by (simp add: xml_escape_def replace_char_def xml_escape_char_def)
  ultimately show ?case using Cons by simp
qed

lemma xml_escape_safe: "set (xml_escape s) \<inter> {CHR ''<'', CHR ''>'', CHR 0x22, CHR 0x27} = {}"
proof -
  have "set (xml_escape_char c) \<inter> {CHR ''<'', CHR ''>'', CHR 0x22, CHR 0x27} = {}" for c
    by (auto simp: xml_escape_char_def)
  then show ?thesis unfolding xml_escape_eq by (induction s) auto
qed

lemma xml_read_escape: "length s \<le> n \<Longrightarrow> xml_read n (xml_escape s) = Some s"
proof (induction s arbitrary: n)
  case Nil
  show ?case by (simp add: xml_escape_eq)
next
  case (Cons c s)
  then obtain m where n: "n = Suc m" "length s \<le> m" by (cases n) auto
  have r: "xml_read m (xml_escape s) = Some s" by (rule Cons.IH [OF n(2)])
  have plain: "find (\<lambda>e. starts_with (fst e) (c # t)) xml_entities = None" if "c \<noteq> CHR ''&''" for t
    using that by (simp add: xml_entities_def starts_with_def)
  show ?case
  proof (cases "c \<in> {CHR ''&'', CHR ''<'', CHR ''>'', CHR 0x22, CHR 0x27}")
    case True
    then show ?thesis using r unfolding xml_escape_eq n
      by (auto simp: xml_escape_char_def xml_entities_def starts_with_def)
  next
    case False
    then have "xml_escape_char c = [c]" "c \<noteq> CHR ''&''" by (auto simp: xml_escape_char_def)
    then show ?thesis using r plain unfolding xml_escape_eq n by simp
  qed
qed

lemma xml_escape_length: "length s \<le> length (xml_escape s)"
  unfolding xml_escape_eq by (induction s) (auto simp: xml_escape_char_def)

text \<open>What follows the first occurrence of a mark, up to a closing character, with the entities undone.\<close>

fun after_mark :: "string \<Rightarrow> string \<Rightarrow> string option" where
  "after_mark p [] = (if p = [] then Some [] else None)"
| "after_mark p (c # s) = (if starts_with p (c # s) then Some (drop (length p) (c # s)) else after_mark p s)"

definition xml_field :: "string \<Rightarrow> char \<Rightarrow> string \<Rightarrow> string option" where
  "xml_field mark stop doc =
     Option.bind (after_mark mark doc) (\<lambda>s. let v = takeWhile (\<lambda>c. c \<noteq> stop) s in xml_read (length v) v)"

text \<open>A text in which no occurrence of a mark begins, not even one that goes on behind it.\<close>

fun meets :: "string \<Rightarrow> string \<Rightarrow> bool" where
  "meets [] s = True"
| "meets (x # xs) [] = True"
| "meets (x # xs) (y # ys) = (if x = y then meets xs ys else False)"

lemma meets_iff: "meets p s \<longleftrightarrow> starts_with p s \<or> starts_with s p"
  by (induction p s rule: meets.induct) (auto simp: starts_with_def)

lemma meets_append: "starts_with p (a @ b) \<or> starts_with (a @ b) p \<Longrightarrow> meets p a"
proof -
  assume "starts_with p (a @ b) \<or> starts_with (a @ b) p"
  then obtain t where "a @ b = p @ t \<or> p = a @ b @ t" using starts_withE by fastforce
  then obtain u where "a = p @ u \<or> a @ u = p" unfolding append_eq_append_conv2 by blast
  then show "meets p a" unfolding meets_iff by (metis starts_with_append)
qed

fun avoids :: "string \<Rightarrow> string \<Rightarrow> bool" where
  "avoids p [] = True"
| "avoids p (c # s) = (if meets p (c # s) then False else avoids p s)"

lemma after_avoids: "avoids p a \<Longrightarrow> after_mark p (a @ b) = after_mark p b"
proof (induction a)
  case (Cons c a)
  then have "\<not> meets p (c # a)" and a: "avoids p a" by (auto split: if_splits)
  then have "\<not> starts_with p ((c # a) @ b)" using meets_append by blast
  then show ?case using Cons.IH [OF a] by simp
qed simp

lemma avoids_append: "avoids p a \<Longrightarrow> avoids p b \<Longrightarrow> avoids p (a @ b)"
proof (induction a)
  case (Cons c a)
  then have "\<not> meets p (c # a)" and a: "avoids p a" by (auto split: if_splits)
  then have "\<not> meets p ((c # a) @ b)" using meets_append [of p "c # a" b] unfolding meets_iff [of p "(c # a) @ b"] by blast
  then show ?case using Cons.IH [OF a Cons.prems(2)] by simp
qed simp

lemma avoids_free: "m \<notin> set a \<Longrightarrow> avoids (m # p) a"
  by (induction a) auto

lemma after_here: "after_mark p (p @ b) = Some b"
proof (cases "p @ b")
  case (Cons c s)
  have "starts_with p (c # s)" "drop (length p) (c # s) = b" unfolding Cons [symmetric] by simp_all
  then show ?thesis unfolding Cons by simp
qed simp

lemma xml_field_reads:
  assumes "avoids m a" and "stop \<in> {CHR ''<'', CHR 0x27}"
  shows "xml_field m stop (a @ m @ xml_escape v @ stop # rest) = Some v"
proof -
  have "stop \<notin> set (xml_escape v)" using xml_escape_safe [of v] assms(2) by auto
  then have "takeWhile (\<lambda>c. c \<noteq> stop) (xml_escape v @ stop # rest) = xml_escape v"
    by (subst takeWhile_append2) auto
  then show ?thesis
    by (simp add: xml_field_def after_avoids [OF assms(1)] after_here xml_read_escape [OF xml_escape_length] Let_def)
qed

definition name_mark :: string where "name_mark = ''<name>''"
definition disk_mark :: string where "disk_mark = ''<source file='' @ apostrophe"
definition seed_mark :: string where "seed_mark = drop 4 seed_xml_1"
definition pubkey_mark :: string where
  "pubkey_mark = ''<lsbx:pubkey xmlns:lsbx=\"https://lufs.org/lsbx/domain-metadata\">''"

text \<open>The pieces of the templates: which mark ends one, which marks it avoids, how it begins.\<close>

definition ends_in :: "string \<Rightarrow> string \<Rightarrow> bool" where
  "ends_in m a = (case strip_suffix m a of None \<Rightarrow> False | Some b \<Rightarrow> avoids m b)"

text \<open>A line can be looked at alone, since a mark has no line break.\<close>

lemma avoids_lines:
  assumes "take 1 m = ''<''" and "list_all (avoids m) ls"
  shows "avoids m (join_with newline ls)"
proof -
  obtain p where m: "m = CHR ''<'' # p" using assms(1) by (cases m) auto
  have n: "avoids m newline" unfolding m by (rule avoids_free) (simp add: newline_def)
  have "avoids m (join_with sep ls)" if "sep = newline" for sep using assms(2) that
    by (induction sep ls rule: join_with.induct) (auto intro!: avoids_append n)
  then show ?thesis by simp
qed

lemma ends_in_last:
  assumes "avoids m a" and "ends_in m b"
  shows "ends_in m (a @ b)"
proof -
  obtain c where b: "b = c @ m" "avoids m c" using assms(2) by (auto simp: ends_in_def strip_suffix_Some split: option.splits)
  then have "strip_suffix m (a @ b) = Some (a @ c)" using strip_suffix_append [of m "a @ c"] by simp
  then show ?thesis by (simp add: ends_in_def avoids_append [OF assms(1) b(2)])
qed

lemma ends_in_lines:
  assumes "take 1 m = ''<''" and "list_all (avoids m) (butlast ls)" and "ls \<noteq> []" and "ends_in m (last ls)"
  shows "ends_in m (join_with newline ls)"
proof -
  obtain p where m: "m = CHR ''<'' # p" using assms(1) by (cases m) auto
  have n: "avoids m newline" unfolding m by (rule avoids_free) (simp add: newline_def)
  have "ends_in m (join_with sep ls)" if "sep = newline" for sep using assms(2-4) that
    by (induction sep ls rule: join_with.induct) (auto intro!: ends_in_last n split: if_splits)
  then show ?thesis by simp
qed

lemma pubkey_avoided:
  "avoids pubkey_mark linux_xml_1" "avoids pubkey_mark linux_xml_2" "avoids pubkey_mark linux_xml_3" "avoids pubkey_mark linux_xml_4"
  "avoids pubkey_mark windows_xml_5"
  unfolding linux_xml_1_def linux_xml_2_def linux_xml_3_def linux_xml_4_def windows_xml_5_def
  by (rule avoids_lines; code_simp)+

lemma disk_avoided:
  "avoids disk_mark linux_xml_1" "avoids disk_mark linux_xml_2" "avoids disk_mark linux_xml_3" "avoids disk_mark linux_xml_4"
  "avoids disk_mark linux_xml_5" "avoids disk_mark windows_xml_5" "avoids disk_mark windows_xml_6"
  unfolding linux_xml_1_def linux_xml_2_def linux_xml_3_def linux_xml_4_def linux_xml_5_def windows_xml_5_def windows_xml_6_def
  by (rule avoids_lines; code_simp)+

lemma seed_avoided:
  "avoids seed_mark linux_xml_1" "avoids seed_mark linux_xml_2" "avoids seed_mark linux_xml_3" "avoids seed_mark linux_xml_4"
  "avoids seed_mark linux_xml_5" "avoids seed_mark linux_xml_7"
  unfolding linux_xml_1_def linux_xml_2_def linux_xml_3_def linux_xml_4_def linux_xml_5_def linux_xml_7_def
  by (rule avoids_lines; code_simp)+

lemma seed_avoided_6: "avoids seed_mark linux_xml_6"
  by code_simp

lemma marks_end:
  "ends_in name_mark linux_xml_1" "ends_in pubkey_mark linux_xml_5" "ends_in disk_mark linux_xml_6" "ends_in pubkey_mark windows_xml_6"
  unfolding linux_xml_1_def linux_xml_5_def linux_xml_6_def windows_xml_6_def
  by (rule ends_in_lines; code_simp)+

lemma pieces_begin:
  "ends_in seed_mark seed_xml_1" "take 1 linux_xml_2 = ''<''" "take 1 linux_xml_6 = ''<''" "take 1 linux_xml_7 = apostrophe"
  "take 1 seed_xml_2 = apostrophe" "take 1 windows_xml_8 = apostrophe"
  by code_simp+

lemma windows_as_linux:
  "windows_xml_1 = linux_xml_1" "windows_xml_2 = linux_xml_2" "windows_xml_3 = linux_xml_3" "windows_xml_4 = linux_xml_4"
  "windows_xml_7 = linux_xml_6"
  by (simp_all only: windows_xml_1_def linux_xml_1_def windows_xml_2_def linux_xml_2_def windows_xml_3_def linux_xml_3_def
      windows_xml_4_def linux_xml_4_def windows_xml_7_def linux_xml_6_def)

lemmas domain_pieces = pubkey_avoided disk_avoided seed_avoided seed_avoided_6 marks_end pieces_begin

lemma marks_lt: "m \<in> {name_mark, disk_mark, seed_mark, pubkey_mark} \<Longrightarrow> \<exists>p. m = CHR ''<'' # p"
proof -
  have "take 1 m = ''<''" if "m \<in> {name_mark, disk_mark, seed_mark, pubkey_mark}"
  proof -
    have "list_all (\<lambda>m. take 1 m = ''<'') [name_mark, disk_mark, seed_mark, pubkey_mark]" by code_simp
    with that show ?thesis by (auto simp: list_all_iff)
  qed
  then show "m \<in> {name_mark, disk_mark, seed_mark, pubkey_mark} \<Longrightarrow> \<exists>p. m = CHR ''<'' # p"
    by (cases m) auto
qed

lemma values_avoid:
  assumes "m \<in> {name_mark, disk_mark, seed_mark, pubkey_mark}"
  shows "avoids m (xml_escape v)" "avoids m (show_nat n)"
proof -
  obtain p where m: "m = CHR ''<'' # p" using marks_lt [OF assms] by blast
  have "CHR ''<'' \<notin> set (xml_escape v)" using xml_escape_safe [of v] by auto
  then show "avoids m (xml_escape v)" unfolding m by (rule avoids_free)
  have "\<not> is_digit (CHR ''<'')" by (simp add: is_digit_def)
  then have "CHR ''<'' \<notin> set (show_nat n)" using show_nat_spaceless by blast
  then show "avoids m (show_nat n)" unfolding m by (rule avoids_free)
qed

text \<open>A value between a piece that ends in its mark and a piece that begins with its end is read back.\<close>

lemma piece_reads:
  assumes "ends_in m a" and "avoids m pre" and "take 1 b = [stop]" and "stop \<in> {CHR ''<'', CHR 0x27}"
  shows "xml_field m stop (pre @ a @ xml_escape v @ b @ rest) = Some v"
proof -
  obtain a' where a: "a = a' @ m" "avoids m a'"
    using assms(1) by (auto simp: ends_in_def strip_suffix_Some split: option.splits)
  obtain b' where b: "b = stop # b'" using assms(3) by (cases b) auto
  have "xml_field m stop ((pre @ a') @ m @ xml_escape v @ stop # (b' @ rest)) = Some v"
    by (rule xml_field_reads [OF avoids_append [OF assms(2) a(2)] assms(4)])
  then show ?thesis by (simp add: a b)
qed

lemma linux_fields:
  assumes doc: "doc = linux_domain (xml_escape name) kib cpu (xml_escape key) (xml_escape disk) seed"
  shows "xml_field name_mark (CHR ''<'') doc = Some name" "xml_field pubkey_mark (CHR ''<'') doc = Some key"
    "xml_field disk_mark (CHR 0x27) doc = Some disk"
    "seed = seed_disk (Some iso_path) \<Longrightarrow> xml_field seed_mark (CHR 0x27) doc = Some iso_path"
proof -
  note d = doc linux_domain_def
  have "xml_field name_mark (CHR ''<'') ([] @ linux_xml_1 @ xml_escape name @ linux_xml_2 @ rest) = Some name" for rest
    by (rule piece_reads) (use domain_pieces in simp_all)
  then show "xml_field name_mark (CHR ''<'') doc = Some name" unfolding d by simp
  have "avoids pubkey_mark (linux_xml_1 @ xml_escape name @ linux_xml_2 @ show_nat (unat kib) @ linux_xml_3
      @ show_nat (unat kib) @ linux_xml_4 @ show_nat cpu)"
    using domain_pieces by (intro avoids_append values_avoid) simp_all
  from piece_reads [OF marks_end(2) this pieces_begin(3), where v = key]
  show "xml_field pubkey_mark (CHR ''<'') doc = Some key" unfolding d by (simp add: append_assoc)
  have "avoids disk_mark (linux_xml_1 @ xml_escape name @ linux_xml_2 @ show_nat (unat kib) @ linux_xml_3
      @ show_nat (unat kib) @ linux_xml_4 @ show_nat cpu @ linux_xml_5 @ xml_escape key)"
    using domain_pieces by (intro avoids_append values_avoid) simp_all
  from piece_reads [OF marks_end(3) this pieces_begin(4) [unfolded apostrophe_def], where v = disk]
  show "xml_field disk_mark (CHR 0x27) doc = Some disk" unfolding d by simp
  have "avoids seed_mark (linux_xml_1 @ xml_escape name @ linux_xml_2 @ show_nat (unat kib) @ linux_xml_3
      @ show_nat (unat kib) @ linux_xml_4 @ show_nat cpu @ linux_xml_5 @ xml_escape key @ linux_xml_6 @ xml_escape disk @ linux_xml_7)"
    using domain_pieces by (intro avoids_append values_avoid) simp_all
  from piece_reads [OF pieces_begin(1) this pieces_begin(5) [unfolded apostrophe_def], where v = iso_path]
  show "xml_field seed_mark (CHR 0x27) doc = Some iso_path" if "seed = seed_disk (Some iso_path)"
    unfolding d that seed_disk_def by simp
qed

lemma windows_fields:
  assumes doc: "doc = render_windows_domain_xml (xml_escape name) kib cpu (xml_escape disk) (xml_escape key)"
  shows "xml_field name_mark (CHR ''<'') doc = Some name" "xml_field pubkey_mark (CHR ''<'') doc = Some key"
    "xml_field disk_mark (CHR 0x27) doc = Some disk"
proof -
  note d = doc render_windows_domain_xml_def
  have "xml_field name_mark (CHR ''<'') ([] @ windows_xml_1 @ xml_escape name @ windows_xml_2 @ rest) = Some name" for rest
    by (rule piece_reads) (use domain_pieces in \<open>simp_all add: windows_as_linux\<close>)
  then show "xml_field name_mark (CHR ''<'') doc = Some name" unfolding d windows_as_linux by simp
  have "avoids pubkey_mark (windows_xml_1 @ xml_escape name @ windows_xml_2 @ show_nat (unat kib) @ windows_xml_3
      @ show_nat (unat kib) @ windows_xml_4 @ show_nat cpu @ windows_xml_5 @ xml_escape name)"
    using domain_pieces by (intro avoids_append values_avoid) (simp_all add: windows_as_linux)
  from piece_reads [OF marks_end(4) this pieces_begin(3), where v = key]
  show "xml_field pubkey_mark (CHR ''<'') doc = Some key" unfolding d windows_as_linux by simp
  have "avoids disk_mark (windows_xml_1 @ xml_escape name @ windows_xml_2 @ show_nat (unat kib) @ windows_xml_3
      @ show_nat (unat kib) @ windows_xml_4 @ show_nat cpu @ windows_xml_5 @ xml_escape name @ windows_xml_6 @ xml_escape key)"
    using domain_pieces by (intro avoids_append values_avoid) (simp_all add: windows_as_linux)
  from piece_reads [OF marks_end(3) this pieces_begin(6) [unfolded apostrophe_def], where v = disk and rest = "[]"]
  show "xml_field disk_mark (CHR 0x27) doc = Some disk" unfolding d windows_as_linux by simp
qed

lemma domain_fields:
  assumes "render_domain_xml p key = Inr doc"
  shows "xml_field name_mark (CHR ''<'') doc = Some (dx_name p)" "xml_field pubkey_mark (CHR ''<'') doc = Some key"
    "xml_field disk_mark (CHR 0x27) doc = Some (dx_disk_path p)"
    "dx_seed_iso p = Some i \<Longrightarrow> dx_os p \<noteq> ''windows'' \<Longrightarrow> xml_field seed_mark (CHR 0x27) doc = Some i"
  using assms linux_fields [OF refl] windows_fields [OF refl]
  by (auto simp: render_domain_xml_def Let_def elim!: bindS_InrE split: if_splits)

subsection \<open>The words of a guest command\<close>

lemma sh_word_plain:
  assumes "list_all plain_arg_char w" and "s = [] \<or> hd s = CHR '' ''"
  shows "sh_word False (w @ s) = Some (w, s)"
  using assms(1)
proof (induction w)
  case Nil
  then show ?case using assms(2) by (cases s) (auto simp: sh_plain_def)
next
  case (Cons c w)
  have "sh_plain c" "c \<noteq> CHR 0x27" "c \<noteq> CHR 0x5C"
    using Cons.prems by (auto simp: plain_arg_char_def sh_plain_def is_alnum_def is_digit_def is_lower_def is_upper_def)
  then show ?case using Cons by simp
qed

lemma sh_word_guest_quote:
  assumes "s = [] \<or> hd s = CHR '' ''"
  shows "sh_word False (guest_quote w @ s) = Some (w, s)"
proof (cases "w \<noteq> [] \<and> list_all plain_arg_char w")
  case True
  then show ?thesis using sh_word_plain [OF _ assms] by (simp add: guest_quote_def)
next
  case False
  then show ?thesis using assms by (auto simp: guest_quote_def sh_plain_def intro!: sh_word_shell_quote)
qed

lemma guest_quote_start: "dropWhile (\<lambda>c. c = CHR '' '') (guest_quote w @ s) = guest_quote w @ s"
proof -
  have "\<not> plain_arg_char (CHR '' '')" by (simp add: plain_arg_char_def is_alnum_def is_digit_def is_lower_def is_upper_def)
  then show ?thesis using shell_quote_hd [of w] by (cases w) (auto simp: guest_quote_def)
qed

lemma guest_argv: "sh_argv (length args) (guest_quote_join args) = Some args"
  unfolding guest_quote_join_def
proof (induction args rule: join_spaces.induct)
  case (2 w)
  then show ?case using sh_word_guest_quote [of "[]" w] guest_quote_start [of w "[]"] by simp
next
  case (3 w v vs)
  have skip: "sh_argv (Suc n) (CHR '' '' # t) = sh_argv (Suc n) t" for n t by simp
  show ?case using 3 sh_word_guest_quote [of "CHR '' '' # join_spaces (map guest_quote (v # vs))" w]
    by (simp add: guest_quote_start del: sh_argv.simps(2) add: sh_argv.simps(2) [of "Suc (length vs)" "guest_quote w @ t" for t] skip)
qed simp

end
