(* ===== verification/Lsbx_Libvirt.thy ===== *)
theory Lsbx_Libvirt
  imports Lsbx_Domain Lsbx_Exe_Transport "HOL-Library.List_Lexorder" "HOL-Library.Char_ord"
begin

text \<open>
  The libvirt backend (\<open>lsbx-backend-libvirt\<close>). libvirt, the programs it starts (\<open>virsh\<close>, \<open>qemu-img\<close>,
  \<open>xorriso\<close>, \<open>ssh\<close>, \<open>scp\<close>) and the guests are functions on a state \<open>'h\<close> of the host; a program may also
  change files, and takes some time. The backend keeps the addresses of its guests. A path names a file by
  its directory and its last component; links are known to the function \<open>vi_real\<close> only.
\<close>

subsection \<open>The host\<close>

record virt_error =
  ve_no_domain :: bool
  ve_message :: string

text \<open>
  A domain is known by a handle. A program gets its arguments and a limit of time, if it has one; it gives
  its outcome, the time it took, and the files and the host afterwards.
\<close>

record 'h virt =
  vi_open :: "string \<Rightarrow> ('h, virt_error, unit) comp"
  vi_lookup :: "string \<Rightarrow> ('h, virt_error, string) comp"
  vi_create_xml :: "string \<Rightarrow> ('h, virt_error, string) comp"
  vi_name :: "string \<Rightarrow> ('h, virt_error, string) comp"
  vi_destroy :: "string \<Rightarrow> ('h, virt_error, unit) comp"
  vi_rename :: "string \<Rightarrow> string \<Rightarrow> ('h, virt_error, unit) comp"
  vi_list :: "('h, virt_error, string list) comp"
  vi_program :: "string \<Rightarrow> string list \<Rightarrow> nat option \<Rightarrow> fs \<times> 'h \<Rightarrow> proc_outcome \<times> nat \<times> fs \<times> 'h"
  vi_dropped :: "string \<Rightarrow> string list \<Rightarrow> nat \<Rightarrow> fs \<times> 'h \<Rightarrow> fs \<times> 'h"
  vi_real :: "fs \<Rightarrow> string \<Rightarrow> string option"
  vi_parse_ip :: "string \<Rightarrow> ip_addr option"
  vi_dur_text :: "nat \<Rightarrow> string"
  vi_env :: env
  vi_home :: "string option"

record 'h lv_state =
  lv_fs :: fs
  lv_host :: 'h
  lv_now :: nat
  lv_ips :: "(string \<times> string) list"

type_synonym ('h, 'a) lv_op = "('h lv_state, lsbx_error, 'a) comp"

datatype disk_mode = DiskCopy | DiskNew

record libvirt_config =
  lc_transport :: libvirt_transport
  lc_images_dir :: string
  lc_work_dir :: string
  lc_disk_mode :: disk_mode
  lc_username :: string

definition map_virt_err :: "virt_error \<Rightarrow> lsbx_error" where
  "map_virt_err e = (if ve_no_domain e then NotFound (ve_message e) else BackendUnavailable (ve_message e))"

definition in_virt :: "('h, virt_error, 'a) comp \<Rightarrow> ('h, 'a) lv_op" where
  "in_virt m s = (case m (lv_host s) of
     (Inr x, h) \<Rightarrow> (Inr x, s\<lparr>lv_host := h\<rparr>) | (Inl e, h) \<Rightarrow> (Inl (map_virt_err e), s\<lparr>lv_host := h\<rparr>))"

definition in_files :: "(io_error \<Rightarrow> lsbx_error) \<Rightarrow> 'a io \<Rightarrow> ('h, 'a) lv_op" where
  "in_files err m s = (case m (lv_fs s) of
     (Inr x, f) \<Rightarrow> (Inr x, s\<lparr>lv_fs := f\<rparr>) | (Inl e, f) \<Rightarrow> (Inl (err e), s\<lparr>lv_fs := f\<rparr>))"

definition run_program :: "'h virt \<Rightarrow> string \<Rightarrow> string list \<Rightarrow> nat option \<Rightarrow> 'h lv_state \<Rightarrow> proc_outcome \<times> 'h lv_state" where
  "run_program vi prog args limit s =
     (case vi_program vi prog args limit (lv_fs s, lv_host s) of
        (p, d, f, h) \<Rightarrow> (p, s\<lparr>lv_fs := f, lv_host := h, lv_now := lv_now s + d\<rparr>))"

text \<open>\<open>Command::output\<close>: an error of the call, or the exit code with both outputs. A program without a limit does not time out.\<close>

definition output_of :: "proc_outcome \<Rightarrow> string + int option \<times> string \<times> string" where
  "output_of p = (case p of
     Exited c out err \<Rightarrow> Inr (c, out, err) | NotStarted e \<Rightarrow> Inl e | WaitFailed e \<Rightarrow> Inl e | TimedOut \<Rightarrow> Inl [])"

definition libvirt_connect :: "'h virt \<Rightarrow> libvirt_transport \<Rightarrow> ('h, lsbx_error, libvirt_config) comp" where
  "libvirt_connect vi t =
     bindE (mapErr map_virt_err (vi_open vi (to_connect_uri t))) (\<lambda>_.
     retE \<lparr>lc_transport = t, lc_images_dir = ''/var/lib/lsbx/images'', lc_work_dir = ''/var/lib/lsbx/vms'',
           lc_disk_mode = DiskCopy, lc_username = ''lsbx''\<rparr>)"

subsection \<open>The address of a guest\<close>

definition run_virsh :: "'h virt \<Rightarrow> libvirt_config \<Rightarrow> string list \<Rightarrow> ('h, string) lv_op" where
  "run_virsh vi cfg args s =
     (let uri = to_connect_uri (lc_transport cfg);
          connect = (if uri \<noteq> [] \<and> uri \<noteq> default_local_uri then [''--connect='' @ uri] else [])
      in case run_program vi ''virsh'' (connect @ args) None s of
           (p, s') \<Rightarrow>
             ((case output_of p of
                 Inl e \<Rightarrow> Inl (BackendUnavailable (''virsh exec failed: '' @ e))
               | Inr (c, out, err) \<Rightarrow>
                   (if c = Some 0 then Inr out
                    else Inl (BackendUnavailable (''virsh '' @ join_spaces args @ '' failed: '' @ err)))), s'))"

text \<open>The pattern \<open>ipv4\s+([0-9.]+)/\<close>; only the leftmost place where it matches counts.\<close>

definition ipv4_here :: "string \<Rightarrow> string option" where
  "ipv4_here s =
     Option.bind (strip_prefix ''ipv4'' s) (\<lambda>r.
       let t = dropWhile is_space r; w = takeWhile (\<lambda>c. is_digit c \<or> c = CHR ''.'') t
       in if t \<noteq> r \<and> w \<noteq> [] \<and> starts_with ''/'' (drop (length w) t) then Some w else None)"

definition domifaddr_ipv4 :: "string \<Rightarrow> string option" where
  "domifaddr_ipv4 = find_match ipv4_here"

definition non_routeable :: "ip_addr \<Rightarrow> bool" where
  "non_routeable a = (case a of V4 x y _ _ \<Rightarrow> x = 127 \<or> x = 169 \<and> y = 254 | V6 w \<Rightarrow> w = 1)"

definition routable_ip :: "'h virt \<Rightarrow> string \<Rightarrow> string option" where
  "routable_ip vi out =
     Option.bind (domifaddr_ipv4 out) (\<lambda>ip.
       case vi_parse_ip vi ip of Some a \<Rightarrow> if non_routeable a then None else Some ip | None \<Rightarrow> None)"

fun probe_sources :: "'h virt \<Rightarrow> libvirt_config \<Rightarrow> string \<Rightarrow> string list \<Rightarrow> 'h lv_state \<Rightarrow> string option \<times> 'h lv_state" where
  "probe_sources vi cfg tag [] s = (None, s)"
| "probe_sources vi cfg tag (src # srcs) s =
     (case run_virsh vi cfg [''domifaddr'', tag, ''--source'', src] s of
        (r, s') \<Rightarrow>
          (case (case r of Inr out \<Rightarrow> routable_ip vi out | Inl _ \<Rightarrow> None) of
             Some ip \<Rightarrow> (Some ip, s')
           | None \<Rightarrow> probe_sources vi cfg tag srcs s'))"

lemma run_virsh_now: "lv_now s \<le> lv_now (snd (run_virsh vi cfg args s))"
  by (auto simp: run_virsh_def run_program_def Let_def split: prod.splits)

lemma probe_sources_now: "lv_now s \<le> lv_now (snd (probe_sources vi cfg tag srcs s))"
proof (induction srcs arbitrary: s)
  case (Cons src srcs)
  obtain r s' where r: "run_virsh vi cfg [''domifaddr'', tag, ''--source'', src] s = (r, s')" by fastforce
  have "lv_now s \<le> lv_now s'" using run_virsh_now [of s vi cfg "[''domifaddr'', tag, ''--source'', src]"] r by simp
  moreover have "lv_now s' \<le> lv_now (snd (probe_sources vi cfg tag srcs s'))" by (rule Cons.IH)
  ultimately show ?case by (simp add: r split: option.split)
qed simp

lemma probe_now: "probe_sources vi cfg tag srcs s = (r, s') \<Longrightarrow> lv_now s \<le> lv_now s'"
  using probe_sources_now by (metis snd_conv)

definition ip_timeout :: nat where "ip_timeout = secs 180"
definition ip_interval :: nat where "ip_interval = secs 3"

function ip_loop :: "'h virt \<Rightarrow> libvirt_config \<Rightarrow> string \<Rightarrow> nat \<Rightarrow> 'h lv_state \<Rightarrow> string option \<times> 'h lv_state" where
  "ip_loop vi cfg tag deadline s =
     (if deadline \<le> lv_now s then (None, s)
      else (case probe_sources vi cfg tag [''agent'', ''lease''] s of
              (Some ip, s') \<Rightarrow> (Some ip, s')
            | (None, s') \<Rightarrow> ip_loop vi cfg tag deadline (s'\<lparr>lv_now := lv_now s' + ip_interval\<rparr>)))"
  by pat_completeness auto

termination
  by (relation "measure (\<lambda>(vi, cfg, tag, deadline, s). deadline - lv_now s)")
    (auto simp: ip_interval_def secs_def simp del: probe_sources.simps dest!: probe_now [OF sym])

declare ip_loop.simps [simp del]

definition guest_host_for :: "'h virt \<Rightarrow> libvirt_config \<Rightarrow> string \<Rightarrow> ('h, string) lv_op" where
  "guest_host_for vi cfg tag s =
     (case ip_loop vi cfg tag (lv_now s + ip_timeout) s of
        (Some ip, s') \<Rightarrow> (Inr ip, s')
      | (None, s') \<Rightarrow> (Inl (BackendUnavailable (''guest '' @ tag @ '' did not obtain an IP within '' @ vi_dur_text vi ip_timeout)), s'))"

subsection \<open>The files of a machine\<close>

definition vm_disk_path :: "string \<Rightarrow> string \<Rightarrow> string" where
  "vm_disk_path work tag = path_join work (tag @ ''.qcow2'')"

definition seed_iso_path :: "string \<Rightarrow> string \<Rightarrow> string" where
  "seed_iso_path work tag = path_join work (tag @ ''-cidata.iso'')"

definition seed_dir :: "string \<Rightarrow> string \<Rightarrow> string" where
  "seed_dir work tag = path_join work (tag @ ''-seed'')"

definition remove_path :: "string \<Rightarrow> fs \<Rightarrow> fs" where
  "remove_path p f = snd (remove_file (fst (path_pair p)) (snd (path_pair p)) f)"

definition cleanup_vm_artifacts :: "string \<Rightarrow> string \<Rightarrow> fs \<Rightarrow> fs" where
  "cleanup_vm_artifacts work tag f =
     snd (remove_dir_all (seed_dir work tag) (remove_path (seed_iso_path work tag) (remove_path (vm_disk_path work tag) f)))"

definition run_qemu_img :: "'h virt \<Rightarrow> string list \<Rightarrow> string \<Rightarrow> ('h, unit) lv_op" where
  "run_qemu_img vi args action s =
     (case run_program vi ''qemu-img'' args None s of
        (p, s') \<Rightarrow>
          ((case output_of p of
              Inl e \<Rightarrow> Inl (BackendUnavailable (''failed to spawn qemu-img '' @ action @ '': '' @ e))
            | Inr (c, out, err) \<Rightarrow>
                (if c = Some 0 then Inr ()
                 else Inl (BackendUnavailable (''qemu-img '' @ action @ '' failed (exit '' @ show_exit c @ ''): '' @ trim err)))), s'))"

definition make_disk :: "'h virt \<Rightarrow> disk_mode \<Rightarrow> string \<Rightarrow> string \<Rightarrow> ('h, unit) lv_op" where
  "make_disk vi mode golden disk =
     (case mode of
        DiskCopy \<Rightarrow> run_qemu_img vi (qemu_cow_args golden disk) ''create''
      | DiskNew \<Rightarrow> run_qemu_img vi (qemu_convert_args golden disk ''qcow2'') ''convert'')"

definition user_entry :: "string \<Rightarrow> string \<Rightarrow> string list" where
  "user_entry name pubkey =
     [''  - name: '' @ name, ''    sudo: ALL=(ALL) NOPASSWD:ALL'', ''    groups: [ sudo, docker ]'',
      ''    shell: /bin/bash'', ''    ssh_authorized_keys:'', ''      - '' @ trim pubkey]"

definition user_data :: "string \<Rightarrow> string \<Rightarrow> string" where
  "user_data username pubkey =
     unlines ([''#cloud-config'', ''bootcmd:'', ''  - ip link set dev ens3 mtu 1280 2>/dev/null || true'',
         ''  - ip link set dev eth0 mtu 1280 2>/dev/null || true'', ''users:'']
       @ user_entry username pubkey
       @ (if username \<noteq> ''exedev'' then user_entry ''exedev'' pubkey else [])
       @ [''ssh_pwauth: false''])"

definition meta_data :: "string \<Rightarrow> string" where
  "meta_data name = unlines [''instance-id: '' @ name, ''local-hostname: '' @ name]"

definition xorriso_args :: "string \<Rightarrow> string \<Rightarrow> string list" where
  "xorriso_args out dir = [''-as'', ''mkisofs'', ''-o'', out, ''-V'', ''cidata'', ''-J'', ''-R'', dir]"

definition make_iso :: "'h virt \<Rightarrow> string \<Rightarrow> string \<Rightarrow> ('h, unit) lv_op" where
  "make_iso vi out dir s =
     (case run_program vi ''xorriso'' (xorriso_args out dir) None s of
        (p, s') \<Rightarrow>
          (case output_of p of
             Inl e \<Rightarrow> (Inl (BackendUnavailable (''xorriso exec failed: '' @ e)), s')
           | Inr (c, _, err) \<Rightarrow>
               (if c = Some 0 then Inr () else Inl (BackendUnavailable (''xorriso failed: '' @ err)),
                s'\<lparr>lv_fs := snd (remove_dir_all dir (lv_fs s'))\<rparr>)))"

definition create_seed_iso :: "'h virt \<Rightarrow> libvirt_config \<Rightarrow> string \<Rightarrow> string \<Rightarrow> ('h, string) lv_op" where
  "create_seed_iso vi cfg name pubkey =
     (let work = lc_work_dir cfg; dir = seed_dir work name;
          unavailable = (\<lambda>what e. BackendUnavailable (what @ '': '' @ io_text e))
      in bindE (in_files (unavailable (''failed to create seed directory '' @ quoted dir)) (create_path dir)) (\<lambda>_.
         bindE (in_files (unavailable ''failed to write user-data'')
                  (write_file dir ''user-data'' (FText (user_data (lc_username cfg) pubkey)))) (\<lambda>_.
         bindE (in_files (unavailable ''failed to write meta-data'') (write_file dir ''meta-data'' (FText (meta_data name)))) (\<lambda>_.
         bindE (make_iso vi (seed_iso_path work name) dir) (\<lambda>_.
         retE (seed_iso_path work name))))))"

subsection \<open>Creating and destroying\<close>

text \<open>A machine whose address does not show up is destroyed again, with its files.\<close>

definition abandon :: "'h virt \<Rightarrow> libvirt_config \<Rightarrow> string \<Rightarrow> string \<Rightarrow> string \<Rightarrow> 'h lv_state \<Rightarrow> 'h lv_state" where
  "abandon vi cfg dmn name tag s =
     (let s1 = snd (in_virt (vi_destroy vi dmn) s); work = lc_work_dir cfg
      in s1\<lparr>lv_fs := snd (remove_dir_all (seed_dir work tag)
           (remove_path (seed_iso_path work tag) (remove_path (vm_disk_path work name) (lv_fs s1))))\<rparr>)"

definition settle :: "'h virt \<Rightarrow> libvirt_config \<Rightarrow> string \<Rightarrow> string \<Rightarrow> string \<Rightarrow> ('h, unit) lv_op" where
  "settle vi cfg dmn name tag s =
     (case guest_host_for vi cfg tag s of
        (Inr ip, s') \<Rightarrow> (Inr (), s'\<lparr>lv_ips := AList.update tag ip (lv_ips s')\<rparr>)
      | (Inl e, s') \<Rightarrow> (Inl e, abandon vi cfg dmn name tag s'))"

definition host_name :: "libvirt_transport \<Rightarrow> string" where
  "host_name t = (case t of LocalHost _ \<Rightarrow> ''localhost'' | RemoteSsh host _ _ _ \<Rightarrow> host)"

text \<open>Everything up to the description of the domain.\<close>

definition prepare_domain :: "'h virt \<Rightarrow> libvirt_config \<Rightarrow> create_from_golden_request \<Rightarrow> ('h, string) lv_op" where
  "prepare_domain vi cfg rq =
     (let work = lc_work_dir cfg; disk = vm_disk_path work (cg_name rq)
      in bindE (liftE (golden_disk (lc_images_dir cfg) (cg_golden rq))) (\<lambda>golden.
         bindE (in_files (\<lambda>e. BackendUnavailable (''failed to create VM disk work directory '' @ quoted work @ '': '' @ io_text e))
                  (create_path work)) (\<lambda>_.
         bindE (make_disk vi (lc_disk_mode cfg) golden disk) (\<lambda>_.
         bindE (if cg_os rq = ''windows'' then retE None
                else bindE (create_seed_iso vi cfg (cg_name rq) (cg_pubkey rq)) (\<lambda>p. retE (Some p))) (\<lambda>seed.
         liftE (render_domain_xml \<lparr>dx_name = cg_name rq, dx_cpu = cg_cpu rq, dx_memory = cg_memory rq, dx_disk_path = disk,
             dx_seed_iso = seed, dx_os = cg_os rq\<rparr> (cg_pubkey rq)))))))"

definition libvirt_create :: "'h virt \<Rightarrow> libvirt_config \<Rightarrow> create_from_golden_request \<Rightarrow> ('h, created_vm) lv_op" where
  "libvirt_create vi cfg rq =
     bindE (prepare_domain vi cfg rq) (\<lambda>xml.
     bindE (in_virt (vi_create_xml vi xml)) (\<lambda>dmn.
     bindE (in_virt (vi_name vi dmn)) (\<lambda>tag.
     bindE (settle vi cfg dmn (cg_name rq) tag) (\<lambda>_.
     retE \<lparr>cv_vm_tag = tag, cv_host = host_name (lc_transport cfg), cv_https_url = None\<rparr>))))"

definition libvirt_destroy :: "'h virt \<Rightarrow> libvirt_config \<Rightarrow> string \<Rightarrow> ('h, unit) lv_op" where
  "libvirt_destroy vi cfg tag s =
     (case in_virt (vi_lookup vi tag) s of
        (Inl (NotFound m), s') \<Rightarrow> (Inl (NotFound m), s'\<lparr>lv_fs := cleanup_vm_artifacts (lc_work_dir cfg) tag (lv_fs s')\<rparr>)
      | (Inl e, s') \<Rightarrow> (Inl e, s')
      | (Inr dmn, s') \<Rightarrow>
          bindE (in_virt (vi_destroy vi dmn)) (\<lambda>_ s2.
            (Inr (), s2\<lparr>lv_ips := AList.delete tag (lv_ips s2),
                lv_fs := cleanup_vm_artifacts (lc_work_dir cfg) tag (lv_fs s2)\<rparr>)) s')"

subsection \<open>Commands and files of a guest\<close>

definition resolve_identity_file :: "'h virt \<Rightarrow> string" where
  "resolve_identity_file vi =
     (case vi_env vi ''LSBX_GUEST_SSH_KEY'' of
        Some p \<Rightarrow> p | None \<Rightarrow> path_join (path_join (unwrap_or ''/root'' (vi_home vi)) ''.ssh'') ''lsbx_guest_key'')"

definition guest_address :: "'h virt \<Rightarrow> libvirt_config \<Rightarrow> string \<Rightarrow> ('h, string) lv_op" where
  "guest_address vi cfg tag s =
     (case map_of (lv_ips s) tag of Some ip \<Rightarrow> (Inr ip, s) | None \<Rightarrow> guest_host_for vi cfg tag s)"

text \<open>What the three operations on a guest have in common: the domain exists, its address, and the key.\<close>

definition with_guest ::
  "'h virt \<Rightarrow> libvirt_config \<Rightarrow> string \<Rightarrow> string option \<Rightarrow> (ssh_target \<Rightarrow> ('h, 'a) lv_op) \<Rightarrow> ('h, 'a) lv_op" where
  "with_guest vi cfg tag ident k =
     bindE (in_virt (vi_lookup vi tag)) (\<lambda>_.
     bindE (guest_address vi cfg tag) (\<lambda>host.
     k \<lparr>gt_host = host, gt_username = lc_username cfg, gt_identity_file = unwrap_or (resolve_identity_file vi) ident\<rparr>))"

definition run_command :: "'h virt \<Rightarrow> ssh_target \<Rightarrow> string list \<Rightarrow> nat \<Rightarrow> ('h, command_output) lv_op" where
  "run_command vi t command tmo s =
     (case run_program vi ''ssh'' (ssh_args t command) (Some tmo) s of
        (p, s') \<Rightarrow>
          ((case p of
              NotStarted e \<Rightarrow> Inl (BackendUnavailable (''failed to spawn ssh: '' @ e))
            | WaitFailed e \<Rightarrow> Inl (BackendUnavailable (''ssh process I/O failed: '' @ e))
            | TimedOut \<Rightarrow> Inl (Interrupted (''ssh command timed out after '' @ vi_dur_text vi tmo))
            | Exited c out err \<Rightarrow>
                (if is_ssh_client_failure c
                 then Inl (BackendUnavailable (''ssh could not reach guest '' @ quoted (gt_host t) @ '': '' @ trim err))
                 else Inr \<lparr>co_exit_code = unwrap_or (- 1) c, co_stdout = out, co_stderr = err\<rparr>)), s'))"

definition libvirt_run :: "'h virt \<Rightarrow> libvirt_config \<Rightarrow> string \<Rightarrow> string list \<Rightarrow> nat \<Rightarrow> string option \<Rightarrow> ('h, command_output) lv_op" where
  "libvirt_run vi cfg tag command tmo ident s =
     (if command = [] then (Inl (Usage ''run() requires a non-empty command''), s)
      else with_guest vi cfg tag ident (\<lambda>t. run_command vi t command tmo) s)"

definition guest_scp :: "'h virt \<Rightarrow> string list \<Rightarrow> string \<Rightarrow> ('h, unit) lv_op" where
  "guest_scp vi args host s =
     (case run_program vi ''scp'' args None s of
        (p, s') \<Rightarrow>
          ((case output_of p of
              Inl e \<Rightarrow> Inl (BackendUnavailable (''failed to spawn scp: '' @ e))
            | Inr (c, _, err) \<Rightarrow>
                (if c = Some 0 then Inr ()
                 else if is_ssh_client_failure c
                 then Inl (BackendUnavailable (''scp could not reach guest '' @ quoted host @ '': '' @ trim err))
                 else Inl (ContractViolated (''scp transfer failed: '' @ trim err)))), s'))"

definition libvirt_put :: "'h virt \<Rightarrow> libvirt_config \<Rightarrow> string \<Rightarrow> string \<Rightarrow> string \<Rightarrow> string option \<Rightarrow> ('h, unit) lv_op" where
  "libvirt_put vi cfg tag source destination ident =
     with_guest vi cfg tag ident (\<lambda>t s. guest_scp vi (put_args t (dir_exists source (lv_fs s)) source destination) (gt_host t) s)"

definition libvirt_get :: "'h virt \<Rightarrow> libvirt_config \<Rightarrow> string \<Rightarrow> string \<Rightarrow> string \<Rightarrow> string option \<Rightarrow> ('h, unit) lv_op" where
  "libvirt_get vi cfg tag source destination ident =
     with_guest vi cfg tag ident (\<lambda>t. guest_scp vi (get_args t source destination) (gt_host t))"

subsection \<open>Listings\<close>

fun names_of :: "'h virt \<Rightarrow> string list \<Rightarrow> ('h, string list) lv_op" where
  "names_of vi [] = retE []"
| "names_of vi (d # ds) = bindE (in_virt (vi_name vi d)) (\<lambda>n. bindE (names_of vi ds) (\<lambda>ns. retE (n # ns)))"

definition libvirt_list_vms :: "'h virt \<Rightarrow> ('h, string list) lv_op" where
  "libvirt_list_vms vi = bindE (in_virt (vi_list vi)) (names_of vi)"

text \<open>The images of a directory: what each name leads to, once, by the name of what it leads to.\<close>

fun image_keys :: "(fs \<Rightarrow> string \<Rightarrow> string option) \<Rightarrow> string \<Rightarrow> string list \<Rightarrow> string list \<Rightarrow> (fs, lsbx_error, string list) comp" where
  "image_keys canon dir seen [] = retE []"
| "image_keys canon dir seen (n # ns) =
     bindE (mapErr (\<lambda>e. BackendUnavailable (''failed to read an entry in '' @ quoted dir @ '': '' @ io_text e)) (io_op (retE ()))) (\<lambda>_ f.
     (case (if file_extension n = Some ''qcow2'' then canon f (path_join dir n) else None) of
        None \<Rightarrow> image_keys canon dir seen ns f
      | Some p \<Rightarrow>
          if \<not> is_file p f \<or> p \<in> set seen then image_keys canon dir seen ns f
          else bindE (image_keys canon dir (p # seen) ns) (\<lambda>ks. retE (file_stem (path_file_name p) # ks)) f))"

definition list_images :: "(fs \<Rightarrow> string \<Rightarrow> string option) \<Rightarrow> string \<Rightarrow> (fs, lsbx_error, string list) comp" where
  "list_images canon dir f =
     (case read_dir dir f of
        (Inl e, f') \<Rightarrow>
          (if io_kind e = KNotFound then Inr []
           else Inl (BackendUnavailable (''failed to read golden image directory '' @ quoted dir @ '': '' @ io_text e)), f')
      | (Inr ns, f') \<Rightarrow> bindE (image_keys canon dir [] ns) (\<lambda>ks. retE (sort ks)) f')"

definition libvirt_list_goldens :: "'h virt \<Rightarrow> libvirt_config \<Rightarrow> ('h, string list) lv_op" where
  "libvirt_list_goldens vi cfg s =
     (case list_images (vi_real vi) (lc_images_dir cfg) (lv_fs s) of (r, f) \<Rightarrow> (r, s\<lparr>lv_fs := f\<rparr>))"

definition libvirt_rename :: "'h virt \<Rightarrow> string \<Rightarrow> string \<Rightarrow> ('h, unit) lv_op" where
  "libvirt_rename vi old_tag new_tag =
     bindE (in_virt (vi_lookup vi old_tag)) (\<lambda>dmn. in_virt (vi_rename vi dmn new_tag))"

definition libvirt_capabilities :: backend_capabilities where
  "libvirt_capabilities = \<lparr>bc_console = True, bc_remote_transport = True, bc_snapshot = True\<rparr>"

definition libvirt_backend :: "'h virt \<Rightarrow> libvirt_config \<Rightarrow> 'h lv_state backend" where
  "libvirt_backend vi cfg =
     \<lparr>bk_capabilities = libvirt_capabilities,
      bk_create_from_golden = libvirt_create vi cfg, bk_run = libvirt_run vi cfg,
      bk_run_time = (\<lambda>tag c tmo i s. lv_now (snd (libvirt_run vi cfg tag c tmo i s)) - lv_now s),
      bk_run_dropped = (\<lambda>tag c d s. case vi_dropped vi tag c d (lv_fs s, lv_host s) of
          (f, h) \<Rightarrow> s\<lparr>lv_fs := f, lv_host := h, lv_now := lv_now s + d\<rparr>),
      bk_put_file = libvirt_put vi cfg, bk_get_file = libvirt_get vi cfg,
      bk_destroy = libvirt_destroy vi cfg, bk_register_vm_key = default_register_vm_key,
      bk_list_vms = libvirt_list_vms vi, bk_list_golden_artifacts = libvirt_list_goldens vi cfg,
      bk_reconcile_orphaned_keys = default_reconcile_orphaned_keys,
      bk_destroy_with_key = default_destroy_with_key (libvirt_destroy vi cfg),
      bk_rename_vm = libvirt_rename vi\<rparr>"

subsection \<open>What an operation leaves alone\<close>

text \<open>A view of the state that neither the file system nor the clock, no program and no question about a domain changes.\<close>

locale guest_frame =
  fixes vi :: "'h virt" and view :: "'h lv_state \<Rightarrow> 'v"
  assumes view_files: "view (s\<lparr>lv_fs := f\<rparr>) = view s"
    and view_clock: "view (s\<lparr>lv_now := n\<rparr>) = view s"
    and view_program: "view (snd (run_program vi prog args limit s)) = view s"
    and view_lookup: "view (snd (in_virt (vi_lookup vi tag) s)) = view s"
    and view_name: "view (snd (in_virt (vi_name vi d) s)) = view s"
    and view_list: "view (snd (in_virt (vi_list vi) s)) = view s"
begin

lemma program_step: "run_program vi prog args limit s = (p, s') \<Longrightarrow> view s' = view s"
  using view_program by (metis snd_conv)

lemma chain_keeps:
  "(\<And>s. view (snd (m s)) = view s) \<Longrightarrow> (\<And>x s. view (snd (k x s)) = view s) \<Longrightarrow> view (snd (bindE m k s)) = view s"
  by (rule bindE_keep [where P = "\<lambda>t. view t = view s"]) auto

lemma files_keep: "view (snd (in_files e m s)) = view s"
  by (auto simp: in_files_def view_files split: prod.split sum.split)

lemma virsh_keeps: "view (snd (run_virsh vi cfg args s)) = view s"
  by (auto simp: run_virsh_def Let_def dest: program_step split: prod.split)

lemma probe_keeps: "view (snd (probe_sources vi cfg tag srcs s)) = view s"
proof (induction srcs arbitrary: s)
  case (Cons src srcs)
  obtain r s' where r: "run_virsh vi cfg [''domifaddr'', tag, ''--source'', src] s = (r, s')" by fastforce
  have "view s' = view s" using virsh_keeps [of cfg "[''domifaddr'', tag, ''--source'', src]" s] r by simp
  then show ?case using Cons.IH [of s'] by (simp add: r split: option.split)
qed simp

lemma loop_keeps: "view (snd (ip_loop vi cfg tag deadline s)) = view s"
proof (induction "deadline - lv_now s" arbitrary: s rule: less_induct)
  case less
  obtain r s' where r: "probe_sources vi cfg tag [''agent'', ''lease''] s = (r, s')" by fastforce
  have v: "view s' = view s" using probe_keeps [of cfg tag "[''agent'', ''lease'']" s] r by simp
  show ?case
  proof (cases "deadline \<le> lv_now s \<or> r \<noteq> None")
    case True
    then show ?thesis using v r by (subst ip_loop.simps) (auto simp del: probe_sources.simps)
  next
    case False
    let ?s = "s'\<lparr>lv_now := lv_now s' + ip_interval\<rparr>"
    have "lv_now s < deadline" using False by simp
    then have "deadline - lv_now ?s < deadline - lv_now s"
      using probe_now [OF r] by (simp add: ip_interval_def secs_def)
    then have "view (snd (ip_loop vi cfg tag deadline ?s)) = view ?s" by (rule less)
    moreover have "ip_loop vi cfg tag deadline s = ip_loop vi cfg tag deadline ?s"
      using False r by (subst ip_loop.simps) (simp del: probe_sources.simps)
    ultimately show ?thesis by (simp add: view_clock v)
  qed
qed

lemma host_for_keeps: "view (snd (guest_host_for vi cfg tag s)) = view s"
  using loop_keeps [of cfg tag "lv_now s + ip_timeout" s] by (auto simp: guest_host_for_def split: prod.split option.split)

lemma qemu_keeps: "view (snd (run_qemu_img vi args action s)) = view s"
  by (auto simp: run_qemu_img_def dest: program_step split: prod.split)

lemma disk_keeps: "view (snd (make_disk vi mode golden disk s)) = view s"
  by (cases mode) (simp_all add: make_disk_def qemu_keeps)

lemma iso_keeps: "view (snd (make_iso vi out dir s)) = view s"
  by (auto simp: make_iso_def view_files dest: program_step split: prod.split sum.split)

lemma seed_keeps: "view (snd (create_seed_iso vi cfg name pubkey s)) = view s"
  unfolding create_seed_iso_def Let_def by (intro chain_keeps files_keep iso_keeps) simp

lemma prepare_keeps: "view (snd (prepare_domain vi cfg rq s)) = view s"
  unfolding prepare_domain_def Let_def
  by (intro chain_keeps files_keep disk_keeps) (auto intro!: chain_keeps seed_keeps)

lemma command_keeps: "view (snd (run_command vi t command tmo s)) = view s"
  by (auto simp: run_command_def dest: program_step split: prod.split)

lemma scp_keeps: "view (snd (guest_scp vi args host s)) = view s"
  by (auto simp: guest_scp_def dest: program_step split: prod.split)

lemma guest_keeps:
  assumes "\<And>t s. view (snd (k t s)) = view s"
  shows "view (snd (with_guest vi cfg tag ident k s)) = view s"
  unfolding with_guest_def guest_address_def
  by (intro chain_keeps view_lookup assms) (auto simp: host_for_keeps split: option.split)

lemma run_keeps: "view (snd (libvirt_run vi cfg tag command tmo ident s)) = view s"
  by (simp add: libvirt_run_def guest_keeps command_keeps)

lemma put_keeps: "view (snd (libvirt_put vi cfg tag source destination ident s)) = view s"
  unfolding libvirt_put_def by (intro guest_keeps scp_keeps)

lemma get_keeps: "view (snd (libvirt_get vi cfg tag source destination ident s)) = view s"
  unfolding libvirt_get_def by (intro guest_keeps scp_keeps)

lemma names_keep: "view (snd (names_of vi ds s)) = view s"
  by (induction ds arbitrary: s) (auto intro!: chain_keeps view_name)

lemma list_keeps: "view (snd (libvirt_list_vms vi s)) = view s"
  unfolding libvirt_list_vms_def by (intro chain_keeps view_list names_keep)

lemma goldens_keep: "view (snd (libvirt_list_goldens vi cfg s)) = view s"
  by (auto simp: libvirt_list_goldens_def view_files split: prod.split)

end

text \<open>The addresses the backend has kept are such a view.\<close>

interpretation ips: guest_frame vi lv_ips for vi
  by unfold_locales (auto simp: run_program_def in_virt_def split: prod.split sum.split)

subsection \<open>The addresses\<close>

definition routable :: "'h virt \<Rightarrow> string \<Rightarrow> bool" where
  "routable vi ip \<longleftrightarrow> (case vi_parse_ip vi ip of Some a \<Rightarrow> \<not> non_routeable a | None \<Rightarrow> False)"

definition ips_routable :: "'h virt \<Rightarrow> 'h lv_state \<Rightarrow> bool" where
  "ips_routable vi s \<longleftrightarrow> list_all (\<lambda>(tag, ip). routable vi ip) (lv_ips s)"

lemma probe_routable: "probe_sources vi cfg tag srcs s = (Some ip, s') \<Longrightarrow> routable vi ip"
proof (induction srcs arbitrary: s)
  case (Cons src srcs)
  have "routable_ip vi out = Some ip \<Longrightarrow> routable vi ip" for out
    by (auto simp: routable_ip_def routable_def split: option.splits if_splits bind_splits)
  with Cons show ?case by (auto split: prod.splits option.splits sum.splits)
qed simp

lemma loop_routable: "ip_loop vi cfg tag deadline s = (Some ip, s') \<Longrightarrow> routable vi ip"
proof (induction vi cfg tag deadline s rule: ip_loop.induct)
  case (1 vi cfg tag deadline s)
  obtain r t where t: "probe_sources vi cfg tag [''agent'', ''lease''] s = (r, t)" by fastforce
  have "\<not> deadline \<le> lv_now s" using 1(2) by (subst (asm) ip_loop.simps) (auto split: if_splits)
  then have "(case r of Some ip' \<Rightarrow> (Some ip', t) | None \<Rightarrow> ip_loop vi cfg tag deadline (t\<lparr>lv_now := lv_now t + ip_interval\<rparr>)) = (Some ip, s')"
    using 1(2) t by (subst (asm) ip_loop.simps) (auto simp del: probe_sources.simps split: option.splits)
  then show ?case
    using 1(1) [OF \<open>\<not> deadline \<le> lv_now s\<close> t [symmetric]] probe_routable [of vi cfg tag "[''agent'', ''lease'']" s] t
    by (cases r) (auto simp del: probe_sources.simps)
qed

lemma host_for_routable: "guest_host_for vi cfg tag s = (Inr ip, s') \<Longrightarrow> routable vi ip"
  by (auto simp: guest_host_for_def dest: loop_routable split: prod.splits option.splits)

lemma update_all:
  "list_all (\<lambda>(t, ip). Q ip) xs \<Longrightarrow> Q v \<Longrightarrow> list_all (\<lambda>(t, ip). Q ip) (AList.update k v xs)"
  by (induction xs) auto

lemma delete_all: "list_all P xs \<Longrightarrow> list_all P (AList.delete k xs)"
  by (simp add: AList.delete_eq list_all_iff)

lemma abandon_ips: "lv_ips (abandon vi cfg d name tag s) = lv_ips s"
  by (auto simp: abandon_def Let_def in_virt_def split: prod.split sum.split)

lemma settle_routable:
  assumes "ips_routable vi s"
  shows "ips_routable vi (snd (settle vi cfg d name tag s))"
proof -
  obtain r s' where r: "guest_host_for vi cfg tag s = (r, s')" by fastforce
  then have "lv_ips s' = lv_ips s" using ips.host_for_keeps [of vi cfg tag s] by simp
  moreover have "routable vi ip" if "r = Inr ip" for ip using host_for_routable r that by blast
  ultimately show ?thesis using assms r by (cases r) (simp_all add: settle_def ips_routable_def abandon_ips update_all)
qed

lemma ips_routable_cong: "lv_ips s' = lv_ips s \<Longrightarrow> ips_routable vi s' = ips_routable vi s"
  by (simp add: ips_routable_def)

lemma in_virt_ips: "lv_ips (snd (in_virt m s)) = lv_ips s"
  by (auto simp: in_virt_def split: prod.split sum.split)

lemma create_routable:
  assumes "ips_routable vi s"
  shows "ips_routable vi (snd (libvirt_create vi cfg rq s))"
  unfolding libvirt_create_def
  by (intro bindE_keep [where P = "ips_routable vi"] settle_routable)
    (use assms in \<open>simp_all add: ips_routable_cong [OF ips.prepare_keeps] ips_routable_cong [OF in_virt_ips]\<close>)

lemma settle_ip:
  assumes "settle vi cfg d name tag s = (Inr u, s')"
  shows "\<exists>ip. map_of (lv_ips s') tag = Some ip \<and> routable vi ip"
proof -
  obtain r t where r: "guest_host_for vi cfg tag s = (r, t)" by fastforce
  moreover have "routable vi ip" if "r = Inr ip" for ip using host_for_routable r that by blast
  ultimately show ?thesis using assms by (cases r) (auto simp: settle_def update_conv')
qed

lemma create_ip:
  assumes "libvirt_create vi cfg rq s = (Inr v, s')"
  shows "\<exists>ip. map_of (lv_ips s') (cv_vm_tag v) = Some ip \<and> routable vi ip" "cv_https_url v = None"
proof -
  obtain d tag t u where st: "settle vi cfg d (cg_name rq) tag t = (Inr u, s')"
    and v: "v = \<lparr>cv_vm_tag = tag, cv_host = host_name (lc_transport cfg), cv_https_url = None\<rparr>"
    using assms unfolding libvirt_create_def by (elim bindE_InrE) simp
  show "\<exists>ip. map_of (lv_ips s') (cv_vm_tag v) = Some ip \<and> routable vi ip" using settle_ip [OF st] by (simp add: v)
  show "cv_https_url v = None" by (simp add: v)
qed

lemma destroy_ips:
  assumes "libvirt_destroy vi cfg tag s = (r, s')"
  shows "lv_ips s' = (if r = Inr () then AList.delete tag (lv_ips s) else lv_ips s)"
proof -
  obtain q t where q: "in_virt (vi_lookup vi tag) s = (q, t)" by fastforce
  then have t: "lv_ips t = lv_ips s" using in_virt_ips [of "vi_lookup vi tag" s] by simp
  show ?thesis
  proof (cases q)
    case (Inl e)
    then show ?thesis using assms q t by (cases e) (auto simp: libvirt_destroy_def)
  next
    case (Inr d)
    obtain u w where u: "in_virt (vi_destroy vi d) t = (u, w)" by fastforce
    then have "lv_ips w = lv_ips t" using in_virt_ips [of "vi_destroy vi d" t] by simp
    then show ?thesis using assms q t u Inr by (cases u) (auto simp: libvirt_destroy_def)
  qed
qed

lemma destroy_routable: "ips_routable vi s \<Longrightarrow> ips_routable vi (snd (libvirt_destroy vi cfg tag s))"
  using destroy_ips [of vi cfg tag s] by (cases "libvirt_destroy vi cfg tag s") (auto simp: ips_routable_def delete_all)

lemma rename_ips: "lv_ips (snd (libvirt_rename vi old_tag new_tag s)) = lv_ips s"
  unfolding libvirt_rename_def by (intro ips.chain_keeps in_virt_ips)

lemma in_virt_Inr:
  assumes "in_virt m s = (Inr x, s')"
  obtains h where "m (lv_host s) = (Inr x, h)" "s' = s\<lparr>lv_host := h\<rparr>"
  using assms
  by (auto simp: in_virt_def split: prod.splits sum.splits)

lemma in_virt_Inl:
  assumes "in_virt m s = (Inl e, s')"
  obtains v h where "m (lv_host s) = (Inl v, h)" "e = map_virt_err v" "s' = s\<lparr>lv_host := h\<rparr>"
  using assms
  by (auto simp: in_virt_def split: prod.splits sum.splits)

lemma not_found_virt: "map_virt_err v = NotFound m \<Longrightarrow> ve_no_domain v"
  by (auto simp: map_virt_err_def split: if_splits)

subsection \<open>The domains\<close>

text \<open>
  What the backend relies on of libvirt: the handle of a domain knows its name, a created domain is new, a
  question changes no domain, and a running domain that is to be destroyed is destroyed. No program starts or
  stops a domain.
\<close>

locale virt_host =
  fixes vi :: "'h virt" and live :: "'h \<Rightarrow> string set" and handle_name :: "string \<Rightarrow> string"
  assumes name_ok: "vi_name vi d h = (Inr (handle_name d), h)"
    and lookup_live: "live (snd (vi_lookup vi tag h)) = live h"
    and lookup_ok: "vi_lookup vi tag h = (Inr d, h') \<Longrightarrow> handle_name d = tag"
    and lookup_gone: "vi_lookup vi tag h = (Inl e, h') \<Longrightarrow> ve_no_domain e \<Longrightarrow> tag \<notin> live h"
    and create_ok: "vi_create_xml vi x h = (Inr d, h') \<Longrightarrow>
      handle_name d \<notin> live h \<and> live h' = insert (handle_name d) (live h)"
    and create_err: "vi_create_xml vi x h = (Inl e, h') \<Longrightarrow> live h' = live h"
    and destroy_ok: "vi_destroy vi d h = (Inr u, h') \<Longrightarrow> live h' = live h - {handle_name d}"
    and destroy_err: "vi_destroy vi d h = (Inl e, h') \<Longrightarrow> live h' = live h \<and> handle_name d \<notin> live h"
    and list_live: "live (snd (vi_list vi h)) = live h"
    and list_ok: "vi_list vi h = (Inr ds, h') \<Longrightarrow> handle_name ` set ds = live h"
    and program_live: "vi_program vi prog args limit (f, h) = (p, n, f', h') \<Longrightarrow> live h' = live h"
    and dropped_live: "vi_dropped vi tag c n (f, h) = (f', h') \<Longrightarrow> live h' = live h"
begin

definition domains :: "'h lv_state \<Rightarrow> string set" where
  "domains s = live (lv_host s)"

lemma in_virt_domains: "live (snd (m (lv_host s))) = live (lv_host s) \<Longrightarrow> domains (snd (in_virt m s)) = domains s"
  by (cases "m (lv_host s)"; cases "fst (m (lv_host s))") (simp_all add: in_virt_def domains_def)

lemma domains_frame: "guest_frame vi domains"
proof
  fix s :: "'h lv_state" and f n prog args limit tag d
  show "domains (s\<lparr>lv_fs := f\<rparr>) = domains s" "domains (s\<lparr>lv_now := n\<rparr>) = domains s" by (simp_all add: domains_def)
  obtain p n f h where "vi_program vi prog args limit (lv_fs s, lv_host s) = (p, n, f, h)" by (rule prod_cases4)
  with program_live [OF this] show "domains (snd (run_program vi prog args limit s)) = domains s"
    by (simp add: run_program_def domains_def)
  show "domains (snd (in_virt (vi_lookup vi tag) s)) = domains s"
    by (rule in_virt_domains) (rule lookup_live)
  show "domains (snd (in_virt (vi_name vi d) s)) = domains s" by (simp add: in_virt_def domains_def name_ok)
  show "domains (snd (in_virt (vi_list vi) s)) = domains s"
    by (rule in_virt_domains) (rule list_live)
qed

lemma virt_destroy_step:
  assumes "in_virt (vi_destroy vi d) s = (r, s')"
  shows "domains s' = domains s - {handle_name d}" "isl r \<Longrightarrow> handle_name d \<notin> domains s"
proof -
  have "domains s' = domains s - {handle_name d} \<and> (isl r \<longrightarrow> handle_name d \<notin> domains s)"
  proof (cases r)
    case (Inl e)
    from assms [unfolded Inl] obtain v h where v: "vi_destroy vi d (lv_host s) = (Inl v, h)" "s' = s\<lparr>lv_host := h\<rparr>"
      by (rule in_virt_Inl)
    then show ?thesis using destroy_err [OF v(1)] by (simp add: domains_def)
  next
    case (Inr u)
    from assms [unfolded Inr] obtain h where v: "vi_destroy vi d (lv_host s) = (Inr u, h)" "s' = s\<lparr>lv_host := h\<rparr>"
      by (rule in_virt_Inr)
    then show ?thesis using destroy_ok [OF v(1)] Inr by (simp add: domains_def)
  qed
  then show "domains s' = domains s - {handle_name d}" "isl r \<Longrightarrow> handle_name d \<notin> domains s" by simp_all
qed

lemma settle_domains:
  assumes "settle vi cfg d name tag s = (r, s')"
  shows "domains s' = (if isl r then domains s - {handle_name d} else domains s)"
proof -
  obtain q t where q: "guest_host_for vi cfg tag s = (q, t)" by fastforce
  then have t: "domains t = domains s" using guest_frame.host_for_keeps [OF domains_frame, of cfg tag s] by simp
  obtain u w where u: "in_virt (vi_destroy vi d) t = (u, w)" by fastforce
  have a: "domains (abandon vi cfg d name tag t) = domains w" by (simp add: abandon_def u Let_def domains_def)
  have k: "domains (t\<lparr>lv_ips := x\<rparr>) = domains t" for x by (simp add: domains_def)
  show ?thesis using assms q t a k virt_destroy_step(1) [OF u] by (cases q) (auto simp: settle_def)
qed

lemma create_xml_step:
  assumes "in_virt (vi_create_xml vi x) s = (c, s')"
  shows "case c of Inr d \<Rightarrow> handle_name d \<notin> domains s \<and> domains s' = insert (handle_name d) (domains s) | Inl e \<Rightarrow> domains s' = domains s"
proof (cases c)
  case (Inl e)
  from assms [unfolded Inl] obtain v h where v: "vi_create_xml vi x (lv_host s) = (Inl v, h)" "s' = s\<lparr>lv_host := h\<rparr>"
    by (rule in_virt_Inl)
  then show ?thesis using create_err [OF v(1)] Inl by (simp add: domains_def)
next
  case (Inr d)
  from assms [unfolded Inr] obtain h where v: "vi_create_xml vi x (lv_host s) = (Inr d, h)" "s' = s\<lparr>lv_host := h\<rparr>"
    by (rule in_virt_Inr)
  then show ?thesis using create_ok [OF v(1)] Inr by (simp add: domains_def)
qed

lemma create_domains:
  assumes "libvirt_create vi cfg rq s = (r, s')"
  shows "domains s' = (case r of Inr v \<Rightarrow> insert (cv_vm_tag v) (domains s) | Inl e \<Rightarrow> domains s)"
proof -
  obtain p t where p: "prepare_domain vi cfg rq s = (p, t)" by fastforce
  then have t: "domains t = domains s" using guest_frame.prepare_keeps [OF domains_frame, of cfg rq s] by simp
  show ?thesis
  proof (cases p)
    case (Inl e)
    have "libvirt_create vi cfg rq s = (Inl e, t)" by (simp add: libvirt_create_def p [unfolded Inl])
    then show ?thesis using assms t by simp
  next
    case (Inr x)
    obtain c w where c: "in_virt (vi_create_xml vi x) t = (c, w)" by fastforce
    note w = create_xml_step [OF c]
    show ?thesis
    proof (cases c)
      case (Inl e)
      then show ?thesis using assms p t c w Inr by (auto simp: libvirt_create_def)
    next
      case d: (Inr d)
      have n: "in_virt (vi_name vi d) w = (Inr (handle_name d), w)" by (simp add: in_virt_def name_ok)
      obtain q v where q: "settle vi cfg d (cg_name rq) (handle_name d) w = (q, v)" by fastforce
      show ?thesis using assms p c n q w t Inr d settle_domains [OF q] by (cases q) (auto simp: libvirt_create_def)
    qed
  qed
qed

lemma lookup_step:
  assumes "in_virt (vi_lookup vi tag) s = (q, t)"
  shows "domains t = domains s" "\<And>d. q = Inr d \<Longrightarrow> handle_name d = tag" "\<And>m. q = Inl (NotFound m) \<Longrightarrow> tag \<notin> domains s"
proof -
  show "domains t = domains s" using guest_frame.view_lookup [OF domains_frame, of tag s] assms by simp
  show "handle_name d = tag" if "q = Inr d" for d
  proof -
    from assms [unfolded that] obtain h where "vi_lookup vi tag (lv_host s) = (Inr d, h)" by (rule in_virt_Inr)
    then show ?thesis by (rule lookup_ok)
  qed
  show "tag \<notin> domains s" if "q = Inl (NotFound m)" for m
  proof -
    from assms [unfolded that] obtain v h where v: "vi_lookup vi tag (lv_host s) = (Inl v, h)" "NotFound m = map_virt_err v"
      by (rule in_virt_Inl)
    show ?thesis using lookup_gone [OF v(1) not_found_virt [OF v(2) [symmetric]]] by (simp add: domains_def)
  qed
qed

lemma destroy_domains:
  assumes "libvirt_destroy vi cfg tag s = (r, s')"
  shows "domains s' = (if isl r then domains s else domains s - {tag}) \<and> (\<forall>m. r = Inl (NotFound m) \<longrightarrow> tag \<notin> domains s)"
proof -
  obtain q t where q: "in_virt (vi_lookup vi tag) s = (q, t)" by fastforce
  have k: "domains (w\<lparr>lv_fs := f\<rparr>) = domains w" "domains (w\<lparr>lv_ips := x, lv_fs := f\<rparr>) = domains w" for w f x
    by (simp_all add: domains_def)
  show ?thesis
  proof (cases q)
    case (Inl e)
    then show ?thesis using assms q lookup_step [OF q] k by (cases e) (auto simp: libvirt_destroy_def)
  next
    case (Inr d)
    obtain u w where u: "in_virt (vi_destroy vi d) t = (u, w)" by fastforce
    show ?thesis using assms q u lookup_step(1,2) [OF q] virt_destroy_step [OF u] Inr k
      by (cases u) (auto simp: libvirt_destroy_def)
  qed
qed

lemma names_step: "names_of vi ds s = (Inr (map handle_name ds), s)"
  by (induction ds arbitrary: s) (simp_all add: in_virt_def name_ok)

lemma list_domains:
  assumes "libvirt_list_vms vi s = (Inr vms, s')"
  shows "set vms = domains s"
proof -
  obtain q t where q: "in_virt (vi_list vi) s = (q, t)" by fastforce
  obtain ds where d: "q = Inr ds" "vms = map handle_name ds"
    using assms q by (cases q) (auto simp: libvirt_list_vms_def names_step)
  from q [unfolded d(1)] obtain h where "vi_list vi (lv_host s) = (Inr ds, h)" by (rule in_virt_Inr)
  then show ?thesis using list_ok d(2) by (simp add: domains_def)
qed

end

text \<open>So the backend keeps the contract that the lifecycle relies on.\<close>

sublocale virt_host \<subseteq> kept: backend_contract "libvirt_backend vi cfg" domains for cfg
proof unfold_locales
  fix r :: create_from_golden_request and s s' :: "'h lv_state" and v e t u k m c tmo i d p dst ks vms
  note frame = guest_frame.run_keeps [OF domains_frame] guest_frame.put_keeps [OF domains_frame]
    guest_frame.get_keeps [OF domains_frame] guest_frame.list_keeps [OF domains_frame]
  show "bk_create_from_golden (libvirt_backend vi cfg) r s = (Inr v, s') \<Longrightarrow> domains s' = insert (cv_vm_tag v) (domains s)"
    "bk_create_from_golden (libvirt_backend vi cfg) r s = (Inl e, s') \<Longrightarrow> domains s' = domains s"
    by (simp_all add: libvirt_backend_def create_domains)
  show "bk_destroy (libvirt_backend vi cfg) t s = (Inr u, s') \<Longrightarrow> domains s' = domains s - {t}"
    "bk_destroy (libvirt_backend vi cfg) t s = (Inl e, s') \<Longrightarrow> domains s' = domains s"
    "bk_destroy (libvirt_backend vi cfg) t s = (Inl (NotFound m), s') \<Longrightarrow> t \<notin> domains s"
    "bk_destroy_with_key (libvirt_backend vi cfg) t k s = (Inr u, s') \<Longrightarrow> domains s' = domains s - {t}"
    "bk_destroy_with_key (libvirt_backend vi cfg) t k s = (Inl e, s') \<Longrightarrow> domains s' = domains s"
    "bk_destroy_with_key (libvirt_backend vi cfg) t k s = (Inl (NotFound m), s') \<Longrightarrow> t \<notin> domains s"
    using destroy_domains [of cfg t s] by (simp_all add: libvirt_backend_def default_destroy_with_key_def)
  show "domains (snd (bk_run (libvirt_backend vi cfg) t c tmo i s)) = domains s"
    "domains (snd (bk_put_file (libvirt_backend vi cfg) t p dst i s)) = domains s"
    "domains (snd (bk_get_file (libvirt_backend vi cfg) t p dst i s)) = domains s"
    "domains (snd (bk_register_vm_key (libvirt_backend vi cfg) t p s)) = domains s"
    "domains (snd (bk_reconcile_orphaned_keys (libvirt_backend vi cfg) ks s)) = domains s"
    "domains (snd (bk_list_vms (libvirt_backend vi cfg) s)) = domains s"
    by (simp_all add: libvirt_backend_def default_register_vm_key_def default_reconcile_orphaned_keys_def frame)
  obtain f h where f: "vi_dropped vi t c d (lv_fs s, lv_host s) = (f, h)" by (rule prod.exhaust)
  show "domains (bk_run_dropped (libvirt_backend vi cfg) t c d s) = domains s"
    using dropped_live [OF f] by (simp add: libvirt_backend_def f domains_def)
  show "bk_list_vms (libvirt_backend vi cfg) s = (Inr vms, s') \<Longrightarrow> set vms = domains s"
    by (simp add: libvirt_backend_def list_domains)
qed

context virt_host
begin

lemma contract_kept: "backend_contract (libvirt_backend vi cfg) domains"
  by (rule kept.backend_contract_axioms)

end

subsection \<open>What a destroy leaves behind\<close>

definition plain_dir :: "string \<Rightarrow> bool" where
  "plain_dir d \<longleftrightarrow> d \<noteq> [] \<and> last d \<noteq> CHR ''/''"

lemma plain_join:
  assumes "plain_dir d" and "CHR ''/'' \<notin> set n"
  shows "path_join d n = d @ ''/'' @ n"
  using assms by (cases n) (auto simp: path_join_def plain_dir_def starts_with_def)

lemma path_pair_join: "plain_dir d \<Longrightarrow> CHR ''/'' \<notin> set n \<Longrightarrow> path_pair (path_join d n) = (d, n)"
  by (simp add: plain_join path_pair_def path_parent_append path_file_name_append unwrap_or_def plain_dir_def)

lemma remove_path_get:
  assumes "calm f" and "plain_dir d" and "CHR ''/'' \<notin> set n"
  shows "fs_get (remove_path (path_join d n) f) d' n' = (if (d', n') = (d, n) then None else fs_get f d' n')"
    "fs_dirs (remove_path (path_join d n) f) = fs_dirs f" "calm (remove_path (path_join d n) f)"
  using assms by (auto simp: remove_path_def path_pair_join remove_file_def io_op_def calm_def fs_get_def delete_conv' Let_def
      split: option.splits)

lemma map_of_filter_other: "fst k \<noteq> d \<Longrightarrow> map_of (filter (\<lambda>e. fst (fst e) \<noteq> d) xs) k = map_of xs k"
  by (induction xs) auto

lemma remove_dir_get:
  assumes "calm f"
  shows "d' \<noteq> d \<Longrightarrow> fs_get (snd (remove_dir_all d f)) d' n' = fs_get f d' n'"
    "dir_mode (snd (remove_dir_all d f)) d' = (if d' = d then None else dir_mode f d')"
  using assms by (auto simp: remove_dir_all_def io_op_def calm_def fs_get_def dir_mode_def Let_def map_of_filter_other delete_conv'
      split: option.splits)

lemma cleanup_get:
  assumes "calm f" and "plain_dir work" and "CHR ''/'' \<notin> set tag"
  defines "f' \<equiv> cleanup_vm_artifacts work tag f"
  shows "fs_get f' work (tag @ ''.qcow2'') = None" "fs_get f' work (tag @ ''-cidata.iso'') = None"
    "\<not> dir_exists (seed_dir work tag) f'"
    "d \<noteq> seed_dir work tag \<Longrightarrow> (d, n) \<notin> {(work, tag @ ''.qcow2''), (work, tag @ ''-cidata.iso'')} \<Longrightarrow>
      fs_get f' d n = fs_get f d n"
    "d \<noteq> seed_dir work tag \<Longrightarrow> dir_mode f' d = dir_mode f d"
proof -
  have q: "CHR ''/'' \<notin> set (tag @ ''.qcow2'')" and i: "CHR ''/'' \<notin> set (tag @ ''-cidata.iso'')" using assms(3) by simp_all
  define f1 where "f1 = remove_path (vm_disk_path work tag) f"
  define f2 where "f2 = remove_path (seed_iso_path work tag) f1"
  note r1 = remove_path_get [OF assms(1,2) q, folded vm_disk_path_def, folded f1_def]
  note r2 = remove_path_get [OF r1(3) assms(2) i, folded seed_iso_path_def, folded f2_def]
  have f': "f' = snd (remove_dir_all (seed_dir work tag) f2)" unfolding f'_def cleanup_vm_artifacts_def f1_def f2_def ..
  have "CHR ''/'' \<notin> set (tag @ ''-seed'')" using assms(3) by simp
  then have s: "seed_dir work tag = work @ ''/'' @ tag @ ''-seed''" unfolding seed_dir_def by (rule plain_join [OF assms(2)])
  have w: "work \<noteq> seed_dir work tag" unfolding s by simp
  note r3 = remove_dir_get [OF r2(3), where d = "seed_dir work tag", folded f']
  show "fs_get f' work (tag @ ''.qcow2'') = None" "fs_get f' work (tag @ ''-cidata.iso'') = None"
    by (simp_all only: r3(1) [OF w] r2(1) r1(1) prod.inject if_True if_cancel simp_thms)
  show "\<not> dir_exists (seed_dir work tag) f'" by (simp add: dir_exists_def r3(2))
  show "fs_get f' d n = fs_get f d n" if "d \<noteq> seed_dir work tag" "(d, n) \<notin> {(work, tag @ ''.qcow2''), (work, tag @ ''-cidata.iso'')}"
    using that(2) by (simp only: r3(1) [OF that(1)] r2(1) r1(1) insert_iff empty_iff simp_thms de_Morgan_disj if_False)
  show "dir_mode f' d = dir_mode f d" if "d \<noteq> seed_dir work tag"
    using that r1(2) r2(2) by (simp add: r3(2)) (simp add: dir_mode_def)
qed

lemma destroy_files:
  assumes "libvirt_destroy vi cfg tag s = (r, s')"
  shows "lv_fs s' =
    (if r = Inr () \<or> (\<exists>m. fst (in_virt (vi_lookup vi tag) s) = Inl (NotFound m))
     then cleanup_vm_artifacts (lc_work_dir cfg) tag (lv_fs s) else lv_fs s)"
proof -
  have k: "in_virt m s = (q, t) \<Longrightarrow> lv_fs t = lv_fs s" for m :: "('a, virt_error, 'b) comp" and s q t
    by (auto simp: in_virt_def split: prod.splits sum.splits)
  obtain q t where q: "in_virt (vi_lookup vi tag) s = (q, t)" by fastforce
  have t: "lv_fs t = lv_fs s" by (rule k [OF q])
  show ?thesis
  proof (cases q)
    case (Inl e)
    then show ?thesis using assms q t by (cases e) (auto simp: libvirt_destroy_def)
  next
    case (Inr d)
    obtain u w where u: "in_virt (vi_destroy vi d) t = (u, w)" by fastforce
    have "lv_fs w = lv_fs t" by (auto simp: in_virt_def split: prod.splits sum.splits intro: k [OF u])
    then show ?thesis using assms q t u Inr by (cases u) (auto simp: libvirt_destroy_def)
  qed
qed

end
