(* ===== verification/Lsbx_Testkit.thy ===== *)
theory Lsbx_Testkit
  imports Lsbx_Backend
begin

text \<open>
  The conformance suite that every backend is to run against itself (\<open>lsbx-backend-testkit\<close>): a list of named
  checks over the operations of the trait. Only a command has a duration in the trait's model, so the
  bound of the suite on its calls is stated for commands; every other call returns within it. The text
  \<open>Debug\<close> gives for a string is a parameter.
\<close>

record conformance_check =
  ck_name :: string
  ck_passed :: bool
  ck_detail :: "string option"

definition all_passed :: "conformance_check list \<Rightarrow> bool" where
  "all_passed cs = list_all ck_passed cs"

definition find_check :: "string \<Rightarrow> conformance_check list \<Rightarrow> conformance_check option" where
  "find_check name cs = find (\<lambda>c. ck_name c = name) cs"

definition suite_call_bound :: nat where "suite_call_bound = secs 30"

definition bounded_run :: "'b backend \<Rightarrow> string \<Rightarrow> string list \<Rightarrow> nat \<Rightarrow> ('b, command_output) bk_op" where
  "bounded_run be tag c tmo s =
     (if suite_call_bound < bk_run_time be tag c tmo None s
      then (Inl (BackendUnavailable ''backend call did not return within the suite's 30s bound''),
            bk_run_dropped be tag c suite_call_bound s)
      else bk_run be tag c tmo None s)"

fun debug_error :: "(string \<Rightarrow> string) \<Rightarrow> lsbx_error \<Rightarrow> string" where
  "debug_error dbg (Usage m) = ''Usage('' @ dbg m @ '')''"
| "debug_error dbg (BackendUnavailable m) = ''BackendUnavailable('' @ dbg m @ '')''"
| "debug_error dbg (NotFound m) = ''NotFound('' @ dbg m @ '')''"
| "debug_error dbg (ContractViolated m) = ''ContractViolated('' @ dbg m @ '')''"
| "debug_error dbg (LockContention m) = ''LockContention('' @ dbg m @ '')''"
| "debug_error dbg (AuthFailed m) = ''AuthFailed('' @ dbg m @ '')''"
| "debug_error dbg (Interrupted m) = ''Interrupted('' @ dbg m @ '')''"

definition debug_unit :: "(string \<Rightarrow> string) \<Rightarrow> lsbx_error + unit \<Rightarrow> string" where
  "debug_unit dbg r = (case r of Inr _ \<Rightarrow> ''Ok(())'' | Inl e \<Rightarrow> ''Err('' @ debug_error dbg e @ '')'')"

definition describe_run_result :: "(string \<Rightarrow> string) \<Rightarrow> lsbx_error + command_output \<Rightarrow> string" where
  "describe_run_result dbg r =
     (case r of Inr out \<Rightarrow> ''Ok(exit_code='' @ show_int (co_exit_code out) @ '')'' | Inl e \<Rightarrow> ''Err('' @ debug_error dbg e @ '')'')"

definition record_result :: "string \<Rightarrow> lsbx_error + 'a \<Rightarrow> conformance_check" where
  "record_result name r =
     (case r of Inr _ \<Rightarrow> \<lparr>ck_name = name, ck_passed = True, ck_detail = None\<rparr>
      | Inl e \<Rightarrow> \<lparr>ck_name = name, ck_passed = False, ck_detail = Some (err_display e)\<rparr>)"

definition record_condition :: "string \<Rightarrow> bool \<Rightarrow> string \<Rightarrow> conformance_check" where
  "record_condition name b detail = \<lparr>ck_name = name, ck_passed = b, ck_detail = (if b then None else Some detail)\<rparr>"

definition is_not_found :: "lsbx_error + 'a \<Rightarrow> bool" where
  "is_not_found r = (case r of Inl (NotFound _) \<Rightarrow> True | _ \<Rightarrow> False)"

definition is_gone :: "lsbx_error + 'a \<Rightarrow> bool" where
  "is_gone r = (case r of Inl (NotFound _) \<Rightarrow> True | Inl (BackendUnavailable _) \<Rightarrow> True | _ \<Rightarrow> False)"

definition never_created :: string where "never_created = ''lsbx-conformance-never-created-vm''"

definition run_never_created_checks :: "(string \<Rightarrow> string) \<Rightarrow> 'b backend \<Rightarrow> 'b \<Rightarrow> conformance_check list \<times> 'b" where
  "run_never_created_checks dbg be s =
     (case bk_destroy be never_created s of
        (d, s1) \<Rightarrow>
          (case bounded_run be never_created [''echo'', ''should-not-run''] (secs 5) s1 of
             (r, s2) \<Rightarrow>
               ([record_condition ''destroy_nonexistent_returns_notfound'' (is_not_found d)
                   (''destroy() of a vm_tag that was never created returned '' @ debug_unit dbg d @ '', expected NotFound''),
                 record_condition ''run_against_nonexistent_vm_errors'' (is_gone r)
                   (''run() against a vm_tag that was never created returned '' @ describe_run_result dbg r
                     @ '', expected NotFound or BackendUnavailable'')], s2)))"

definition conformance_request :: "string \<Rightarrow> create_from_golden_request" where
  "conformance_request golden =
     \<lparr>cg_golden = golden, cg_name = ''lsbx-conformance-test-vm'',
      cg_pubkey = ''ssh-ed25519 AAAAC3NzaC1lZDI1NTE5AAAAIFcFi7kjVO1u+zN87aUSxqktiGksMgqfNe/o5ICyMeSi conformance@lsbx'',
      cg_cpu = 1, cg_memory = ''2G'', cg_os = ''linux''\<rparr>"

text \<open>A listing, checked for a machine that should be in it, or should not.\<close>

definition listing_check :: "string \<Rightarrow> bool \<Rightarrow> string \<Rightarrow> string \<Rightarrow> lsbx_error + string list \<Rightarrow> conformance_check" where
  "listing_check name wanted detail tag r =
     (case r of
        Inr vms \<Rightarrow> record_condition name ((tag \<in> set vms) = wanted) (detail @ [CHR 0x27] @ tag @ [CHR 0x27])
      | Inl e \<Rightarrow> \<lparr>ck_name = name, ck_passed = False, ck_detail = Some (''list_vms() call failed: '' @ err_display e)\<rparr>)"

definition console_checks :: "'b backend \<Rightarrow> created_vm \<Rightarrow> conformance_check list" where
  "console_checks be vm =
     (if bc_console (bk_capabilities be)
      then [record_condition ''console_capability_produces_url'' (cv_https_url vm \<noteq> None)
              ''capabilities().console reported true but create_from_golden did not return an https_url'']
      else [])"

text \<open>The checks that need a machine.\<close>

definition live_checks :: "(string \<Rightarrow> string) \<Rightarrow> 'b backend \<Rightarrow> created_vm \<Rightarrow> 'b \<Rightarrow> conformance_check list \<times> 'b" where
  "live_checks dbg be vm s1 =
     (let tag = cv_vm_tag vm in
      case bk_list_vms be s1 of (l1, s2) \<Rightarrow>
      case bounded_run be tag [''echo'', ''lsbx-conformance-check''] (secs 10) s2 of (r1, s3) \<Rightarrow>
      case bk_destroy be tag s3 of (d1, s4) \<Rightarrow>
      case bk_list_vms be s4 of (l2, s5) \<Rightarrow>
      case bk_destroy be tag s5 of (d2, s6) \<Rightarrow>
      case bounded_run be tag [''echo'', ''should-not-run''] (secs 5) s6 of (r2, s7) \<Rightarrow>
        (console_checks be vm
         @ [listing_check ''list_vms_includes_created'' True ''list_vms() did not contain freshly created vm_tag '' tag l1,
            record_result ''run_on_live_vm_succeeds'' r1, record_result ''destroy_completes'' d1,
            listing_check ''list_vms_excludes_destroyed'' False ''list_vms() still contained destroyed vm_tag '' tag l2,
            record_condition ''destroy_idempotent'' (d2 = Inr () \<or> is_not_found d2)
              (''second destroy() of the same vm_tag returned '' @ debug_unit dbg d2 @ '', expected Ok(()) or NotFound''),
            record_condition ''run_against_destroyed_vm_errors'' (is_gone r2)
              (''run() against a destroyed vm_tag returned '' @ describe_run_result dbg r2
                @ '', expected NotFound or BackendUnavailable'')], s7))"

definition run_conformance_suite :: "(string \<Rightarrow> string) \<Rightarrow> 'b backend \<Rightarrow> string \<Rightarrow> 'b \<Rightarrow> conformance_check list \<times> 'b" where
  "run_conformance_suite dbg be golden s0 =
     (case run_never_created_checks dbg be s0 of
        (cs, s) \<Rightarrow>
          (case bk_create_from_golden be (conformance_request golden) s of
             (Inl e, s1) \<Rightarrow> (cs @ [record_result ''create_completes'' (Inl e :: lsbx_error + created_vm)], s1)
           | (Inr vm, s1) \<Rightarrow>
               (case live_checks dbg be vm s1 of
                  (cs', s') \<Rightarrow> (cs @ [record_result ''create_completes'' (Inr vm :: lsbx_error + created_vm)] @ cs', s'))))"

subsection \<open>What the suite finds\<close>

lemma passed_simps:
  "ck_passed (record_condition n b d) = b" "ck_passed (record_result n r) = (\<not> isl r)"
  "ck_passed (listing_check n w d t l) = (case l of Inr vms \<Rightarrow> (t \<in> set vms) = w | Inl _ \<Rightarrow> False)"
  by (auto simp: record_condition_def record_result_def listing_check_def split: sum.split)

lemma all_passed_append: "all_passed (a @ b) \<longleftrightarrow> all_passed a \<and> all_passed b"
  by (simp add: all_passed_def)

text \<open>A backend that claims a console but never gives an address of one does not pass, whatever else it does.\<close>

lemma suite_needs_console:
  assumes "bc_console (bk_capabilities be)"
    and "\<And>s vm s'. bk_create_from_golden be (conformance_request golden) s = (Inr vm, s') \<Longrightarrow> cv_https_url vm = None"
  shows "\<not> all_passed (fst (run_conformance_suite dbg be golden s0))"
proof -
  obtain cs s where n: "run_never_created_checks dbg be s0 = (cs, s)" by fastforce
  obtain r s1 where c: "bk_create_from_golden be (conformance_request golden) s = (r, s1)" by fastforce
  show ?thesis
  proof (cases r)
    case (Inl e)
    then show ?thesis by (simp add: run_conformance_suite_def n c all_passed_append) (simp add: all_passed_def passed_simps)
  next
    case (Inr vm)
    have "\<not> all_passed (console_checks be vm)"
      using assms(1) assms(2) [OF c [unfolded Inr]] by (simp add: console_checks_def all_passed_def passed_simps)
    then have "\<not> all_passed (fst (live_checks dbg be vm s1))"
      by (simp add: live_checks_def Let_def all_passed_append split: prod.split)
    then show ?thesis by (simp add: run_conformance_suite_def n c Inr split_beta) (simp add: all_passed_def)
  qed
qed

text \<open>The demo backend passes every check, whatever its hash.\<close>

lemma demo_empty_steps:
  "bk_destroy (demo_backend sha) t demo_new = (Inl (demo_no_vm t), demo_new)"
  "bounded_run (demo_backend sha) t c tmo demo_new = (Inl (demo_no_vm t), demo_new)"
  "bk_list_vms (demo_backend sha) demo_new = (Inr [], demo_new)"
  by (simp_all add: demo_backend_def demo_destroy_def bounded_run_def demo_run_def demo_run_time_def demo_list_vms_def
      demo_has_def demo_new_def)

lemma demo_one_steps:
  fixes t :: string and v :: demo_vm
  defines "s1 \<equiv> \<lparr>ds_internal = [(t, v)], ds_fault = FNone\<rparr>"
  shows "bk_destroy (demo_backend sha) t s1 = (Inr (), demo_new)"
    "bounded_run (demo_backend sha) t c tmo s1 = (Inr \<lparr>co_exit_code = 0, co_stdout = [], co_stderr = []\<rparr>, s1)"
    "bk_list_vms (demo_backend sha) s1 = (Inr [t], s1)"
  by (simp_all add: demo_backend_def demo_destroy_def bounded_run_def demo_run_def demo_run_time_def demo_list_vms_def
      demo_has_def demo_new_def s1_def)

lemma demo_create_one:
  "\<exists>t h u v. bk_create_from_golden (demo_backend sha) q demo_new =
     (Inr \<lparr>cv_vm_tag = t, cv_host = h, cv_https_url = Some u\<rparr>, \<lparr>ds_internal = [(t, v)], ds_fault = FNone\<rparr>)"
  by (simp add: demo_backend_def demo_create_def demo_new_def Let_def)

lemma demo_gone: "is_not_found (Inl (demo_no_vm t))" "is_gone (Inl (demo_no_vm t))"
  by (simp_all add: is_not_found_def is_gone_def demo_no_vm_def)

lemma demo_passes: "all_passed (fst (run_conformance_suite dbg (demo_backend sha) golden demo_new))"
proof -
  obtain t h u v where c: "bk_create_from_golden (demo_backend sha) (conformance_request golden) demo_new =
      (Inr \<lparr>cv_vm_tag = t, cv_host = h, cv_https_url = Some u\<rparr>, \<lparr>ds_internal = [(t, v)], ds_fault = FNone\<rparr>)"
    using demo_create_one by blast
  have k: "all_passed (console_checks (demo_backend sha) \<lparr>cv_vm_tag = t, cv_host = h, cv_https_url = Some u\<rparr>)"
    by (simp add: console_checks_def all_passed_def passed_simps)
  have tag: "cv_vm_tag \<lparr>cv_vm_tag = t, cv_host = h, cv_https_url = Some u\<rparr> = t" by simp
  let ?n = "run_never_created_checks dbg (demo_backend sha) demo_new"
  have n: "all_passed (fst ?n)" "snd ?n = demo_new"
    unfolding run_never_created_checks_def
    by (simp_all only: demo_empty_steps prod.case fst_conv snd_conv all_passed_def passed_simps demo_gone list.pred_inject simp_thms)
  have l: "all_passed (fst (live_checks dbg (demo_backend sha) \<lparr>cv_vm_tag = t, cv_host = h, cv_https_url = Some u\<rparr>
      \<lparr>ds_internal = [(t, v)], ds_fault = FNone\<rparr>))"
    unfolding live_checks_def Let_def tag
    by (simp only: demo_one_steps demo_empty_steps prod.case fst_conv all_passed_append k)
      (simp only: all_passed_def list.pred_inject passed_simps demo_gone sum.case sum.disc list.set empty_iff insert_iff simp_thms)
  obtain cs where r: "?n = (cs, demo_new)" using n(2) by (metis prod.collapse)
  then have "all_passed cs" using n(1) by simp
  then show ?thesis unfolding run_conformance_suite_def r
    by (simp add: c split_beta all_passed_append l) (simp add: l [unfolded all_passed_def] all_passed_def passed_simps)
qed

text \<open>For a backend that keeps the contract, a listing that succeeds passes its check.\<close>

context backend_contract
begin

lemma bounded_run_live: "bounded_run be t c tmo s = (r, s') \<Longrightarrow> live s' = live s"
  using run_live [of t c tmo None s] run_dropped_live [of t c suite_call_bound s]
  unfolding bounded_run_def by (metis prod.inject snd_conv)

lemma created_is_listed:
  assumes "bk_create_from_golden be q s = (Inr vm, s1)" and "bk_list_vms be s1 = (Inr vms, s2)"
  shows "cv_vm_tag vm \<in> set vms"
  using create_ok [OF assms(1)] list_vms_ok [OF assms(2)] by simp

end

end
