(* ===== verification/Lsbx_Scenario.thy ===== *)
theory Lsbx_Scenario
  imports Lsbx_Serve Lsbx_Tui Lsbx_Libvirt Lsbx_Testkit "HOL-Library.Code_Target_Nat"
begin

text \<open>
  A concrete host for the witnesses of \<open>Spec2Isabelle\<close>: a file system that refuses nothing, the demo
  backend with a stand-in for its hash, time stamps written as decimal nanoseconds, and the texts
  of libraries as short constants. Nothing here models the program.
\<close>

definition demo_sha :: "string \<Rightarrow> string" where
  "demo_sha s = s"

definition demo_keys :: key_lib where
  "demo_keys = \<lparr>kl_temp_dir = ''/tmp'', kl_private = (\<lambda>n c. Inr ''priv''), kl_public = (\<lambda>n c. Inr ''pub'')\<rparr>"

definition demo_lib :: lib where
  "demo_lib =
     \<lparr>lb_serde = no_text, lb_keys = demo_keys, lb_to_rfc3339 = (\<lambda>n. show_nat (nat n)),
      lb_parse_rfc3339 = (\<lambda>s. map_option int (parse_u64 s)), lb_rand = (\<lambda>n. n), lb_dur_text = (\<lambda>d. [])\<rparr>"

definition demo_fs :: fs where
  "demo_fs = \<lparr>fs_files = [], fs_dirs = [(''/s'', 448), (''/tmp'', 511)], fs_tick = 0, fs_plan = (\<lambda>n. None),
     fs_fresh = show_nat\<rparr>"

definition demo_world :: "demo_state world" where
  "demo_world = \<lparr>w_fs = demo_fs, w_bk = demo_new, w_now = 5, w_rnd = 0\<rparr>"

definition demo_rq :: create_request where
  "demo_rq =
     \<lparr>rq_profile = ''ci'', rq_golden = None, rq_name = Some ''a'', rq_task_id = None, rq_lease = 3,
      rq_ready_timeout = 1, rq_verify = True, rq_cpu = None, rq_memory = None, rq_flavor = None,
      rq_streaming = None, rq_healthchecks = [], rq_os = None\<rparr>"

text \<open>Before a sandbox is made with a hanging backend, after it was made, later, and with a backend that
  does not destroy.\<close>

definition demo_hung :: "demo_state world" where
  "demo_hung = demo_world\<lparr>w_bk := demo_with_fault FHangOnRun\<rparr>"

definition demo_made :: "demo_state world" where
  "demo_made = snd (create demo_lib (demo_backend demo_sha) ''/s'' demo_rq demo_world)"

definition demo_id :: string where
  "demo_id = uuid_like_id demo_lib demo_world"

definition demo_late :: "demo_state world" where
  "demo_late = demo_made\<lparr>w_now := 100\<rparr>"

definition demo_broken :: "demo_state world" where
  "demo_broken = demo_made\<lparr>w_bk := (w_bk demo_made)\<lparr>ds_fault := FPartialDestroyFailure\<rparr>\<rparr>"

definition demo_job :: ci_job_record where
  "demo_job =
     \<lparr>cj_job_id = ''7'', cj_queue_label = ''l'', cj_runner_group = None, cj_host_prefix = None,
      cj_phase = phase_dispatched, cj_sandbox_id = Some demo_id, cj_runner_name = None,
      cj_dispatched_job_name = None, cj_actual_job_id = None, cj_actual_job_name = None, cj_diverged = False,
      cj_repository = ''o/r'', cj_created_at = ''5'', cj_updated_at = ''5'', cj_lease_expires_at = None,
      cj_last_error = None\<rparr>"

definition demo_fleet :: "demo_state world" where
  "demo_fleet = demo_made\<lparr>w_fs := snd (ci_save ''/s'' demo_job (w_fs demo_made))\<rparr>"

text \<open>A remote with one repository, one queued run and one queued job.\<close>

definition demo_transport :: "unit transport" where
  "demo_transport =
     \<lparr>gx_get = (\<lambda>route ps. retE (
        if ends_with ''/jobs'' route
        then JArr [JObj [(''id'', JNum 21), (''run_id'', JNum 11), (''status'', JStr ''queued''),
                         (''labels'', JArr [JStr ''l'']), (''runner_name'', JStr ''run-1'')]]
        else JArr [JObj [(''id'', JNum 11)]])),
      gx_post = (\<lambda>route. retE JNull),
      gx_page = (\<lambda>v. case v of JArr xs \<Rightarrow> Inr (xs, None) | _ \<Rightarrow> Inl (OJson [])),
      gx_repos = (\<lambda>v. Inr ([(Some ''o/r'', ''r'')], 1)),
      gx_installation = (\<lambda>v. Inr 9), gx_token = (\<lambda>v. Inr (''tok'', Some ''4000'')),
      gx_exec = (\<lambda>c. failE []), gx_parse = (\<lambda>t. Inl []), gx_serde_text = (\<lambda>v. [])\<rparr>"

definition demo_poll :: poll_config where
  "demo_poll = poll_config_default\<lparr>pc_queue_labels := [''l''], pc_repo_refresh_interval := 3\<rparr>"

definition demo_auth :: auth_lib where
  "demo_auth = \<lparr>ax_key_error = (\<lambda>k. None), ax_sign = (\<lambda>k c. Inr ''jwt''), ax_build = (\<lambda>i. None),
     ax_parse_rfc3339 = (\<lambda>s. case parse_u64 s of None \<Rightarrow> Inl [] | Some n \<Rightarrow> Inr (int n)), ax_debug_str = (\<lambda>s. s)\<rparr>"

definition demo_app :: app_config where
  "demo_app = \<lparr>ac_app_id = 1, ac_private_key_pem = ''pem'', ac_installation_id = None\<rparr>"

definition demo_summary :: job_summary where
  "demo_summary = \<lparr>js_id = 21, js_run_id = 11, js_status = ''queued'', js_name = None, js_conclusion = None,
     js_labels = [''l''], js_created_at = None, js_runner_name = Some ''run-1''\<rparr>"

text \<open>The facade, with a manifest and one golden.\<close>

definition demo_golden :: golden_config where
  "demo_golden =
     \<lparr>gc_key = ''ci'', gc_flavor = CiRunner, gc_os = ''linux'', gc_base = ''lsbx-ci-v1'', gc_mode = Copy, gc_cpu = 2,
      gc_memory = ''4G'', gc_disk = None, gc_streaming = StreamNone, gc_capabilities = [], gc_healthcheck = [],
      gc_repo = None, gc_content_hash = None, gc_description = []\<rparr>"

definition demo_manifest :: manifest_path where
  "demo_manifest = (''/s'', ''images.json'')"

definition demo_ops :: "demo_state ops" where
  "demo_ops =
     \<lparr>op_lib = demo_lib, op_backend = demo_backend demo_sha, op_backend_name = ''demo'', op_state_dir = ''/s'',
      op_images_path = Some demo_manifest\<rparr>"

definition demo_empty :: image_registry where
  "demo_empty = \<lparr>ir_images = [], ir_goldens = [], ir_profiles = []\<rparr>"

definition demo_desk :: "demo_state ops_world" where
  "demo_desk = \<lparr>ow_world = demo_made, ow_registry = demo_empty\<rparr>"

text \<open>The broker over it.\<close>

definition demo_rc :: "unit reconciler" where
  "demo_rc = \<lparr>rc_lib = demo_lib, rc_job_dir = ''/s'', rc_transport = demo_transport, rc_backing = Installation\<rparr>"

definition demo_broker :: "(demo_state, unit) broker" where
  "demo_broker = \<lparr>br_ops = demo_desk, br_gh = ()\<rparr>"

definition demo_work :: "(demo_state, unit) job_state" where
  "demo_work = \<lparr>jb_rec = demo_job, jb_sys = demo_broker\<rparr>"

definition demo_config :: broker_config where
  "demo_config = \<lparr>bg_poll = demo_poll, bg_lease = 3, bg_runner = None\<rparr>"

definition demo_runner :: runner_config where
  "demo_runner =
     \<lparr>rg_app_id = 1, rg_app_key_path = ''/s/app.pem'', rg_owner = ''o'', rg_scope = ''repo'', rg_labels = ''l'',
      rg_group = None, rg_runner_user = ''runner'', rg_runner_dir = ''/opt/r'', rg_host_prefix = ''h'',
      rg_provision_script = ''/s/provision.sh'', rg_runner_wait_timeout = 9, rg_job_timeout = 9\<rparr>"

definition demo_secrets :: fs where
  "demo_secrets = demo_fs\<lparr>fs_files := [((''/s'', ''app.pem''), (FText ''key'', 384)), ((''/s'', ''provision.sh''), (FText ''sh'', 493))]\<rparr>"

definition demo_full :: "demo_state ops_world" where
  "demo_full = demo_desk\<lparr>ow_world := demo_made\<lparr>w_fs := (w_fs demo_made)\<lparr>fs_plan := (\<lambda>n. Some ''no space'')\<rparr>\<rparr>\<rparr>"

lemma no_files_in: "list_all (\<lambda>e. fst (fst e) \<noteq> d) (fs_files s) \<Longrightarrow> fs_get s d n = None"
  by (auto simp: fs_get_def list_all_iff map_of_eq_None_iff)

lemma demo_never_refuses_keys: "fst (bk_register_vm_key (demo_backend sha) t p b) = Inr ()"
  by (simp add: demo_backend_def default_register_vm_key_def)

lemma demo_reconciles: "fst (bk_reconcile_orphaned_keys (demo_backend sha) ks s) \<in> range Inr"
  by (simp add: demo_backend_def default_reconcile_orphaned_keys_def)

lemma demo_calm: "calm demo_fs" "calm (w_fs demo_world)" "calm (w_fs demo_hung)"
    "calm (w_fs demo_made)" "calm (w_fs demo_late)" "calm (w_fs demo_broken)"
  by (simp_all add: calm_def demo_hung_def demo_world_def demo_fs_def demo_made_def demo_late_def demo_broken_def create_plan)

lemma demo_made_run: "\<exists>ps. create demo_lib (demo_backend demo_sha) ''/s'' demo_rq demo_world = (Inr ps, demo_made)"
proof -
  have "\<not> isl (fst (create demo_lib (demo_backend demo_sha) ''/s'' demo_rq demo_world))" by code_simp
  then show ?thesis unfolding demo_made_def using runs_ok by fastforce
qed

lemma demo_made_view: "\<exists>r. sr_id r = demo_id \<and> sandbox_view ''/s'' (w_fs demo_made) = [demo_id \<mapsto> r]"
proof -
  have e: "sandbox_view ''/s'' (w_fs demo_world) = Map.empty"
    by (simp add: sandbox_view_def fun_eq_iff demo_world_def demo_fs_def fs_get_def)
  obtain ps where c: "create demo_lib (demo_backend demo_sha) ''/s'' demo_rq demo_world = (Inr ps, demo_made)"
    using demo_made_run by blast
  obtain r where "sr_id r = demo_id" "sandbox_view ''/s'' (w_fs demo_made) = (sandbox_view ''/s'' (w_fs demo_world))(sr_id r \<mapsto> r)"
    using demo.create_ok_durable [OF c] by (elim exE conjE) (rule that [unfolded demo_id_def])
  then show ?thesis unfolding e by (intro exI conjI) simp_all
qed

lemma demo_ids: "sandbox_view ''/s'' (w_fs demo_made) k = Some r \<Longrightarrow> sr_id r = k"
  "sandbox_view ''/s'' (w_fs demo_late) k = Some r \<Longrightarrow> sr_id r = k"
  using demo_made_view by (auto simp: demo_late_def split: if_splits)

lemma demo_decodes: "all_decode ''/s'' (w_fs demo_late)"
proof -
  have "dir_names (w_fs demo_made) (store_dir ''/s'') = [record_file demo_id]" by code_simp
  then show ?thesis using demo_made_view by (auto simp: all_decode_def demo_late_def)
qed

subsection \<open>The remote's listings return\<close>

lemma decode_items_length: "decode_items d e vs = Inr xs \<Longrightarrow> length xs = length vs"
  by (induction vs arbitrary: xs) (auto split: option.splits elim!: bindS_InrE)

lemma demo_pages: "octo_fetch demo_transport d r ps p s = (Inr (xs, n), s') \<Longrightarrow> n \<le> 1"
  unfolding octo_fetch_def octo_page_items_def demo_transport_def
  by (auto simp: bindE_Inr_iff unwrap_or_def elim!: bindS_InrE dest: decode_items_length simp del: decode_items.simps split: if_splits)

lemma demo_listings: "listings_return demo_rc"
proof -
  have w: "workflow_runs demo_transport Installation repo status g \<noteq> None" for repo status g
    unfolding workflow_runs_def backing.case by (rule list_pages_terminates) (rule demo_pages)
  have j: "run_jobs demo_transport Installation repo run g \<noteq> None" for repo run g
    unfolding run_jobs_def backing.case by (rule list_pages_terminates) (rule demo_pages)
  have i: "installation_repositories demo_transport Installation g \<noteq> None" for g
  proof -
    have "octo_repos_fetch demo_transport p s = (Inr (xs, n), s') \<Longrightarrow> n \<le> 1" for p s xs n s'
      unfolding octo_repos_fetch_def demo_transport_def by (auto simp: bindE_Inr_iff)
    then show ?thesis unfolding installation_repositories_def backing.case by (rule list_pages_terminates)
  qed
  show ?thesis unfolding listings_return_def using w j i by (simp add: demo_rc_def)
qed

definition demo_prompt :: "demo_state ops" where
  "demo_prompt = demo_ops\<lparr>op_backend := (demo_backend demo_sha)\<lparr>bk_run_time := (\<lambda>_ _ _ _ _. 0)\<rparr>\<rparr>"

subsection \<open>A control plane with one name\<close>

text \<open>
  A plane over an SSH alias whose only machine, once it is cloned, is called \<open>vm\<close>; its state says whether
  it is there. It clones nothing else, and forgets keys and tags.
\<close>

definition plane_rq :: create_from_golden_request where
  "plane_rq = \<lparr>cg_golden = ''g'', cg_name = ''vm'', cg_pubkey = ''pk'', cg_cpu = 2, cg_memory = ''4G'', cg_os = ''linux''\<rparr>"

definition plane_ls :: string where "plane_ls = ''ls --json''"

definition plane_cp :: string where "plane_cp = cp_command plane_rq"

definition plane_rm :: string where "plane_rm = rm_command (cg_name plane_rq)"

definition plane_yes :: json where "plane_yes = JObj [(''vms'', JArr [JObj [(''vm_name'', JStr (cg_name plane_rq))]])]"

definition plane_no :: json where "plane_no = JObj [(''vms'', JArr [])]"

definition plane_made :: json where "plane_made = JObj [(''ssh_dest'', JStr ''root@vm.exe.xyz'')]"

definition plane_parse :: "string \<Rightarrow> json option" where
  "plane_parse t = (if t = ''y'' then Some plane_yes else if t = ''n'' then Some plane_no
     else if t = ''c'' then Some plane_made else None)"

definition plane_run :: "string \<Rightarrow> bool \<Rightarrow> proc_outcome \<times> bool" where
  "plane_run cmd there =
     (if cmd = plane_ls then (Exited (Some 0) (if there then ''y'' else ''n'') [], there)
      else if cmd = plane_cp then (Exited (Some 0) ''c'' [], True)
      else if cmd = plane_rm then (Exited (Some 0) [] [], False)
      else if starts_with ''cp '' cmd then (Exited (Some 1) [] ''no such golden'', there)
      else (Exited (Some 0) [] [], there))"

definition plane_ssh :: "string list \<Rightarrow> nat \<Rightarrow> bool \<Rightarrow> proc_outcome \<times> bool" where
  "plane_ssh args tmo = plane_run (last args)"

definition plane_russh :: "bool russh" where
  "plane_russh =
     \<lparr>xr_load_key = (\<lambda>p s. None), xr_known_hosts = [], xr_dial = (\<lambda>h p. retE ''key''),
      xr_check_known = (\<lambda>h p k f s. Inr True), xr_learn = (\<lambda>h p k f s. s), xr_rejected = [],
      xr_auth = (\<lambda>u k. retE True), xr_open = retE (), xr_exec = (\<lambda>c. retE ()),
      xr_messages = (\<lambda>d s. (Some [MsgExit 0], s))\<rparr>"

text \<open>Its guests, reached over HTTPS, print \<open>hi\<close> and a newline and exit with 3.\<close>

definition plane :: "bool exe_lib" where
  "plane =
     \<lparr>xl_sha = (\<lambda>t. ''0123456789abcdef''), xl_post = (\<lambda>u k c d s. (Answer True ''200'' (Inr (guest_body (''hi'' @ [CHR 0x0A]) 3)), s)),
      xl_ssh = plane_ssh, xl_scp = (\<lambda>a d s. (Exited (Some 0) [] [], s)), xl_russh = plane_russh,
      xl_is_file = (\<lambda>p s. True), xl_is_dir = (\<lambda>p s. False), xl_parse_json = plane_parse,
      xl_dur_text = (\<lambda>d. []), xl_run_time = (\<lambda>t c d i s. 0), xl_run_dropped = (\<lambda>t c d s. s)\<rparr>"

definition plane_auth :: exe_auth where "plane_auth = SshAlias ''exe''"

definition plane_live :: "bool \<Rightarrow> string set" where
  "plane_live there = (if there then {cg_name plane_rq} else {})"

definition plane_state :: "bool \<Rightarrow> bool exe_state" where
  "plane_state there = \<lparr>xs_net = there, xs_keys = []\<rparr>"

lemma plane_control:
  "control plane plane_auth cmd s =
     (proc_output plane ''ssh'' control_timeout (fst (plane_run cmd (xs_net s))), s\<lparr>xs_net := snd (plane_run cmd (xs_net s))\<rparr>)"
  by (simp add: control_def plane_auth_def run_ssh_alias_def on_net_def run_open_ssh_def plane_ssh_def plane_def split_beta)

lemma rm_command_inject: "rm_command t = rm_command u \<Longrightarrow> t = u"
  using sh_word_shell_quote [of "[]" t] sh_word_shell_quote [of "[]" u] by (simp add: rm_command_def exe_quote_def)

lemma cp_command_name: "cp_command a = cp_command b \<Longrightarrow> cg_name a = cg_name b"
proof -
  assume "cp_command a = cp_command b"
  then obtain x y where e: "shell_quote (cg_golden a) @ CHR '' '' # shell_quote (cg_name a) @ CHR '' '' # x =
      shell_quote (cg_golden b) @ CHR '' '' # shell_quote (cg_name b) @ CHR '' '' # y"
    by (auto simp: cp_command_def exe_quote_def)
  have w: "sh_word False (shell_quote v @ CHR '' '' # z) = Some (v, CHR '' '' # z)" for v z
    by (rule sh_word_shell_quote) (simp add: sh_plain_def)
  have "shell_quote (cg_name a) @ CHR '' '' # x = shell_quote (cg_name b) @ CHR '' '' # y"
    using arg_cong [OF e, of "sh_word False"] by (simp add: w)
  from arg_cong [OF this, of "sh_word False"] show ?thesis by (simp add: w)
qed

lemma plane_heads:
  "hd plane_ls = CHR ''l''" "hd plane_cp = CHR ''c''" "hd plane_rm = CHR ''r''"
  by (simp_all add: plane_ls_def plane_cp_def plane_rm_def cp_command_def rm_command_def)

lemma plane_run_simps:
  "plane_run plane_ls b = (Exited (Some 0) (if b then ''y'' else ''n'') [], b)"
  "plane_run (rm_command t) b = (Exited (Some 0) [] [], b \<and> t \<noteq> cg_name plane_rq)"
  "plane_run (cp_command rq) b =
     (if cp_command rq = plane_cp then (Exited (Some 0) ''c'' [], True) else (Exited (Some 1) [] ''no such golden'', b))"
  "c \<notin> {CHR ''l'', CHR ''c'', CHR ''r''} \<Longrightarrow> plane_run (c # cmd) b = (Exited (Some 0) [] [], b)"
proof -
  have n: "rm_command t \<noteq> plane_ls" "rm_command t \<noteq> plane_cp" "\<not> starts_with ''cp '' (rm_command t)"
  proof -
    have h: "hd (rm_command t) = CHR ''r''" by (simp add: rm_command_def)
    show "rm_command t \<noteq> plane_ls" "rm_command t \<noteq> plane_cp"
      by (rule notI, use h plane_heads in simp)+
  qed (simp add: rm_command_def starts_with_def)
  show "plane_run (rm_command t) b = (Exited (Some 0) [] [], b \<and> t \<noteq> cg_name plane_rq)"
    using n rm_command_inject [of t "cg_name plane_rq"] by (auto simp: plane_run_def plane_rm_def)
  have h: "hd (cp_command rq) = CHR ''c''" by (simp add: cp_command_def)
  have "cp_command rq \<noteq> plane_ls" "cp_command rq \<noteq> plane_rm" by (rule notI, use h plane_heads in simp)+
  moreover have "starts_with ''cp '' (cp_command rq)" by (simp add: cp_command_def starts_with_def)
  ultimately show "plane_run (cp_command rq) b =
     (if cp_command rq = plane_cp then (Exited (Some 0) ''c'' [], True) else (Exited (Some 1) [] ''no such golden'', b))"
    by (simp add: plane_run_def)
  show "plane_run (c # cmd) b = (Exited (Some 0) [] [], b)" if "c \<notin> {CHR ''l'', CHR ''c'', CHR ''r''}"
  proof -
    have "c # cmd \<noteq> plane_ls" "c # cmd \<noteq> plane_cp" "c # cmd \<noteq> plane_rm"
      by (rule notI, use that plane_heads in \<open>metis insert_iff list.sel(1)\<close>)+
    moreover have "\<not> starts_with ''cp '' (c # cmd)" using that by (simp add: starts_with_def)
    ultimately show ?thesis by (simp add: plane_run_def)
  qed
qed (simp add: plane_run_def)

lemma plane_listing:
  "exe_list_vms plane plane_auth s = (Inr (if xs_net s then [cg_name plane_rq] else []), s)"
proof -
  have p: "parse_json_value plane ''y'' ''ls'' = Inr plane_yes" "parse_json_value plane ''n'' ''ls'' = Inr plane_no"
    by code_simp+
  have v: "Option.bind (json_get plane_yes ''vms'') as_array = Some [JObj [(''vm_name'', JStr (cg_name plane_rq))]]"
    "Option.bind (json_get plane_no ''vms'') as_array = Some []" by code_simp+
  have n: "vm_names [JObj [(''vm_name'', JStr (cg_name plane_rq))]] = [cg_name plane_rq]" "vm_names [] = []" by code_simp+
  have a: "\<not> is_vm_scoped plane_auth" by (simp add: is_vm_scoped_def plane_auth_def)
  have same: "s\<lparr>xs_net := xs_net s\<rparr> = s" by simp
  show ?thesis unfolding exe_list_vms_def require_not_vm_scoped_def plane_ls_def [symmetric]
    by (cases "xs_net s") (simp_all add: a bindE_run plane_control plane_run_simps proc_output_def p v n same)
qed

lemma plane_honest: "honest_plane plane plane_auth plane_live"
  unfolding honest_plane_def
proof (intro conjI)
  show "plane_lists plane plane_auth plane_live"
    by (auto simp: plane_lists_def plane_listing plane_live_def)
  show "plane_removes plane plane_auth plane_live"
    by (auto simp: plane_removes_def plane_control plane_run_simps plane_live_def)
  show "plane_clones plane plane_auth plane_live"
  proof -
    have "cp_command rq = plane_cp \<Longrightarrow> cg_name rq = cg_name plane_rq" for rq
      unfolding plane_cp_def by (rule cp_command_name)
    then show ?thesis
      unfolding plane_clones_def plane_control plane_run_simps by (auto simp: plane_live_def proc_output_def)
  qed
  show "plane_spares plane plane_auth plane_live"
    by (simp add: plane_spares_def plane_control tag_command_def add_key_command_def remove_key_command_def plane_run_simps)
qed

subsection \<open>A golden build\<close>

definition demo_hash :: "fcontent \<Rightarrow> string" where
  "demo_hash c = ''h''"

definition demo_build :: golden_build_request where
  "demo_build =
     \<lparr>gb_name = ''ci'', gb_from = ''ubuntu'', gb_script = ''/s/build.sh'', gb_flavor = CiRunner, gb_cpu = 2, gb_memory = ''4G'',
      gb_streaming = StreamNone, gb_register = False, gb_cleanup = True, gb_dry_run = False, gb_pubkey = ''pk'',
      gb_key_path = None\<rparr>"

text \<open>A flattener that writes the disk next to the manifest.\<close>

definition demo_flatten :: "demo_state flattener" where
  "demo_flatten tag = bindE (on_fs (\<lambda>s. (Inr (), s\<lparr>fs_files := ((''/s'', ''disk''), (FText tag, 420)) # fs_files s\<rparr>)))
     (\<lambda>_. retE (''/s'', ''disk''))"

lemma demo_flatten_live: "Some demo_flatten = Some f \<Longrightarrow> keeps_live demo_live (f t)"
  unfolding demo_flatten_def by (auto intro!: keeps_live_bindE keeps_live_simple)

definition demo_checked :: golden_config where
  "demo_checked = demo_golden\<lparr>gc_healthcheck := [''true'', ''false'']\<rparr>"

subsection \<open>A gateway\<close>

text \<open>
  It has one token and room for one sandbox; its body reader knows the body of a creation only, and
  rounding is exact.
\<close>

definition demo_http :: http_lib where
  "demo_http =
     \<lparr>hl_decode = Some, hl_json = (\<lambda>t. if t = ''ci'' then Some (JObj [(''profile'', JStr ''ci''), (''verify'', JBool False)]) else None),
      hl_sha = (\<lambda>t. ''h''), hl_round = (\<lambda>x. x)\<rparr>"

definition demo_gateway_config :: gateway_config where
  "demo_gateway_config =
     \<lparr>gw_token = Some ''t'', gw_allow_local_files = False, gw_insecure = False, gw_max_sandboxes = 1, gw_rpm = 60, gw_burst = 2\<rparr>"

definition demo_addr :: addr_lib where
  "demo_addr = \<lparr>ad_socket = (\<lambda>t. Some (V4 127 0 0 1, 80)), ad_ip = (\<lambda>t. None), ad_page = []\<rparr>"

definition demo_env :: "demo_state gateway_env" where
  "demo_env = \<lparr>gv_lib = demo_http, gv_addr = demo_addr, gv_ops = demo_ops, gv_config = demo_gateway_config, gv_read_back = (\<lambda>p s. Inr []),
     gv_rest_fallback = True\<rparr>"

definition demo_gate :: "demo_state gateway" where
  "demo_gate = \<lparr>gt_ops = \<lparr>ow_world = demo_world, ow_registry = demo_empty\<rparr>, gt_limiter = limiter_new, gt_audit = []\<rparr>"

definition demo_post :: "string \<Rightarrow> http_request" where
  "demo_post token =
     \<lparr>hq_method = MPost, hq_path = ''/sandboxes'', hq_query = [], hq_headers = [(''x-api-key'', Some token)],
      hq_json_type = True, hq_upgrade = False, hq_body = ''ci'', hq_peer = Some ''127.0.0.1''\<rparr>"

lemma demo_gate_view: "sandbox_view sd (gate_fs demo_gate) i = None"
proof -
  have "fs_files (gate_fs demo_gate) = []" by (simp only: demo_gate_def gateway.select_convs ops_world.select_convs demo_world_def
      world.select_convs demo_fs_def fs.select_convs)
  then show ?thesis by (simp add: sandbox_view_def fs_get_def)
qed

lemma demo_gate_in_place: "in_place sd (gate_fs demo_gate)"
  by (simp add: in_place_def demo_gate_view)

lemma demo_gate_empty: "held demo_env demo_gate = 0"
  by (simp add: held_def dom_def demo_gate_view)

lemma exact_rounds_well: "rounds_well (\<lambda>x. x)"
  by (simp add: rounds_well_def mono_def)

subsection \<open>The door for agents\<close>

definition demo_mcp :: "demo_state mcp_server" where
  "demo_mcp = \<lparr>mc_ops = demo_ops, mc_sha = demo_hash\<rparr>"

text \<open>A bare host, and the command line on the demo backend.\<close>

definition demo_host :: host_lib where
  "demo_host = \<lparr>ho_socket = (\<lambda>p. Some (Inr ())), ho_show_json = (\<lambda>v. [])\<rparr>"

definition demo_vars :: env where
  "demo_vars = [''HOME'' \<mapsto> ''/h'', ''PATH'' \<mapsto> ''/bin'']"

definition demo_bare :: fs where
  "demo_bare = demo_fs\<lparr>fs_files := [((''/bin'', ''qemu-img''), (FText [], 493))]\<rparr>"

definition demo_setup :: bootstrap_config where
  "demo_setup = \<lparr>bo_target = None, bo_install_services = True, bo_verify = True, bo_force = False, bo_dry_run = False\<rparr>"

definition demo_backends :: "demo_state backends" where
  "demo_backends =
     \<lparr>bs_demo = (\<lambda>b. (demo_backend demo_sha, demo_new)), bs_libvirt = (\<lambda>_ _ _ _. failE (BackendUnavailable [])),
      bs_exedev = (\<lambda>au b. (demo_backend demo_sha, b))\<rparr>"

definition demo_cx :: "demo_state cli_lib" where
  "demo_cx =
     \<lparr>cx_env = demo_vars, cx_lib = demo_lib, cx_json = \<lparr>jl_show = (\<lambda>v. []), jl_pretty = (\<lambda>v. [])\<rparr>,
      cx_backends = demo_backends, cx_sha = (\<lambda>c. []), cx_host = demo_host\<rparr>"

definition demo_shell :: "demo_state process" where
  "demo_shell = \<lparr>pr_ops = demo_desk, pr_out = [], pr_err = []\<rparr>"

definition demo_register :: register_args where
  "demo_register =
     \<lparr>ra_name = ''ci'', ra_base = ''lsbx-ci-v2'', ra_flavor = ''Agent'', ra_os = ''linux'', ra_streaming = None,
      ra_capabilities = [], ra_healthcheck = [], ra_cpu = 1, ra_memory = ''1G'', ra_disk = None, ra_mode = ''copy'',
      ra_repo = None, ra_content_hash = None, ra_replace = True\<rparr>"

definition demo_args :: cli where
  "demo_args = \<lparr>cl_json = False, cl_verbose = False, cl_config = None, cl_backend = None, cl_images = None,
     cl_state_dir = Some ''/s'', cl_command = None\<rparr>"

definition demo_sv :: "(demo_state, (ip_addr \<times> nat) list, unit) serve_lib" where
  "demo_sv =
     \<lparr>sv_net = \<lparr>nl_ip_text = (\<lambda>ip. []), nl_addr_text = (\<lambda>ip. []), nl_bind = (\<lambda>x n. (Inr (), x # n)), nl_local_addr = (\<lambda>n. Inr (hd n))\<rparr>,
      sv_parse_ip = (\<lambda>t. Inr (V4 0 0 0 0)), sv_round = (\<lambda>x. x), sv_serve = (\<lambda>sg s. None)\<rparr>"

definition demo_serve :: serve_args where
  "demo_serve = \<lparr>sa_host = Some ''0.0.0.0'', sa_port = None, sa_max_sandboxes = None, sa_stream_port = None,
     sa_token = Some ''t'', sa_reap_ttl = None, sa_insecure = True, sa_daemon = False\<rparr>"

definition demo_machine :: "(demo_state, (ip_addr \<times> nat) list, unit) machine" where
  "demo_machine = \<lparr>ma_process = demo_shell, ma_net = [], ma_gh = ()\<rparr>"

definition demo_term :: term_lib where
  "demo_term = \<lparr>te_raw = None, te_alternate = None, te_terminal = None, te_draw = (\<lambda>n. None),
     te_leave_raw = True, te_leave_alternate = True\<rparr>"

definition demo_screen :: terminal where
  "demo_screen = \<lparr>tm_raw = False, tm_alternate = False, tm_active = False\<rparr>"

text \<open>A hypervisor that keeps the names of its domains, and whose guests all get one address.\<close>

definition demo_create_xml :: "string \<Rightarrow> (string list, virt_error, string) comp" where
  "demo_create_xml x h =
     (case xml_field name_mark (CHR ''<'') x of
        None \<Rightarrow> (Inl \<lparr>ve_no_domain = False, ve_message = ''xml''\<rparr>, h)
      | Some n \<Rightarrow> if n \<in> set h then (Inl \<lparr>ve_no_domain = False, ve_message = ''twice''\<rparr>, h) else (Inr n, n # h))"

definition demo_known :: "string \<Rightarrow> 'a \<Rightarrow> string list \<Rightarrow> string list \<Rightarrow> (virt_error + 'a) \<times> string list" where
  "demo_known n x h h' = (if n \<in> set h then (Inr x, h') else (Inl \<lparr>ve_no_domain = True, ve_message = n\<rparr>, h))"

definition demo_virt :: "string list virt" where
  "demo_virt =
     \<lparr>vi_open = (\<lambda>u. retE ()), vi_lookup = (\<lambda>t h. demo_known t t h h), vi_create_xml = demo_create_xml, vi_name = retE,
      vi_destroy = (\<lambda>d h. demo_known d () h (filter (\<lambda>n. n \<noteq> d) h)),
      vi_rename = (\<lambda>d n h. demo_known d () h (n # filter (\<lambda>m. m \<noteq> d) h)), vi_list = (\<lambda>h. (Inr h, h)),
      vi_program = (\<lambda>prog args limit x. (Exited (Some 0) ''ipv4 10.0.0.7/24'' [], 1, x)),
      vi_dropped = (\<lambda>tag c d x. x), vi_real = (\<lambda>f p. Some p),
      vi_parse_ip = (\<lambda>t. if t = ''10.0.0.7'' then Some (V4 10 0 0 7) else None),
      vi_dur_text = (\<lambda>d. []), vi_env = Map.empty, vi_home = None\<rparr>"

interpretation listed: virt_host demo_virt set id
  by unfold_locales
    (auto simp: demo_virt_def demo_known_def demo_create_xml_def retE_def split: if_splits option.splits)

definition demo_lv :: libvirt_config where
  "demo_lv =
     \<lparr>lc_transport = LocalHost None, lc_images_dir = ''/i'', lc_work_dir = ''/s'', lc_disk_mode = DiskCopy, lc_username = ''lsbx''\<rparr>"

definition demo_kvm :: "string list lv_state" where
  "demo_kvm = \<lparr>lv_fs = demo_fs\<lparr>fs_files := [((''/s'', ''a.qcow2''), (FText [], 420)), ((''/s'', ''b''), (FText [], 420))]\<rparr>,
     lv_host = [''a''], lv_now = 0, lv_ips = [(''a'', ''10.0.0.7'')]\<rparr>"

definition demo_guest_rq :: create_from_golden_request where
  "demo_guest_rq = \<lparr>cg_golden = ''g'', cg_name = ''v'', cg_pubkey = ''k'', cg_cpu = 1, cg_memory = ''1G'', cg_os = ''linux''\<rparr>"

end
