(* ===== verification/Spec2Isabelle.thy ===== *)
theory Spec2Isabelle
  imports Lsbx_Scenario
begin

text \<open>
  A model of lsbx (\<open>src/crates\<close>), the engine for disposable virtual machines with its broker of CI
  runners, and the theorems that make it correct.

  The program. A backend makes, runs and destroys machines. \<open>lsbx-lifecycle\<close> creates a sandbox on a
  backend (with a key pair of \<open>lsbx-keys\<close> and a durable record of \<open>lsbx-store\<close>), renews its lease,
  destroys it, and sweeps the expired ones. \<open>lsbx-ops\<close> is the facade that every door of the program
  calls; it adds the golden images of \<open>lsbx-golden\<close>, which are built on a machine of their own and kept
  in a registry. \<open>lsbx-backend-exedev\<close> makes machines through the control plane of exe.dev,
  \<open>lsbx-backend-libvirt\<close> on KVM.
  \<open>lsbx-gateway\<close>, with \<open>lsbx-stream\<close> beside it, serves the facade over HTTP, \<open>lsbx-mcp\<close> to agents. \<open>lsbx-broker\<close> polls GitHub for queued
  jobs, puts each onto a sandbox through the facade, follows the runner's log, and cleans up.
  \<open>lsbx-cli\<close> is the command that starts all of these, \<open>lsbx-tui\<close> its terminal interface, \<open>lsbx-bootstrap\<close>
  sets a host up.

  The theories, in the order of their imports:
  \<^item> \<open>Lsbx_Prelude\<close>: string functions of the standard library, and computations that take a state and
    return an error or a value with the new state (\<open>bindE\<close> is the question mark operator).
  \<^item> \<open>Lsbx_Json\<close>: JSON values and the decoding serde derives for structs.
  \<^item> \<open>Lsbx_Kernel\<close> (\<open>lsbx-kernel\<close>): the error type with exit codes as 32-bit words, the envelope, the
    sandbox record with its JSON forms and its public view.
  \<^item> \<open>Lsbx_Fs\<close>: the part of \<open>std::fs\<close> and \<open>tempfile\<close> the program uses. A state holds directories and
    files with modes and contents, and a plan that says of each call whether the host refuses it.
  \<^item> \<open>Lsbx_Store\<close> (\<open>sandbox_store.rs\<close>, \<open>ci_job_store.rs\<close>): the two record stores. The locale
    \<open>record_store\<close> states what a client relies on (atomic put and delete, reading after writing); the
    interpretations \<open>sandboxes\<close> and \<open>ci_jobs\<close> prove it of both.
  \<^item> \<open>Lsbx_Lock\<close> (\<open>lock.rs\<close>): the lock sentinel as a step relation of any number of processes over the
    inodes of the lock file, with the invariant of its reachable states.
  \<^item> \<open>Lsbx_Keys\<close> (\<open>lsbx-keys\<close>): ephemeral key pairs and the revocation of orphaned keys.
  \<^item> \<open>Lsbx_Backend\<close> (\<open>lsbx-kernel/backend.rs\<close>, \<open>lsbx-backend-demo\<close>): the trait as a record of operations
    on the backend's own state, with its default methods. The locale \<open>backend_contract\<close> says which
    machines an operation may make or remove; the demo backend with its faults interprets it.
  \<^item> \<open>Lsbx_Lifecycle\<close> (\<open>lsbx-lifecycle\<close>): \<open>create\<close>, \<open>poll_ready\<close>, \<open>destroy\<close>, \<open>renew\<close>, \<open>is_expired\<close> and
    \<open>reap\<close> over a world of files, clock, random numbers and backend. \<open>answering_backend\<close> extends the
    contract by a backend that is up, for the convergence of the sweep.
  \<^item> \<open>Lsbx_Registry\<close> (\<open>registry.rs\<close>, \<open>hash.rs\<close>): the manifest of golden images, its JSON form, loading,
    saving and the validation of names.
  \<^item> \<open>Lsbx_Ops\<close> (\<open>lsbx-ops\<close>): the facade's operations over a world and a registry in memory.
  \<^item> \<open>Lsbx_Github\<close> (\<open>error_map.rs\<close>, \<open>github_client.rs\<close>, \<open>auth.rs\<close>): the paged listings, the search for a
    runner's job, JWT and installation tokens with their caches. GitHub itself, \<open>octocrab\<close> and the \<open>gh\<close>
    program are the record \<open>transport\<close> of functions on a state of their own.
  \<^item> \<open>Lsbx_Poll\<close> (\<open>poll.rs\<close>, \<open>labels.rs\<close>, \<open>job_record.rs\<close>): which jobs are claimed, and the parsers of the
    runner's log lines.
  \<^item> \<open>Lsbx_Runner\<close>, \<open>Lsbx_Reconcile\<close>, \<open>Lsbx_Broker\<close> (\<open>reconcile.rs\<close>): the runner's configuration and
    upload; dispatching, following and monitoring a job; cleanup and the two drivers of the broker.
  \<^item> \<open>Lsbx_Shell\<close>: the quoting of shell words, and a reader of them to check it against.
  \<^item> \<open>Lsbx_Golden\<close> (\<open>build.rs\<close>, \<open>verify.rs\<close>, and their operations of the facade): building and verifying a
    golden, every step and the teardown on every path.
  \<^item> \<open>Lsbx_Exe_Transport\<close>, \<open>Lsbx_Exedev\<close> (\<open>lsbx-backend-exedev\<close>): the transports to the control plane and the
    guests, and the operations of the backend over them. \<open>honest_plane\<close> is a control plane that does what
    it answers; \<open>Lsbx_Scenario\<close> has one.
  \<^item> \<open>Lsbx_Http\<close>, \<open>Lsbx_Stream\<close>, \<open>Lsbx_Gateway\<close> (\<open>lsbx-gateway\<close>, \<open>lsbx-stream\<close>): requests and responses,
    authentication, the rate limiter, the audit log; the handlers, the table of routes and the layers
    around them. \<open>Lsbx_Admission\<close> says what a request can do to the records (\<open>in_place\<close>, \<open>held\<close>).
  \<^item> \<open>Lsbx_Mcp\<close> (\<open>lsbx-mcp\<close>): the door for agents, one tool per operation of the facade.
  \<^item> \<open>Lsbx_Bootstrap\<close> (\<open>lsbx-bootstrap\<close>): the checks of a host, the unit files, the bootstrap step by step.
  \<^item> \<open>Lsbx_Format\<close>, \<open>Lsbx_Cli\<close>, \<open>Lsbx_Serve\<close> (\<open>lsbx-cli\<close>): what the commands print, as JSON and as tables; every
    command after its arguments were parsed, with its output and exit code; the servers, the broker's
    start and the dispatch.
  \<^item> \<open>Lsbx_Tui\<close> (\<open>lsbx-tui\<close>): the dashboard and the wizards over a list of events, and the state of the terminal.
  \<^item> \<open>Lsbx_Domain\<close>, \<open>Lsbx_Libvirt\<close> (\<open>lsbx-backend-libvirt\<close>): the description of a domain with a reader to check it
    against, and the command lines; the backend's operations over a host, its guests' addresses and the files
    of a machine. \<open>guest_frame\<close> says what an operation leaves alone; \<open>virt_host\<close> is a libvirt that does what it
    answers, over which the backend keeps \<open>backend_contract\<close>.
  \<^item> \<open>Lsbx_Testkit\<close> (\<open>lsbx-backend-testkit\<close>): the conformance suite for backends.
  \<^item> \<open>Lsbx_Scenario\<close>: a concrete host, remote and broker for the witnesses.

  What the lemmas show. Each component's theory has the invariants its operations keep (no operation
  touches the records of another store, the live machines change only as the contract says, keys of
  the registry stay distinct), the result of every operation on success and on failure, and that it
  returns. This theory states the properties that matter to a user of the program over those.

  Bounds. The loops of the code that may run for ever (\<open>paginate\<close>, \<open>wait_loop\<close>, \<open>watch_loop\<close>, \<open>drive\<close>,
  \<open>runner_step\<close>) are partial functions whose value is \<open>None\<close> when they do not return; that they return
  is proved, under the hypothesis that the totals the remote announces are bounded, and for a driver
  that was given a number of iterations. No fuel is used. Page numbers and exit codes are 32-bit words,
  record fields that the code keeps in \<open>u32\<close> or \<open>u64\<close> are natural numbers that the decoders bound.

  What the model rests on. Libraries are parameters: the backend, the remote, the key and signature
  libraries, the clock's text format and the texts of errors. Strings are lists of bytes; hash maps
  are association lists, so that an iteration order is one of those the code may see. A refused call
  of the file system has no effect, except that a refused write leaves a truncated file. A clock moves
  only while commands run and during sleeps. A process is never killed between two calls.

  The buckets of the rate limiter hold 64-bit floats: the model has rational numbers and the rounding of
  each result as the parameter \<open>hl_round\<close>, of which \<open>rounds_well\<close> says what rounding to nearest gives.

  Not modelled: the relay of bytes of \<open>lsbx-stream\<close>, the parser of the command line (clap) and the geometry of the
  terminal's widgets. Of libvirt, \<open>qemu-img\<close>, \<open>xorriso\<close>, \<open>ssh\<close> and \<open>scp\<close> only the calls are modelled; what they do is a
  parameter. The conformance suite's bound on a call is stated for commands, since no other call of the trait
  has a duration. Of the HTTP framework, the texts of its own answers and its limit on the size of a body are
  left out. Warnings that are only logged are left out, as are panics of blocking tasks and the poisoning of
  locks other than the limiter's.
\<close>

section \<open>The life of a sandbox\<close>

text \<open>
  C1: When \<open>create\<close> answers with a sandbox, its record was durable before the answer: the record
  named in the answer is in the store under its own id and no other record changed, the VM it names is
  live and no other VM appeared or vanished, the lease runs for the requested time from a moment not
  before the call, and unless verification was switched off every health check (or the trivial probe)
  ran and exited 0 on that VM.
\<close>

theorem create_durable:
  assumes "backend_contract be live" and "create lb be sd rq w = (Inr ps, w')"
  shows "\<exists>r t. ps = public r \<and> sr_id r = uuid_like_id lb w \<and> sr_vm_tag r = Some t \<and>
    sandbox_view sd (w_fs w') = (sandbox_view sd (w_fs w))(sr_id r \<mapsto> r) \<and>
    live (w_bk w') = insert t (live (w_bk w)) \<and> sr_cleanup_failed r = False \<and>
    sr_lease_expires_at r = Some (rfc3339_now_plus lb w (rq_lease rq)) \<and>
    (rq_verify rq \<longrightarrow> (\<exists>b left ident. checks_ran be t
        (if rq_healthchecks rq = [] then [[''true'']] else rq_healthchecks rq) left ident b (w_bk w')))"
  using backend_contract.create_ok_durable [OF assms] .

theorem create_durable_witness:
  "\<exists>ps w' i. create demo_lib (demo_backend demo_sha) ''/s'' demo_rq demo_world = (Inr ps, w') \<and>
     sandbox_view ''/s'' (w_fs w') i \<noteq> None"
proof -
  have "\<not> isl (fst (create demo_lib (demo_backend demo_sha) ''/s'' demo_rq demo_world))" by code_simp
  then obtain ps w' where c: "create demo_lib (demo_backend demo_sha) ''/s'' demo_rq demo_world = (Inr ps, w')"
    using runs_ok by blast
  from create_durable [OF demo.backend_contract_axioms c] obtain r where
    "sandbox_view ''/s'' (w_fs w') = (sandbox_view ''/s'' (w_fs demo_world))(sr_id r \<mapsto> r)" by blast
  then have "sandbox_view ''/s'' (w_fs w') (sr_id r) \<noteq> None" by simp
  with c show ?thesis by blast
qed




text \<open>
  C3: A failed \<open>destroy\<close> forgets nothing: every record is as it was, no VM but the one its record names
  can have gone, and when it was the backend that refused, the error is the backend's and the host's
  files (the key among them) were not touched, so that the call can be repeated.
\<close>

theorem destroy_failure_keeps:
  assumes "backend_contract be live" and "destroy lb be sd i w = (Inl e, w')"
  shows "sandbox_view sd (w_fs w') = sandbox_view sd (w_fs w) \<and>
    live (w_bk w') \<subseteq> live (w_bk w) \<and>
    (\<forall>t \<in> live (w_bk w) - live (w_bk w'). \<exists>r. sandbox_view sd (w_fs w) i = Some r \<and> sr_vm_tag r = Some t) \<and>
    (\<forall>r w1 e1 w2. on_fs (sandbox_load (lb_serde lb) sd i) w = (Inr r, w1) \<longrightarrow> destroy_vm be r w1 = (Inl e1, w2) \<longrightarrow>
       e = e1 \<and> w' = w2 \<and> w_fs w' = w_fs w1)"
proof (intro conjI allI impI)
  show "sandbox_view sd (w_fs w') = sandbox_view sd (w_fs w)" by (rule destroy_err_keeps_records [OF assms(2)])
  note l = backend_contract.destroy_live [OF assms]
  show "live (w_bk w') \<subseteq> live (w_bk w)" using l by (rule conjunct1)
  show "\<forall>t \<in> live (w_bk w) - live (w_bk w'). \<exists>r. sandbox_view sd (w_fs w) i = Some r \<and> sr_vm_tag r = Some t"
    using conjunct2 [OF l] by blast
  fix r w1 e1 w2
  assume "on_fs (sandbox_load (lb_serde lb) sd i) w = (Inr r, w1)" and "destroy_vm be r w1 = (Inl e1, w2)"
  note b = destroy_backend_first [OF this]
  show "e = e1" "w' = w2" "w_fs w' = w_fs w1" using assms(2) b by simp_all
qed

theorem destroy_failure_keeps_witness:
  "\<exists>e w'. destroy demo_lib (demo_backend demo_sha) ''/s'' demo_id demo_broken = (Inl e, w') \<and>
     sandbox_view ''/s'' (w_fs w') = sandbox_view ''/s'' (w_fs demo_broken)"
proof -
  have "isl (fst (destroy demo_lib (demo_backend demo_sha) ''/s'' demo_id demo_broken))" by code_simp
  then obtain e w' where d: "destroy demo_lib (demo_backend demo_sha) ''/s'' demo_id demo_broken = (Inl e, w')"
    using fails by blast
  show ?thesis using destroy_failure_keeps [OF demo.backend_contract_axioms d] d by blast
qed

text \<open>
  C4: A \<open>destroy\<close> that answers Ok is complete: exactly the record of the given id is gone, the VM it
  named is no longer live, and the directory of its ephemeral private key does not exist.
\<close>

theorem destroy_complete:
  assumes "backend_contract be live" and "destroy lb be sd i w = (Inr u, w')"
    and "sandbox_view sd (w_fs w) i = Some r"
  shows "sandbox_view sd (w_fs w') = (sandbox_view sd (w_fs w))(i := None) \<and>
    (\<forall>t. sr_vm_tag r = Some t \<longrightarrow> t \<notin> live (w_bk w')) \<and>
    (\<forall>p d. sr_key_path r = Some p \<longrightarrow> path_parent p = Some d \<longrightarrow>
       starts_with key_dir_prefix (path_file_name d) \<longrightarrow> dir_mode (w_fs w') d = None)"
  using destroy_ok_record [OF assms(2)] backend_contract.destroy_ok_live [OF assms]
    destroy_ok_key [OF assms(2,3)] by blast

theorem destroy_complete_witness:
  "\<exists>w' r. destroy demo_lib (demo_backend demo_sha) ''/s'' demo_id demo_made = (Inr (), w') \<and>
     sandbox_view ''/s'' (w_fs demo_made) demo_id = Some r \<and> sandbox_view ''/s'' (w_fs w') demo_id = None"
proof -
  have "\<not> isl (fst (destroy demo_lib (demo_backend demo_sha) ''/s'' demo_id demo_made))" by code_simp
  then obtain u w' where d: "destroy demo_lib (demo_backend demo_sha) ''/s'' demo_id demo_made = (Inr u, w')"
    using runs_ok by blast
  have "sandbox_view ''/s'' (w_fs demo_made) demo_id \<noteq> None" by code_simp
  then obtain r where r: "sandbox_view ''/s'' (w_fs demo_made) demo_id = Some r" by blast
  show ?thesis using destroy_complete [OF demo.backend_contract_axioms d r] d r by auto
qed

text \<open>
  C5: A sweep is safe: a record that is no longer the same afterwards is gone, and it belonged to a
  sandbox whose own lease had expired, by more than the grace window, when the sweep began; and every
  VM that vanished was named by such a record. Nothing else is touched, whatever fails on the way.
\<close>

theorem reap_only_expired:
  assumes "backend_contract be live" and "reap lb be sd ttl False w = (x, w')"
    and "\<And>k r. sandbox_view sd (w_fs w) k = Some r \<Longrightarrow> sr_id r = k"
  shows "(\<forall>k. sandbox_view sd (w_fs w') k = sandbox_view sd (w_fs w) k \<or>
      sandbox_view sd (w_fs w') k = None \<and>
        (\<exists>r. sandbox_view sd (w_fs w) k = Some r \<and> is_expired lb (w_now w) r \<and>
          is_past_grace_window lb (w_now w) ttl r)) \<and>
    live (w_bk w') \<subseteq> live (w_bk w) \<and>
    (\<forall>t \<in> live (w_bk w) - live (w_bk w').
      \<exists>k r. sandbox_view sd (w_fs w) k = Some r \<and> sr_vm_tag r = Some t \<and>
        is_expired lb (w_now w) r \<and> is_past_grace_window lb (w_now w) ttl r)"
  using reap_records [OF assms(2,3)] backend_contract.reap_vms [OF assms] by blast


theorem reap_only_expired_witness:
  "\<exists>x w'. reap demo_lib (demo_backend demo_sha) ''/s'' 0 False demo_late = (x, w') \<and>
     demo_live (w_bk w') \<subseteq> demo_live (w_bk demo_late)"
proof -
  obtain x w' where s: "reap demo_lib (demo_backend demo_sha) ''/s'' 0 False demo_late = (x, w')" by fastforce
  from reap_only_expired [OF demo.backend_contract_axioms s demo_ids(2)] s show ?thesis by blast
qed

text \<open>
  C6: A sweep converges: while the host refuses nothing, every record file decodes and the backend
  answers, the sweep answers Ok and afterwards no stored sandbox is one that was due when it began, not
  even those whose VM the backend had already lost.
\<close>

theorem reap_leaves_nothing_due:
  assumes "answering_backend be live up" and "calm (w_fs w)" and "up (w_bk w)" and "all_decode sd (w_fs w)"
    and "dir_exists (store_dir sd) (w_fs w)"
    and "\<And>k r. sandbox_view sd (w_fs w) k = Some r \<Longrightarrow> sr_id r = k"
    and "\<And>ks s. up s \<Longrightarrow> fst (bk_reconcile_orphaned_keys be ks s) \<in> range Inr"
  shows "\<exists>rep w'. reap lb be sd ttl False w = (Inr rep, w') \<and>
    (\<forall>k r. k \<noteq> [] \<longrightarrow> sandbox_view sd (w_fs w') k = Some r \<longrightarrow>
      \<not> (is_expired lb (w_now w) r \<and> is_past_grace_window lb (w_now w) ttl r))"
  using answering_backend.reap_converges [OF assms(1)] assms(2-7) by blast

theorem reap_leaves_nothing_due_witness:
  "\<exists>rep w'. reap demo_lib (demo_backend demo_sha) ''/s'' 0 False demo_late = (Inr rep, w') \<and>
     (\<forall>k r. k \<noteq> [] \<longrightarrow> sandbox_view ''/s'' (w_fs w') k = Some r \<longrightarrow> \<not> is_expired demo_lib 100 r)"
proof -
  have u: "ds_fault (w_bk demo_late) = FNone" by code_simp
  have d: "dir_exists (store_dir ''/s'') (w_fs demo_late)" by code_simp
  have n: "w_now demo_late = 100" by (simp add: demo_late_def)
  show ?thesis
    using reap_leaves_nothing_due [OF demo_up.answering_backend_axioms demo_calm(5) u demo_decodes d demo_ids(2)
        demo_reconciles, where lb = demo_lib and ttl = 0]
    unfolding n by (simp add: is_past_grace_window_def)
qed

section \<open>The CI broker\<close>



text \<open>
  C8: The broker always comes back: with a number of iterations, and a remote whose listings end,
  \<open>run_broker\<close> returns with a result or an error in every state, with or without runners, even though
  it waits for runners to listen and for jobs to complete.
\<close>

theorem broker_returns:
  assumes "listings_return rc"
  shows "\<exists>x s'. run_broker rc op lock cfg (Some m) b = Some (x, s')"
  using run_broker_returns [OF assms, of op lock cfg m b] by (metis not_None_eq surj_pair)

theorem broker_returns_witness:
  "\<exists>x s'. run_broker demo_rc demo_ops (Inr ()) (demo_config\<lparr>bg_runner := Some demo_runner\<rparr>) (Some 3) demo_broker = Some (x, s')"
  by (rule broker_returns [OF demo_listings])



section \<open>The exe.dev backend\<close>

text \<open>
  C10: Cloning loses no machine and makes none but the one asked for, which is there when the clone is
  answered; and when it fails and the machine is there nevertheless, it was there before, or the plane's
  answer to the \<open>cp\<close> was lost or said that it failed, or the machine's destruction, the last thing
  done, was refused. This rests on a control plane that does what it answers (\<open>honest_plane\<close>).
\<close>

theorem exe_create_clean:
  assumes "honest_plane xl au live" and "exe_create xl au rq s = (r, s')"
  shows "live (xs_net s) - {cg_name rq} \<subseteq> live (xs_net s') \<and> live (xs_net s') \<subseteq> insert (cg_name rq) (live (xs_net s)) \<and>
    (\<forall>vm. r = Inr vm \<longrightarrow> cv_vm_tag vm = cg_name rq \<and> cg_name rq \<in> live (xs_net s')) \<and>
    (isl r \<longrightarrow> cg_name rq \<in> live (xs_net s') \<longrightarrow> cg_name rq \<in> live (xs_net s) \<or>
       (\<exists>e. control xl au (cp_command rq) s = (Inl e, s')) \<or>
       (\<exists>out. control xl au (cp_command rq) s = (Inr out, s') \<and> co_exit_code out \<noteq> 0) \<or>
       (\<exists>v e. exe_destroy xl au (cg_name rq) v = (Inl e, s')))"
  using exe_create_result [OF assms] .

theorem exe_create_clean_witness:
  "\<exists>vm s'. exe_create plane plane_auth plane_rq (plane_state False) = (Inr vm, s') \<and>
     cv_vm_tag vm = ''vm'' \<and> ''vm'' \<in> plane_live (xs_net s')"
proof -
  have n: "cg_name plane_rq = ''vm''" by (simp add: plane_rq_def)
  have "\<not> isl (fst (exe_create plane plane_auth plane_rq (plane_state False)))" by code_simp
  then obtain vm s' where c: "exe_create plane plane_auth plane_rq (plane_state False) = (Inr vm, s')" using runs_ok by blast
  from exe_create_clean [OF plane_honest c] c n show ?thesis by auto
qed

text \<open>
  C11: Destroying takes away at most the machine that was named; answered, the machine was there, it is gone,
  and its key is forgotten; and a machine that is not there is never reported as destroyed. Destroying
  with the key succeeds only after the key's removal was answered with success or with its absence, and
  leaves the machine only when a destruction then found it absent.
\<close>

theorem exe_destroy_exact:
  assumes "honest_plane xl au live"
  shows "(\<forall>r s'. exe_destroy xl au t s = (r, s') \<longrightarrow>
      live (xs_net s) - {t} \<subseteq> live (xs_net s') \<and> live (xs_net s') \<subseteq> live (xs_net s) \<and>
      (r = Inr () \<longrightarrow> t \<in> live (xs_net s) \<and> t \<notin> live (xs_net s') \<and> map_of (xs_keys s') t = None) \<and>
      (t \<notin> live (xs_net s) \<longrightarrow> isl r)) \<and>
    (\<forall>u s'. exe_destroy_with_key xl au t k s = (Inr u, s') \<longrightarrow>
      live (xs_net s) - {t} \<subseteq> live (xs_net s') \<and> live (xs_net s') \<subseteq> live (xs_net s) \<and>
      (\<exists>out s1. control xl au (remove_key_command k) s = (Inr out, s1) \<and> key_gone out) \<and>
      (t \<notin> live (xs_net s') \<or> (\<exists>v m. exe_destroy xl au t v = (Inl (NotFound m), s'))))"
  using exe_destroy_result [OF assms] exe_destroy_with_key_Inr [OF assms] by blast

theorem exe_destroy_exact_witness:
  "\<exists>s'. exe_destroy plane plane_auth ''vm'' (plane_state True) = (Inr (), s') \<and> ''vm'' \<notin> plane_live (xs_net s')"
proof -
  have "fst (exe_destroy plane plane_auth ''vm'' (plane_state True)) = Inr ()" by code_simp
  from answers_with [OF this] obtain s' where d: "exe_destroy plane plane_auth ''vm'' (plane_state True) = (Inr (), s')" by blast
  from conjunct1 [OF exe_destroy_exact [OF plane_honest, where t = "''vm''" and s = "plane_state True"]] d
  show ?thesis by blast
qed

text \<open>
  C12: A token for one machine does nothing to the account: listing, cloning, destroying, with the key or
  without, and revoking orphaned keys are refused before anything is sent, and the state is the same.
\<close>

theorem scoped_token_confined:
  assumes "is_vm_scoped au"
  shows "exe_list_vms xl au s = (Inl (not_for_scoped ''list VMs''), s) \<and>
    exe_destroy xl au t s = (Inl (not_for_scoped ''delete a VM''), s) \<and>
    exe_destroy_with_key xl au t k s = (Inl (not_for_scoped ''delete a VM''), s) \<and>
    exe_create xl au rq s = (Inl (not_for_scoped ''create a VM''), s) \<and>
    isl (fst (reconcile_exedev_keys xl au known s)) \<and> snd (reconcile_exedev_keys xl au known s) = s"
  using scoped_refused [OF assms] by blast

theorem scoped_token_confined_witness:
  "exe_create plane (VmScopedToken ''t'') plane_rq (plane_state True) =
     (Inl (not_for_scoped ''create a VM''), plane_state True)"
proof -
  have "is_vm_scoped (VmScopedToken ''t'')" by (simp add: is_vm_scoped_def)
  from scoped_token_confined [OF this] show ?thesis by blast
qed

text \<open>
  C13: A guest's command reads its arguments as they were given: over SSH, the quoted command line splits into
  exactly the words of the command; and over HTTPS, where it stands inside double quotes, the lobby's
  shell passes it on unchanged when no argument has a double quote, a dollar sign, a backslash or a
  backquote.
\<close>

theorem guest_words_kept:
  "sh_argv (length command) (guest_command command) = Some command \<and>
   wrap_guest_command tag (guest_command command) =
     (''ssh '' @ tag @ '' '' @ [CHR 0x22]) @ guest_command command @ CHR 0x22 # ''; echo '' @ exit_sentinel @ ''$?'' \<and>
   ((\<forall>v \<in> set command. \<forall>c \<in> set v. \<not> dq_special c) \<longrightarrow>
     sh_dquoted (guest_command command @ CHR 0x22 # rest) = Some (guest_command command, rest))"
  using guest_command_words [of command] wrapped_command [of tag "guest_command command"]
    guest_command_survives [of command rest] by blast

theorem guest_words_kept_witness:
  "sh_dquoted (guest_command [''echo'', ''it is'', [CHR 0x27]] @ CHR 0x22 # '';'') =
     Some (guest_command [''echo'', ''it is'', [CHR 0x27]], '';'')"
proof -
  have "\<forall>v \<in> set [''echo'', ''it is'', [CHR 0x27]]. \<forall>c \<in> set v. \<not> dq_special c" by code_simp
  with guest_words_kept [of "[''echo'', ''it is'', [CHR 0x27]]" "[]" "'';''"] show ?thesis by blast
qed



section \<open>The libvirt backend\<close>





text \<open>
  C17: The description of a domain can be read back: whatever characters the name, the key and the paths have,
  a reader that looks for the first element with the name, the first key, the first disk and the seed
  image's source, and undoes the entities, finds exactly those texts. No text breaks out of its element.
\<close>

theorem domain_reads_back:
  assumes "render_domain_xml p key = Inr doc"
  shows "(xml_field name_mark (CHR ''<'') doc = Some (dx_name p)) \<and>
    (xml_field pubkey_mark (CHR ''<'') doc = Some key) \<and>
    (xml_field disk_mark (CHR 0x27) doc = Some (dx_disk_path p)) \<and>
    (dx_seed_iso p = Some i \<longrightarrow> dx_os p \<noteq> ''windows'' \<longrightarrow> xml_field seed_mark (CHR 0x27) doc = Some i)"
  using domain_fields [OF assms] by blast

theorem domain_reads_back_witness:
  "\<exists>doc. render_domain_xml \<lparr>dx_name = ''<a>'', dx_cpu = 1, dx_memory = ''1G'', dx_disk_path = ''/d'', dx_seed_iso = Some ''/i'',
      dx_os = ''linux''\<rparr> ''k'' = Inr doc \<and>
     xml_field name_mark (CHR ''<'') doc = Some ''<a>'' \<and> xml_field seed_mark (CHR 0x27) doc = Some ''/i''"
proof -
  let ?p = "\<lparr>dx_name = ''<a>'', dx_cpu = 1, dx_memory = ''1G'', dx_disk_path = ''/d'', dx_seed_iso = Some ''/i'', dx_os = ''linux''\<rparr>"
  have "parse_memory_to_kib ''1G'' = Inr 1048576" by code_simp
  then obtain doc where d: "render_domain_xml ?p ''k'' = Inr doc" by (simp add: render_domain_xml_def Let_def)
  from domain_reads_back [OF d, where i = "''/i''"] d show ?thesis by auto
qed

text \<open>
  C18: The command that a guest's shell gets splits into exactly the words it was given, for every command that is
  not run by \<open>cmd /c\<close>; it is the last argument of \<open>ssh\<close>, after the address.
\<close>

theorem guest_argv_kept:
  assumes "\<not> is_cmd_session command"
  shows "(sh_argv (length command) (last (ssh_args t command)) = Some command) \<and>
    (last (butlast (ssh_args t command)) = gt_username t @ ''@'' @ gt_host t)"
  using assms guest_argv [of command] by (simp_all add: ssh_args_def butlast_append)

theorem guest_argv_kept_witness:
  "sh_argv 3 (last (ssh_args \<lparr>gt_host = ''h'', gt_username = ''u'', gt_identity_file = ''k''\<rparr> [''echo'', ''a b'', []]))
     = Some [''echo'', ''a b'', []]"
proof -
  have "\<not> is_cmd_session [''echo'', ''a b'', []]" by code_simp
  then have "sh_argv (length [''echo'', ''a b'', []])
      (last (ssh_args \<lparr>gt_host = ''h'', gt_username = ''u'', gt_identity_file = ''k''\<rparr> [''echo'', ''a b'', []]))
      = Some [''echo'', ''a b'', []]"
    using guest_argv_kept by blast
  moreover have "length [''echo'', ''a b'', []] = 3" by simp
  ultimately show ?thesis by (simp only:)
qed

text \<open>
  C19: Every address that the backend keeps for a guest is one that parses and that is neither a loopback nor a
  link-local address, and every operation of the backend keeps it so.
\<close>

theorem libvirt_ips_routable:
  assumes "ips_routable vi s"
  shows "(ips_routable vi (snd (bk_create_from_golden (libvirt_backend vi cfg) rq s))) \<and>
    (ips_routable vi (snd (bk_run (libvirt_backend vi cfg) tag command tmo ident s))) \<and>
    (ips_routable vi (bk_run_dropped (libvirt_backend vi cfg) tag command d s)) \<and>
    (ips_routable vi (snd (bk_put_file (libvirt_backend vi cfg) tag p q ident s))) \<and>
    (ips_routable vi (snd (bk_get_file (libvirt_backend vi cfg) tag p q ident s))) \<and>
    (ips_routable vi (snd (bk_destroy (libvirt_backend vi cfg) tag s))) \<and>
    (ips_routable vi (snd (bk_destroy_with_key (libvirt_backend vi cfg) tag key s))) \<and>
    (ips_routable vi (snd (bk_list_vms (libvirt_backend vi cfg) s))) \<and>
    (ips_routable vi (snd (bk_list_golden_artifacts (libvirt_backend vi cfg) s))) \<and>
    (ips_routable vi (snd (bk_rename_vm (libvirt_backend vi cfg) tag new_tag s)))"
  using assms create_routable [OF assms] destroy_routable [OF assms]
  by (simp_all add: libvirt_backend_def default_destroy_with_key_def ips_routable_cong [OF ips.run_keeps]
      ips_routable_cong [OF ips.put_keeps] ips_routable_cong [OF ips.get_keeps] ips_routable_cong [OF ips.list_keeps]
      ips_routable_cong [OF ips.goldens_keep] ips_routable_cong [OF rename_ips] split: prod.split)
    (simp add: ips_routable_def)

theorem libvirt_ips_routable_witness:
  "ips_routable demo_virt demo_kvm \<and>
   ips_routable demo_virt (snd (bk_create_from_golden (libvirt_backend demo_virt demo_lv) demo_guest_rq demo_kvm))"
proof -
  have "ips_routable demo_virt demo_kvm" by code_simp
  then show ?thesis using libvirt_ips_routable by blast
qed

text \<open>
  C20: The conformance suite tells the two backends apart: the demo backend passes every one of its checks,
  whatever its hash and the golden are, and the libvirt backend never passes all of them, on whatever host,
  since it claims a console and never gives an address of one.
\<close>

theorem conformance_verdicts:
  "(all_passed (fst (run_conformance_suite dbg (demo_backend sha) golden demo_new))) \<and>
   (\<not> all_passed (fst (run_conformance_suite dbg (libvirt_backend vi cfg) golden s)))"
proof (intro conjI)
  show "all_passed (fst (run_conformance_suite dbg (demo_backend sha) golden demo_new))" by (rule demo_passes)
  show "\<not> all_passed (fst (run_conformance_suite dbg (libvirt_backend vi cfg) golden s))"
    by (rule suite_needs_console) (auto simp: libvirt_backend_def libvirt_capabilities_def dest: create_ip(2))
qed

section \<open>The gateway\<close>

text \<open>
  C21: Without the gateway's token no request does anything, on any path and with any method: sandboxes,
  files, backend and registry are as before, and the answer is a refusal, except for the static page at
  \<open>/console\<close>. A gateway without a configured token lets no request in.
\<close>

theorem gateway_authenticated:
  assumes "gw_token (gv_config env) = None \<or> extract_presented_token (hq_headers rq) \<noteq> gw_token (gv_config env)"
    and "serve_request env rq g = (resp, g')"
  shows "gt_ops g' = gt_ops g \<and>
    (\<forall>r. resp = Some r \<longrightarrow> hq_path rq = ''/console'' \<or> hs_status r \<in> {400, 401, 404, 405, 429})"
proof -
  have "from_request_parts (gv_config env) (hq_headers rq) \<notin> range Inr"
    using assms(1) by (auto simp: auth_token)
  from serve_unauthenticated [OF this assms(2)] show ?thesis .
qed

theorem gateway_authenticated_witness:
  "gt_ops (snd (serve_request demo_env (demo_post ''wrong'') demo_gate)) = gt_ops demo_gate"
proof -
  have "extract_presented_token (hq_headers (demo_post ''wrong'')) \<noteq> gw_token (gv_config demo_env)" by code_simp
  from gateway_authenticated [OF disjI2 [OF this] surjective_pairing] show ?thesis by simp
qed



text \<open>
  C23: A request that changed a record presented the token, had a method that changes things, and left
  exactly its own entry, with its method, path and the hash of its body, at the end of the audit log.
\<close>

theorem changes_audited:
  "ops_view (gv_ops env) (gt_ops (snd (serve_request env rq g))) = ops_view (gv_ops env) (gt_ops g) \<or>
   (gw_token (gv_config env) \<noteq> None \<and> extract_presented_token (hq_headers rq) = gw_token (gv_config env) \<and>
    method_is_mutating (hq_method rq) \<and>
    gt_audit (snd (serve_request env rq g)) = gt_audit g @ [audit_of (gv_lib env) rq])"
  using serve_audited [OF surjective_pairing, of env rq g] by (auto simp: auth_token)

text \<open>
  C24: In one instant, whatever the order of the requests and whatever the other keys do, at most the
  burst of one key is let through, one at least, for any rounding that is monotone and keeps naturals;
  and a key the limiter has not seen is let through always, so that it is a new guess at the token.
\<close>

theorem burst_bounds:
  assumes "rounds_well fl" and "gw_burst cfg < 2 ^ 32"
  shows "((\<forall>c \<in> set cs. fst c = now) \<longrightarrow>
      allowed_for key cs (fst (limiter_run fl cfg cs l)) \<le> max 1 (gw_burst cfg)) \<and>
    (\<not> tb_poisoned l \<longrightarrow> map_of (tb_buckets l) key = None \<longrightarrow> fst (limiter_check fl cfg now key l) = Some Allow)"
proof -
  have "bucket_capacity cfg = of_nat (max 1 (gw_burst cfg))" by (simp add: bucket_capacity_def)
  then have r: "refilled fl cfg now (bucket_of cfg now key l) \<le> of_nat (max 1 (gw_burst cfg))"
    by (simp add: refilled_def)
  show ?thesis using limiter_run_bound [OF assms(1) _ _ r, of cs] assms(2) limiter_new_key [OF assms] by auto
qed

theorem burst_bounds_witness:
  "allowed_for ''k'' [(7, ''k''), (7, ''k''), (7, ''j''), (7, ''k'')]
     (fst (limiter_run (\<lambda>x. x) demo_gateway_config [(7, ''k''), (7, ''k''), (7, ''j''), (7, ''k'')] limiter_new)) \<le> 2 \<and>
   fst (limiter_check (\<lambda>x. x) demo_gateway_config 7 ''k'' limiter_new) = Some Allow"
proof -
  have "gw_burst demo_gateway_config < 2 ^ 32" by (simp add: demo_gateway_config_def)
  from burst_bounds [OF exact_rounds_well this, of "[(7, ''k''), (7, ''k''), (7, ''j''), (7, ''k'')]" 7 "''k''" limiter_new]
  show ?thesis by (simp add: demo_gateway_config_def limiter_new_def)
qed

section \<open>The door for agents\<close>



section \<open>Golden images\<close>



section \<open>What is on disk\<close>

text \<open>
  C27: Both record stores are atomic, whatever calls the operating system refuses: a save either
  succeeds and changes exactly the record of its key, or fails and every reader sees what it saw
  before, and likewise for a deletion. A saved record is read back as it was saved.
\<close>

theorem stores_atomic:
  "sandbox_view sd (snd (sandbox_save sd r s)) =
     (case fst (sandbox_save sd r s) of Inr _ \<Rightarrow> (sandbox_view sd s)(sr_id r \<mapsto> r) | Inl _ \<Rightarrow> sandbox_view sd s) \<and>
   sandbox_view sd (snd (sandbox_delete sd i s)) =
     (case fst (sandbox_delete sd i s) of Inr _ \<Rightarrow> (sandbox_view sd s)(i := None) | Inl _ \<Rightarrow> sandbox_view sd s) \<and>
   ci_view sd (snd (ci_save sd q s)) =
     (case fst (ci_save sd q s) of Inr _ \<Rightarrow> (ci_view sd s)(cj_job_id q \<mapsto> q) | Inl _ \<Rightarrow> ci_view sd s) \<and>
   ci_view sd (snd (ci_delete sd i s)) =
     (case fst (ci_delete sd i s) of Inr _ \<Rightarrow> (ci_view sd s)(i := None) | Inl _ \<Rightarrow> ci_view sd s)"
  using sandboxes.put_result [of sd r s] sandboxes.del_result [of sd i s]
    ci_jobs.put_result [of sd q s] ci_jobs.del_result [of sd i s] by blast



section \<open>Following a job\<close>

text \<open>
  C29: The phase a log leads to is decided by its last completion: the terminal phase of that result;
  and while the log has none, a terminal phase stays and a phase that is not terminal does not become
  so. Reading a log never changes which job and sandbox the record is of, and when nothing is reported
  as changed the record is the same.
\<close>

theorem log_decides_phase:
  "(case last_completion (str_lines lines) of
      Some (n, res) \<Rightarrow> cj_phase (fst (apply_log lines r)) = terminal_phase_of res
    | None \<Rightarrow> (terminal (cj_phase r) \<longrightarrow> cj_phase (fst (apply_log lines r)) = cj_phase r) \<and>
              (\<not> terminal (cj_phase r) \<longrightarrow> \<not> terminal (cj_phase (fst (apply_log lines r))))) \<and>
   same_job (fst (apply_log lines r)) r \<and> (\<not> snd (apply_log lines r) \<longrightarrow> fst (apply_log lines r) = r)"
proof (intro conjI impI)
  show "\<not> snd (apply_log lines r) \<Longrightarrow> fst (apply_log lines r) = r" using apply_log_unchanged [of lines r] by (metis prod.collapse)
  show "same_job (fst (apply_log lines r)) r"
    using fold_apply_line_same [where ls = "str_lines lines" and x = "(r, False)"] by (simp add: apply_log_def)
qed (use fold_apply_line_phase [where ls = "str_lines lines" and x = "(r, False)"] in \<open>simp only: apply_log_def fst_conv\<close>)

theorem log_decides_phase_witness:
  "cj_phase (fst (apply_log ''Job b completed with result: Succeeded'' demo_job)) = phase_completed"
proof -
  have c: "last_completion (str_lines ''Job b completed with result: Succeeded'') = Some (''b'', ''Succeeded'')" by code_simp
  have t: "terminal_phase_of ''Succeeded'' = phase_completed" by code_simp
  show ?thesis using conjunct1 [OF log_decides_phase [where lines = "''Job b completed with result: Succeeded''" and r = demo_job]]
    unfolding c t by (simp only: option.case prod.case t)
qed



section \<open>What GitHub is asked, and what is claimed\<close>



section \<open>What is read back from disk\<close>



text \<open>
  C33: A saved record is read back as it was saved, by every later reader that the host lets read, and
  after a deletion a reader is told an error, never an old record.
\<close>

theorem stores_read_back:
  assumes "sandbox_save sd r s = (Inr u, s1)" and "ci_save sd q t = (Inr v, t1)" and "calm s1" and "calm t1"
    and "sandbox_delete sd i s2 = (Inr x, s3)" and "ci_delete sd j t2 = (Inr y, t3)"
  shows "fst (sandbox_load sx sd (sr_id r) s1) = Inr r \<and> fst (ci_load sx sd (cj_job_id q) t1) = Inr q \<and>
    isl (fst (sandbox_load sx sd i s3)) \<and> isl (fst (ci_load sx sd j t3))"
proof (intro conjI)
  show "fst (sandbox_load sx sd (sr_id r) s1) = Inr r" by (rule sandboxes.read_after_write [OF assms(1,3)])
  show "fst (ci_load sx sd (cj_job_id q) t1) = Inr q" by (rule ci_jobs.read_after_write [OF assms(2,4)])
  show "isl (fst (sandbox_load sx sd i s3))" using sandboxes.get_fails_after_del [OF assms(5), of sx] by auto
  show "isl (fst (ci_load sx sd j t3))" using ci_jobs.get_fails_after_del [OF assms(6), of sx] by auto
qed

theorem stores_read_back_witness:
  "\<exists>r q. fst (sandbox_load no_text ''/s'' (sr_id r) (snd (sandbox_save ''/s'' r demo_fs))) = Inr r \<and>
     fst (ci_load no_text ''/s'' (cj_job_id q) (snd (ci_save ''/s'' q demo_fs))) = Inr q"
proof -
  fix r q
  obtain u s1 v t1 x s3 y t3 where o: "sandbox_save ''/s'' r demo_fs = (u, s1)" "ci_save ''/s'' q demo_fs = (v, t1)"
    "sandbox_delete ''/s'' [] demo_fs = (x, s3)" "ci_delete ''/s'' [] demo_fs = (y, t3)" by (metis prod.collapse)
  have "u = Inr ()" "v = Inr ()" "x = Inr ()" "y = Inr ()" "calm s1" "calm t1"
    using o sandboxes.put_calm [OF demo_calm(1), of "''/s''" r] ci_jobs.put_calm [OF demo_calm(1), of "''/s''" q]
      sandboxes.del_calm [OF demo_calm(1), of "''/s''" "[]"] ci_jobs.del_calm [OF demo_calm(1), of "''/s''" "[]"]
      sandboxes.calm_put [of "''/s''" r demo_fs] ci_jobs.calm_put [of "''/s''" q demo_fs] demo_calm(1) by simp_all
  then show ?thesis using stores_read_back [of "''/s''" r demo_fs "()" s1 q demo_fs "()" t1 "[]" demo_fs "()" s3 "[]" demo_fs "()" t3 no_text] o
    by (intro exI [of _ r] exI [of _ q]) simp
qed

section \<open>The store behind the gateway\<close>



section \<open>Setting up a host\<close>



section \<open>The command line\<close>

text \<open>
  C36: The merged listener fails closed: it is never bound to an address that is not a loopback without
  both a token and the explicit opt-in.
\<close>

theorem serve_fails_closed:
  assumes "serve_start cx sv args a s = (Inr sg, s')" and "(Merged, addr) \<in> set (sg_listeners sg)"
    and "sv_parse_ip sv (unwrap_or ''127.0.0.1'' (sa_host a)) = Inr ip" and "\<not> is_loopback ip"
  shows "gw_token (sg_config sg) \<noteq> None \<and> gw_insecure (sg_config sg)"
  by (rule serve_closed [OF assms])

theorem serve_fails_closed_witness:
  "\<exists>sg s'. serve_start demo_cx demo_sv demo_args demo_serve demo_machine = (Inr sg, s') \<and>
     gw_token (sg_config sg) \<noteq> None \<and> gw_insecure (sg_config sg)"
proof -
  let ?r = "serve_start demo_cx demo_sv demo_args demo_serve demo_machine"
  have "map_sum (\<lambda>_. ()) sg_listeners (fst ?r) = Inr [(Merged, V4 0 0 0 0, 8080)]" by code_simp
  then obtain sg s' where r: "?r = (Inr sg, s')" and l: "sg_listeners sg = [(Merged, V4 0 0 0 0, 8080)]"
    by (cases ?r; cases "fst ?r") auto
  have "(Merged, V4 0 0 0 0, 8080) \<in> set (sg_listeners sg)" using l by simp
  moreover have "sv_parse_ip demo_sv (unwrap_or ''127.0.0.1'' (sa_host demo_serve)) = Inr (V4 0 0 0 0)" by (simp add: demo_sv_def)
  moreover have "\<not> is_loopback (V4 0 0 0 0)" by (simp add: is_loopback_def)
  ultimately show ?thesis using serve_fails_closed [OF r] r by blast
qed



section \<open>The terminal interface\<close>






end
